(* ===== verification/Course_Prelude.thy ===== *)
theory Course_Prelude
  imports Complex_Main "HOL-Library.Char_ord" "HOL-Library.List_Lexorder" "HOL-Library.Multiset"
begin

text \<open>
  Shared vocabulary of the course-content development: the JavaScript built-ins the
  server code of \<open>src/server\<close> relies on (\<open>Math.round\<close>, \<open>String.localeCompare\<close>,
  \<open>Array.findIndex\<close>, \<open>Array.splice\<close>, \<open>||\<close> on strings, number-to-string
  conversion), the form-data normalisation helper \<open>getArrayFromFormData\<close> that
  \<open>uploadCourse\<close> and \<open>editCourse\<close> both declare, the named theorem collections
  that carry the component proofs, and the list lemmas they share.
\<close>

named_theorems js_simps "evaluation rules of the JavaScript helper operations"
named_theorems frame_simps "fields an operation leaves unchanged"

section \<open>JavaScript numbers and strings\<close>

text \<open>
  \<open>Math.round x\<close> rounds half-way cases towards \<open>+\<infinity>\<close>: it is
  \<open>\<lfloor>x + 1/2\<rfloor>\<close>. JavaScript numbers that reach it in this code are media
  durations in seconds; they are modelled as rationals (NaN and infinities do not
  arise on the paths the theorems are about).
\<close>

definition js_round :: "rat \<Rightarrow> int" where
  "js_round x = \<lfloor>x + 1 / 2\<rfloor>"

text \<open>
  \<open>a.localeCompare(b)\<close> returns a negative number, zero or a positive number.
  The collation of the running ICU locale is not modelled; code-point order on the
  byte strings (\<open>List_Lexorder\<close> over \<open>Char_ord\<close>) stands for it. Every property
  of the development that is about the comparators uses only that
  \<open>locale_compare\<close> is a total order with sign-antisymmetry.
\<close>

definition locale_compare :: "string \<Rightarrow> string \<Rightarrow> int" where
  "locale_compare a b = (if a < b then -1 else if a = b then 0 else 1)"

text \<open>\<open>String(n)\<close> for a natural number: its decimal digits.\<close>

fun show_nat :: "nat \<Rightarrow> string" where
  "show_nat n =
     (if n < 10 then [char_of (48 + n)]
      else show_nat (n div 10) @ [char_of (48 + n mod 10)])"

declare show_nat.simps [simp del]

text \<open>\<open>s || d\<close> on a string: the empty string is falsy.\<close>

definition str_or :: "string \<Rightarrow> string \<Rightarrow> string" where
  "str_or s d = (if s = [] then d else s)"

text \<open>\<open>x || d\<close> on a string field that may be absent.\<close>

definition opt_or :: "string option \<Rightarrow> string \<Rightarrow> string" where
  "opt_or x d = (case x of Some s \<Rightarrow> str_or s d | None \<Rightarrow> d)"

text \<open>\<open>arr[i] || d\<close>: reading past the end gives \<open>undefined\<close>, which is falsy.\<close>

definition nth_or :: "string list \<Rightarrow> nat \<Rightarrow> string \<Rightarrow> string" where
  "nth_or xs i d = (if i < length xs then str_or (xs ! i) d else d)"

section \<open>Arrays\<close>

text \<open>
  \<open>arr.findIndex(p)\<close>: the index of the first element satisfying \<open>p\<close>, or
  \<open>-1\<close>. The result is an \<open>int\<close> because the code compares it with \<open>-1\<close>.
\<close>

fun find_index_nat :: "('a \<Rightarrow> bool) \<Rightarrow> 'a list \<Rightarrow> nat option" where
  "find_index_nat p [] = None"
| "find_index_nat p (x # xs) = (if p x then Some 0 else map_option Suc (find_index_nat p xs))"

definition find_index :: "('a \<Rightarrow> bool) \<Rightarrow> 'a list \<Rightarrow> int" where
  "find_index p xs = (case find_index_nat p xs of None \<Rightarrow> -1 | Some i \<Rightarrow> int i)"

text \<open>
  \<open>arr.splice(i, 1)\<close> for a non-negative index: removes the element at \<open>i\<close>;
  an index at or past the end removes nothing.
\<close>

definition js_splice1 :: "'a list \<Rightarrow> nat \<Rightarrow> 'a list" where
  "js_splice1 xs i = take i xs @ drop (Suc i) xs"

text \<open>The number of elements of a list satisfying a predicate (\<open>filter(p).length\<close>).\<close>

abbreviation count_where :: "('a \<Rightarrow> bool) \<Rightarrow> 'a list \<Rightarrow> nat" where
  "count_where p xs \<equiv> length (filter p xs)"

section \<open>Counters kept in plain objects\<close>

text \<open>
  \<open>uploadCourse\<close> and \<open>editCourse\<close> count videos per section in an object literal
  (\<open>const counts = {}\<close>) with \<open>counts[s] = (counts[s] || 0) + 1\<close>. Such an object
  inherits the members of \<open>Object.prototype\<close>: for those names the read yields a
  function (or, for \<open>__proto__\<close>, the prototype object), which is truthy, and
  \<open>+ 1\<close> concatenates its string form; assigning a string to \<open>__proto__\<close> is
  ignored. A counter value is therefore a number or a string.
\<close>

datatype js_count = JNum nat | JStr string

definition object_proto_methods :: "string list" where
  "object_proto_methods =
     [''__defineGetter__'', ''__defineSetter__'', ''hasOwnProperty'', ''__lookupGetter__'',
      ''__lookupSetter__'', ''isPrototypeOf'', ''propertyIsEnumerable'', ''toString'',
      ''valueOf'', ''toLocaleString'']"

text \<open>\<open>String(Object.prototype[s])\<close> for an inherited name, \<open>None\<close> for any other key.\<close>

definition proto_string :: "string \<Rightarrow> string option" where
  "proto_string s =
     (if s = ''__proto__'' then Some ''[object Object]''
      else if s = ''constructor'' then Some ''function Object() { [native code] }''
      else if s \<in> set object_proto_methods then Some (''function '' @ s @ ''() { [native code] }'')
      else None)"

type_synonym count_obj = "string \<Rightarrow> js_count option"

text \<open>The value of \<open>(counts[s] || 0) + 1\<close>, reading own properties first.\<close>

definition count_next :: "count_obj \<Rightarrow> string \<Rightarrow> js_count" where
  "count_next m s =
     (case m s of
        Some (JNum n) \<Rightarrow> JNum (Suc n)
      | Some (JStr t) \<Rightarrow> (if t = [] then JNum 1 else JStr (t @ ''1''))
      | None \<Rightarrow> (case proto_string s of None \<Rightarrow> JNum 1 | Some t \<Rightarrow> JStr (t @ ''1'')))"

text \<open>\<open>counts[s] = v\<close>: the \<open>__proto__\<close> setter ignores a primitive.\<close>

definition count_store :: "count_obj \<Rightarrow> string \<Rightarrow> js_count \<Rightarrow> count_obj" where
  "count_store m s v = (if s = ''__proto__'' then m else m(s \<mapsto> v))"

text \<open>Template-literal interpolation \<open>${v}\<close> of a counter value.\<close>

fun js_count_str :: "js_count \<Rightarrow> string" where
  "js_count_str (JNum n) = show_nat n"
| "js_count_str (JStr t) = t"

section \<open>Form data\<close>

text \<open>
  A multipart form field as Express delivers it: absent, one value, or several
  values for a repeated field name.
\<close>

datatype form_field = FAbsent | FOne string | FMany "string list"

text \<open>
  \<open>getArrayFromFormData\<close> (declared identically in \<open>uploadCourse\<close> and
  \<open>editCourse\<close>): absent gives \<open>[]\<close>, otherwise the values with the falsy (empty)
  ones dropped by \<open>filter(Boolean)\<close>.
\<close>

fun array_from_form_data :: "form_field \<Rightarrow> string list" where
  "array_from_form_data FAbsent = []"
| "array_from_form_data (FOne s) = filter (\<lambda>v. v \<noteq> []) [s]"
| "array_from_form_data (FMany vs) = filter (\<lambda>v. v \<noteq> []) vs"

section \<open>Shared lemmas\<close>

lemma js_round_nonneg [js_simps]: "0 \<le> x \<Longrightarrow> 0 \<le> js_round x"
  unfolding js_round_def by simp

lemma js_round_of_int [js_simps]: "js_round (of_int n) = n"
  by (simp add: js_round_def floor_eq_iff)

lemma js_round_numeral [js_simps, simp]: "js_round (numeral n) = numeral n"
  using js_round_of_int [of "numeral n"] by simp

lemma locale_compare_neg_iff [js_simps]: "locale_compare a b < 0 \<longleftrightarrow> a < b"
  by (auto simp: locale_compare_def)

lemma locale_compare_pos_iff [js_simps]: "0 < locale_compare a b \<longleftrightarrow> b < a"
  by (auto simp: locale_compare_def)

lemma locale_compare_zero_iff [js_simps]: "locale_compare a b = 0 \<longleftrightarrow> a = b"
  by (auto simp: locale_compare_def)

lemma locale_compare_antisym: "locale_compare b a = - locale_compare a b"
  by (auto simp: locale_compare_def)

lemma find_index_nat_None: "find_index_nat p xs = None \<longleftrightarrow> (\<forall>x \<in> set xs. \<not> p x)"
  by (induction xs) auto

lemma find_index_nat_Some:
  "find_index_nat p xs = Some i \<Longrightarrow> i < length xs \<and> p (xs ! i) \<and> (\<forall>j < i. \<not> p (xs ! j))"
proof (induction xs arbitrary: i)
  case Nil
  then show ?case by simp
next
  case (Cons x xs)
  show ?case
  proof (cases "p x")
    case True
    with Cons.prems show ?thesis by simp
  next
    case False
    with Cons.prems obtain k where k: "find_index_nat p xs = Some k" and i: "i = Suc k"
      by auto
    from Cons.IH [OF k] False i show ?thesis
      by (auto simp: nth_Cons' less_Suc_eq_0_disj)
  qed
qed

lemma find_index_none [js_simps]: "find_index p xs = -1 \<longleftrightarrow> (\<forall>x \<in> set xs. \<not> p x)"
proof -
  have "find_index p xs = -1 \<longleftrightarrow> find_index_nat p xs = None"
    by (simp add: find_index_def split: option.splits)
  then show ?thesis by (simp add: find_index_nat_None)
qed

lemma find_index_some:
  "find_index p xs = int i \<Longrightarrow> i < length xs \<and> p (xs ! i) \<and> (\<forall>j < i. \<not> p (xs ! j))"
  by (auto simp: find_index_def dest: find_index_nat_Some split: option.splits)

lemma length_js_splice1 [js_simps]:
  "length (js_splice1 xs i) = (if i < length xs then length xs - 1 else length xs)"
  by (simp add: js_splice1_def)

lemma js_splice1_out_of_range [js_simps]: "length xs \<le> i \<Longrightarrow> js_splice1 xs i = xs"
  by (simp add: js_splice1_def)

lemma mset_js_splice1:
  "i < length xs \<Longrightarrow> mset (js_splice1 xs i) = mset xs - {# xs ! i #}"
proof -
  assume i: "i < length xs"
  have "xs = take i xs @ xs ! i # drop (Suc i) xs"
    using i by (simp add: id_take_nth_drop)
  then have "mset xs = mset (take i xs @ drop (Suc i) xs) + {# xs ! i #}"
    by (metis add_mset_add_single mset.simps(2) mset_append union_mset_add_mset_right)
  then show ?thesis by (simp add: js_splice1_def)
qed

lemma js_splice1_Cons_Suc [simp]: "js_splice1 (x # xs) (Suc k) = x # js_splice1 xs k"
  by (simp add: js_splice1_def)

lemma js_splice1_Cons_0 [simp]: "js_splice1 (x # xs) 0 = xs"
  by (simp add: js_splice1_def)

lemma js_splice1_find_unique:
  "find_index_nat p xs = Some k \<Longrightarrow> length (filter p xs) \<le> 1 \<Longrightarrow> js_splice1 xs k = filter (\<lambda>x. \<not> p x) xs"
proof (induction xs arbitrary: k)
  case (Cons x xs)
  show ?case
  proof (cases "p x")
    case True
    with Cons.prems have "k = 0" "filter p xs = []" by auto
    then show ?thesis using True by (simp add: filter_empty_conv)
  next
    case False
    with Cons.prems obtain k' where "find_index_nat p xs = Some k'" "k = Suc k'" by auto
    with Cons.IH Cons.prems False show ?thesis by simp
  qed
qed simp

lemma str_or_nonempty [js_simps]: "d \<noteq> [] \<Longrightarrow> str_or s d \<noteq> []"
  by (simp add: str_or_def)

lemma nth_or_nonempty [js_simps]: "d \<noteq> [] \<Longrightarrow> nth_or xs i d \<noteq> []"
  by (simp add: nth_or_def str_or_nonempty)

lemma array_from_form_data_nonempty:
  "v \<in> set (array_from_form_data f) \<Longrightarrow> v \<noteq> []"
  by (cases f) (auto split: if_splits)

lemma find_const_False [simp]: "find (\<lambda>x. False) xs = None"
  by (induction xs) auto

lemma count_next_plain [js_simps]:
  "proto_string s = None \<Longrightarrow> m s = None \<Longrightarrow> count_next m s = JNum 1"
  "m s = Some (JNum n) \<Longrightarrow> count_next m s = JNum (Suc n)"
  by (simp_all add: count_next_def)

lemma count_store_plain [js_simps]:
  "proto_string s = None \<Longrightarrow> count_store m s v = m(s \<mapsto> v)"
  by (auto simp: count_store_def proto_string_def)

lemma count_where_take_Suc:
  "i < length xs \<Longrightarrow>
   count_where p (take (Suc i) xs) = count_where p (take i xs) + (if p (xs ! i) then 1 else 0)"
  by (simp add: take_Suc_conv_app_nth)

lemma js_round_mono: "x \<le> y \<Longrightarrow> js_round x \<le> js_round y"
  by (simp add: js_round_def floor_mono)

end
