(* ===== verification/Upload.thy ===== *)
theory Upload
  imports Course_Prelude
begin

text \<open>
  The media upload client: \<open>uploadVideoWithRetry\<close> of
  \<open>src/server/controller/course.controller.ts\<close>. The remote media service is a
  parameter: \<open>svc a\<close> is the outcome of the upload call made in attempt \<open>a\<close>
  (counted from 1), so a fake service that "fails twice, then succeeds" is a function
  of the attempt number. Each attempt first runs \<open>ensureCloudinaryConfig\<close> and the
  file-path check inside the same \<open>try\<close>, so their errors are retried like remote
  ones. A run records the result, the number of attempts made and the back-off
  delays slept (milliseconds), in order.
\<close>

datatype upload_error = ConfigMissing | FilePathMissing | RemoteFailure string

record uploaded =
  public_id :: string
  secure_url :: string

text \<open>
  The two \<open>throw\<close>s of the function: \<open>UploadFailed n e\<close> is
  "Failed to upload video after n attempts. Last error: e", thrown from the
  \<open>catch\<close> of the last attempt; \<open>AllAttemptsFailed\<close> is the throw after the
  loop, reached only when the loop body never ran (\<open>maxRetries \<le> 0\<close>) and
  \<open>lastError\<close> is still \<open>null\<close>.
\<close>

datatype upload_failure = UploadFailed nat upload_error | AllAttemptsFailed "upload_error option"

type_synonym upload_service = "nat \<Rightarrow> upload_error + uploaded"

record upload_run =
  up_result :: "upload_failure + uploaded"
  up_attempts :: nat
  up_sleeps :: "nat list"

text \<open>The outcome of one attempt: configuration check, path check, remote call.\<close>

definition attempt_outcome :: "bool \<Rightarrow> string \<Rightarrow> upload_service \<Rightarrow> nat \<Rightarrow> upload_error + uploaded" where
  "attempt_outcome cfg path svc a =
     (if \<not> cfg then Inl ConfigMissing
      else if path = [] then Inl FilePathMissing
      else svc a)"

text \<open>
  The \<open>while (attempts < maxRetries)\<close> loop from the state after \<open>attempts\<close>
  attempts with last error \<open>last\<close>. The delay after a failed attempt \<open>a\<close> that
  is not the last is \<open>1000 * 2^(a-1)\<close>.
\<close>

function upload_loop ::
  "nat \<Rightarrow> bool \<Rightarrow> string \<Rightarrow> upload_service \<Rightarrow> nat \<Rightarrow> upload_error option \<Rightarrow> upload_run" where
  "upload_loop maxr cfg path svc attempts lasterr =
     (if attempts < maxr then
        (let a = Suc attempts in
         case attempt_outcome cfg path svc a of
           Inr res \<Rightarrow> \<lparr>up_result = Inr res, up_attempts = a, up_sleeps = []\<rparr>
         | Inl e \<Rightarrow>
             (if maxr \<le> a then \<lparr>up_result = Inl (UploadFailed maxr e), up_attempts = a, up_sleeps = []\<rparr>
              else (let run = upload_loop maxr cfg path svc a (Some e)
                    in run\<lparr>up_sleeps := 1000 * 2 ^ (a - 1) # up_sleeps run\<rparr>)))
      else \<lparr>up_result = Inl (AllAttemptsFailed lasterr), up_attempts = attempts, up_sleeps = []\<rparr>)"
  by pat_completeness auto
termination
  by (relation "measure (\<lambda>(maxr, cfg, path, svc, attempts, lasterr). maxr - attempts)") auto

declare upload_loop.simps [simp del]

definition upload_video_with_retry :: "bool \<Rightarrow> upload_service \<Rightarrow> string \<Rightarrow> nat \<Rightarrow> upload_run" where
  "upload_video_with_retry cfg svc path maxr = upload_loop maxr cfg path svc 0 None"

text \<open>The default \<open>maxRetries = 3\<close> that every call site of the controller uses.\<close>

abbreviation upload_default :: "bool \<Rightarrow> upload_service \<Rightarrow> string \<Rightarrow> upload_run" where
  "upload_default cfg svc path \<equiv> upload_video_with_retry cfg svc path 3"

section \<open>A reference: the first successful attempt\<close>

text \<open>
  What the retry loop promises, stated without the loop: the outcome of the first
  attempt among \<open>1..maxRetries\<close> that succeeds, otherwise the failure of the last
  attempt.
\<close>

definition upload_reference :: "bool \<Rightarrow> upload_service \<Rightarrow> string \<Rightarrow> nat \<Rightarrow> upload_failure + uploaded" where
  "upload_reference cfg svc path maxr =
     (if maxr = 0 then Inl (AllAttemptsFailed None)
      else case find (\<lambda>a. \<not> isl (attempt_outcome cfg path svc a)) [1..<Suc maxr] of
             Some a \<Rightarrow> Inr (projr (attempt_outcome cfg path svc a))
           | None \<Rightarrow> Inl (UploadFailed maxr (projl (attempt_outcome cfg path svc maxr))))"

section \<open>Lemmas on the loop\<close>

lemma upload_loop_stop [simp]:
  "\<not> attempts < maxr \<Longrightarrow>
   upload_loop maxr cfg path svc attempts lasterr =
     \<lparr>up_result = Inl (AllAttemptsFailed lasterr), up_attempts = attempts, up_sleeps = []\<rparr>"
  by (simp add: upload_loop.simps)

lemma upload_loop_success [simp]:
  "attempts < maxr \<Longrightarrow> attempt_outcome cfg path svc (Suc attempts) = Inr res \<Longrightarrow>
   upload_loop maxr cfg path svc attempts lasterr =
     \<lparr>up_result = Inr res, up_attempts = Suc attempts, up_sleeps = []\<rparr>"
  by (simp add: upload_loop.simps)

lemma upload_loop_last_failure [simp]:
  "Suc attempts = maxr \<Longrightarrow> attempt_outcome cfg path svc maxr = Inl e \<Longrightarrow>
   upload_loop maxr cfg path svc attempts lasterr =
     \<lparr>up_result = Inl (UploadFailed maxr e), up_attempts = maxr, up_sleeps = []\<rparr>"
  by (simp add: upload_loop.simps)

lemma upload_loop_retry:
  "Suc attempts < maxr \<Longrightarrow> attempt_outcome cfg path svc (Suc attempts) = Inl e \<Longrightarrow>
   upload_loop maxr cfg path svc attempts lasterr =
     (let run = upload_loop maxr cfg path svc (Suc attempts) (Some e)
      in run\<lparr>up_sleeps := 1000 * 2 ^ attempts # up_sleeps run\<rparr>)"
  by (simp add: upload_loop.simps [of maxr cfg path svc attempts lasterr])

lemmas upload_loop_steps = upload_loop_stop upload_loop_success upload_loop_last_failure upload_loop_retry

text \<open>From any state inside the loop, the run ends after at most \<open>maxRetries\<close> attempts.\<close>

lemma upload_loop_attempts:
  "attempts \<le> maxr \<Longrightarrow>
   attempts \<le> up_attempts (upload_loop maxr cfg path svc attempts lasterr) \<and>
   up_attempts (upload_loop maxr cfg path svc attempts lasterr) \<le> maxr"
proof (induction maxr cfg path svc attempts lasterr rule: upload_loop.induct)
  case (1 maxr cfg path svc attempts lasterr)
  show ?case
  proof (cases "attempts < maxr")
    case False
    with "1.prems" show ?thesis by simp
  next
    case True
    then show ?thesis
      using "1.IH" [OF True refl]
      by (cases "attempt_outcome cfg path svc (Suc attempts)")
         (auto simp: upload_loop.simps [of maxr cfg path svc attempts lasterr] Let_def)
  qed
qed

lemma upload_loop_progress:
  "attempts < maxr \<Longrightarrow> Suc attempts \<le> up_attempts (upload_loop maxr cfg path svc attempts lasterr)"
proof (cases "attempt_outcome cfg path svc (Suc attempts)")
  case (Inl e)
  assume lt: "attempts < maxr"
  show ?thesis
  proof (cases "Suc attempts = maxr")
    case True
    with Inl show ?thesis by simp
  next
    case False
    with lt Inl show ?thesis
      using upload_loop_attempts [of "Suc attempts" maxr cfg path svc "Some e"]
      by (simp add: upload_loop_retry Let_def)
  qed
qed simp

text \<open>The loop computes the reference, started from any attempt count below the bound.\<close>

lemma upload_loop_reference:
  "attempts < maxr \<Longrightarrow>
   up_result (upload_loop maxr cfg path svc attempts lasterr) =
     (case find (\<lambda>a. \<not> isl (attempt_outcome cfg path svc a)) [Suc attempts..<Suc maxr] of
        Some a \<Rightarrow> Inr (projr (attempt_outcome cfg path svc a))
      | None \<Rightarrow> Inl (UploadFailed maxr (projl (attempt_outcome cfg path svc maxr))))"
proof (induction maxr cfg path svc attempts lasterr rule: upload_loop.induct)
  case (1 maxr cfg path svc attempts lasterr)
  have upt_first: "[Suc attempts..<Suc maxr] = Suc attempts # [Suc (Suc attempts)..<Suc maxr]"
    using "1.prems" by (simp add: upt_conv_Cons)
  show ?case
  proof (cases "attempt_outcome cfg path svc (Suc attempts)")
    case (Inr res)
    with "1.prems" show ?thesis by (simp add: upt_first del: upt_Suc)
  next
    case (Inl e)
    show ?thesis
    proof (cases "Suc attempts = maxr")
      case True
      with Inl "1.prems" show ?thesis by simp
    next
      case False
      with "1.prems" have more: "Suc attempts < maxr" by simp
      have IH: "up_result (upload_loop maxr cfg path svc (Suc attempts) (Some e)) =
        (case find (\<lambda>a. \<not> isl (attempt_outcome cfg path svc a)) [Suc (Suc attempts)..<Suc maxr] of
           Some a \<Rightarrow> Inr (projr (attempt_outcome cfg path svc a))
         | None \<Rightarrow> Inl (UploadFailed maxr (projl (attempt_outcome cfg path svc maxr))))"
        using "1.IH" [OF "1.prems" refl, of e] Inl more by (simp add: Let_def)
      show ?thesis
        using more Inl IH by (simp add: upload_loop_retry upt_first Let_def del: upt_Suc)
    qed
  qed
qed

text \<open>The sleeps of a run from attempt \<open>attempts\<close>: one per failed attempt that is not the last.\<close>

lemma upload_loop_sleeps:
  "attempts \<le> maxr \<Longrightarrow>
   up_sleeps (upload_loop maxr cfg path svc attempts lasterr) =
     map (\<lambda>j. 1000 * 2 ^ (j - 1)) [Suc attempts..<up_attempts (upload_loop maxr cfg path svc attempts lasterr)]"
proof (induction maxr cfg path svc attempts lasterr rule: upload_loop.induct)
  case (1 maxr cfg path svc attempts lasterr)
  show ?case
  proof (cases "attempts < maxr")
    case False
    then show ?thesis by simp
  next
    case True
    show ?thesis
    proof (cases "attempt_outcome cfg path svc (Suc attempts)")
      case (Inr res)
      with True show ?thesis by simp
    next
      case (Inl e)
      show ?thesis
      proof (cases "Suc attempts = maxr")
        case True
        with Inl show ?thesis by simp
      next
        case False
        with True have more: "Suc attempts < maxr" by simp
        let ?run = "upload_loop maxr cfg path svc (Suc attempts) (Some e)"
        have IH: "up_sleeps ?run = map (\<lambda>j. 1000 * 2 ^ (j - 1)) [Suc (Suc attempts)..<up_attempts ?run]"
          using "1.IH" [OF True refl, of e] Inl more by (simp add: Let_def)
        have "[Suc attempts..<up_attempts ?run] = Suc attempts # [Suc (Suc attempts)..<up_attempts ?run]"
          if "Suc attempts < up_attempts ?run" using that by (simp add: upt_conv_Cons)
        moreover have "Suc attempts < up_attempts ?run"
          using upload_loop_progress [OF more, of cfg path svc "Some e"] by simp
        ultimately show ?thesis
          using more Inl IH by (simp add: upload_loop_retry Let_def)
      qed
    qed
  qed
qed

lemma upload_loop_all_fail:
  "\<forall>a. isl (attempt_outcome cfg path svc a) \<Longrightarrow> attempts \<le> maxr \<Longrightarrow>
   up_attempts (upload_loop maxr cfg path svc attempts lasterr) = maxr"
proof (induction maxr cfg path svc attempts lasterr rule: upload_loop.induct)
  case (1 maxr cfg path svc attempts lasterr)
  show ?case
  proof (cases "attempts < maxr")
    case False
    with "1.prems" show ?thesis by simp
  next
    case True
    from "1.prems"(1) obtain e where e: "attempt_outcome cfg path svc (Suc attempts) = Inl e"
      by (meson isl_def)
    show ?thesis
    proof (cases "Suc attempts = maxr")
      case True
      with e show ?thesis by simp
    next
      case False
      with True have "Suc attempts < maxr" by simp
      with "1.IH" [OF True refl, of e] "1.prems"(1) e show ?thesis
        by (simp add: upload_loop_retry Let_def)
    qed
  qed
qed

lemma upload_video_result:
  "up_result (upload_video_with_retry cfg svc path maxr) = upload_reference cfg svc path maxr"
proof (cases "maxr = 0")
  case True
  then show ?thesis by (simp add: upload_video_with_retry_def upload_reference_def)
next
  case False
  then show ?thesis
    using upload_loop_reference [of 0 maxr cfg path svc None]
    by (simp add: upload_video_with_retry_def upload_reference_def del: upt_Suc)
qed

lemma upload_video_sleeps:
  "up_sleeps (upload_video_with_retry cfg svc path maxr) =
     map (\<lambda>j. 1000 * 2 ^ (j - 1)) [1..<up_attempts (upload_video_with_retry cfg svc path maxr)]"
  using upload_loop_sleeps [of 0 maxr cfg path svc None] by (simp add: upload_video_with_retry_def)

lemma upload_video_attempts_le: "up_attempts (upload_video_with_retry cfg svc path maxr) \<le> maxr"
  using upload_loop_attempts [of 0 maxr cfg path svc None] by (simp add: upload_video_with_retry_def)

section \<open>Properties of the upload client\<close>

text \<open>
  With the default bound of three attempts, a media service that fails the
  first two upload calls and accepts the third yields the third call's asset after
  exactly three attempts, having slept 1000 ms and then 2000 ms.
\<close>

theorem upload_fails_twice_then_succeeds:
  assumes "svc 1 = Inl e1" and "svc 2 = Inl e2" and "svc 3 = Inr r" and "path \<noteq> []"
  shows "upload_default True svc path = \<lparr>up_result = Inr r, up_attempts = 3, up_sleeps = [1000, 2000]\<rparr>"
  using assms
  by (simp add: upload_video_with_retry_def upload_loop_retry attempt_outcome_def numeral_3_eq_3 numeral_2_eq_2)

theorem upload_fails_twice_then_succeeds_witness:
  "upload_default True
     (\<lambda>a. if a \<le> 2 then Inl (RemoteFailure ''503'')
          else Inr \<lparr>public_id = ''courses/videos/v1'', secure_url = ''https://cdn/v1.mp4''\<rparr>)
     ''/tmp/v1.mp4''
   = \<lparr>up_result = Inr \<lparr>public_id = ''courses/videos/v1'', secure_url = ''https://cdn/v1.mp4''\<rparr>,
      up_attempts = 3, up_sleeps = [1000, 2000]\<rparr>"
  by (rule upload_fails_twice_then_succeeds) simp_all

text \<open>
  With the default bound of three attempts, a media service that fails every
  call makes the client give up after the third attempt with
  \<open>UploadFailed 3\<close> carrying the third call's error; a fourth call is never made.
\<close>

theorem upload_gives_up_after_three:
  assumes "svc 1 = Inl e1" and "svc 2 = Inl e2" and "svc 3 = Inl e3" and "path \<noteq> []"
  shows "upload_default True svc path =
           \<lparr>up_result = Inl (UploadFailed 3 e3), up_attempts = 3, up_sleeps = [1000, 2000]\<rparr>"
  using assms
  by (simp add: upload_video_with_retry_def upload_loop_retry attempt_outcome_def numeral_3_eq_3 numeral_2_eq_2)

theorem upload_gives_up_after_three_witness:
  "upload_default True (\<lambda>a. Inl (RemoteFailure ''timeout'')) ''/tmp/v1.mp4'' =
     \<lparr>up_result = Inl (UploadFailed 3 (RemoteFailure ''timeout'')), up_attempts = 3, up_sleeps = [1000, 2000]\<rparr>"
  by (rule upload_gives_up_after_three) simp_all

text \<open>
  Claim C2: the retry loop is equivalent to its reference: its result is the asset of
  the first of the attempts \<open>1..maxRetries\<close> that succeeds, and otherwise
  \<open>UploadFailed maxRetries\<close> with the error of the last attempt (for
  \<open>maxRetries = 0\<close>, the after-loop throw with no last error).
\<close>

theorem upload_retry_matches_reference:
  "up_result (upload_video_with_retry cfg svc path maxr) = upload_reference cfg svc path maxr"
  by (rule upload_video_result)

text \<open>
  The client never makes more than \<open>maxRetries\<close> attempts, and the delays
  it sleeps are exactly \<open>1000 * 2^(j-1)\<close> ms after each failed attempt \<open>j\<close> that
  is followed by another attempt.
\<close>

theorem upload_backoff_schedule:
  "up_attempts (upload_video_with_retry cfg svc path maxr) \<le> maxr \<and>
   up_sleeps (upload_video_with_retry cfg svc path maxr) =
     map (\<lambda>j. 1000 * 2 ^ (j - 1)) [1..<up_attempts (upload_video_with_retry cfg svc path maxr)]"
  using upload_video_attempts_le upload_video_sleeps by blast

text \<open>
  A missing file path is not reported at once: the check sits inside the
  retried \<open>try\<close>, so the client makes all \<open>maxRetries\<close> attempts, sleeps between
  them, and fails with \<open>UploadFailed maxRetries FilePathMissing\<close>.
\<close>

theorem upload_missing_path_retried:
  assumes "0 < maxr"
  shows "upload_video_with_retry True svc [] maxr =
    \<lparr>up_result = Inl (UploadFailed maxr FilePathMissing), up_attempts = maxr,
     up_sleeps = map (\<lambda>j. 1000 * 2 ^ (j - 1)) [1..<maxr]\<rparr>"
proof -
  let ?run = "upload_video_with_retry True svc [] maxr"
  have fail: "\<forall>a. isl (attempt_outcome True [] svc a)" by (simp add: attempt_outcome_def)
  have att: "up_attempts ?run = maxr"
    using upload_loop_all_fail [OF fail, of 0 maxr] by (simp add: upload_video_with_retry_def)
  have res: "up_result ?run = Inl (UploadFailed maxr FilePathMissing)"
    using upload_video_result [of True svc "[]" maxr] assms
    by (simp add: upload_reference_def attempt_outcome_def del: upt_Suc)
  have "up_sleeps ?run = map (\<lambda>j. 1000 * 2 ^ (j - 1)) [1..<maxr]"
    using upload_video_sleeps [of True svc "[]" maxr] att by simp
  with att res show ?thesis by simp
qed

theorem upload_missing_path_retried_witness:
  "0 < (3::nat) \<and> upload_video_with_retry True (\<lambda>a. Inr \<lparr>public_id = ''p'', secure_url = ''u''\<rparr>) [] 3 =
    \<lparr>up_result = Inl (UploadFailed 3 FilePathMissing), up_attempts = 3, up_sleeps = [1000, 2000]\<rparr>"
  using upload_missing_path_retried [of 3 "\<lambda>a. Inr \<lparr>public_id = ''p'', secure_url = ''u''\<rparr>"]
  by (simp add: upt_rec)

end
