(* ===== verification/Duration.thy ===== *)
theory Duration
  imports Course_Prelude
begin

text \<open>
  The duration resolver of \<open>src/server/controller/course.controller.ts\<close>:
  \<open>getVideoDuration\<close> (local \<open>ffprobe\<close> with existence, size and timeout guards),
  \<open>getVideoDurationFromCloudinary\<close> (metadata query retried up to five times, a 404
  ends it), \<open>getVideoDurationAlternative\<close> (browser playback probe) and
  \<open>getVideoDurationWithFallbacks\<close>, which tries them in that order and stops at the
  first positive value. The media inspection tools and the remote service are inputs:
  what the file system and \<open>ffprobe\<close> report for a path, what the metadata API
  answers in each attempt for a public id, what the playback probe reports for a URL.
  Timeouts are outcomes of the probes (the timer resolves the promise with 0 first).
\<close>

section \<open>Local inspection\<close>

datatype local_file = FileMissing | StatFails | FileOfSize nat

text \<open>What \<open>ffprobe\<close> delivers within 15 s: nothing, an error, or metadata whose
  \<open>format.duration\<close> is a number (\<open>Some\<close>) or is missing (\<open>None\<close>).\<close>

datatype probe_outcome = ProbeTimeout | ProbeError | ProbeMetadata "rat option"

definition get_video_duration :: "local_file \<Rightarrow> probe_outcome \<Rightarrow> int" where
  "get_video_duration f probe =
     (case f of
        FileMissing \<Rightarrow> 0
      | StatFails \<Rightarrow> 0
      | FileOfSize sz \<Rightarrow>
          (if sz < 1000 then 0
           else (case probe of
                   ProbeTimeout \<Rightarrow> 0
                 | ProbeError \<Rightarrow> 0
                 | ProbeMetadata None \<Rightarrow> 0
                 | ProbeMetadata (Some d) \<Rightarrow> (if 0 < d then js_round d else 0))))"

section \<open>Remote metadata query\<close>

text \<open>
  One answer of \<open>cloudinary.api.resource\<close>: a resource with its \<open>duration\<close>
  (\<open>None\<close> when missing) and whether \<open>status === 'pending'\<close>, or a thrown API
  error with its \<open>http_code\<close>.
\<close>

datatype api_response = ApiResource "rat option" bool | ApiFailure "int option"

record cloud_run =
  cr_value :: int
  cr_calls :: nat
  cr_sleeps :: "nat list"

text \<open>
  The \<open>while (retries > 0)\<close> loop with \<open>Suc r\<close> retries left; the attempt number
  the code logs is \<open>6 - retries = 5 - r\<close>, and \<open>api k\<close> is the answer to attempt
  \<open>k\<close>. A positive duration returns at once; a pending or durationless resource
  waits 3 s, a non-404 error 2 s, each only when another attempt follows; a 404 breaks
  out of the loop, and after the loop the result is 0.
\<close>

fun cloud_loop :: "(nat \<Rightarrow> api_response) \<Rightarrow> nat \<Rightarrow> cloud_run" where
  "cloud_loop api 0 = \<lparr>cr_value = 0, cr_calls = 0, cr_sleeps = []\<rparr>"
| "cloud_loop api (Suc r) =
     (case api (5 - r) of
        ApiResource d pending \<Rightarrow>
          (case d of
             Some x \<Rightarrow>
               (if 0 < x then \<lparr>cr_value = js_round x, cr_calls = 1, cr_sleeps = []\<rparr>
                else (let run = cloud_loop api r;
                          w = (if (pending \<or> x = 0) \<and> 0 < r then [3000] else [])
                      in run\<lparr>cr_calls := Suc (cr_calls run), cr_sleeps := w @ cr_sleeps run\<rparr>))
           | None \<Rightarrow>
               (let run = cloud_loop api r;
                    w = (if 0 < r then [3000] else [])
                in run\<lparr>cr_calls := Suc (cr_calls run), cr_sleeps := w @ cr_sleeps run\<rparr>))
      | ApiFailure code \<Rightarrow>
          (if code = Some 404 then \<lparr>cr_value = 0, cr_calls = 1, cr_sleeps = []\<rparr>
           else (let run = cloud_loop api r;
                     w = (if 0 < r then [2000] else [])
                 in run\<lparr>cr_calls := Suc (cr_calls run), cr_sleeps := w @ cr_sleeps run\<rparr>)))"

text \<open>\<open>ensureCloudinaryConfig\<close> throwing is caught by the outer \<open>catch\<close>: 0, no call.\<close>

definition get_video_duration_from_cloudinary :: "bool \<Rightarrow> (nat \<Rightarrow> api_response) \<Rightarrow> cloud_run" where
  "get_video_duration_from_cloudinary cfg api =
     (if cfg then cloud_loop api 5 else \<lparr>cr_value = 0, cr_calls = 0, cr_sleeps = []\<rparr>)"

section \<open>Playback probe\<close>

datatype playback_outcome = PlaybackTimeout | PlaybackError | PlaybackLoaded rat

definition get_video_duration_alternative :: "playback_outcome \<Rightarrow> int" where
  "get_video_duration_alternative p =
     (case p of
        PlaybackTimeout \<Rightarrow> 0
      | PlaybackError \<Rightarrow> 0
      | PlaybackLoaded d \<Rightarrow> js_round d)"

section \<open>The fallback chain\<close>

text \<open>What the environment of one resolution delivers to each strategy.\<close>

record media_env =
  me_file :: "string \<Rightarrow> local_file"
  me_probe :: "string \<Rightarrow> probe_outcome"
  me_cfg :: bool
  me_api :: "string \<Rightarrow> nat \<Rightarrow> api_response"
  me_document :: bool
  me_playback :: "string \<Rightarrow> playback_outcome"

datatype strategy = LocalProbe | RemoteQuery | PlaybackProbe

record dur_run =
  dr_seconds :: int
  dr_tried :: "strategy list"

text \<open>
  \<open>getVideoDurationWithFallbacks(tempFilePath, cloudinaryPublicId?, videoUrl?)\<close>
  has three guarded blocks in this order. Each block whose guard holds runs its
  strategy (\<open>Some\<close> of its value; \<open>None\<close> when the guard fails: an empty or
  absent input, or no \<open>document\<close>, which a Node.js server does not have), and the
  first positive value is returned; otherwise 0.
\<close>

definition duration_strategies ::
  "media_env \<Rightarrow> string \<Rightarrow> string option \<Rightarrow> string option \<Rightarrow> (strategy \<times> int option) list" where
  "duration_strategies env path pid url =
     [(LocalProbe,
       if path \<noteq> [] then Some (get_video_duration (me_file env path) (me_probe env path)) else None),
      (RemoteQuery,
       case pid of
         Some p \<Rightarrow> if p \<noteq> [] then Some (cr_value (get_video_duration_from_cloudinary (me_cfg env) (me_api env p)))
                   else None
       | None \<Rightarrow> None),
      (PlaybackProbe,
       case url of
         Some u \<Rightarrow> if u \<noteq> [] \<and> me_document env then Some (get_video_duration_alternative (me_playback env u))
                   else None
       | None \<Rightarrow> None)]"

fun first_positive :: "(strategy \<times> int option) list \<Rightarrow> dur_run" where
  "first_positive [] = \<lparr>dr_seconds = 0, dr_tried = []\<rparr>"
| "first_positive ((s, None) # rest) = first_positive rest"
| "first_positive ((s, Some v) # rest) =
     (if 0 < v then \<lparr>dr_seconds = v, dr_tried = [s]\<rparr>
      else (let run = first_positive rest in run\<lparr>dr_tried := s # dr_tried run\<rparr>))"

definition get_video_duration_with_fallbacks ::
  "media_env \<Rightarrow> string \<Rightarrow> string option \<Rightarrow> string option \<Rightarrow> dur_run" where
  "get_video_duration_with_fallbacks env path pid url = first_positive (duration_strategies env path pid url)"

section \<open>Lemmas\<close>

lemma first_positive_sign: "dr_seconds (first_positive xs) = 0 \<or> 0 < dr_seconds (first_positive xs)"
  by (induction xs rule: first_positive.induct) (auto simp: Let_def)

lemma first_positive_zero_iff:
  "dr_seconds (first_positive xs) = 0 \<longleftrightarrow>
   list_all (\<lambda>(s, v). case v of None \<Rightarrow> True | Some x \<Rightarrow> x \<le> 0) xs"
  by (induction xs rule: first_positive.induct) (auto simp: Let_def)

lemma first_positive_tried: "set (dr_tried (first_positive xs)) \<subseteq> {s. \<exists>v. (s, Some v) \<in> set xs}"
  by (induction xs rule: first_positive.induct) (auto simp: Let_def)

lemma cloud_loop_bounds: "cr_calls (cloud_loop api r) \<le> r \<and> 0 \<le> cr_value (cloud_loop api r)"
proof (induction r)
  case 0
  then show ?case by simp
next
  case (Suc r)
  then show ?case
    by (auto simp: Let_def js_round_nonneg split: api_response.split option.split)
qed

lemma get_video_duration_nonneg: "0 \<le> get_video_duration f probe"
  by (auto simp: get_video_duration_def js_round_nonneg split: local_file.split probe_outcome.split option.split)

section \<open>Properties of the resolver\<close>

text \<open>
  Claim C3: the resolved duration is never negative, and it is exactly 0 when every
  strategy is inapplicable or yields no positive value: "unknown" is 0, never an error.
\<close>

theorem duration_never_negative_default_zero:
  "0 \<le> dr_seconds (get_video_duration_with_fallbacks env path pid url) \<and>
   (dr_seconds (get_video_duration_with_fallbacks env path pid url) = 0 \<longleftrightarrow>
    list_all (\<lambda>(s, v). case v of None \<Rightarrow> True | Some x \<Rightarrow> x \<le> 0) (duration_strategies env path pid url))"
  using first_positive_sign [of "duration_strategies env path pid url"]
    first_positive_zero_iff [of "duration_strategies env path pid url"]
  unfolding get_video_duration_with_fallbacks_def by auto

text \<open>
  When the local file yields a positive duration, the resolver returns it and
  runs no other strategy: the remote metadata service is not queried.
\<close>

theorem duration_local_short_circuit:
  assumes "path \<noteq> []" and "0 < get_video_duration (me_file env path) (me_probe env path)"
  shows "get_video_duration_with_fallbacks env path pid url =
    \<lparr>dr_seconds = get_video_duration (me_file env path) (me_probe env path), dr_tried = [LocalProbe]\<rparr>"
  using assms by (simp add: get_video_duration_with_fallbacks_def duration_strategies_def)

theorem duration_local_short_circuit_witness:
  "get_video_duration_with_fallbacks \<lparr>me_file = (\<lambda>_. FileOfSize 5000000), me_probe = (\<lambda>_. ProbeMetadata (Some 90)),
      me_cfg = True, me_api = (\<lambda>_ _. ApiFailure None), me_document = False,
      me_playback = (\<lambda>_. PlaybackError)\<rparr> ''/tmp/v1.mp4'' (Some ''courses/videos/v1'') None =
     \<lparr>dr_seconds = 90, dr_tried = [LocalProbe]\<rparr>"
proof -
  have d: "get_video_duration (FileOfSize 5000000) (ProbeMetadata (Some 90)) = 90"
    by (simp add: get_video_duration_def)
  show ?thesis
    using duration_local_short_circuit [of "''/tmp/v1.mp4''" "\<lparr>me_file = (\<lambda>_. FileOfSize 5000000), me_probe = (\<lambda>_. ProbeMetadata (Some 90)),
      me_cfg = True, me_api = (\<lambda>_ _. ApiFailure None), me_document = False,
      me_playback = (\<lambda>_. PlaybackError)\<rparr>"] d by simp
qed

text \<open>
  On the server, where no \<open>document\<close> exists, the playback probe is never
  run, whatever the inputs.
\<close>

theorem duration_server_never_plays_back:
  "\<not> me_document env \<Longrightarrow> PlaybackProbe \<notin> set (dr_tried (get_video_duration_with_fallbacks env path pid url))"
  using first_positive_tried [of "duration_strategies env path pid url"]
  by (auto simp: get_video_duration_with_fallbacks_def duration_strategies_def split: option.splits if_splits)

theorem duration_server_never_plays_back_witness:
  "\<not> me_document \<lparr>me_file = (\<lambda>_. FileOfSize 500), me_probe = (\<lambda>_. ProbeError),
      me_cfg = True, me_api = (\<lambda>_ _. ApiFailure None), me_document = False,
      me_playback = (\<lambda>_. PlaybackLoaded 60)\<rparr> \<and>
   PlaybackProbe \<notin> set (dr_tried (get_video_duration_with_fallbacks \<lparr>me_file = (\<lambda>_. FileOfSize 500), me_probe = (\<lambda>_. ProbeError),
      me_cfg = True, me_api = (\<lambda>_ _. ApiFailure None), me_document = False,
      me_playback = (\<lambda>_. PlaybackLoaded 60)\<rparr> ''/tmp/v1.mp4'' None (Some ''https://cdn/v1.mp4'')))"
  using duration_server_never_plays_back [of "\<lparr>me_file = (\<lambda>_. FileOfSize 500), me_probe = (\<lambda>_. ProbeError),
      me_cfg = True, me_api = (\<lambda>_ _. ApiFailure None), me_document = False,
      me_playback = (\<lambda>_. PlaybackLoaded 60)\<rparr>" "''/tmp/v1.mp4''" None "Some ''https://cdn/v1.mp4''"]
  by simp

text \<open>
  The remote metadata query makes at most five calls and returns a
  non-negative value.
\<close>

theorem cloud_duration_bounded:
  "cr_calls (get_video_duration_from_cloudinary cfg api) \<le> 5 \<and> 0 \<le> cr_value (get_video_duration_from_cloudinary cfg api)"
  using cloud_loop_bounds [of api 5] by (simp add: get_video_duration_from_cloudinary_def)

text \<open>
  An asset still processing on the remote service is waited for: two pending
  answers without duration, then a positive duration, give that duration rounded, after
  three calls and two 3 s waits.
\<close>

theorem cloud_duration_pending_then_ready:
  assumes "api 1 = ApiResource None True" and "api 2 = ApiResource None True"
    and "api 3 = ApiResource (Some x) p" and "0 < x"
  shows "get_video_duration_from_cloudinary True api = \<lparr>cr_value = js_round x, cr_calls = 3, cr_sleeps = [3000, 3000]\<rparr>"
  using assms by (simp add: get_video_duration_from_cloudinary_def eval_nat_numeral)

theorem cloud_duration_pending_then_ready_witness:
  "get_video_duration_from_cloudinary True
     (\<lambda>k. if k < 3 then ApiResource None True else ApiResource (Some (1254 / 10)) False) =
   \<lparr>cr_value = 125, cr_calls = 3, cr_sleeps = [3000, 3000]\<rparr>"
proof -
  have "js_round (1254 / 10) = 125" by code_simp
  then show ?thesis
    using cloud_duration_pending_then_ready
      [of "\<lambda>k. if k < 3 then ApiResource None True else ApiResource (Some (1254 / 10)) False" "1254 / 10" False]
    by simp
qed

text \<open>
  A 404 from the metadata API is terminal: after a transient 500 and then a
  404, the query stops after two calls with 0, having waited 2 s once.
\<close>

theorem cloud_duration_404_terminal:
  assumes "api 1 = ApiFailure (Some 500)" and "api 2 = ApiFailure (Some 404)"
  shows "get_video_duration_from_cloudinary True api = \<lparr>cr_value = 0, cr_calls = 2, cr_sleeps = [2000]\<rparr>"
  using assms by (simp add: get_video_duration_from_cloudinary_def eval_nat_numeral)

theorem cloud_duration_404_terminal_witness:
  "get_video_duration_from_cloudinary True
     (\<lambda>k. if k = 1 then ApiFailure (Some 500) else ApiFailure (Some 404)) =
   \<lparr>cr_value = 0, cr_calls = 2, cr_sleeps = [2000]\<rparr>"
  by (rule cloud_duration_404_terminal) simp_all

end
