(* ===== verification/Course_Data.thy ===== *)
theory Course_Data
  imports Course_Prelude
begin

text \<open>
  The course document of \<open>src/server/models/course.model.ts\<close>: the embedded content
  items (\<open>ICourseData\<close>, \<open>courseDataSchema\<close>), their questions and links, and the
  course itself (\<open>ICourse\<close>, \<open>courseSchema\<close>), restricted to the fields the
  content pipeline reads or writes. Mongoose's strict mode is part of the model:
  a field that the schema does not declare is dropped when a document is written
  (\<open>persist_item\<close>).
\<close>

text \<open>
  The \<open>user\<close> of a question as the JavaScript code sees it: the schema stores an
  ObjectId reference (\<open>typeof\<close> is \<open>"object"\<close>); a plain string only appears in
  hand-built data; the field may be missing.
\<close>

datatype js_user = UserRef string | UserText string | UserMissing

text \<open>
  An answer, stored through \<open>questionReplies: [Object]\<close> as the plain object
  \<open>addAnswer\<close> builds: its \<open>_id\<close>, the id of the user who wrote it, the text.
\<close>

record answer =
  a_id :: string
  a_user :: string
  a_text :: string

text \<open>A question (\<open>commentSchema\<close>): its subdocument id, user, text and replies.\<close>

record question =
  q_user :: js_user
  q_text :: string
  q_id :: string
  q_replies :: "answer list"

record link =
  link_title :: string
  link_url :: string

text \<open>
  One lecture (\<open>ICourseData\<close> with the fields \<open>uploadCourse\<close> adds:
  \<open>videoPublicId\<close>, \<open>storageType\<close>). \<open>item_id\<close> is the subdocument \<open>_id\<close>,
  absent until the item is first persisted. A link is \<open>None\<close> when the array
  holds a non-object; \<open>questions\<close> is \<open>None\<close> when the field was deleted.
\<close>

record content_item =
  item_id :: "string option"
  title :: string
  description :: string
  videoUrl :: string
  videoPublicId :: "string option"
  storageType :: "string option"
  videoThumbnail :: "(string \<times> string) option"
  videoSection :: string
  videoLength :: int
  videoPlayer :: string
  links :: "link option list"
  suggestion :: string
  questions :: "question list option"

text \<open>
  A reply to a review (the \<open>commentReplies\<close> subdocument of \<open>reviewSchema\<close>) and a
  review (\<open>reviewSchema\<close> with its timestamps, as numbers of milliseconds). The
  \<open>user\<close> of both is the ObjectId of the author.
\<close>

record review_reply =
  rr_user :: string
  rr_comment :: string
  rr_attachments :: "string list"
  rr_created :: nat

record review =
  rv_id :: string
  rv_user :: string
  rv_rating :: rat
  rv_text :: string
  rv_attachments :: "string list"
  rv_replies :: "review_reply list"
  rv_created :: nat
  rv_updated :: nat

text \<open>
  A course (\<open>courseSchema\<close>): the fields the handlers read or write, with the
  aggregates \<open>ratings\<close> (the rounded average of the reviews) and \<open>purchased\<close>.
\<close>

record course =
  course_id :: string
  name :: string
  price :: int
  thumbnail :: "(string \<times> string) option"
  courseData :: "content_item list"
  reviews :: "review list"
  ratings :: rat
  purchased :: int
  course_description :: string
  categories :: string
  created_at :: nat

text \<open>
  \<open>courseDataSchema\<close> declares no \<open>videoPublicId\<close> and no \<open>storageType\<close> path,
  so a strict-mode write keeps neither.
\<close>

definition persist_item :: "content_item \<Rightarrow> content_item" where
  "persist_item v = v\<lparr>videoPublicId := None, storageType := None\<rparr>"

definition persist_course :: "course \<Rightarrow> course" where
  "persist_course c = c\<lparr>courseData := map persist_item (courseData c)\<rparr>"

lemma persist_item_public_id [simp]: "videoPublicId (persist_item v) = None"
  by (simp add: persist_item_def)

lemma persist_item_keeps [simp]:
  "title (persist_item v) = title v"
  "videoSection (persist_item v) = videoSection v"
  "item_id (persist_item v) = item_id v"
  "videoLength (persist_item v) = videoLength v"
  by (simp_all add: persist_item_def)

lemma persist_course_keeps [simp]:
  "course_id (persist_course c) = course_id c"
  "name (persist_course c) = name c"
  "thumbnail (persist_course c) = thumbnail c"
  "length (courseData (persist_course c)) = length (courseData c)"
  "reviews (persist_course c) = reviews c"
  "ratings (persist_course c) = ratings c"
  "purchased (persist_course c) = purchased c"
  "price (persist_course c) = price c"
  "course_description (persist_course c) = course_description c"
  "categories (persist_course c) = categories c" "created_at (persist_course c) = created_at c"
  by (simp_all add: persist_course_def)

lemma persist_course_sections [simp]:
  "map videoSection (courseData (persist_course c)) = map videoSection (courseData c)"
  by (simp add: persist_course_def comp_def)

lemma persist_course_public_ids: "list_all (\<lambda>v. videoPublicId v = None) (courseData (persist_course c))"
  by (simp add: persist_course_def list_all_iff)

end
