(* ===== verification/Organizer.thy ===== *)
theory Organizer
  imports Course_Data "HOL-Library.Product_Lexorder"
begin

text \<open>
  The section organizer: the ordering and renumbering of a course's content list that
  \<open>uploadCourse\<close> and \<open>editCourse\<close> of
  \<open>src/server/controller/course.controller.ts\<close> perform before writing the document.
  Both sort with \<open>Array.prototype.sort\<close> and an inline comparator: by section label
  (\<open>localeCompare\<close>), then by the number of the first \<open>Video <digits>\<close> in the
  title when both titles have a non-zero one, else by title. The comparator of
  \<open>uploadCourse\<close> uses the regular expression \<open>/Video (\d+)/\<close>, the one of
  \<open>editCourse\<close> adds the \<open>i\<close> flag. \<open>editCourse\<close> then renumbers titles of the
  exact form \<open>Video <digits>\<close> to the 1-based position within their section and
  cleans questions and links.

  \<open>Array.prototype.sort\<close> is stable (ECMAScript 2019); for a comparator that is a
  consistent total preorder on the array every stable sort gives the same result, which
  \<open>js_sort\<close>, a stable insertion sort, computes. For an inconsistent comparator the
  order is implementation-defined; the comparators here can be inconsistent
  (within one section, \<open>Z Video 1\<close> precedes \<open>A Video 2\<close> by number,
  \<open>A Video 2\<close> precedes \<open>M intro\<close> by title and \<open>M intro\<close> precedes
  \<open>Z Video 1\<close> by title), and for those inputs \<open>js_sort\<close> is one
  admissible result, not V8's.
\<close>

section \<open>Extracting the video number\<close>

definition is_digit :: "char \<Rightarrow> bool" where
  "is_digit c \<longleftrightarrow> CHR ''0'' \<le> c \<and> c \<le> CHR ''9''"

text \<open>\<open>parseInt\<close> of a string of decimal digits.\<close>

definition parse_digits :: "string \<Rightarrow> nat" where
  "parse_digits ds = foldl (\<lambda>n c. 10 * n + (of_char c - 48)) 0 ds"

text \<open>ASCII case folding, which is what the \<open>i\<close> flag does without the \<open>u\<close> flag.\<close>

definition ascii_lower :: "char \<Rightarrow> char" where
  "ascii_lower c = (if CHR ''A'' \<le> c \<and> c \<le> CHR ''Z'' then char_of (of_char c + 32 :: nat) else c)"

text \<open>
  A match of \<open>Video (\d+)\<close> starting at the first character of \<open>s\<close>: the group is
  the longest run of digits after \<open>"Video "\<close> (the quantifier is greedy).
\<close>

definition match_video_at :: "bool \<Rightarrow> string \<Rightarrow> nat option" where
  "match_video_at ci s =
     (let p = take 6 s; ds = takeWhile is_digit (drop 6 s) in
      if (if ci then map ascii_lower p = ''video '' else p = ''Video '') \<and> ds \<noteq> []
      then Some (parse_digits ds) else None)"

text \<open>\<open>title.match(re)\<close> without the \<open>g\<close> flag: the leftmost match.\<close>

fun first_video_match :: "bool \<Rightarrow> string \<Rightarrow> nat option" where
  "first_video_match ci [] = None"
| "first_video_match ci (c # cs) =
     (case match_video_at ci (c # cs) of Some n \<Rightarrow> Some n | None \<Rightarrow> first_video_match ci cs)"

text \<open>\<open>extractNumber\<close>: \<open>match ? parseInt(match[1]) : 0\<close>.\<close>

definition extract_number :: "bool \<Rightarrow> string \<Rightarrow> nat" where
  "extract_number ci t = (case first_video_match ci t of Some n \<Rightarrow> n | None \<Rightarrow> 0)"

section \<open>The comparators\<close>

text \<open>The comparator of \<open>uploadCourse\<close> (\<open>if (aNum && bNum)\<close>, case-sensitive).\<close>

definition compare_upload :: "content_item \<Rightarrow> content_item \<Rightarrow> int" where
  "compare_upload a b =
     (let sc = locale_compare (videoSection a) (videoSection b) in
      if sc \<noteq> 0 then sc
      else (let an = extract_number False (title a); bn = extract_number False (title b) in
            if an \<noteq> 0 \<and> bn \<noteq> 0 then int an - int bn
            else locale_compare (title a) (title b)))"

text \<open>The comparator of \<open>editCourse\<close> (\<open>if (aNum > 0 && bNum > 0)\<close>, flag \<open>i\<close>).\<close>

definition compare_edit :: "content_item \<Rightarrow> content_item \<Rightarrow> int" where
  "compare_edit a b =
     (let sc = locale_compare (videoSection a) (videoSection b) in
      if sc \<noteq> 0 then sc
      else (let an = extract_number True (title a); bn = extract_number True (title b) in
            if 0 < an \<and> 0 < bn then int an - int bn
            else locale_compare (title a) (title b)))"

section \<open>The stable sort\<close>

text \<open>Insertion before the first element that the new one precedes strictly.\<close>

fun insert_cmp :: "('a \<Rightarrow> 'a \<Rightarrow> int) \<Rightarrow> 'a \<Rightarrow> 'a list \<Rightarrow> 'a list" where
  "insert_cmp cmp x [] = [x]"
| "insert_cmp cmp x (y # ys) = (if cmp x y < 0 then x # y # ys else y # insert_cmp cmp x ys)"

definition js_sort :: "('a \<Rightarrow> 'a \<Rightarrow> int) \<Rightarrow> 'a list \<Rightarrow> 'a list" where
  "js_sort cmp xs = foldl (\<lambda>acc x. insert_cmp cmp x acc) [] xs"

section \<open>Renumbering and cleaning in editCourse\<close>

text \<open>\<open>/^Video \d+$/\<close> (case-sensitive, anchored at both ends).\<close>

definition is_generic_title :: "string \<Rightarrow> bool" where
  "is_generic_title t \<longleftrightarrow> take 6 t = ''Video '' \<and> drop 6 t \<noteq> [] \<and> list_all is_digit (drop 6 t)"

text \<open>\<open>q.user.trim() !== ""\<close> for the whitespace a byte string can hold: tab, line feed,
  vertical tab, form feed, carriage return, space and U+00A0; the other Unicode spaces and
  U+FEFF lie outside the 8-bit characters of the model.\<close>

definition is_js_space :: "char \<Rightarrow> bool" where
  "is_js_space c \<longleftrightarrow> of_char c \<in> {9, 10, 11, 12, 13, 32, 160 :: nat}"

definition keep_question :: "question \<Rightarrow> bool" where
  "keep_question q = (case q_user q of UserText u \<Rightarrow> \<not> list_all is_js_space u | _ \<Rightarrow> False)"

text \<open>
  The cleaning of one item: questions whose \<open>user\<close> is not a non-blank string are
  dropped and an empty list deletes the field; non-object links are dropped.
\<close>

definition clean_questions :: "question list option \<Rightarrow> question list option" where
  "clean_questions qs =
     (case qs of
        None \<Rightarrow> None
      | Some l \<Rightarrow> (let l' = filter keep_question l in if l' = [] then None else Some l'))"

definition clean_links :: "link option list \<Rightarrow> link option list" where
  "clean_links ls = filter (\<lambda>l. l \<noteq> None) ls"

text \<open>
  The \<open>data.courseData.map(...)\<close> pass after sorting: bump the section counter,
  rewrite a generic title to \<open>Video <count>\<close>, clean questions and links.
\<close>

fun renumber_items :: "count_obj \<Rightarrow> content_item list \<Rightarrow> content_item list" where
  "renumber_items cnt [] = []"
| "renumber_items cnt (v # vs) =
     (let s = videoSection v; c = count_next cnt s;
          v' = v\<lparr>title := (if is_generic_title (title v) then ''Video '' @ js_count_str c else title v),
                 questions := clean_questions (questions v),
                 links := clean_links (links v)\<rparr>
      in v' # renumber_items (count_store cnt s c) vs)"

definition renumber :: "content_item list \<Rightarrow> content_item list" where
  "renumber vs = renumber_items Map.empty vs"

text \<open>The organization step of \<open>editCourse\<close>: sort, then renumber and clean.\<close>

definition organize_edit :: "content_item list \<Rightarrow> content_item list" where
  "organize_edit vs = renumber (js_sort compare_edit vs)"

text \<open>The organization step of \<open>uploadCourse\<close>: sort only.\<close>

definition organize_upload :: "content_item list \<Rightarrow> content_item list" where
  "organize_upload vs = js_sort compare_upload vs"

section \<open>Predicates and fixtures for the proofs\<close>

text \<open>A comparator orders items of different keys by key, in both directions.\<close>

definition respects_key :: "('a \<Rightarrow> 'k::linorder) \<Rightarrow> ('a \<Rightarrow> 'a \<Rightarrow> int) \<Rightarrow> bool" where
  "respects_key sec cmp \<longleftrightarrow> (\<forall>a b. sec a < sec b \<longrightarrow> cmp a b < 0 \<and> 0 < cmp b a)"

text \<open>A counter object holding only numbers, and the number it holds for a key.\<close>

definition plain_counts :: "count_obj \<Rightarrow> bool" where
  "plain_counts cnt \<longleftrightarrow> (\<forall>s. case cnt s of None \<Rightarrow> True | Some (JNum n) \<Rightarrow> True | Some (JStr t) \<Rightarrow> False)"

definition count_of :: "count_obj \<Rightarrow> string \<Rightarrow> nat" where
  "count_of cnt s = (case cnt s of Some (JNum n) \<Rightarrow> n | _ \<Rightarrow> 0)"

text \<open>An item as the examples use it: only section and title matter to the organizer.\<close>

abbreviation fixture_item :: "string \<Rightarrow> string \<Rightarrow> content_item" where
  "fixture_item s t \<equiv> \<lparr>item_id = None, title = t, description = [], videoUrl = [], videoPublicId = None,
     storageType = None, videoThumbnail = None, videoSection = s, videoLength = 0, videoPlayer = [],
     links = [], suggestion = [], questions = None\<rparr>"

text \<open>The comparator a sort key induces, the reference for \<open>Array.prototype.sort\<close>.\<close>

definition key_cmp :: "('a \<Rightarrow> 'k::linorder) \<Rightarrow> 'a \<Rightarrow> 'a \<Rightarrow> int" where
  "key_cmp f a b = (if f a < f b then -1 else if f b < f a then 1 else 0)"

section \<open>Lemmas on the sort\<close>

lemma mset_insert_cmp [simp]: "mset (insert_cmp cmp x ys) = add_mset x (mset ys)"
  by (induction ys) auto

lemma mset_js_sort: "mset (js_sort cmp xs) = mset xs"
proof -
  have "mset (foldl (\<lambda>acc x. insert_cmp cmp x acc) acc xs) = mset acc + mset xs" for acc
    by (induction xs arbitrary: acc) auto
  then show ?thesis by (simp add: js_sort_def)
qed

lemma set_insert_cmp [simp]: "set (insert_cmp cmp x ys) = insert x (set ys)"
  using mset_insert_cmp [of cmp x ys] by (metis set_mset_add_mset_insert set_mset_mset)

lemma sorted_insert_cmp:
  assumes "respects_key sec cmp" and "sorted (map sec ys)"
  shows "sorted (map sec (insert_cmp cmp x ys))"
  using assms(2)
proof (induction ys)
  case Nil
  then show ?case by simp
next
  case (Cons y ys)
  show ?case
  proof (cases "cmp x y < 0")
    case True
    then have "sec x \<le> sec y"
      using assms(1) unfolding respects_key_def by (meson less_asym not_le_imp_less)
    with True Cons.prems show ?thesis by auto
  next
    case False
    then have "sec y \<le> sec x"
      using assms(1) unfolding respects_key_def by (meson not_le)
    with False Cons.prems Cons.IH show ?thesis by auto
  qed
qed

lemma sorted_js_sort:
  assumes "respects_key sec cmp"
  shows "sorted (map sec (js_sort cmp xs))"
proof -
  have "sorted (map sec acc) \<Longrightarrow> sorted (map sec (foldl (\<lambda>acc x. insert_cmp cmp x acc) acc xs))" for acc
    by (induction xs arbitrary: acc) (auto intro: sorted_insert_cmp [OF assms])
  then show ?thesis by (simp add: js_sort_def)
qed

lemma filter_insert_cmp:
  assumes "respects_key sec cmp" and "sorted (map sec ys)"
  shows "filter (\<lambda>v. sec v = s) (insert_cmp cmp x ys) =
         (if sec x = s then insert_cmp cmp x (filter (\<lambda>v. sec v = s) ys) else filter (\<lambda>v. sec v = s) ys)"
  using assms(2)
proof (induction ys)
  case Nil
  then show ?case by simp
next
  case (Cons y ys)
  have rk: "\<And>a b. sec a < sec b \<Longrightarrow> cmp a b < 0 \<and> 0 < cmp b a"
    using assms(1) unfolding respects_key_def by blast
  from Cons.prems have ys: "sorted (map sec ys)" and ge: "\<forall>z \<in> set ys. sec y \<le> sec z" by auto
  show ?case
  proof (cases "cmp x y < 0")
    case True
    then have le: "sec x \<le> sec y" using rk by (meson less_asym not_le_imp_less)
    show ?thesis
    proof (cases "sec x = s \<and> sec y \<noteq> s")
      case True
      with le have "s < sec y" by auto
      with ge have "filter (\<lambda>v. sec v = s) ys = []" by (fastforce simp: filter_empty_conv)
      with True \<open>cmp x y < 0\<close> show ?thesis by simp
    next
      case False
      with \<open>cmp x y < 0\<close> show ?thesis by auto
    qed
  next
    case False
    then have le: "sec y \<le> sec x" using rk by (meson not_le)
    show ?thesis
    proof (cases "sec x = s \<and> sec y \<noteq> s")
      case True
      with False Cons.IH [OF ys] show ?thesis by simp
    next
      case c: False
      with False Cons.IH [OF ys] show ?thesis by auto
    qed
  qed
qed

lemma filter_js_sort:
  assumes "respects_key sec cmp"
  shows "filter (\<lambda>v. sec v = s) (js_sort cmp xs) = js_sort cmp (filter (\<lambda>v. sec v = s) xs)"
proof -
  let ?ins = "\<lambda>acc x. insert_cmp cmp x acc"
  have "sorted (map sec acc) \<Longrightarrow>
        filter (\<lambda>v. sec v = s) (foldl ?ins acc xs) = foldl ?ins (filter (\<lambda>v. sec v = s) acc) (filter (\<lambda>v. sec v = s) xs)"
    for acc
  proof (induction xs arbitrary: acc)
    case Nil
    then show ?case by simp
  next
    case (Cons x xs)
    have "sorted (map sec (insert_cmp cmp x acc))" by (rule sorted_insert_cmp [OF assms Cons.prems])
    then show ?case
      using Cons.IH filter_insert_cmp [OF assms Cons.prems, of s x] by simp
  qed
  then show ?thesis by (simp add: js_sort_def)
qed

lemma compare_edit_respects: "respects_key videoSection compare_edit"
  by (auto simp: respects_key_def compare_edit_def Let_def locale_compare_def)

lemma compare_upload_respects: "respects_key videoSection compare_upload"
  by (auto simp: respects_key_def compare_upload_def Let_def locale_compare_def)

text \<open>
  Refinement of the reference sort: on a list where the comparator's sign agrees with a
  linear key, \<^const>\<open>js_sort\<close> is \<^const>\<open>sort_key\<close> of that key.
\<close>

lemma insert_cmp_cong:
  "(\<forall>y \<in> set ys. (cmp x y < 0) = (cmp' x y < 0)) \<Longrightarrow> insert_cmp cmp x ys = insert_cmp cmp' x ys"
  by (induction ys) auto

lemma js_sort_cong:
  assumes "\<forall>a \<in> set xs. \<forall>b \<in> set xs. (cmp a b < 0) = (cmp' a b < 0)"
  shows "js_sort cmp xs = js_sort cmp' xs"
proof -
  have "set acc \<union> set xs \<subseteq> A \<Longrightarrow> \<forall>a \<in> A. \<forall>b \<in> A. (cmp a b < 0) = (cmp' a b < 0) \<Longrightarrow>
        foldl (\<lambda>acc x. insert_cmp cmp x acc) acc xs = foldl (\<lambda>acc x. insert_cmp cmp' x acc) acc xs" for acc A
  proof (induction xs arbitrary: acc)
    case (Cons x xs)
    have "insert_cmp cmp x acc = insert_cmp cmp' x acc"
      using Cons.prems by (intro insert_cmp_cong) auto
    moreover have "set (insert_cmp cmp x acc) \<union> set xs \<subseteq> A"
      using Cons.prems by (auto simp: set_insert_cmp)
    ultimately show ?case using Cons.IH Cons.prems(2) by simp
  qed simp
  from this [of "[]" "set xs"] assms show ?thesis by (simp add: js_sort_def)
qed

lemma key_cmp_respects: "respects_key f (key_cmp f)"
  by (auto simp: respects_key_def key_cmp_def)

lemma insert_cmp_same_key:
  "\<forall>y \<in> set ys. f y = f x \<Longrightarrow> insert_cmp (key_cmp f) x ys = ys @ [x]"
  by (induction ys) (auto simp: key_cmp_def)

lemma js_sort_same_key:
  "\<forall>y \<in> set xs. f y = k \<Longrightarrow> js_sort (key_cmp f) xs = xs"
proof -
  have "\<forall>y \<in> set acc \<union> set xs. f y = k \<Longrightarrow> foldl (\<lambda>acc x. insert_cmp (key_cmp f) x acc) acc xs = acc @ xs" for acc
    by (induction xs arbitrary: acc) (auto simp: insert_cmp_same_key)
  from this [of "[]"] show "\<forall>y \<in> set xs. f y = k \<Longrightarrow> js_sort (key_cmp f) xs = xs" by (simp add: js_sort_def)
qed

lemma js_sort_key_cmp: "js_sort (key_cmp f) xs = sort_key f xs"
proof -
  have "sort_key f xs = js_sort (key_cmp f) xs"
  proof (rule properties_for_sort_key)
    show "mset (js_sort (key_cmp f) xs) = mset xs" by (rule mset_js_sort)
    show "sorted (map f (js_sort (key_cmp f) xs))" by (rule sorted_js_sort [OF key_cmp_respects])
    fix k
    show "[x \<leftarrow> js_sort (key_cmp f) xs. f k = f x] = [x \<leftarrow> xs. f k = f x]"
      using filter_js_sort [OF key_cmp_respects, of f "f k" xs] js_sort_same_key [of "[x \<leftarrow> xs. f x = f k]" f "f k"]
      by (simp add: eq_commute)
  qed
  then show ?thesis by simp
qed

theorem js_sort_refines_sort_key:
  assumes "\<forall>a \<in> set xs. \<forall>b \<in> set xs. (cmp a b < 0) = (f a < f b)"
  shows "js_sort cmp xs = sort_key f xs"
proof -
  have "js_sort cmp xs = js_sort (key_cmp f) xs"
    using assms by (intro js_sort_cong) (auto simp: key_cmp_def)
  then show ?thesis by (simp add: js_sort_key_cmp)
qed

lemma compare_edit_numbered:
  "0 < extract_number True (title a) \<Longrightarrow> 0 < extract_number True (title b) \<Longrightarrow>
   (compare_edit a b < 0) = ((videoSection a, extract_number True (title a)) < (videoSection b, extract_number True (title b)))"
  by (auto simp: compare_edit_def Let_def locale_compare_def less_prod_def)

lemma sorted_snd_same_fst:
  "sorted (map (\<lambda>v. (k v, f v)) ys) \<Longrightarrow> \<forall>v \<in> set ys. k v = s \<Longrightarrow> sorted (map f ys)"
  by (induction ys) (auto simp: less_eq_prod_def)

section \<open>Lemmas on renumbering\<close>

lemma renumber_items_sections [simp]: "map videoSection (renumber_items cnt xs) = map videoSection xs"
  by (induction xs arbitrary: cnt) (auto simp: Let_def)

lemma length_renumber_items [simp]: "length (renumber_items cnt xs) = length xs"
  by (induction xs arbitrary: cnt) (auto simp: Let_def)

lemma count_next_plain_counts:
  assumes "plain_counts cnt" and "proto_string s = None"
  shows "count_next cnt s = JNum (Suc (count_of cnt s))"
proof -
  have "case cnt s of None \<Rightarrow> True | Some (JNum n) \<Rightarrow> True | Some (JStr t) \<Rightarrow> False"
    using assms(1) unfolding plain_counts_def by blast
  with assms(2) show ?thesis
    by (cases "cnt s") (auto simp: count_next_def count_of_def split: js_count.splits)
qed

lemma renumber_items_title:
  assumes "\<forall>v \<in> set xs. proto_string (videoSection v) = None" and "plain_counts cnt" and "i < length xs"
  shows "title (renumber_items cnt xs ! i) =
           (if is_generic_title (title (xs ! i))
            then ''Video '' @ show_nat (count_of cnt (videoSection (xs ! i)) +
                   count_where (\<lambda>v. videoSection v = videoSection (xs ! i)) (take (Suc i) xs))
            else title (xs ! i))"
  using assms
proof (induction xs arbitrary: cnt i)
  case Nil
  then show ?case by simp
next
  case (Cons v vs)
  let ?s = "videoSection v"
  have ps: "proto_string ?s = None" using Cons.prems(1) by simp
  have nx: "count_next cnt ?s = JNum (Suc (count_of cnt ?s))"
    by (rule count_next_plain_counts [OF Cons.prems(2) ps])
  let ?cnt' = "count_store cnt ?s (JNum (Suc (count_of cnt ?s)))"
  have st: "?cnt' = cnt(?s \<mapsto> JNum (Suc (count_of cnt ?s)))" by (simp add: count_store_plain ps)
  have pc': "plain_counts ?cnt'" using Cons.prems(2) st by (auto simp: plain_counts_def)
  show ?case
  proof (cases i)
    case 0
    then show ?thesis using nx by (simp add: Let_def)
  next
    case (Suc j)
    with Cons.prems have j: "j < length vs" by simp
    have IH: "title (renumber_items ?cnt' vs ! j) =
      (if is_generic_title (title (vs ! j))
       then ''Video '' @ show_nat (count_of ?cnt' (videoSection (vs ! j)) +
              count_where (\<lambda>w. videoSection w = videoSection (vs ! j)) (take (Suc j) vs))
       else title (vs ! j))"
      using Cons.IH [OF _ pc' j] Cons.prems(1) by simp
    have co: "count_of ?cnt' (videoSection (vs ! j)) =
              count_of cnt (videoSection (vs ! j)) + (if videoSection (vs ! j) = ?s then 1 else 0)"
      by (simp only: st) (simp add: count_of_def)
    show ?thesis using Suc nx IH co by (simp add: Let_def)
  qed
qed

lemma renumber_nth:
  assumes "\<forall>v \<in> set xs. proto_string (videoSection v) = None" and "i < length xs"
  shows "videoSection (renumber xs ! i) = videoSection (xs ! i) \<and>
         title (renumber xs ! i) =
           (if is_generic_title (title (xs ! i))
            then ''Video '' @ show_nat (count_where (\<lambda>v. videoSection v = videoSection (xs ! i)) (take (Suc i) xs))
            else title (xs ! i))"
proof
  have l: "i < length (renumber xs)" using assms(2) by (simp add: renumber_def)
  have "videoSection (renumber xs ! i) = map videoSection (renumber xs) ! i" using l by simp
  also have "\<dots> = map videoSection xs ! i" by (simp add: renumber_def)
  also have "\<dots> = videoSection (xs ! i)" using assms(2) by simp
  finally show "videoSection (renumber xs ! i) = videoSection (xs ! i)" .
next
  have "plain_counts Map.empty" by (simp add: plain_counts_def)
  from renumber_items_title [OF assms(1) this assms(2)]
  show "title (renumber xs ! i) =
           (if is_generic_title (title (xs ! i))
            then ''Video '' @ show_nat (count_where (\<lambda>v. videoSection v = videoSection (xs ! i)) (take (Suc i) xs))
            else title (xs ! i))"
    by (simp add: renumber_def count_of_def)
qed

section \<open>Properties of the organizer\<close>

text \<open>
  The example of the specification: items A/"Video 2", A/"Video 1",
  B/"Intro" are organized by \<open>editCourse\<close> into A/"Video 1", A/"Video 2", B/"Intro".
\<close>

theorem organize_spec_example:
  "map (\<lambda>v. (videoSection v, title v))
     (organize_edit [fixture_item ''A'' ''Video 2'', fixture_item ''A'' ''Video 1'', fixture_item ''B'' ''Intro''])
   = [(''A'', ''Video 1''), (''A'', ''Video 2''), (''B'', ''Intro'')]"
  by code_simp

text \<open>
  Claim C4: the sort of \<open>editCourse\<close> is a permutation and groups the items by
  section in label order; when every title carries a positive \<open>Video N\<close> number
  (the comparator is then a consistent order, so every stable sort, V8's included,
  gives this result) the numbers of each section's items ascend.
\<close>

theorem edit_sort_groups_by_section:
  "mset (js_sort compare_edit xs) = mset xs \<and>
   sorted (map videoSection (js_sort compare_edit xs)) \<and>
   ((\<forall>v \<in> set xs. 0 < extract_number True (title v)) \<longrightarrow>
     sorted (map (\<lambda>v. extract_number True (title v))
       (filter (\<lambda>v. videoSection v = s) (js_sort compare_edit xs))))"
proof (intro conjI impI)
  show "mset (js_sort compare_edit xs) = mset xs" by (rule mset_js_sort)
  show "sorted (map videoSection (js_sort compare_edit xs))" by (rule sorted_js_sort [OF compare_edit_respects])
  assume "\<forall>v \<in> set xs. 0 < extract_number True (title v)"
  then have "js_sort compare_edit xs = sort_key (\<lambda>v. (videoSection v, extract_number True (title v))) xs"
    by (intro js_sort_refines_sort_key) (simp add: compare_edit_numbered)
  then have "sorted (map (\<lambda>v. (videoSection v, extract_number True (title v)))
      (filter (\<lambda>v. videoSection v = s) (js_sort compare_edit xs)))"
    by (simp add: sorted_filter)
  then show "sorted (map (\<lambda>v. extract_number True (title v))
      (filter (\<lambda>v. videoSection v = s) (js_sort compare_edit xs)))"
    by (rule sorted_snd_same_fst [where s = s]) simp
qed

theorem edit_sort_groups_by_section_witness:
  "sorted (map (\<lambda>v. extract_number True (title v))
     (filter (\<lambda>v. videoSection v = ''A'') (js_sort compare_edit [fixture_item ''A'' ''Video 10'', fixture_item ''B'' ''Video 1'', fixture_item ''A'' ''Video 9''])))"
proof -
  have h: "\<forall>v \<in> set [fixture_item ''A'' ''Video 10'', fixture_item ''B'' ''Video 1'', fixture_item ''A'' ''Video 9'']. 0 < extract_number True (title v)" by code_simp
  from edit_sort_groups_by_section [of "[fixture_item ''A'' ''Video 10'', fixture_item ''B'' ''Video 1'', fixture_item ''A'' ''Video 9'']" "''A''"] h
  show ?thesis by blast
qed

text \<open>
  The same holds for the sort of \<open>uploadCourse\<close>.
\<close>

theorem upload_sort_groups_by_section:
  "mset (organize_upload xs) = mset xs \<and>
   sorted (map videoSection (organize_upload xs)) \<and>
   filter (\<lambda>v. videoSection v = s) (organize_upload xs) =
     organize_upload (filter (\<lambda>v. videoSection v = s) xs)"
  unfolding organize_upload_def
  using mset_js_sort sorted_js_sort [OF compare_upload_respects] filter_js_sort [OF compare_upload_respects]
  by blast

text \<open>
  Claim C29: renumbering keeps every item's section and rewrites exactly the titles of
  the form "Video <digits>", to "Video k" where k is the item's 1-based position among
  the items of its section (custom titles count), provided no section is named like a
  member of \<open>Object.prototype\<close>.
\<close>

theorem renumber_positions:
  assumes "\<forall>v \<in> set xs. proto_string (videoSection v) = None" and "i < length xs"
  shows "videoSection (renumber xs ! i) = videoSection (xs ! i) \<and>
         title (renumber xs ! i) =
           (if is_generic_title (title (xs ! i))
            then ''Video '' @ show_nat (count_where (\<lambda>v. videoSection v = videoSection (xs ! i)) (take (Suc i) xs))
            else title (xs ! i))"
  using renumber_nth [OF assms] .

theorem renumber_positions_witness:
  "videoSection (renumber [fixture_item ''A'' ''Video 7'', fixture_item ''A'' ''Intro'', fixture_item ''A'' ''Video 3''] ! 2)
     = ''A'' \<and>
   title (renumber [fixture_item ''A'' ''Video 7'', fixture_item ''A'' ''Intro'', fixture_item ''A'' ''Video 3''] ! 2)
     = ''Video 3''"
proof -
  let ?xs = "[fixture_item ''A'' ''Video 7'', fixture_item ''A'' ''Intro'', fixture_item ''A'' ''Video 3'']"
  have p: "\<forall>v \<in> set ?xs. proto_string (videoSection v) = None"
    by (simp add: proto_string_def object_proto_methods_def)
  have g: "is_generic_title ''Video 3''" by code_simp
  have c: "show_nat (count_where (\<lambda>v. videoSection v = ''A'') (take 3 ?xs)) = ''3''" by code_simp
  show ?thesis using renumber_positions [OF p, of 2] g c by (simp add: numeral_3_eq_3)
qed

text \<open>
  A section named "constructor" reads the inherited
  \<open>Object.prototype.constructor\<close> from the counter object, so its first generic
  video is renamed "Video function Object() { [native code] }1".
\<close>

theorem renumber_constructor_section:
  "map title (organize_edit [fixture_item ''constructor'' ''Video 1'']) =
     [''Video function Object() { [native code] }1'']"
  by code_simp

text \<open>
  Claim C10: on items whose titles all contain \<open>Video N\<close>, the sort of \<open>editCourse\<close>
  refines the stable sort by the key (section, N): it is \<^const>\<open>sort_key\<close> of that key.
\<close>

theorem edit_sort_refines_key_sort:
  assumes "\<forall>v \<in> set xs. 0 < extract_number True (title v)"
  shows "js_sort compare_edit xs = sort_key (\<lambda>v. (videoSection v, extract_number True (title v))) xs"
  using assms by (intro js_sort_refines_sort_key) (simp add: compare_edit_numbered)

theorem edit_sort_refines_key_sort_witness:
  "js_sort compare_edit [fixture_item ''B'' ''Video 1'', fixture_item ''A'' ''Video 10'', fixture_item ''A'' ''Video 9'']
   = sort_key (\<lambda>v. (videoSection v, extract_number True (title v)))
       [fixture_item ''B'' ''Video 1'', fixture_item ''A'' ''Video 10'', fixture_item ''A'' ''Video 9'']"
  by (rule edit_sort_refines_key_sort) code_simp

end
