(* ===== verification/World.thy ===== *)
theory World
  imports Course_Data Upload Duration
begin

text \<open>
  The state the course handlers of \<open>src/server/controller/course.controller.ts\<close>
  share, and the environment one request meets. The world holds the MongoDB course
  collection (by id), the Redis key space, the set of asset ids that exist at
  Cloudinary, the log of calls made to Cloudinary (in issue order) and a counter for
  fresh ObjectIds. The environment fixes, for one request, what the outside services
  answer: configuration, storage usage, each upload and destroy call (and the time a destroy takes, which
  orders the completions of concurrent destroys), the duration
  probes, whether the database write succeeds and whether Redis is reachable.
  This theory also holds \<open>deleteFromCloudinary\<close> and the cache key space with
  \<open>clearAllCacheForCourse\<close>, which every mutation uses.
\<close>

section \<open>State and environment\<close>

text \<open>
  A user as the handlers see it (\<open>user.model\<close> and the \<open>isAuthenticated\<close>
  middleware are not part of the sources; the fields are those the handlers read).
  An entry of \<open>courses\<close> is a subdocument with its own \<open>_id\<close> and the
  \<open>courseId\<close> that \<open>createOrder\<close> pushes.
\<close>

record user_course =
  uc_id :: string
  uc_course :: "string option"

record user =
  u_id :: string
  u_name :: string
  u_email :: string
  u_role :: string
  u_courses :: "user_course list"

text \<open>A notification (\<open>NotificationModel.create\<close>): recipient, title, message.\<close>

record notification =
  n_user :: string
  n_title :: string
  n_message :: string

text \<open>
  An order (\<open>orderSchema\<close> of \<open>src/server/models/order.model.ts\<close>): course,
  user, the three \<open>payment_info\<close> fields (\<open>None\<close> when absent) and the creation
  time.
\<close>

record order =
  o_id :: string
  o_course :: string
  o_user :: string
  o_pay_id :: "string option"
  o_pay_status :: "string option"
  o_pay_type :: "string option"
  o_created :: nat

datatype cache_val = CVCourse course | CVListing "(course \<times> nat) list" | CVContent course | CVUser user

record cache_entry =
  ce_val :: cache_val
  ce_ttl :: "nat option"

text \<open>A call to Cloudinary: an upload or a destroy, with the asset id and resource type.\<close>

datatype remote_op = RUpload string string | RDestroy string string

record world =
  store :: "string \<Rightarrow> course option"
  cache :: "string \<Rightarrow> cache_entry option"
  assets :: "string set"
  remote_log :: "remote_op list"
  next_oid :: nat
  users :: "string \<Rightarrow> user option"
  orders :: "order list"
  notifications :: "notification list"
  files :: "string set"
  mails :: "(string \<times> string) list"

text \<open>
  The environment of one request: the outcomes of the external services. \<open>db_ok\<close> is
  whether MongoDB writes (and the queries of the handlers that do not distinguish reads)
  succeed; \<open>db_find_ok n\<close> is whether the \<open>n\<close>-th \<open>findById\<close> of the request
  (from 0) returns instead of throwing, for the handlers whose reads are modelled one by one.
\<close>

record env =
  cfg_ok :: bool
  storage_api_ok :: bool
  storage_free_mb :: int
  video_svc :: "string \<Rightarrow> upload_service"
  image_svc :: "string \<Rightarrow> uploaded option"
  destroy_ok :: "string \<Rightarrow> bool"
  destroy_latency :: "string \<Rightarrow> nat"
  media :: media_env
  db_ok :: bool
  db_find_ok :: "nat \<Rightarrow> bool"
  redis_up :: bool
  now :: nat
  mail_ok :: bool
  mv_ok :: "string \<Rightarrow> bool"
  payment_succeeded :: "string \<Rightarrow> bool"

text \<open>
  The handlers' error responses: 400, 404, 500, 403 and 401 with their messages, and the 500 of
  \<open>uploadCourse\<close> that reports the index of the video whose upload failed
  (\<open>uploadedVideoIndex\<close>).
\<close>

datatype http_error = BadRequest string | NotFound string | ServerError string | VideoUploadFailed nat
  | Forbidden string | Unauthorized string

text \<open>
  Every stored course is free of asset ids: no stored item has a \<open>videoPublicId\<close>.
\<close>

definition store_pid_free :: "world \<Rightarrow> bool" where
  "store_pid_free w \<longleftrightarrow> (\<forall>c \<in> ran (store w). list_all (\<lambda>v. videoPublicId v = None) (courseData c))"

text \<open>The asset ids of the video destroys in a stretch of the call log.\<close>

definition video_destroys :: "remote_op list \<Rightarrow> string list" where
  "video_destroys ops = concat (map (\<lambda>op. case op of RDestroy p k \<Rightarrow> if k = ''video'' then [p] else [] | _ \<Rightarrow> []) ops)"

text \<open>
  No stored user holds two \<open>courses\<close> entries with the same \<open>courseId\<close> (the
  entries that \<open>createOrder\<close> and \<open>fixMissingCourses\<close> push).
\<close>

definition users_ok :: "world \<Rightarrow> bool" where
  "users_ok w \<longleftrightarrow> (\<forall>u \<in> ran (users w). distinct (List.map_filter uc_course (u_courses u)))"

section \<open>Identifiers\<close>

definition is_hex :: "char \<Rightarrow> bool" where
  "is_hex c \<longleftrightarrow> c \<in> set ''0123456789abcdefABCDEF''"

text \<open>\<open>mongoose.Types.ObjectId.isValid\<close> on a string: 24 hex digits or 12 characters.\<close>

definition is_valid_object_id :: "string \<Rightarrow> bool" where
  "is_valid_object_id s \<longleftrightarrow> length s = 12 \<or> (length s = 24 \<and> list_all is_hex s)"

text \<open>The \<open>n\<close>-th fresh ObjectId, as 24 hexadecimal digits. This is a device of
  the model, not a translation: MongoDB's driver generates the ids of new documents, and
  the model only needs distinct strings for successive documents (the counter
  \<open>next_oid\<close> of the world).\<close>

definition oid_of :: "nat \<Rightarrow> string" where
  "oid_of n = replicate (24 - length (show_nat n)) (CHR ''0'') @ show_nat n"

text \<open>
  \<open>CourseModel.findById(courseId)\<close> followed by the handlers' \<open>if (!course)\<close>
  check: a string that is not an ObjectId makes Mongoose throw a \<open>CastError\<close>,
  which the handlers' \<open>catch\<close> turns into a 500.
\<close>

definition find_course :: "string \<Rightarrow> world \<Rightarrow> http_error + course" where
  "find_course cid w =
     (if \<not> is_valid_object_id cid then Inl (ServerError ''CastError'')
      else case store w cid of None \<Rightarrow> Inl (NotFound ''Course not found'') | Some c \<Rightarrow> Inr c)"

section \<open>Cloudinary\<close>

text \<open>
  \<open>cloudinary.uploader.upload\<close> for an image (thumbnails; no retry): the asset on
  success, a throw otherwise.
\<close>

definition upload_image :: "env \<Rightarrow> string \<Rightarrow> world \<Rightarrow> uploaded option \<times> world" where
  "upload_image e path w =
     (case image_svc e path of
        None \<Rightarrow> (None, w)
      | Some up \<Rightarrow> (Some up, w\<lparr>assets := insert (public_id up) (assets w),
                                remote_log := remote_log w @ [RUpload (public_id up) ''image'']\<rparr>))"

text \<open>A successful video upload leaves its asset at the service and in the log.\<close>

definition record_upload :: "uploaded \<Rightarrow> world \<Rightarrow> world" where
  "record_upload up w =
     w\<lparr>assets := insert (public_id up) (assets w), remote_log := remote_log w @ [RUpload (public_id up) ''video'']\<rparr>"

text \<open>\<open>NotificationModel.create({ user, title, message })\<close>: appends a notification.\<close>

definition notify :: "string \<Rightarrow> string \<Rightarrow> string \<Rightarrow> world \<Rightarrow> world" where
  "notify u t m w = w\<lparr>notifications := notifications w @ [\<lparr>n_user = u, n_title = t, n_message = m\<rparr>]\<rparr>"

text \<open>
  \<open>deleteFromCloudinary(publicId, resourceType)\<close>: configuration check, then
  \<open>uploader.destroy\<close>. A call that does not throw removes the asset (a
  \<open>result\<close> other than \<open>'ok'\<close> is only logged); the boolean says whether the
  call returned normally, \<open>False\<close> meaning the function rethrew.
\<close>

definition delete_from_cloudinary :: "env \<Rightarrow> string \<Rightarrow> string \<Rightarrow> world \<Rightarrow> bool \<times> world" where
  "delete_from_cloudinary e pid kind w =
     (if \<not> cfg_ok e then (False, w)
      else (let w' = w\<lparr>remote_log := remote_log w @ [RDestroy pid kind]\<rparr> in
            if destroy_ok e pid then (True, w'\<lparr>assets := assets w - {pid}\<rparr>) else (False, w')))"

text \<open>
  Best-effort deletion of a list of assets, every failure swallowed: the
  \<open>Promise.allSettled\<close> clean-up of \<open>uploadCourse\<close> and the loop of
  \<open>deleteCourse\<close> both issue one destroy per id, in order.
\<close>

fun delete_all_best_effort :: "env \<Rightarrow> string \<Rightarrow> string list \<Rightarrow> world \<Rightarrow> world" where
  "delete_all_best_effort e kind [] w = w"
| "delete_all_best_effort e kind (p # ps) w =
     delete_all_best_effort e kind ps (snd (delete_from_cloudinary e p kind w))"

text \<open>\<open>checkCloudinaryStorage\<close>: the usage call, then \<open>availableSpace > 100\<close> MB.\<close>

definition check_storage :: "env \<Rightarrow> bool option" where
  "check_storage e = (if storage_api_ok e then Some (100 < storage_free_mb e) else None)"

section \<open>The cache key space\<close>

text \<open>The single-course keys \<open>clearAllCacheForCourse\<close> deletes, in its order.\<close>

definition course_cache_keys :: "string \<Rightarrow> string list" where
  "course_cache_keys cid =
     [cid, ''course:'' @ cid, ''course_'' @ cid, ''courses:'' @ cid, ''singleCourse:'' @ cid,
      ''courseById:'' @ cid, ''courseContent:'' @ cid]"

text \<open>A key matched by the Redis glob \<open>allCourses:*\<close>.\<close>

definition is_listing_key :: "string \<Rightarrow> bool" where
  "is_listing_key k \<longleftrightarrow> take 11 k = ''allCourses:''"

text \<open>
  \<open>clearAllCacheForCourse\<close>: delete the seven course keys, then every key that
  \<open>KEYS allCourses:*\<close> returns. Errors are caught and only logged: with Redis
  unreachable the first \<open>del\<close> throws and nothing is deleted.
\<close>

definition clear_all_cache_for_course :: "env \<Rightarrow> string \<Rightarrow> world \<Rightarrow> world" where
  "clear_all_cache_for_course e cid w =
     (if redis_up e
      then w\<lparr>cache := (\<lambda>k. if k \<in> set (course_cache_keys cid) \<or> is_listing_key k then None else cache w k)\<rparr>
      else w)"

text \<open>The keys whose entries could serve data of course \<open>cid\<close>.\<close>

definition course_scoped_key :: "string \<Rightarrow> string \<Rightarrow> bool" where
  "course_scoped_key cid k \<longleftrightarrow> k \<in> set (course_cache_keys cid) \<or> is_listing_key k"

section \<open>A fixture\<close>

text \<open>
  An environment in which every service answers, except the upload of \<open>/tmp/b\<close>,
  which keeps failing; the metadata API reports 61 seconds. The proofs that a
  theorem applies to a concrete request use it with an empty world.
\<close>

definition demo_env :: env where "demo_env = \<lparr>cfg_ok = True, storage_api_ok = True, storage_free_mb = 5000,
  video_svc = (\<lambda>p a. if p = ''/tmp/b'' then Inl (RemoteFailure ''503'') else Inr \<lparr>public_id = ''vid'' @ p, secure_url = ''https://cdn'' @ p\<rparr>),
  image_svc = (\<lambda>p. Some \<lparr>public_id = ''thumb'', secure_url = ''https://cdn/thumb''\<rparr>),
  destroy_ok = (\<lambda>_. True), destroy_latency = (\<lambda>_. 0),
  media = \<lparr>me_file = (\<lambda>_. FileMissing), me_probe = (\<lambda>_. ProbeError), me_cfg = True, me_api = (\<lambda>_ _. ApiResource (Some 61) False), me_document = False, me_playback = (\<lambda>_. PlaybackError)\<rparr>,
  db_ok = True, db_find_ok = (\<lambda>_. True), redis_up = True, now = 1000, mail_ok = True, mv_ok = (\<lambda>_. True), payment_succeeded = (\<lambda>_. True)\<rparr>"

definition demo_world :: world where "demo_world = \<lparr>store = Map.empty, cache = Map.empty, assets = {}, remote_log = [], next_oid = 1,
  users = Map.empty, orders = [], notifications = [], files = {}, mails = []\<rparr>"

section \<open>Lemmas\<close>

lemma show_nat_digits: "c \<in> set (show_nat n) \<Longrightarrow> of_char c < (58::nat)"
proof (induction n rule: show_nat.induct)
  case (1 n)
  then show ?case
    by (subst (asm) show_nat.simps) (auto simp: of_char_of split: if_splits)
qed

text \<open>A fresh ObjectId never falls under the listing glob \<open>allCourses:*\<close>.\<close>

lemma oid_of_not_Nil [simp]: "oid_of n \<noteq> []"
  by (cases "show_nat n") (simp_all add: oid_of_def)

lemma oid_not_listing_key [simp]: "\<not> is_listing_key (oid_of n)"
proof
  assume "is_listing_key (oid_of n)"
  then have "CHR ''a'' \<in> set (take 11 (oid_of n))" by (simp add: is_listing_key_def)
  then have "CHR ''a'' \<in> set (oid_of n)" by (meson in_set_takeD)
  then show False using show_nat_digits [of "CHR ''a''" n]
    by (auto simp: oid_of_def dest: in_set_replicate [THEN iffD1])
qed

lemma store_pid_free_upd:
  assumes "store_pid_free w" and "store w' = (store w)(k \<mapsto> persist_course c)"
  shows "store_pid_free w'"
proof -
  have "ran (store w') \<subseteq> insert (persist_course c) (ran (store w))"
    using assms(2) by (auto simp: ran_def)
  then show ?thesis
    using assms(1) persist_course_public_ids [of c] by (auto simp: store_pid_free_def)
qed

lemma store_pid_free_same: "store w' = store w \<Longrightarrow> store_pid_free w' = store_pid_free w"
  by (simp add: store_pid_free_def)

lemma store_pid_free_step:
  "store_pid_free w \<Longrightarrow> store w' = store w \<or> (\<exists>k c. store w' = (store w)(k \<mapsto> persist_course c)) \<Longrightarrow>
   store_pid_free w'"
  using store_pid_free_same store_pid_free_upd by blast

lemma video_destroys_Nil_iff: "video_destroys ops = [] \<longleftrightarrow> (\<forall>p. RDestroy p ''video'' \<notin> set ops)"
  by (induction ops) (auto simp: video_destroys_def split: remote_op.split)

lemma upload_image_frame [frame_simps]:
  "store (snd (upload_image e p w)) = store w" "cache (snd (upload_image e p w)) = cache w"
  by (simp_all add: upload_image_def split: option.split)

lemma record_upload_frame [frame_simps]:
  "store (record_upload up w) = store w" "cache (record_upload up w) = cache w"
  "next_oid (record_upload up w) = next_oid w"
  by (simp_all add: record_upload_def)

lemma delete_from_cloudinary_frame [frame_simps]:
  "store (snd (delete_from_cloudinary e p k w)) = store w"
  "cache (snd (delete_from_cloudinary e p k w)) = cache w"
  "next_oid (snd (delete_from_cloudinary e p k w)) = next_oid w"
  by (simp_all add: delete_from_cloudinary_def Let_def)

lemma delete_from_cloudinary_log:
  "remote_log (snd (delete_from_cloudinary e p k w)) =
     remote_log w @ (if cfg_ok e then [RDestroy p k] else [])"
  by (simp add: delete_from_cloudinary_def Let_def)

lemma delete_from_cloudinary_assets:
  "assets (snd (delete_from_cloudinary e p k w)) =
     (if cfg_ok e \<and> destroy_ok e p then assets w - {p} else assets w)"
  by (simp add: delete_from_cloudinary_def Let_def)

lemma delete_all_best_effort_frame [frame_simps]:
  "store (delete_all_best_effort e k ps w) = store w"
  "cache (delete_all_best_effort e k ps w) = cache w"
  "next_oid (delete_all_best_effort e k ps w) = next_oid w"
  by (induction ps arbitrary: w) (simp_all add: frame_simps)

lemma delete_all_best_effort_log:
  "remote_log (delete_all_best_effort e k ps w) =
     remote_log w @ (if cfg_ok e then map (\<lambda>p. RDestroy p k) ps else [])"
  by (induction ps arbitrary: w) (simp_all add: delete_from_cloudinary_log)

lemma delete_all_best_effort_assets:
  "assets (delete_all_best_effort e k ps w) =
     (if cfg_ok e then assets w - {p \<in> set ps. destroy_ok e p} else assets w)"
  by (induction ps arbitrary: w) (auto simp: delete_from_cloudinary_assets)

lemma clear_all_cache_frame [frame_simps]:
  "store (clear_all_cache_for_course e cid w) = store w"
  "assets (clear_all_cache_for_course e cid w) = assets w"
  "remote_log (clear_all_cache_for_course e cid w) = remote_log w"
  "next_oid (clear_all_cache_for_course e cid w) = next_oid w"
  by (simp_all add: clear_all_cache_for_course_def)

lemma clear_all_cache_scoped:
  "redis_up e \<Longrightarrow> course_scoped_key cid k \<Longrightarrow> cache (clear_all_cache_for_course e cid w) k = None"
  by (simp add: clear_all_cache_for_course_def course_scoped_key_def)

lemma clear_all_cache_other:
  "\<not> course_scoped_key cid k \<Longrightarrow> cache (clear_all_cache_for_course e cid w) k = cache w k"
  by (simp add: clear_all_cache_for_course_def course_scoped_key_def)

lemma digit_char: "d < (10::nat) \<Longrightarrow> char_of (48 + d) \<in> set ''0123456789''"
proof -
  assume "d < 10"
  then have "d = 0 \<or> d = 1 \<or> d = 2 \<or> d = 3 \<or> d = 4 \<or> d = 5 \<or> d = 6 \<or> d = 7 \<or> d = 8 \<or> d = 9"
    by (simp add: numeral_eq_Suc less_Suc_eq)
  then show ?thesis by (elim disjE; hypsubst; code_simp)
qed

lemma show_nat_chars: "c \<in> set (show_nat n) \<Longrightarrow> c \<in> set ''0123456789''"
proof (induction n rule: show_nat.induct)
  case (1 n)
  show ?case
  proof (cases "n < 10")
    case True
    with "1.prems" have "c = char_of (48 + n)" by (subst (asm) show_nat.simps) simp
    with True show ?thesis by (simp only: digit_char)
  next
    case False
    with "1.prems" have "c \<in> set (show_nat (n div 10)) \<or> c = char_of (48 + n mod 10)"
      by (subst (asm) show_nat.simps) auto
    then show ?thesis
    proof
      assume "c \<in> set (show_nat (n div 10))"
      with "1.IH" [OF False] show ?thesis .
    next
      assume "c = char_of (48 + n mod 10)"
      then show ?thesis by (simp only: digit_char mod_less_divisor zero_less_numeral)
    qed
  qed
qed

lemma show_nat_length_bound: "n < 10 ^ Suc k \<Longrightarrow> length (show_nat n) \<le> Suc k"
proof (induction n arbitrary: k rule: show_nat.induct)
  case (1 n)
  show ?case
  proof (cases "n < 10")
    case True
    then have "show_nat n = [char_of (48 + n)]" by (subst show_nat.simps) simp
    then show ?thesis by simp
  next
    case False
    then have sn: "show_nat n = show_nat (n div 10) @ [char_of (48 + n mod 10)]" by (subst show_nat.simps) simp
    from False "1.prems" obtain k' where k: "k = Suc k'" by (cases k) auto
    have "n div 10 < 10 ^ Suc k'" using "1.prems" k by (simp add: less_mult_imp_div_less)
    from "1.IH" [OF False this] sn k show ?thesis by simp
  qed
qed

lemma map_filter_snoc: "List.map_filter f (xs @ [x]) = List.map_filter f xs @ (case f x of None \<Rightarrow> [] | Some y \<Rightarrow> [y])"
  by (simp add: map_filter_def split: option.split)

lemma list_ex_map_filter: "list_ex (\<lambda>x. f x = Some y) xs \<longleftrightarrow> y \<in> set (List.map_filter f xs)"
  by (induction xs) (auto simp: map_filter_simps split: option.split)

lemma users_ok_upd:
  assumes "users_ok w" "users w k = Some u" "distinct (List.map_filter uc_course (u_courses u'))"
    "users w' = (users w)(k' \<mapsto> u')"
  shows "users_ok w'"
proof -
  have "ran (users w') \<subseteq> insert u' (ran (users w))" using assms(4) by (auto simp: ran_def)
  then show ?thesis using assms(1,3) by (auto simp: users_ok_def)
qed

lemma users_ok_same: "users w' = users w \<Longrightarrow> users_ok w' = users_ok w"
  by (simp add: users_ok_def)

lemma notify_frame [frame_simps]:
  "store (notify u t m w) = store w" "cache (notify u t m w) = cache w" "users (notify u t m w) = users w"
  "files (notify u t m w) = files w" "remote_log (notify u t m w) = remote_log w"
  "next_oid (notify u t m w) = next_oid w" "orders (notify u t m w) = orders w"
  by (simp_all add: notify_def)

lemma notify_invariants [simp]:
  "store_pid_free (notify u t m w) = store_pid_free w" "users_ok (notify u t m w) = users_ok w"
  by (simp_all add: store_pid_free_def users_ok_def notify_def)

lemma stored_user_distinct: "users_ok w \<Longrightarrow> users w k = Some u \<Longrightarrow> distinct (List.map_filter uc_course (u_courses u))"
  by (auto simp: users_ok_def ran_def)

lemma fixture_oids_valid [simp]:
  "is_valid_object_id (oid_of 1)" "is_valid_object_id (oid_of 2)"
  "is_valid_object_id (oid_of 3)" "is_valid_object_id (oid_of 4)" "is_valid_object_id (oid_of (Suc 0))"
  by code_simp+

lemma store_pid_free_put [simp]:
  "store_pid_free w \<Longrightarrow> store_pid_free (w\<lparr>store := (store w)(k \<mapsto> persist_course c)\<rparr>)"
  by (rule store_pid_free_upd) simp_all

lemma store_pid_free_cache [simp]: "store_pid_free (w\<lparr>cache := x\<rparr>) = store_pid_free w"
  by (simp add: store_pid_free_def)

lemma store_pid_free_next_oid [simp]: "store_pid_free (w\<lparr>next_oid := n\<rparr>) = store_pid_free w"
  by (simp add: store_pid_free_def)

lemma store_pid_free_orders [simp]: "store_pid_free (w\<lparr>orders := x\<rparr>) = store_pid_free w"
  by (simp add: store_pid_free_def)

lemma users_ok_fields [simp]:
  "users_ok (w\<lparr>orders := x\<rparr>) = users_ok w" "users_ok (w\<lparr>next_oid := n\<rparr>) = users_ok w"
  "users_ok (w\<lparr>cache := ca\<rparr>) = users_ok w"
  by (simp_all add: users_ok_def)

end
