(* ===== verification/Create.thy ===== *)
theory Create
  imports World Organizer
begin

text \<open>
  Course creation: \<open>uploadCourse\<close> of \<open>src/server/controller/course.controller.ts\<close>.
  It checks the configuration and the course name, checks Cloudinary storage, uploads
  the thumbnail, then processes the videos one after the other: upload with retries,
  duration resolution, a default title and description, push. When an upload fails it
  destroys the videos of this batch already uploaded and answers 500 with the failed
  index. Otherwise it sorts the items, creates the document and caches it under the
  bare course id. The parsing of \<open>benefits\<close>/\<open>prerequisites\<close> and the deletion of
  temporary files do not affect the content list and are not modelled.
\<close>

record video_file =
  vf_name :: string
  vf_path :: string

record upload_req =
  ur_name :: string
  ur_title :: string
  ur_price :: int
  ur_thumbnail :: "string option"
  ur_videos :: "video_file list option"
  ur_titles :: form_field
  ur_descriptions :: form_field
  ur_sections :: form_field
  ur_description :: string
  ur_categories :: string

text \<open>The \<open>videoData\<close> object built for an uploaded video.\<close>

definition new_video_item :: "string \<Rightarrow> string \<Rightarrow> string \<Rightarrow> uploaded \<Rightarrow> int \<Rightarrow> content_item" where
  "new_video_item sec t d up dur =
     \<lparr>item_id = None, title = t, description = d, videoUrl = secure_url up,
      videoPublicId = Some (public_id up), storageType = Some ''cloudinary'',
      videoThumbnail = Some (public_id up, secure_url up), videoSection = sec, videoLength = dur,
      videoPlayer = ''cloudinary'', links = [], suggestion = [], questions = Some []\<rparr>"

text \<open>The asset ids of the items pushed so far (\<open>courseVideo.videoPublicId\<close>).\<close>

definition batch_ids :: "content_item list \<Rightarrow> string list" where
  "batch_ids vs = [p. Some p \<leftarrow> map videoPublicId vs]"

text \<open>
  The \<open>for\<close> loop over the videos, from index \<open>i\<close> with the section counter
  \<open>cnt\<close> and the items pushed so far. \<open>Inl (i, acc)\<close>: the upload of video \<open>i\<close>
  failed after \<open>acc\<close> had been pushed (and then destroyed); \<open>Inr acc\<close>: all pushed.
\<close>

fun upload_videos ::
  "env \<Rightarrow> string list \<Rightarrow> string list \<Rightarrow> string list \<Rightarrow> count_obj \<Rightarrow> nat \<Rightarrow> video_file list \<Rightarrow>
   content_item list \<Rightarrow> world \<Rightarrow> ((nat \<times> content_item list) + content_item list) \<times> world" where
  "upload_videos e ts ds ss cnt i [] acc w = (Inr acc, w)"
| "upload_videos e ts ds ss cnt i (v # vs) acc w =
     (let sec = nth_or ss i ''Default Section''; n = count_next cnt sec; cnt' = count_store cnt sec n;
          run = upload_default (cfg_ok e) (video_svc e (vf_path v)) (vf_path v) in
      case up_result run of
        Inl err \<Rightarrow> (Inl (i, acc), delete_all_best_effort e ''video'' (batch_ids acc) w)
      | Inr up \<Rightarrow>
          (let dur = dr_seconds (get_video_duration_with_fallbacks (media e) (vf_path v)
                                   (Some (public_id up)) (Some (secure_url up)));
               t = nth_or ts i (sec @ '' - Video '' @ js_count_str n);
               d = nth_or ds i (''Description for '' @ t)
           in upload_videos e ts ds ss cnt' (Suc i) vs (acc @ [new_video_item sec t d up dur]) (record_upload up w)))"

text \<open>Mongoose gives every subdocument without an \<open>_id\<close> a fresh one on write.\<close>

fun assign_item_ids :: "nat \<Rightarrow> content_item list \<Rightarrow> content_item list" where
  "assign_item_ids n [] = []"
| "assign_item_ids n (v # vs) =
     v\<lparr>item_id := (case item_id v of None \<Rightarrow> Some (oid_of n) | Some x \<Rightarrow> Some x)\<rparr> # assign_item_ids (Suc n) vs"

text \<open>\<open>CourseModel.create(data)\<close>: a fresh course id, fresh item ids, the schema
  defaults of \<open>reviews\<close>, \<open>ratings\<close> and \<open>purchased\<close>, strict-mode write.\<close>

definition create_course_doc :: "string \<Rightarrow> int \<Rightarrow> string \<Rightarrow> string \<Rightarrow> nat \<Rightarrow> (string \<times> string) option \<Rightarrow> content_item list \<Rightarrow> world \<Rightarrow> course \<times> world" where
  "create_course_doc nm pr ds cat t th items w =
     (let cid = oid_of (next_oid w);
          c = persist_course \<lparr>course_id = cid, name = nm, price = pr, thumbnail = th,
                              courseData = assign_item_ids (Suc (next_oid w)) items,
                              reviews = [], ratings = 0, purchased = 0,
                              course_description = ds, categories = cat, created_at = t\<rparr>
      in (c, w\<lparr>store := (store w)(cid \<mapsto> c), next_oid := next_oid w + 1 + length items\<rparr>))"

text \<open>The thumbnail step: no file (\<open>Some None\<close>), uploaded (\<open>Some (Some ...)\<close>), or a throw.\<close>

definition upload_thumbnail :: "env \<Rightarrow> string option \<Rightarrow> world \<Rightarrow> (string \<times> string) option option \<times> world" where
  "upload_thumbnail e th w =
     (case th of
        None \<Rightarrow> (Some None, w)
      | Some p \<Rightarrow> (case upload_image e p w of
                    (None, w') \<Rightarrow> (None, w')
                  | (Some up, w') \<Rightarrow> (Some (Some (public_id up, secure_url up)), w')))"

text \<open>After the loop: sort, reject an empty list, \<open>CourseModel.create\<close>, cache the document.\<close>

definition finish_upload_course ::
  "env \<Rightarrow> string \<Rightarrow> int \<Rightarrow> string \<Rightarrow> string \<Rightarrow> (string \<times> string) option \<Rightarrow> content_item list \<Rightarrow> world \<Rightarrow> (http_error + course) \<times> world" where
  "finish_upload_course e nm pr ds cat th items w =
     (let sorted = organize_upload items in
      if sorted = [] then (Inl (BadRequest ''Course must have at least one video''), w)
      else if \<not> db_ok e then (Inl (ServerError ''Failed to create course''), w)
      else
        (let (c, w') = create_course_doc nm pr ds cat (now e) th sorted w in
         (Inr c,
          if redis_up e
          then w'\<lparr>cache := (cache w')(course_id c \<mapsto> \<lparr>ce_val = CVCourse c, ce_ttl = None\<rparr>)\<rparr>
          else w')))"

text \<open>From the thumbnail upload to the end, for a course named \<open>nm\<close>.\<close>

definition upload_course_media ::
  "env \<Rightarrow> string \<Rightarrow> upload_req \<Rightarrow> world \<Rightarrow> (http_error + course) \<times> world" where
  "upload_course_media e nm r w =
     (case upload_thumbnail e (ur_thumbnail r) w of
        (None, w1) \<Rightarrow> (Inl (ServerError ''Failed to create course''), w1)
      | (Some th, w1) \<Rightarrow>
          (case ur_videos r of
             None \<Rightarrow> (Inl (BadRequest ''No video files found''), w1)
           | Some vids \<Rightarrow>
               (case upload_videos e (array_from_form_data (ur_titles r))
                       (array_from_form_data (ur_descriptions r))
                       (array_from_form_data (ur_sections r)) Map.empty 0 vids [] w1 of
                  (Inl (i, _), w2) \<Rightarrow> (Inl (VideoUploadFailed i), w2)
                | (Inr items, w2) \<Rightarrow> finish_upload_course e nm (ur_price r) (ur_description r) (ur_categories r) th items w2)))"

text \<open>\<open>uploadCourse\<close>: configuration, name (falling back to \<open>title\<close>), storage, media.\<close>

definition upload_course :: "env \<Rightarrow> upload_req \<Rightarrow> world \<Rightarrow> (http_error + course) \<times> world" where
  "upload_course e r w =
     (if \<not> cfg_ok e then (Inl (ServerError ''Failed to create course''), w)
      else
        (let nm = (if ur_name r = [] \<and> ur_title r \<noteq> [] then ur_title r else ur_name r) in
         if nm = [] then (Inl (BadRequest ''Course name is required''), w)
         else
           (case check_storage e of
              None \<Rightarrow> (Inl (ServerError ''Failed to create course''), w)
            | Some False \<Rightarrow> (Inl (BadRequest ''Insufficient storage space''), w)
            | Some True \<Rightarrow> upload_course_media e nm r w)))"

text \<open>A request with two videos in sections \<open>S2\<close> and \<open>S1\<close> and a thumbnail.\<close>

definition demo_req :: upload_req where "demo_req = \<lparr>ur_name = ''Go'', ur_title = [], ur_price = 10, ur_thumbnail = Some ''/tmp/t'',
  ur_videos = Some [\<lparr>vf_name = ''a'', vf_path = ''/tmp/a''\<rparr>, \<lparr>vf_name = ''c'', vf_path = ''/tmp/c''\<rparr>], ur_titles = FAbsent, ur_descriptions = FAbsent, ur_sections = FMany [''S2'', ''S1''],
  ur_description = ''Learn Go'', ur_categories = ''Programming''\<rparr>"

section \<open>Lemmas\<close>

lemma batch_ids_append [simp]: "batch_ids (xs @ ys) = batch_ids xs @ batch_ids ys"
  by (simp add: batch_ids_def)

lemma batch_ids_Nil [simp]: "batch_ids [] = []"
  by (simp add: batch_ids_def)

lemma batch_ids_new_item [simp]: "batch_ids [new_video_item sec t d up dur] = [public_id up]"
  by (simp add: batch_ids_def new_video_item_def)

lemma record_upload_log: "remote_log (record_upload up w) = remote_log w @ [RUpload (public_id up) ''video'']"
  by (simp add: record_upload_def)

lemma record_upload_assets: "assets (record_upload up w) = insert (public_id up) (assets w)"
  by (simp add: record_upload_def)

lemma upload_videos_frame:
  "store (snd (upload_videos e ts ds ss cnt i vids acc w)) = store w"
  "cache (snd (upload_videos e ts ds ss cnt i vids acc w)) = cache w"
  "next_oid (snd (upload_videos e ts ds ss cnt i vids acc w)) = next_oid w"
  by (induction vids arbitrary: cnt i acc w) (simp_all add: Let_def frame_simps split: sum.split)

lemma upload_thumbnail_frame:
  "store (snd (upload_thumbnail e th w)) = store w" "cache (snd (upload_thumbnail e th w)) = cache w"
  "next_oid (snd (upload_thumbnail e th w)) = next_oid w"
  by (auto simp: upload_thumbnail_def upload_image_def split: option.splits)

lemma upload_videos_failure:
  assumes "cfg_ok e" and "upload_videos e ts ds ss cnt i vids acc w = (Inl (k, pushed), w')"
  shows "store w' = store w \<and> cache w' = cache w \<and> next_oid w' = next_oid w \<and>
         (\<exists>new. pushed = acc @ new \<and> k = i + length new \<and> length (batch_ids new) = length new \<and>
            remote_log w' = remote_log w @ map (\<lambda>p. RUpload p ''video'') (batch_ids new)
                            @ map (\<lambda>p. RDestroy p ''video'') (batch_ids pushed) \<and>
            assets w' = (assets w \<union> set (batch_ids new)) - {p \<in> set (batch_ids pushed). destroy_ok e p})"
  using assms(2)
proof (induction vids arbitrary: cnt i acc w)
  case Nil
  then show ?case by simp
next
  case (Cons v vs)
  let ?sec = "nth_or ss i ''Default Section''"
  let ?run = "upload_default (cfg_ok e) (video_svc e (vf_path v)) (vf_path v)"
  show ?case
  proof (cases "up_result ?run")
    case (Inl err)
    with Cons.prems have "k = i \<and> pushed = acc \<and> w' = delete_all_best_effort e ''video'' (batch_ids acc) w"
      by (auto simp: Let_def)
    then show ?thesis using assms(1)
      by (auto simp: frame_simps delete_all_best_effort_log delete_all_best_effort_assets intro: exI [of _ "[]"])
  next
    case (Inr up)
    let ?n = "count_next cnt ?sec"
    let ?t = "nth_or ts i (?sec @ '' - Video '' @ js_count_str ?n)"
    let ?d = "nth_or ds i (''Description for '' @ ?t)"
    let ?dur = "dr_seconds (get_video_duration_with_fallbacks (media e) (vf_path v) (Some (public_id up)) (Some (secure_url up)))"
    let ?item = "new_video_item ?sec ?t ?d up ?dur"
    from Cons.prems Inr have rec: "upload_videos e ts ds ss (count_store cnt ?sec ?n) (Suc i) vs (acc @ [?item])
                                      (record_upload up w) = (Inl (k, pushed), w')"
      by (simp add: Let_def)
    from Cons.IH [OF rec] obtain new where
      fr: "store w' = store w" "cache w' = cache w" "next_oid w' = next_oid w" and
      dn: "pushed = (acc @ [?item]) @ new" and kk: "k = Suc i + length new" and
      bl: "length (batch_ids new) = length new" and
      lg: "remote_log w' = remote_log (record_upload up w) @ map (\<lambda>p. RUpload p ''video'') (batch_ids new)
                            @ map (\<lambda>p. RDestroy p ''video'') (batch_ids pushed)" and
      as: "assets w' = (assets (record_upload up w) \<union> set (batch_ids new)) - {p \<in> set (batch_ids pushed). destroy_ok e p}"
      by (auto simp: frame_simps)
    show ?thesis
    proof (intro conjI exI)
      show "pushed = acc @ (?item # new)" using dn by simp
      show "k = i + length (?item # new)" using kk by simp
      show "length (batch_ids (?item # new)) = length (?item # new)"
        using bl by (simp add: batch_ids_def new_video_item_def)
      show "remote_log w' = remote_log w @ map (\<lambda>p. RUpload p ''video'') (batch_ids (?item # new))
                            @ map (\<lambda>p. RDestroy p ''video'') (batch_ids pushed)"
        using lg by (simp add: record_upload_log batch_ids_def new_video_item_def)
      show "assets w' = (assets w \<union> set (batch_ids (?item # new))) - {p \<in> set (batch_ids pushed). destroy_ok e p}"
        using as by (auto simp: record_upload_assets batch_ids_def new_video_item_def)
    qed (use fr in auto)
  qed
qed

lemma upload_thumbnail_effect:
  assumes "upload_thumbnail e th w = (x, w1)"
  shows "store w1 = store w \<and> cache w1 = cache w \<and> next_oid w1 = next_oid w \<and>
         (\<exists>t. remote_log w1 = remote_log w @ t \<and> (t = [] \<or> (\<exists>p. t = [RUpload p ''image''])) \<and>
              assets w1 = assets w \<union> {p. RUpload p ''image'' \<in> set t})"
  using assms
  by (auto simp: upload_thumbnail_def upload_image_def split: option.splits)

lemma finish_upload_course_not_video_failure:
  "fst (finish_upload_course e nm pr ds cat th items w) \<noteq> Inl (VideoUploadFailed k)"
  by (auto simp: finish_upload_course_def Let_def split: prod.split)

lemma upload_videos_success:
  assumes "upload_videos e ts ds ss cnt i vids acc w = (Inr items, w')"
  shows "store w' = store w \<and> cache w' = cache w \<and> next_oid w' = next_oid w \<and>
         (\<exists>new. items = acc @ new \<and> length new = length vids)"
  using assms
proof (induction vids arbitrary: cnt i acc w)
  case Nil
  then show ?case by simp
next
  case (Cons v vs)
  let ?sec = "nth_or ss i ''Default Section''"
  let ?run = "upload_default (cfg_ok e) (video_svc e (vf_path v)) (vf_path v)"
  show ?case
  proof (cases "up_result ?run")
    case (Inl err)
    with Cons.prems show ?thesis by (simp add: Let_def)
  next
    case (Inr up)
    with Cons.prems obtain it cnt' where
      rec: "upload_videos e ts ds ss cnt' (Suc i) vs (acc @ [it]) (record_upload up w) = (Inr items, w')"
      by (auto simp: Let_def)
    from Cons.IH [OF rec] show ?thesis by (auto simp: frame_simps)
  qed
qed

lemma assign_item_ids_keeps [simp]:
  "map videoSection (assign_item_ids n xs) = map videoSection xs"
  "length (assign_item_ids n xs) = length xs"
  by (induction xs arbitrary: n) simp_all

lemma length_organize_upload [simp]: "length (organize_upload xs) = length xs"
  by (metis mset_js_sort organize_upload_def size_mset)

lemma finish_upload_course_success:
  assumes "finish_upload_course e nm pr ds cat th items w = (Inr c, w')"
  shows "store w' (course_id c) = Some c \<and> length (courseData c) = length items \<and>
         sorted (map videoSection (courseData c)) \<and> list_all (\<lambda>v. videoPublicId v = None) (courseData c) \<and>
         (\<forall>k. is_listing_key k \<longrightarrow> cache w' k = cache w k)"
proof -
  have "organize_upload items \<noteq> []" "db_ok e" using assms by (auto simp: finish_upload_course_def Let_def split: if_splits)
  with assms have c: "c = fst (create_course_doc nm pr ds cat (now e) th (organize_upload items) w)" and
    w': "w' = (if redis_up e then (snd (create_course_doc nm pr ds cat (now e) th (organize_upload items) w))
                    \<lparr>cache := (cache (snd (create_course_doc nm pr ds cat (now e) th (organize_upload items) w)))(course_id c \<mapsto> \<lparr>ce_val = CVCourse c, ce_ttl = None\<rparr>)\<rparr>
                else snd (create_course_doc nm pr ds cat (now e) th (organize_upload items) w))"
    by (auto simp: finish_upload_course_def Let_def split: prod.splits)
  have cid: "course_id c = oid_of (next_oid w)" using c by (simp add: create_course_doc_def Let_def)
  have sorted_u: "sorted (map videoSection (organize_upload items))"
    unfolding organize_upload_def by (rule sorted_js_sort [OF compare_upload_respects])
  show ?thesis
    using c w' cid sorted_u persist_course_public_ids
    by (auto simp: create_course_doc_def Let_def)
qed

lemma finish_upload_course_listing:
  "is_listing_key k \<Longrightarrow> cache (snd (finish_upload_course e nm pr ds cat th items w)) k = cache w k"
  by (auto simp: finish_upload_course_def create_course_doc_def Let_def split: prod.split)

lemma upload_course_media_listing:
  assumes "is_listing_key k"
  shows "cache (snd (upload_course_media e nm r w)) k = cache w k"
proof -
  obtain x w1 where th: "upload_thumbnail e (ur_thumbnail r) w = (x, w1)" by fastforce
  have c1: "cache w1 = cache w" using upload_thumbnail_frame(2) [of e "ur_thumbnail r" w] th by simp
  obtain res w2 where uv: "upload_videos e (array_from_form_data (ur_titles r)) (array_from_form_data (ur_descriptions r))
      (array_from_form_data (ur_sections r)) Map.empty 0 (the (ur_videos r)) [] w1 = (res, w2)" by fastforce
  have c2: "cache w2 = cache w1" using upload_videos_frame(2) uv by (metis snd_conv)
  show ?thesis using th uv c1 c2 assms finish_upload_course_listing
    by (auto simp: upload_course_media_def split: option.split sum.split prod.split)
qed

lemma upload_videos_store:
  "upload_videos e ts ds ss cnt i vids acc w = (res, w') \<Longrightarrow> store w' = store w"
  using upload_videos_frame(1) [of e ts ds ss cnt i vids acc w] by simp

lemma finish_upload_course_store:
  "store (snd (finish_upload_course e nm pr ds cat th items w)) = store w \<or>
   (\<exists>k c. store (snd (finish_upload_course e nm pr ds cat th items w)) = (store w)(k \<mapsto> persist_course c))"
  by (auto simp: finish_upload_course_def create_course_doc_def Let_def split: prod.split)

lemma upload_course_pid_free:
  assumes "store_pid_free w"
  shows "store_pid_free (snd (upload_course e r w))"
proof -
  obtain x w1 where th: "upload_thumbnail e (ur_thumbnail r) w = (x, w1)" by fastforce
  have s1: "store w1 = store w" using upload_thumbnail_frame(1) [of e "ur_thumbnail r" w] th by simp
  obtain res w2 where uv: "upload_videos e (array_from_form_data (ur_titles r)) (array_from_form_data (ur_descriptions r))
      (array_from_form_data (ur_sections r)) Map.empty 0 (the (ur_videos r)) [] w1 = (res, w2)" by fastforce
  have s2: "store w2 = store w1" by (rule upload_videos_store [OF uv])
  have p2: "store_pid_free w2" using store_pid_free_same [of w2 w] assms s1 s2 by simp
  have fin: "store_pid_free (snd (finish_upload_course e nm pr ds cat tb items w2))" for nm pr ds cat tb items
  proof (cases "store (snd (finish_upload_course e nm pr ds cat tb items w2)) = store w2")
    case True
    then show ?thesis using p2 store_pid_free_same by blast
  next
    case False
    then obtain k c where "store (snd (finish_upload_course e nm pr ds cat tb items w2)) = (store w2)(k \<mapsto> persist_course c)"
      using finish_upload_course_store [of e nm pr ds cat tb items w2] by blast
    then show ?thesis by (rule store_pid_free_upd [OF p2])
  qed
  have p1: "store_pid_free w1" using store_pid_free_same [of w1 w] assms s1 by simp
  have "store_pid_free (snd (upload_course_media e nm r w))" for nm
  proof (cases x)
    case None
    with th p1 show ?thesis by (simp add: upload_course_media_def)
  next
    case (Some tb)
    show ?thesis
    proof (cases "ur_videos r")
      case None
      with th Some p1 show ?thesis by (simp add: upload_course_media_def)
    next
      case (Some vids)
      with uv have uv': "upload_videos e (array_from_form_data (ur_titles r)) (array_from_form_data (ur_descriptions r))
        (array_from_form_data (ur_sections r)) Map.empty 0 vids [] w1 = (res, w2)" by simp
      show ?thesis
      proof (cases res)
        case (Inl a)
        with th \<open>x = Some tb\<close> Some uv' p2 show ?thesis by (cases a) (simp add: upload_course_media_def)
      next
        case (Inr items)
        with th \<open>x = Some tb\<close> Some uv' fin show ?thesis by (simp add: upload_course_media_def)
      qed
    qed
  qed
  then show ?thesis using assms by (simp add: upload_course_def Let_def split: option.split bool.split)
qed

section \<open>Properties of uploadCourse\<close>

text \<open>Claim C1: when the upload of a video fails, no course is written and no cache entry
  changes; the Cloudinary calls are the thumbnail upload (if any), the uploads of the
  videos before the failing one, then one destroy per such video, and every destroy
  that succeeds removes its asset: the compensation of the spec.\<close>

theorem create_upload_failure_no_partial_course:
  assumes "upload_course e r w = (Inl (VideoUploadFailed k), w')"
  shows "store w' = store w \<and> cache w' = cache w \<and>
         (\<exists>th ps. length ps = k \<and> (th = [] \<or> (\<exists>t. th = [RUpload t ''image''])) \<and>
            remote_log w' = remote_log w @ th @ map (\<lambda>p. RUpload p ''video'') ps @ map (\<lambda>p. RDestroy p ''video'') ps \<and>
            (\<forall>p \<in> set ps. destroy_ok e p \<longrightarrow> p \<notin> assets w'))"
proof -
  have cfg: "cfg_ok e"
  proof (rule ccontr)
    assume "\<not> cfg_ok e"
    with assms show False by (simp add: upload_course_def)
  qed
  let ?nm = "if ur_name r = [] \<and> ur_title r \<noteq> [] then ur_title r else ur_name r"
  have media: "upload_course_media e ?nm r w = (Inl (VideoUploadFailed k), w')"
    using assms cfg by (auto simp: upload_course_def Let_def split: if_splits option.splits bool.splits)
  obtain x w1 where th: "upload_thumbnail e (ur_thumbnail r) w = (x, w1)" by fastforce
  from media th obtain tb vids where x: "x = Some tb" and vids: "ur_videos r = Some vids"
    by (auto simp: upload_course_media_def split: option.splits)
  let ?ts = "array_from_form_data (ur_titles r)"
  let ?ds = "array_from_form_data (ur_descriptions r)"
  let ?ss = "array_from_form_data (ur_sections r)"
  obtain res w2 where uv: "upload_videos e ?ts ?ds ?ss Map.empty 0 vids [] w1 = (res, w2)" by fastforce
  from media th x vids uv obtain pushed where res: "res = Inl (k, pushed)" and w2: "w2 = w'"
    using finish_upload_course_not_video_failure
    by (cases res) (auto simp: upload_course_media_def split: prod.splits, metis fst_conv)
  from upload_videos_failure [OF cfg uv [unfolded res]] w2 obtain new where
    f: "store w' = store w1" "cache w' = cache w1" and dn: "pushed = new" and kn: "k = length new" and
    bl: "length (batch_ids new) = length new" and
    lg: "remote_log w' = remote_log w1 @ map (\<lambda>p. RUpload p ''video'') (batch_ids new)
                          @ map (\<lambda>p. RDestroy p ''video'') (batch_ids new)" and
    as: "assets w' = (assets w1 \<union> set (batch_ids new)) - {p \<in> set (batch_ids new). destroy_ok e p}"
    by auto
  from upload_thumbnail_effect [OF th] obtain t where
    t: "store w1 = store w" "cache w1 = cache w" "remote_log w1 = remote_log w @ t"
       "t = [] \<or> (\<exists>p. t = [RUpload p ''image''])" by blast
  show ?thesis
  proof (intro conjI exI)
    show "store w' = store w" "cache w' = cache w" using f t by simp_all
    show "length (batch_ids new) = k" using bl kn by simp
    show "t = [] \<or> (\<exists>p. t = [RUpload p ''image''])" by (rule t(4))
    show "remote_log w' = remote_log w @ t @ map (\<lambda>p. RUpload p ''video'') (batch_ids new)
                          @ map (\<lambda>p. RDestroy p ''video'') (batch_ids new)" using lg t by simp
    show "\<forall>p \<in> set (batch_ids new). destroy_ok e p \<longrightarrow> p \<notin> assets w'" using as by auto
  qed
qed

theorem create_upload_failure_no_partial_course_witness:
  "fst (upload_course demo_env (demo_req\<lparr>ur_videos := Some [\<lparr>vf_name = ''a'', vf_path = ''/tmp/a''\<rparr>, \<lparr>vf_name = ''b'', vf_path = ''/tmp/b''\<rparr>]\<rparr>) demo_world) = Inl (VideoUploadFailed 1) \<and>
   store (snd (upload_course demo_env (demo_req\<lparr>ur_videos := Some [\<lparr>vf_name = ''a'', vf_path = ''/tmp/a''\<rparr>, \<lparr>vf_name = ''b'', vf_path = ''/tmp/b''\<rparr>]\<rparr>) demo_world)) = store demo_world"
proof -
  let ?r = "demo_req\<lparr>ur_videos := Some [\<lparr>vf_name = ''a'', vf_path = ''/tmp/a''\<rparr>, \<lparr>vf_name = ''b'', vf_path = ''/tmp/b''\<rparr>]\<rparr>"
  have f: "fst (upload_course demo_env ?r demo_world) = Inl (VideoUploadFailed 1)" by code_simp
  then have "upload_course demo_env ?r demo_world = (Inl (VideoUploadFailed 1), snd (upload_course demo_env ?r demo_world))"
    by (metis prod.collapse)
  from create_upload_failure_no_partial_course [OF this] f show ?thesis by simp
qed

text \<open>Claim C9: a successful create stores the course under its id with one item per video,
  sorted by section; the stored items carry no \<open>videoPublicId\<close>, because the course
  schema does not declare the field and strict mode drops it.\<close>

theorem create_success_shape:
  assumes "upload_course e r w = (Inr c, w')"
  shows "store w' (course_id c) = Some c \<and>
         (\<exists>vids. ur_videos r = Some vids \<and> length (courseData c) = length vids) \<and>
         sorted (map videoSection (courseData c)) \<and>
         list_all (\<lambda>v. videoPublicId v = None) (courseData c)"
proof -
  have cfg: "cfg_ok e"
  proof (rule ccontr)
    assume "\<not> cfg_ok e"
    with assms show False by (simp add: upload_course_def)
  qed
  let ?nm = "if ur_name r = [] \<and> ur_title r \<noteq> [] then ur_title r else ur_name r"
  have media: "upload_course_media e ?nm r w = (Inr c, w')"
    using assms cfg by (auto simp: upload_course_def Let_def split: if_splits option.splits bool.splits)
  obtain x w1 where th: "upload_thumbnail e (ur_thumbnail r) w = (x, w1)" by fastforce
  from media th obtain tb vids where x: "x = Some tb" and vids: "ur_videos r = Some vids"
    by (auto simp: upload_course_media_def split: option.splits)
  let ?ts = "array_from_form_data (ur_titles r)"
  let ?ds = "array_from_form_data (ur_descriptions r)"
  let ?ss = "array_from_form_data (ur_sections r)"
  obtain res w2 where uv: "upload_videos e ?ts ?ds ?ss Map.empty 0 vids [] w1 = (res, w2)" by fastforce
  from media th x vids uv obtain items where res: "res = Inr items" and
    fin: "finish_upload_course e ?nm (ur_price r) (ur_description r) (ur_categories r) tb items w2 = (Inr c, w')"
    by (cases res) (auto simp: upload_course_media_def split: prod.splits)
  from upload_videos_success [OF uv [unfolded res]] have len: "length items = length vids" by auto
  from finish_upload_course_success [OF fin] len vids show ?thesis by auto
qed

theorem create_success_shape_witness:
  "map videoSection (courseData (projr (fst (upload_course demo_env demo_req demo_world)))) = [''S1'', ''S2''] \<and>
   store (snd (upload_course demo_env demo_req demo_world)) (course_id (projr (fst (upload_course demo_env demo_req demo_world))))
     = Some (projr (fst (upload_course demo_env demo_req demo_world)))"
proof -
  have f: "isl (fst (upload_course demo_env demo_req demo_world)) = False" by code_simp
  have m: "map videoSection (courseData (projr (fst (upload_course demo_env demo_req demo_world)))) = [''S1'', ''S2'']" by code_simp
  from f have "upload_course demo_env demo_req demo_world = (Inr (projr (fst (upload_course demo_env demo_req demo_world))), snd (upload_course demo_env demo_req demo_world))"
    by (metis prod.collapse sum.collapse(2))
  from create_success_shape [OF this] m show ?thesis by simp
qed

text \<open>A create never deletes or rewrites a cached listing \<open>allCourses:*\<close>.\<close>

lemma upload_course_keeps_listings:
  "is_listing_key k \<Longrightarrow> cache (snd (upload_course e r w)) k = cache w k"
  by (simp add: upload_course_def upload_course_media_listing Let_def split: option.split bool.split)

text \<open>With no video files, the request is answered 400 after the thumbnail has
  been uploaded, and the thumbnail asset stays at Cloudinary with no course referring to it.\<close>

theorem create_missing_videos_leaks_thumbnail:
  assumes "cfg_ok e" and "ur_name r \<noteq> []" and "check_storage e = Some True"
    and "ur_thumbnail r = Some p" and "image_svc e p = Some up" and "ur_videos r = None"
  shows "upload_course e r w =
    (Inl (BadRequest ''No video files found''),
     w\<lparr>assets := insert (public_id up) (assets w), remote_log := remote_log w @ [RUpload (public_id up) ''image'']\<rparr>)"
  using assms
  by (simp add: upload_course_def upload_course_media_def upload_thumbnail_def upload_image_def)

theorem create_missing_videos_leaks_thumbnail_witness:
  "upload_course demo_env (demo_req\<lparr>ur_videos := None\<rparr>) demo_world =
    (Inl (BadRequest ''No video files found''), demo_world\<lparr>assets := {''thumb''}, remote_log := [RUpload ''thumb'' ''image'']\<rparr>)"
  using create_missing_videos_leaks_thumbnail [of demo_env "demo_req\<lparr>ur_videos := None\<rparr>" "''/tmp/t''" "\<lparr>public_id = ''thumb'', secure_url = ''https://cdn/thumb''\<rparr>" demo_world]
  by (simp add: demo_env_def demo_req_def demo_world_def check_storage_def)
end
