(* ===== verification/Edit.thy ===== *)
theory Edit
  imports Create
begin

text \<open>
  Course edit: \<open>editCourse\<close> of \<open>src/server/controller/course.controller.ts\<close>
  (lines 730--1013). It validates the id, clears the course's cache, loads the course,
  replaces the thumbnail, deletes the requested videos concurrently, uploads the new
  videos one after the other, sorts and renumbers the items, cleans them, writes the
  document and clears the cache again. The deletions run as one \<open>async\<close> function per
  id under \<open>Promise.allSettled\<close>: each computes its \<open>findIndex\<close> and starts its
  Cloudinary destroy at once, and splices the remembered index when its destroy
  completes, in an order fixed by the environment (\<^const>\<open>destroy_latency\<close>). Body
  fields other than the files, \<open>videosToDelete\<close>, \<open>videoDescriptions\<close> and
  \<open>videoSections\<close> are copied by \<open>$set\<close> and not modelled.
\<close>

record edit_req =
  er_id :: string
  er_thumbnail :: "string option"
  er_videos :: "video_file list option"
  er_titles :: form_field
  er_descriptions :: form_field
  er_sections :: form_field
  er_delete :: form_field

section \<open>Thumbnail replacement\<close>

text \<open>
  A new thumbnail file: destroy the old asset (a failure is only logged), then upload
  the new one (a throw answers 500: \<open>None\<close>). Without a file nothing changes
  (\<open>Some None\<close>).
\<close>

definition replace_thumbnail ::
  "env \<Rightarrow> course \<Rightarrow> string option \<Rightarrow> world \<Rightarrow> (string \<times> string) option option \<times> world" where
  "replace_thumbnail e c th w =
     (case th of
        None \<Rightarrow> (Some None, w)
      | Some path \<Rightarrow>
          (let w1 = (case thumbnail c of
                       Some (pid, _) \<Rightarrow> if pid \<noteq> [] then snd (delete_from_cloudinary e pid ''image'' w) else w
                     | None \<Rightarrow> w)
           in case upload_image e path w1 of
                (None, w2) \<Rightarrow> (None, w2)
              | (Some up, w2) \<Rightarrow> (Some (Some (public_id up, secure_url up)), w2)))"

section \<open>Deletions\<close>

text \<open>The truthy \<open>videoToDelete.videoPublicId\<close>.\<close>

definition has_public_id :: "content_item \<Rightarrow> string option" where
  "has_public_id v = (case videoPublicId v of Some p \<Rightarrow> if p = [] then None else Some p | None \<Rightarrow> None)"

text \<open>A deletion suspended at its \<open>await deleteFromCloudinary\<close>.\<close>

record pending_del =
  pd_index :: nat
  pd_title :: string
  pd_pid :: string
  pd_ok :: bool

text \<open>
  The synchronous part of the \<open>deletionPromises\<close> map, in the order of the ids: an
  id not found resolves at once; an item without asset id is spliced at once; for an
  item with an asset id the destroy is issued and the deletion waits, remembering the
  index it found.
\<close>

fun delete_phase1 ::
  "env \<Rightarrow> string list \<Rightarrow> content_item list \<Rightarrow> world \<Rightarrow> pending_del list \<Rightarrow>
   content_item list \<times> pending_del list \<times> world" where
  "delete_phase1 e [] items w pend = (items, pend, w)"
| "delete_phase1 e (vid # ids) items w pend =
     (case find_index_nat (\<lambda>v. item_id v = Some vid) items of
        None \<Rightarrow> delete_phase1 e ids items w pend
      | Some k \<Rightarrow>
          (case has_public_id (items ! k) of
             None \<Rightarrow> delete_phase1 e ids (js_splice1 items k) w pend
           | Some p \<Rightarrow>
               (let (ok, w') = delete_from_cloudinary e p ''video'' w
                in delete_phase1 e ids items w'
                     (pend @ [\<lparr>pd_index = k, pd_title = title (items ! k), pd_pid = p, pd_ok = ok\<rparr>]))))"

text \<open>
  The continuations, in completion order: a successful destroy splices the index found
  before the wait; a failed one rejects. The result counts the rejections.
\<close>

fun delete_phase2 :: "pending_del list \<Rightarrow> content_item list \<Rightarrow> content_item list \<times> nat" where
  "delete_phase2 [] items = (items, 0)"
| "delete_phase2 (p # ps) items =
     (if pd_ok p then delete_phase2 ps (js_splice1 items (pd_index p))
      else (let (its, n) = delete_phase2 ps items in (its, Suc n)))"

definition completion_order :: "env \<Rightarrow> pending_del list \<Rightarrow> pending_del list" where
  "completion_order e pend = sort_key (\<lambda>p. destroy_latency e (pd_pid p)) pend"

text \<open>The deletion block with \<open>Promise.allSettled\<close> and the 500 on any rejection.\<close>

definition delete_videos ::
  "env \<Rightarrow> string list \<Rightarrow> content_item list \<Rightarrow> world \<Rightarrow> (http_error + content_item list) \<times> world" where
  "delete_videos e ids items w =
     (let (items1, pend, w1) = delete_phase1 e ids items w [];
          (items2, nrej) = delete_phase2 (completion_order e pend) items1
      in if 0 < nrej then (Inl (ServerError (''Failed to delete '' @ show_nat nrej @ '' video(s)'')), w1)
         else (Inr items2, w1))"

section \<open>Uploads\<close>

text \<open>
  The \<open>videoData\<close> of an uploaded video: the title is always \<open>Video n\<close>, with
  \<open>n\<close> one more than the items of its section so far, and no \<open>questions\<close> field.
\<close>

definition edit_video_item :: "string \<Rightarrow> nat \<Rightarrow> string \<Rightarrow> uploaded \<Rightarrow> int \<Rightarrow> content_item" where
  "edit_video_item sec n d up dur =
     (new_video_item sec (''Video '' @ show_nat n) d up dur)\<lparr>questions := None\<rparr>"

text \<open>The upload loop: a failed upload throws (\<open>None\<close>) and nothing is cleaned up.\<close>

fun edit_upload_videos ::
  "env \<Rightarrow> string list \<Rightarrow> string list \<Rightarrow> nat \<Rightarrow> video_file list \<Rightarrow> content_item list \<Rightarrow> world \<Rightarrow>
   content_item list option \<times> world" where
  "edit_upload_videos e ds ss i [] items w = (Some items, w)"
| "edit_upload_videos e ds ss i (v # vs) items w =
     (let sec = nth_or ss i ''Default Section'';
          n = count_where (\<lambda>x. videoSection x = sec) items + 1;
          run = upload_video_with_retry (cfg_ok e) (video_svc e (vf_path v)) (vf_path v) 3
      in case up_result run of
           Inl err \<Rightarrow> (None, w)
         | Inr up \<Rightarrow>
             (let dur = dr_seconds (get_video_duration_with_fallbacks (media e) (vf_path v)
                                      (Some (public_id up)) (Some (secure_url up)));
                  d = nth_or ds i (''Description for Video '' @ show_nat n)
              in edit_upload_videos e ds ss (Suc i) vs (items @ [edit_video_item sec n d up dur])
                   (record_upload up w)))"

section \<open>Clean-up, write and the handler\<close>

text \<open>
  The \<open>cleanData\<close> map: the \<open>||\<close> defaults of each field (the conditional spreads
  re-add fields with the values they had).
\<close>

definition clean_item :: "content_item \<Rightarrow> content_item" where
  "clean_item v =
     v\<lparr>title := str_or (title v) [], description := str_or (description v) [],
       videoUrl := str_or (videoUrl v) [], videoSection := str_or (videoSection v) ''Default Section'',
       videoLength := (if videoLength v = 0 then 0 else videoLength v),
       videoPlayer := str_or (videoPlayer v) ''cloudinary'', suggestion := str_or (suggestion v) []\<rparr>"

text \<open>
  \<open>findByIdAndUpdate(courseId, {$set: cleanData}, {new: true, upsert: false})\<close>:
  \<open>None\<close> when the course is gone; items get fresh ids if they have none and lose
  the fields the schema does not declare.
\<close>

definition update_course_doc ::
  "string \<Rightarrow> (string \<times> string) option \<Rightarrow> content_item list \<Rightarrow> world \<Rightarrow> course option \<times> world" where
  "update_course_doc cid th items w =
     (case store w cid of
        None \<Rightarrow> (None, w)
      | Some c \<Rightarrow>
          (let c' = persist_course (c\<lparr>thumbnail := (case th of None \<Rightarrow> thumbnail c | Some t \<Rightarrow> Some t),
                                      courseData := assign_item_ids (next_oid w) items\<rparr>)
           in (Some c', w\<lparr>store := (store w)(cid \<mapsto> c'), next_oid := next_oid w + length items\<rparr>)))"

text \<open>After the uploads: sort and renumber, clean, write, clear the cache again, and read
  the course back (the \<open>finalCheck\<close> \<open>findById\<close>, the request's second read: a
  throw there reaches the handler's \<open>catch\<close> after the update has committed).\<close>

definition edit_finish ::
  "env \<Rightarrow> string \<Rightarrow> (string \<times> string) option \<Rightarrow> content_item list \<Rightarrow> world \<Rightarrow> (http_error + course) \<times> world" where
  "edit_finish e cid th items w =
     (let items' = map clean_item (organize_edit items) in
      if \<not> db_ok e then (Inl (ServerError (''Failed to update course with ID '' @ cid)), w)
      else (case update_course_doc cid th items' w of
              (None, w') \<Rightarrow> (Inl (ServerError ''Failed to update course''), w')
            | (Some c', w') \<Rightarrow>
                (let w'' = clear_all_cache_for_course e cid w' in
                 if \<not> db_find_ok e 1 then (Inl (ServerError (''Failed to update course with ID '' @ cid)), w'')
                 else (Inr c', w''))))"

text \<open>\<open>editCourse\<close> once the course is loaded: thumbnail, deletions, uploads, finish.\<close>

definition edit_course_loaded :: "env \<Rightarrow> edit_req \<Rightarrow> course \<Rightarrow> world \<Rightarrow> (http_error + course) \<times> world" where
  "edit_course_loaded e r c w =
     (let cid = er_id r; fail = ServerError (''Failed to update course with ID '' @ cid) in
      case replace_thumbnail e c (er_thumbnail r) w of
        (None, w1) \<Rightarrow> (Inl fail, w1)
      | (Some th, w1) \<Rightarrow>
          (case delete_videos e (array_from_form_data (er_delete r)) (courseData c) w1 of
             (Inl err, w2) \<Rightarrow> (Inl err, w2)
           | (Inr items, w2) \<Rightarrow>
               (case edit_upload_videos e (array_from_form_data (er_descriptions r))
                       (array_from_form_data (er_sections r)) 0
                       (case er_videos r of None \<Rightarrow> [] | Some vs \<Rightarrow> vs) items w2 of
                  (None, w3) \<Rightarrow> (Inl fail, w3)
                | (Some items', w3) \<Rightarrow> edit_finish e cid th items' w3)))"

text \<open>\<open>editCourse\<close>: id check, cache clear before the update, configuration, load (the
  request's first \<open>findById\<close>, whose throw is a 500).\<close>

definition edit_course :: "env \<Rightarrow> edit_req \<Rightarrow> world \<Rightarrow> (http_error + course) \<times> world" where
  "edit_course e r w =
     (let cid = er_id r in
      if \<not> is_valid_object_id cid then (Inl (BadRequest ''Invalid Course ID''), w)
      else
        (let w0 = clear_all_cache_for_course e cid w in
         if \<not> cfg_ok e then (Inl (ServerError (''Failed to update course with ID '' @ cid)), w0)
         else if \<not> db_find_ok e 0 then (Inl (ServerError (''Failed to update course with ID '' @ cid)), w0)
         else (case store w0 cid of
                 None \<Rightarrow> (Inl (NotFound ''Course not found''), w0)
               | Some c \<Rightarrow> edit_course_loaded e r c w0)))"

section \<open>Fixtures for the proofs\<close>

text \<open>The subdocument ids of a list of items, and a small stored course to edit.\<close>

definition item_ids :: "content_item list \<Rightarrow> string list" where
  "item_ids vs = [i. Some i \<leftarrow> map item_id vs]"

definition demo_item :: "string \<Rightarrow> string option \<Rightarrow> string \<Rightarrow> content_item" where
  "demo_item i p t = \<lparr>item_id = Some i, title = t, description = [], videoUrl = [], videoPublicId = p,
     storageType = None, videoThumbnail = None, videoSection = ''S'', videoLength = 60, videoPlayer = ''cloudinary'',
     links = [], suggestion = [], questions = None\<rparr>"

definition demo_course :: course where
  "demo_course = \<lparr>course_id = oid_of 1, name = ''Go'', price = 10, thumbnail = Some (''thumb'', ''https://cdn/thumb''),
     courseData = [(demo_item ''a'' None ''Video 2'')\<lparr>questions := Some [\<lparr>q_user = UserRef ''u1'', q_text = ''Why?'', q_id = ''q1'', q_replies = []\<rparr>,
                                                           \<lparr>q_user = UserText ''alice'', q_text = ''How?'', q_id = ''q2'', q_replies = []\<rparr>]\<rparr>,
                   demo_item ''b'' None ''Video 1''],
     reviews = [], ratings = 0, purchased = 0,
     course_description = ''Learn Go'', categories = ''Programming'', created_at = 0\<rparr>"

definition demo_edit_world :: world where
  "demo_edit_world = demo_world\<lparr>store := [oid_of 1 \<mapsto> demo_course], assets := {''thumb''},
     cache := [oid_of 1 \<mapsto> \<lparr>ce_val = CVCourse demo_course, ce_ttl = Some 3600\<rparr>,
               ''allCourses:{}'' \<mapsto> \<lparr>ce_val = CVListing [(demo_course, 0)], ce_ttl = Some 1800\<rparr>], next_oid := 10\<rparr>"

definition demo_edit_req :: edit_req where
  "demo_edit_req = \<lparr>er_id = oid_of 1, er_thumbnail = None, er_videos = Some [\<lparr>vf_name = ''c'', vf_path = ''/tmp/c''\<rparr>],
     er_titles = FOne ''Intro'', er_descriptions = FAbsent, er_sections = FAbsent, er_delete = FOne ''b''\<rparr>"

section \<open>Lemmas\<close>

lemma replace_thumbnail_frame [frame_simps]:
  "store (snd (replace_thumbnail e c th w)) = store w" "cache (snd (replace_thumbnail e c th w)) = cache w"
  "next_oid (snd (replace_thumbnail e c th w)) = next_oid w"
  by (auto simp: replace_thumbnail_def upload_image_def frame_simps Let_def split: option.split prod.split)

lemma delete_phase1_frame:
  "delete_phase1 e ids items w pend = (items', pend', w') \<Longrightarrow>
   store w' = store w \<and> cache w' = cache w \<and> next_oid w' = next_oid w"
proof (induction e ids items w pend rule: delete_phase1.induct)
  case (2 e vid ids items w pend)
  then show ?case
  proof (cases "find_index_nat (\<lambda>v. item_id v = Some vid) items")
    case (Some k)
    then show ?thesis
    proof (cases "has_public_id (items ! k)")
      case (Some p)
      obtain ok w1 where d: "delete_from_cloudinary e p ''video'' w = (ok, w1)" by fastforce
      have "store w1 = store w \<and> cache w1 = cache w \<and> next_oid w1 = next_oid w"
        using delete_from_cloudinary_frame [of e p "''video''" w] d by simp
      with 2 Some \<open>find_index_nat _ items = Some k\<close> d show ?thesis by auto
    qed (use 2 in auto)
  qed (use 2 in auto)
qed simp

lemma delete_videos_frame [frame_simps]:
  "store (snd (delete_videos e ids items w)) = store w" "cache (snd (delete_videos e ids items w)) = cache w"
  "next_oid (snd (delete_videos e ids items w)) = next_oid w"
proof -
  obtain items1 pend w1 where p1: "delete_phase1 e ids items w [] = (items1, pend, w1)" by (metis prod.exhaust)
  have s: "snd (delete_videos e ids items w) = w1"
    by (simp add: delete_videos_def p1 split: prod.split)
  show "store (snd (delete_videos e ids items w)) = store w" "cache (snd (delete_videos e ids items w)) = cache w"
    "next_oid (snd (delete_videos e ids items w)) = next_oid w"
    using delete_phase1_frame [OF p1] s by simp_all
qed

lemma edit_upload_videos_frame:
  "edit_upload_videos e ds ss i vids items w = (res, w') \<Longrightarrow>
   store w' = store w \<and> cache w' = cache w \<and> next_oid w' = next_oid w"
proof (induction vids arbitrary: i items w)
  case (Cons v vs)
  show ?case
  proof (cases "up_result (upload_video_with_retry (cfg_ok e) (video_svc e (vf_path v)) (vf_path v) 3)")
    case (Inl err)
    with Cons.prems show ?thesis by (simp add: Let_def)
  next
    case (Inr up)
    with Cons.prems obtain it where
      "edit_upload_videos e ds ss (Suc i) vs (items @ [it]) (record_upload up w) = (res, w')"
      by (simp add: Let_def)
    from Cons.IH [OF this] show ?thesis by (simp add: frame_simps)
  qed
qed simp

lemma edit_finish_success:
  assumes "edit_finish e cid th items w = (Inr c, w')"
  shows "\<exists>w1. w' = clear_all_cache_for_course e cid w1 \<and> store w1 cid = Some c"
  using assms
  by (auto simp: edit_finish_def update_course_doc_def Let_def split: if_splits option.splits prod.splits)

lemma edit_course_loaded_success:
  assumes "edit_course_loaded e r c0 w = (Inr c, w')"
  shows "\<exists>w1. w' = clear_all_cache_for_course e (er_id r) w1 \<and> store w1 (er_id r) = Some c"
proof -
  obtain x w1 where t: "replace_thumbnail e c0 (er_thumbnail r) w = (x, w1)" by fastforce
  obtain th where x: "x = Some th" using assms t by (cases x) (auto simp: edit_course_loaded_def)
  obtain y w2 where d: "delete_videos e (array_from_form_data (er_delete r)) (courseData c0) w1 = (y, w2)" by fastforce
  obtain items where y: "y = Inr items" using assms t x d by (cases y) (auto simp: edit_course_loaded_def)
  obtain z w3 where u: "edit_upload_videos e (array_from_form_data (er_descriptions r))
      (array_from_form_data (er_sections r)) 0 (case er_videos r of None \<Rightarrow> [] | Some vs \<Rightarrow> vs) items w2 = (z, w3)"
    by fastforce
  obtain items' where z: "z = Some items'" using assms t x d y u by (cases z) (auto simp: edit_course_loaded_def)
  have "edit_finish e (er_id r) th items' w3 = (Inr c, w')"
    using assms t x d y u z by (simp add: edit_course_loaded_def)
  then show ?thesis by (rule edit_finish_success)
qed

lemma has_public_id_None [simp]: "videoPublicId v = None \<Longrightarrow> has_public_id v = None"
  by (simp add: has_public_id_def)

lemma item_ids_unique:
  "distinct (item_ids vs) \<Longrightarrow> length (filter (\<lambda>v. item_id v = Some i) vs) \<le> 1"
proof (induction vs)
  case (Cons v vs)
  then show ?case
    by (cases "item_id v") (auto simp: item_ids_def filter_empty_conv)
qed simp

lemma item_ids_filter: "distinct (item_ids vs) \<Longrightarrow> distinct (item_ids (filter P vs))"
proof (induction vs)
  case (Cons v vs)
  then show ?case
    by (cases "item_id v") (auto simp: item_ids_def)
qed (simp add: item_ids_def)

lemma delete_phase1_no_assets:
  assumes "list_all (\<lambda>v. videoPublicId v = None) items" and "distinct (item_ids items)"
  shows "delete_phase1 e ids items w pend = ([v \<leftarrow> items. \<forall>i \<in> set ids. item_id v \<noteq> Some i], pend, w)"
  using assms
proof (induction ids arbitrary: items)
  case (Cons vid ids)
  let ?rest = "[v \<leftarrow> items. item_id v \<noteq> Some vid]"
  have step: "delete_phase1 e (vid # ids) items w pend = delete_phase1 e ids ?rest w pend"
  proof (cases "find_index_nat (\<lambda>v. item_id v = Some vid) items")
    case None
    then have "?rest = items" by (simp add: find_index_nat_None)
    with None show ?thesis by simp
  next
    case (Some k)
    then have k: "k < length items" by (simp add: find_index_nat_Some)
    with Cons.prems(1) have "has_public_id (items ! k) = None" by (simp add: list_all_length)
    moreover have "js_splice1 items k = ?rest"
      using js_splice1_find_unique [OF Some item_ids_unique [OF Cons.prems(2)]] by simp
    ultimately show ?thesis using Some by simp
  qed
  have "list_all (\<lambda>v. videoPublicId v = None) ?rest" "distinct (item_ids ?rest)"
    using Cons.prems by (auto simp: list_all_iff item_ids_filter)
  from Cons.IH [OF this] step show ?case by (simp add: conj_commute)
qed simp

lemma replace_thumbnail_log:
  "\<exists>new. remote_log (snd (replace_thumbnail e c th w)) = remote_log w @ new \<and> (\<forall>p. RDestroy p ''video'' \<notin> set new)"
  by (auto simp: replace_thumbnail_def upload_image_def delete_from_cloudinary_log Let_def split: option.split prod.split)

lemma delete_phase1_no_pid:
  "list_all (\<lambda>v. has_public_id v = None) items \<Longrightarrow>
   \<exists>items'. delete_phase1 e ids items w pend = (items', pend, w)"
proof (induction ids arbitrary: items)
  case (Cons vid ids)
  show ?case
  proof (cases "find_index_nat (\<lambda>v. item_id v = Some vid) items")
    case (Some k)
    then have "k < length items" by (simp add: find_index_nat_Some)
    with Cons.prems have "has_public_id (items ! k) = None" by (simp add: list_all_length)
    moreover have "list_all (\<lambda>v. has_public_id v = None) (js_splice1 items k)"
      using Cons.prems by (auto simp: js_splice1_def list_all_iff dest: in_set_takeD in_set_dropD)
    ultimately show ?thesis using Some Cons.IH by simp
  qed (use Cons in simp)
qed simp

lemma delete_videos_no_pid:
  "list_all (\<lambda>v. has_public_id v = None) items \<Longrightarrow> snd (delete_videos e ids items w) = w"
  using delete_phase1_no_pid [of items e ids w "[]"]
  by (auto simp: delete_videos_def completion_order_def)

lemma edit_upload_videos_log:
  "edit_upload_videos e ds ss i vids items w = (res, w') \<Longrightarrow>
   \<exists>ps. remote_log w' = remote_log w @ map (\<lambda>p. RUpload p ''video'') ps \<and> assets w' = assets w \<union> set ps"
proof (induction vids arbitrary: i items w)
  case (Cons v vs)
  show ?case
  proof (cases "up_result (upload_video_with_retry (cfg_ok e) (video_svc e (vf_path v)) (vf_path v) 3)")
    case (Inl err)
    with Cons.prems show ?thesis by (simp add: Let_def)
  next
    case (Inr up)
    with Cons.prems obtain it where
      "edit_upload_videos e ds ss (Suc i) vs (items @ [it]) (record_upload up w) = (res, w')"
      by (simp add: Let_def)
    from Cons.IH [OF this] obtain ps where
      "remote_log w' = remote_log (record_upload up w) @ map (\<lambda>p. RUpload p ''video'') ps"
      "assets w' = assets (record_upload up w) \<union> set ps" by blast
    then show ?thesis
      by (intro exI [of _ "public_id up # ps"]) (auto simp: record_upload_log record_upload_assets)
  qed
qed simp

lemma edit_finish_log:
  "remote_log (snd (edit_finish e cid th items w)) = remote_log w"
  "assets (snd (edit_finish e cid th items w)) = assets w"
  by (auto simp: edit_finish_def update_course_doc_def clear_all_cache_frame Let_def split: option.split prod.split)

lemma edit_course_loaded_log:
  assumes "list_all (\<lambda>v. videoPublicId v = None) (courseData c)"
  shows "\<exists>new. remote_log (snd (edit_course_loaded e r c w)) = remote_log w @ new \<and>
                (\<forall>p. RDestroy p ''video'' \<notin> set new)"
proof -
  obtain x w1 where t: "replace_thumbnail e c (er_thumbnail r) w = (x, w1)" by fastforce
  obtain n1 where n1: "remote_log w1 = remote_log w @ n1" "\<forall>p. RDestroy p ''video'' \<notin> set n1"
    using replace_thumbnail_log [of e c "er_thumbnail r" w] t by auto
  have np: "list_all (\<lambda>v. has_public_id v = None) (courseData c)"
    using assms by (simp add: list_all_iff)
  obtain y where d: "delete_videos e (array_from_form_data (er_delete r)) (courseData c) w1 = (y, w1)"
    using delete_videos_no_pid [OF np, of e "array_from_form_data (er_delete r)" w1] by (metis prod.collapse)
  show ?thesis
  proof (cases x)
    case None
    with t n1 show ?thesis by (auto simp: edit_course_loaded_def)
  next
    case (Some th)
    show ?thesis
    proof (cases y)
      case (Inl err)
      with t n1 d Some show ?thesis by (auto simp: edit_course_loaded_def)
    next
      case (Inr items)
      obtain z w3 where u: "edit_upload_videos e (array_from_form_data (er_descriptions r))
          (array_from_form_data (er_sections r)) 0 (case er_videos r of None \<Rightarrow> [] | Some vs \<Rightarrow> vs) items w1 = (z, w3)"
        by fastforce
      obtain ps where ps: "remote_log w3 = remote_log w1 @ map (\<lambda>p. RUpload p ''video'') ps"
        using edit_upload_videos_log [OF u] by blast
      have "remote_log (snd (edit_course_loaded e r c w)) = remote_log w3"
        using t d u Some Inr edit_finish_log(1)
        by (cases z) (auto simp: edit_course_loaded_def)
      with ps n1 show ?thesis by auto
    qed
  qed
qed

lemma edit_finish_store:
  "store (snd (edit_finish e cid th items w)) = store w \<or>
   (\<exists>k c. store (snd (edit_finish e cid th items w)) = (store w)(k \<mapsto> persist_course c))"
  by (auto simp: edit_finish_def update_course_doc_def clear_all_cache_frame Let_def split: option.split prod.split)

lemma edit_course_loaded_store:
  "store (snd (edit_course_loaded e r c w)) = store w \<or>
   (\<exists>k c'. store (snd (edit_course_loaded e r c w)) = (store w)(k \<mapsto> persist_course c'))"
proof -
  obtain x w1 where t: "replace_thumbnail e c (er_thumbnail r) w = (x, w1)" by fastforce
  have s1: "store w1 = store w" using replace_thumbnail_frame(1) [of e c "er_thumbnail r" w] t by simp
  obtain y w2 where d: "delete_videos e (array_from_form_data (er_delete r)) (courseData c) w1 = (y, w2)" by fastforce
  have s2: "store w2 = store w1" using delete_videos_frame(1) [of e "array_from_form_data (er_delete r)" "courseData c" w1] d by simp
  show ?thesis
  proof (cases x)
    case None
    with t s1 show ?thesis by (simp add: edit_course_loaded_def)
  next
    case (Some th)
    show ?thesis
    proof (cases y)
      case (Inl err)
      with t d s1 s2 Some show ?thesis by (simp add: edit_course_loaded_def)
    next
      case (Inr items)
      obtain z w3 where u: "edit_upload_videos e (array_from_form_data (er_descriptions r))
          (array_from_form_data (er_sections r)) 0 (case er_videos r of None \<Rightarrow> [] | Some vs \<Rightarrow> vs) items w2 = (z, w3)"
        by fastforce
      have s3: "store w3 = store w2" using edit_upload_videos_frame [OF u] by simp
      show ?thesis
      proof (cases z)
        case None
        with t d u Some Inr s1 s2 s3 show ?thesis by (simp add: edit_course_loaded_def)
      next
        case (Some items')
        with t d u \<open>x = Some th\<close> Inr s1 s2 s3 edit_finish_store [of e "er_id r" th items' w3] show ?thesis
          by (simp add: edit_course_loaded_def)
      qed
    qed
  qed
qed

lemma edit_course_pid_free: "store_pid_free w \<Longrightarrow> store_pid_free (snd (edit_course e r w))"
proof -
  assume p: "store_pid_free w"
  let ?w0 = "clear_all_cache_for_course e (er_id r) w"
  have p0: "store_pid_free ?w0" using p store_pid_free_same [of ?w0 w] by (simp add: clear_all_cache_frame)
  have "store_pid_free (snd (edit_course_loaded e r c ?w0))" for c
    by (rule store_pid_free_step [OF p0 edit_course_loaded_store])
  with p p0 show ?thesis by (simp add: edit_course_def Let_def split: option.split)
qed

lemma renumber_items_questions:
  "v \<in> set (renumber_items cnt xs) \<Longrightarrow> questions v = Some qs \<Longrightarrow> list_all keep_question qs"
proof (induction xs arbitrary: cnt)
  case (Cons x xs)
  then show ?case
    by (auto simp: Let_def clean_questions_def list_all_iff split: option.splits if_splits)
qed simp

lemma assign_item_ids_questions:
  "v \<in> set (assign_item_ids n xs) \<Longrightarrow> \<exists>x \<in> set xs. questions v = questions x"
  by (induction xs arbitrary: n) auto

lemma edit_finish_shape:
  "edit_finish e cid th items w = (Inr c, w') \<Longrightarrow>
   \<exists>c0 n. c = persist_course (c0\<lparr>thumbnail := (case th of None \<Rightarrow> thumbnail c0 | Some t \<Rightarrow> Some t),
                                 courseData := assign_item_ids n (map clean_item (organize_edit items))\<rparr>)"
  by (auto simp: edit_finish_def update_course_doc_def Let_def split: if_splits option.splits prod.splits)

lemma edit_course_shape:
  assumes "edit_course e r w = (Inr c, w')"
  shows "\<exists>c0 th n items. c = persist_course (c0\<lparr>thumbnail := th,
                          courseData := assign_item_ids n (map clean_item (organize_edit items))\<rparr>)"
proof -
  obtain c1 w0 where l: "edit_course_loaded e r c1 w0 = (Inr c, w')"
    using assms by (auto simp: edit_course_def Let_def split: if_splits option.splits)
  obtain x w1 where t: "replace_thumbnail e c1 (er_thumbnail r) w0 = (x, w1)" by fastforce
  obtain th where x: "x = Some th" using l t by (cases x) (auto simp: edit_course_loaded_def)
  obtain y w2 where d: "delete_videos e (array_from_form_data (er_delete r)) (courseData c1) w1 = (y, w2)" by fastforce
  obtain items where y: "y = Inr items" using l t x d by (cases y) (auto simp: edit_course_loaded_def)
  obtain z w3 where u: "edit_upload_videos e (array_from_form_data (er_descriptions r))
      (array_from_form_data (er_sections r)) 0 (case er_videos r of None \<Rightarrow> [] | Some vs \<Rightarrow> vs) items w2 = (z, w3)"
    by fastforce
  obtain items' where z: "z = Some items'" using l t x d y u by (cases z) (auto simp: edit_course_loaded_def)
  have "edit_finish e (er_id r) th items' w3 = (Inr c, w')"
    using l t x d y u z by (simp add: edit_course_loaded_def)
  from edit_finish_shape [OF this] show ?thesis by blast
qed

lemma edit_finish_fail_store:
  "edit_finish e cid th items w = (Inl err, w') \<Longrightarrow>
   store w' = store w \<or>
   (\<not> db_find_ok e 1 \<and> err = ServerError (''Failed to update course with ID '' @ cid) \<and>
    (\<exists>c. store w cid \<noteq> None \<and> store w' = (store w)(cid \<mapsto> persist_course c)))"
  by (auto simp: edit_finish_def update_course_doc_def clear_all_cache_frame Let_def split: if_splits option.splits prod.splits)

lemma demo_edit_ok: "isl (fst (edit_course demo_env demo_edit_req demo_edit_world)) = False"
  by code_simp

lemma demo_edit_fail:
  "fst (edit_course demo_env (demo_edit_req\<lparr>er_videos := Some [\<lparr>vf_name = ''c'', vf_path = ''/tmp/c''\<rparr>, \<lparr>vf_name = ''b'', vf_path = ''/tmp/b''\<rparr>]\<rparr>) demo_edit_world)
   = Inl (ServerError (''Failed to update course with ID '' @ oid_of 1)) \<and>
   ''vid/tmp/c'' \<in> assets (snd (edit_course demo_env (demo_edit_req\<lparr>er_videos := Some [\<lparr>vf_name = ''c'', vf_path = ''/tmp/c''\<rparr>, \<lparr>vf_name = ''b'', vf_path = ''/tmp/b''\<rparr>]\<rparr>) demo_edit_world))"
  by code_simp

section \<open>Properties of editCourse\<close>

text \<open>Claim C5: after a successful edit with Redis reachable, the course is stored under its id
  and the keys the spec names for it are empty: the bare id (where \<open>getSingleCourse\<close>
  caches), \<open>course:id\<close>, \<open>courseContent:id\<close> and every \<open>allCourses:*\<close> listing:
  the invalidation coverage of the spec (section 8, property 5).\<close>

theorem edit_clears_course_cache:
  assumes "edit_course e r w = (Inr c, w')" and "redis_up e"
  shows "store w' (er_id r) = Some c \<and> cache w' (er_id r) = None \<and> cache w' (''course:'' @ er_id r) = None \<and>
         cache w' (''courseContent:'' @ er_id r) = None \<and> (\<forall>k. is_listing_key k \<longrightarrow> cache w' k = None)"
proof -
  obtain c0 where "edit_course_loaded e r c0 (clear_all_cache_for_course e (er_id r) w) = (Inr c, w')"
    using assms(1) by (auto simp: edit_course_def Let_def split: if_splits option.splits)
  from edit_course_loaded_success [OF this] obtain w1 where
    "w' = clear_all_cache_for_course e (er_id r) w1" "store w1 (er_id r) = Some c" by blast
  then show ?thesis using assms(2)
    by (simp add: clear_all_cache_frame clear_all_cache_scoped course_scoped_key_def course_cache_keys_def)
qed

theorem edit_clears_course_cache_witness:
  "cache (snd (edit_course demo_env demo_edit_req demo_edit_world)) (oid_of 1) = None \<and>
   cache (snd (edit_course demo_env demo_edit_req demo_edit_world)) ''allCourses:{}'' = None"
proof -
  let ?res = "edit_course demo_env demo_edit_req demo_edit_world"
  have "?res = (Inr (projr (fst ?res)), snd ?res)"
    using demo_edit_ok by (metis prod.collapse sum.collapse(2))
  from edit_clears_course_cache [OF this] show ?thesis
    by (simp add: demo_env_def demo_edit_req_def is_listing_key_def)
qed

text \<open>Claim C6: a failed edit writes nothing, except when the final \<open>findById\<close> after the
  update throws: then the update has committed (the store holds the edited course) and the
  answer is nevertheless the 500 \<open>Failed to update course with ID\<close>.\<close>

theorem edit_failure_no_commit:
  assumes "edit_course e r w = (Inl err, w')"
  shows "store w' = store w \<or>
         (\<not> db_find_ok e 1 \<and> err = ServerError (''Failed to update course with ID '' @ er_id r) \<and>
          (\<exists>c. store w (er_id r) \<noteq> None \<and> store w' = (store w)(er_id r \<mapsto> persist_course c)))"
proof -
  let ?w0 = "clear_all_cache_for_course e (er_id r) w"
  have s0: "store ?w0 = store w" by (simp add: clear_all_cache_frame)
  have "store (snd (edit_course_loaded e r c1 ?w0)) = store ?w0 \<or>
         (\<not> db_find_ok e 1 \<and> err = ServerError (''Failed to update course with ID '' @ er_id r) \<and>
          (\<exists>c. store ?w0 (er_id r) \<noteq> None \<and>
             store (snd (edit_course_loaded e r c1 ?w0)) = (store ?w0)(er_id r \<mapsto> persist_course c)))"
    if l: "fst (edit_course_loaded e r c1 ?w0) = Inl err" for c1
  proof -
    obtain x w1 where t: "replace_thumbnail e c1 (er_thumbnail r) ?w0 = (x, w1)" by fastforce
    have s1: "store w1 = store ?w0" using replace_thumbnail_frame(1) [of e c1 "er_thumbnail r" ?w0] t by simp
    obtain y w2 where d: "delete_videos e (array_from_form_data (er_delete r)) (courseData c1) w1 = (y, w2)" by fastforce
    have s2: "store w2 = store w1" using delete_videos_frame(1) [of e "array_from_form_data (er_delete r)" "courseData c1" w1] d by simp
    show ?thesis
    proof (cases x)
      case None
      with t s1 show ?thesis by (simp add: edit_course_loaded_def)
    next
      case (Some th)
      show ?thesis
      proof (cases y)
        case (Inl e2)
        with t d s1 s2 Some show ?thesis by (simp add: edit_course_loaded_def)
      next
        case (Inr items)
        obtain z w3 where u: "edit_upload_videos e (array_from_form_data (er_descriptions r))
            (array_from_form_data (er_sections r)) 0 (case er_videos r of None \<Rightarrow> [] | Some vs \<Rightarrow> vs) items w2 = (z, w3)"
          by fastforce
        have s3: "store w3 = store w2" using edit_upload_videos_frame [OF u] by simp
        show ?thesis
        proof (cases z)
          case None
          with t d u Some Inr s1 s2 s3 show ?thesis by (simp add: edit_course_loaded_def)
        next
          case (Some items')
          with t d u \<open>x = Some th\<close> Inr l have "edit_finish e (er_id r) th items' w3 = (Inl err, snd (edit_course_loaded e r c1 ?w0))"
            by (simp add: edit_course_loaded_def) (metis prod.collapse)
          from edit_finish_fail_store [OF this] s1 s2 s3 show ?thesis by simp
        qed
      qed
    qed
  qed
  note loaded = this
  show ?thesis
  proof (cases "is_valid_object_id (er_id r) \<and> cfg_ok e \<and> db_find_ok e 0")
    case False
    with assms have "store w' = store w"
      by (auto simp: edit_course_def Let_def clear_all_cache_frame split: if_splits)
    then show ?thesis ..
  next
    case True
    show ?thesis
    proof (cases "store w (er_id r)")
      case None
      with True assms s0 have "store w' = store w" by (simp add: edit_course_def Let_def)
      then show ?thesis ..
    next
      case (Some c1)
      with True assms s0 have "edit_course_loaded e r c1 ?w0 = (Inl err, w')"
        by (simp add: edit_course_def Let_def)
      with loaded [of c1] s0 show ?thesis by simp
    qed
  qed
qed

theorem edit_failure_no_commit_witness:
  "fst (edit_course (demo_env\<lparr>db_find_ok := \<lambda>n. n \<noteq> 1\<rparr>) demo_edit_req demo_edit_world)
     = Inl (ServerError (''Failed to update course with ID '' @ er_id demo_edit_req)) \<and>
   store (snd (edit_course (demo_env\<lparr>db_find_ok := \<lambda>n. n \<noteq> 1\<rparr>) demo_edit_req demo_edit_world)) (er_id demo_edit_req)
     \<noteq> store demo_edit_world (er_id demo_edit_req) \<and>
   (store (snd (edit_course (demo_env\<lparr>db_find_ok := \<lambda>n. n \<noteq> 1\<rparr>) demo_edit_req demo_edit_world)) = store demo_edit_world \<or>
    (\<not> db_find_ok (demo_env\<lparr>db_find_ok := \<lambda>n. n \<noteq> 1\<rparr>) 1 \<and>
     ServerError (''Failed to update course with ID '' @ er_id demo_edit_req) =
       ServerError (''Failed to update course with ID '' @ er_id demo_edit_req) \<and>
     (\<exists>c. store demo_edit_world (er_id demo_edit_req) \<noteq> None \<and>
        store (snd (edit_course (demo_env\<lparr>db_find_ok := \<lambda>n. n \<noteq> 1\<rparr>) demo_edit_req demo_edit_world)) =
          (store demo_edit_world)(er_id demo_edit_req \<mapsto> persist_course c))))"
proof -
  let ?res = "edit_course (demo_env\<lparr>db_find_ok := \<lambda>n. n \<noteq> 1\<rparr>) demo_edit_req demo_edit_world"
  have f: "fst ?res = Inl (ServerError (''Failed to update course with ID '' @ er_id demo_edit_req))" by code_simp
  have ne: "store (snd ?res) (er_id demo_edit_req) \<noteq> store demo_edit_world (er_id demo_edit_req)" by code_simp
  have "?res = (Inl (ServerError (''Failed to update course with ID '' @ er_id demo_edit_req)), snd ?res)"
    using f by (metis prod.collapse)
  from f ne edit_failure_no_commit [OF this] show ?thesis by blast
qed

text \<open>Claim C34: on a store whose items carry no \<open>videoPublicId\<close> (every store this code writes, see the invariant of the root theory), an edit never issues a destroy of a video asset, so the videos it deletes from the course stay at Cloudinary.\<close>

theorem edit_never_destroys_videos:
  assumes "store_pid_free w"
  shows "\<exists>new. remote_log (snd (edit_course e r w)) = remote_log w @ new \<and> video_destroys new = []"
proof -
  let ?w0 = "clear_all_cache_for_course e (er_id r) w"
  have l0: "remote_log ?w0 = remote_log w" by (simp add: clear_all_cache_frame)
  show ?thesis
  proof (cases "is_valid_object_id (er_id r) \<and> cfg_ok e \<and> db_find_ok e 0 \<and> store w (er_id r) \<noteq> None")
    case True
    then obtain c where c: "store w (er_id r) = Some c" by blast
    then have "c \<in> ran (store w)" by (auto simp: ran_def)
    with assms have "list_all (\<lambda>v. videoPublicId v = None) (courseData c)" by (simp add: store_pid_free_def)
    from edit_course_loaded_log [OF this, of e r ?w0] True c l0 show ?thesis
      by (auto simp: edit_course_def clear_all_cache_frame video_destroys_Nil_iff)
  next
    case False
    then show ?thesis by (auto simp: edit_course_def clear_all_cache_frame Let_def video_destroys_def)
  qed
qed

theorem edit_never_destroys_videos_witness:
  "\<exists>new. remote_log (snd (edit_course demo_env demo_edit_req demo_edit_world)) = remote_log demo_edit_world @ new \<and>
        video_destroys new = []"
  by (rule edit_never_destroys_videos) (simp add: store_pid_free_def demo_edit_world_def demo_course_def demo_item_def)

text \<open>On items without asset ids and with distinct ids, the deletion step removes exactly the items whose ids are listed, issues no remote call and succeeds.\<close>

theorem edit_delete_stored_items:
  assumes "list_all (\<lambda>v. videoPublicId v = None) items" and "distinct (item_ids items)"
  shows "delete_videos e ids items w = (Inr [v \<leftarrow> items. \<forall>i \<in> set ids. item_id v \<noteq> Some i], w)"
  using delete_phase1_no_assets [OF assms, of e ids w "[]"]
  by (simp add: delete_videos_def completion_order_def)

theorem edit_delete_stored_items_witness:
  "delete_videos demo_env [''a'', ''x''] [demo_item ''a'' None ''Intro'', demo_item ''b'' None ''Setup''] demo_world =
     (Inr [demo_item ''b'' None ''Setup''], demo_world)"
proof -
  have "delete_videos demo_env [''a'', ''x''] [demo_item ''a'' None ''Intro'', demo_item ''b'' None ''Setup''] demo_world =
     (Inr [v \<leftarrow> [demo_item ''a'' None ''Intro'', demo_item ''b'' None ''Setup'']. \<forall>i \<in> set [''a'', ''x'']. item_id v \<noteq> Some i], demo_world)"
    by (rule edit_delete_stored_items) (simp_all add: demo_item_def item_ids_def)
  then show ?thesis by (simp add: demo_item_def)
qed

text \<open>Claim C36: when a new thumbnail is sent and its upload fails, the old thumbnail has already been destroyed while the stored course still refers to it.\<close>

theorem edit_thumbnail_destroyed_on_failed_replace:
  assumes "is_valid_object_id (er_id r)" and "cfg_ok e" and "db_find_ok e 0" and "store w (er_id r) = Some c"
    and "thumbnail c = Some (pid, u)" and "pid \<noteq> []" and "destroy_ok e pid"
    and "er_thumbnail r = Some path" and "image_svc e path = None"
  shows "fst (edit_course e r w) = Inl (ServerError (''Failed to update course with ID '' @ er_id r)) \<and>
         store (snd (edit_course e r w)) (er_id r) = Some c \<and> pid \<notin> assets (snd (edit_course e r w))"
  using assms
  by (simp add: edit_course_def edit_course_loaded_def replace_thumbnail_def upload_image_def
      delete_from_cloudinary_def clear_all_cache_frame Let_def)

theorem edit_thumbnail_destroyed_on_failed_replace_witness:
  "fst (edit_course (demo_env\<lparr>image_svc := (\<lambda>_. None)\<rparr>) (demo_edit_req\<lparr>er_thumbnail := Some ''/tmp/t2''\<rparr>) demo_edit_world)
     = Inl (ServerError (''Failed to update course with ID '' @ oid_of 1)) \<and>
   store (snd (edit_course (demo_env\<lparr>image_svc := (\<lambda>_. None)\<rparr>) (demo_edit_req\<lparr>er_thumbnail := Some ''/tmp/t2''\<rparr>) demo_edit_world)) (oid_of 1)
     = Some demo_course \<and>
   ''thumb'' \<notin> assets (snd (edit_course (demo_env\<lparr>image_svc := (\<lambda>_. None)\<rparr>) (demo_edit_req\<lparr>er_thumbnail := Some ''/tmp/t2''\<rparr>) demo_edit_world))"
proof -
  have v: "is_valid_object_id (oid_of 1)" by code_simp
  show ?thesis
    using edit_thumbnail_destroyed_on_failed_replace [of "demo_edit_req\<lparr>er_thumbnail := Some ''/tmp/t2''\<rparr>"
        "demo_env\<lparr>image_svc := (\<lambda>_. None)\<rparr>" demo_edit_world demo_course "''thumb''" "''https://cdn/thumb''" "''/tmp/t2''"] v
    by (simp add: demo_edit_req_def demo_env_def demo_edit_world_def demo_course_def)
qed

text \<open>After a successful edit no stored question has a user that is not a string: every question whose user is an ObjectId reference, as the schema stores it, is deleted by the clean-up.\<close>

theorem edit_drops_user_questions:
  assumes "edit_course e r w = (Inr c, w')"
  shows "list_all (\<lambda>v. case questions v of None \<Rightarrow> True
                    | Some qs \<Rightarrow> list_all (\<lambda>q. case q_user q of UserText u \<Rightarrow> True | _ \<Rightarrow> False) qs)
                  (courseData c)"
proof -
  obtain c0 th n items where c: "c = persist_course (c0\<lparr>thumbnail := th,
      courseData := assign_item_ids n (map clean_item (organize_edit items))\<rparr>)"
    using edit_course_shape [OF assms(1)] by blast
  have "case questions v of None \<Rightarrow> True
          | Some qs \<Rightarrow> list_all (\<lambda>q. case q_user q of UserText u \<Rightarrow> True | _ \<Rightarrow> False) qs"
    if v: "v \<in> set (courseData c)" for v
  proof (cases "questions v")
    case (Some qs)
    obtain v1 where "v1 \<in> set (assign_item_ids n (map clean_item (organize_edit items)))" and v1: "v = persist_item v1"
      using v c by (auto simp: persist_course_def)
    then obtain v2 where "v2 \<in> set (organize_edit items)" "questions v1 = questions (clean_item v2)"
      using assign_item_ids_questions by fastforce
    then have "list_all keep_question qs"
      using Some v1 renumber_items_questions
      by (auto simp: organize_edit_def renumber_def clean_item_def persist_item_def)
    then show ?thesis using Some
      by (auto simp: list_all_iff keep_question_def split: js_user.split)
  qed simp
  then show ?thesis by (simp add: list_all_iff)
qed

theorem edit_drops_user_questions_witness:
  "list_all (\<lambda>v. case questions v of None \<Rightarrow> True
                 | Some qs \<Rightarrow> list_all (\<lambda>q. case q_user q of UserText u \<Rightarrow> True | _ \<Rightarrow> False) qs)
     (courseData (projr (fst (edit_course demo_env demo_edit_req demo_edit_world))))"
proof -
  let ?res = "edit_course demo_env demo_edit_req demo_edit_world"
  have "?res = (Inr (projr (fst ?res)), snd ?res)"
    using demo_edit_ok by (metis prod.collapse sum.collapse(2))
  then show ?thesis by (rule edit_drops_user_questions)
qed

text \<open>When the upload of the second new video of an edit fails, the request answers 500,
  and the first video stays uploaded at Cloudinary with no course referring to it; the edit
  does not clean up its own uploads.\<close>

theorem edit_upload_failure_keeps_uploads:
  "fst (edit_course demo_env (demo_edit_req\<lparr>er_videos := Some [\<lparr>vf_name = ''c'', vf_path = ''/tmp/c''\<rparr>, \<lparr>vf_name = ''b'', vf_path = ''/tmp/b''\<rparr>]\<rparr>) demo_edit_world)
     = Inl (ServerError (''Failed to update course with ID '' @ oid_of 1)) \<and>
   remote_log (snd (edit_course demo_env (demo_edit_req\<lparr>er_videos := Some [\<lparr>vf_name = ''c'', vf_path = ''/tmp/c''\<rparr>, \<lparr>vf_name = ''b'', vf_path = ''/tmp/b''\<rparr>]\<rparr>) demo_edit_world))
     = [RUpload ''vid/tmp/c'' ''video''] \<and>
   ''vid/tmp/c'' \<in> assets (snd (edit_course demo_env (demo_edit_req\<lparr>er_videos := Some [\<lparr>vf_name = ''c'', vf_path = ''/tmp/c''\<rparr>, \<lparr>vf_name = ''b'', vf_path = ''/tmp/b''\<rparr>]\<rparr>) demo_edit_world))"
  by code_simp

text \<open>An edit ignores \<open>videoTitles\<close>: a new video sent with the title \<open>Intro\<close> is
  stored as \<open>Video 1\<close>, the first item of its section, and the renumbering renames the
  remaining \<open>Video 2\<close> of the other section to \<open>Video 1\<close>.\<close>

theorem edit_ignores_video_titles:
  "er_titles demo_edit_req = FOne ''Intro'' \<and>
   map title (courseData (projr (fst (edit_course demo_env demo_edit_req demo_edit_world)))) = [''Video 1'', ''Video 1'']"
  by code_simp

end
