(* ===== verification/Delete.thy ===== *)
theory Delete
  imports Edit
begin

text \<open>
  The deletion handlers of \<open>src/server/controller/course.controller.ts\<close>:
  \<open>deleteCourse\<close> (lines 1050--1111), \<open>deleteVideoFromCourse\<close> (lines 1114--1170) and
  the cache utility \<open>clearCourseCache\<close> (lines 1373--1427). \<open>deleteCourse\<close> destroys
  the thumbnail and every video with an asset id (each failure only logged), deletes
  the document and deletes the bare-id Redis key outside any \<open>try\<close>.
  \<open>deleteVideoFromCourse\<close> destroys one video, splices it out, saves the course and
  writes it under the bare id. The number of cleared entries that \<open>clearCourseCache\<close>
  reports is not modelled.
\<close>

section \<open>deleteCourse\<close>

text \<open>The asset ids of the items that have one, in order (the \<open>for ... of\<close> loop).\<close>

definition item_asset_ids :: "content_item list \<Rightarrow> string list" where
  "item_asset_ids vs = [p. Some p \<leftarrow> map has_public_id vs]"

text \<open>Destroying the thumbnail if it has a \<open>public_id\<close>; a failure is only logged.\<close>

definition destroy_thumbnail :: "env \<Rightarrow> course \<Rightarrow> world \<Rightarrow> world" where
  "destroy_thumbnail e c w =
     (case thumbnail c of
        Some (pid, _) \<Rightarrow> if pid \<noteq> [] then snd (delete_from_cloudinary e pid ''image'' w) else w
      | None \<Rightarrow> w)"

definition delete_course :: "env \<Rightarrow> string \<Rightarrow> world \<Rightarrow> (http_error + unit) \<times> world" where
  "delete_course e cid w =
     (if \<not> is_valid_object_id cid then (Inl (BadRequest ''Invalid Course ID''), w)
      else if \<not> cfg_ok e then (Inl (ServerError ''Cloudinary configuration is missing''), w)
      else
        (case store w cid of
           None \<Rightarrow> (Inl (NotFound ''Course not found''), w)
         | Some c \<Rightarrow>
             (let w1 = delete_all_best_effort e ''video'' (item_asset_ids (courseData c)) (destroy_thumbnail e c w) in
              if \<not> db_ok e then (Inl (ServerError ''Failed to delete course''), w1)
              else
                (let w2 = w1\<lparr>store := (store w1)(cid := None)\<rparr> in
                 if \<not> redis_up e then (Inl (ServerError ''Redis unavailable''), w2)
                 else (Inr (), w2\<lparr>cache := (cache w2)(cid := None)\<rparr>)))))"

section \<open>deleteVideoFromCourse\<close>

definition delete_video_from_course ::
  "env \<Rightarrow> string \<Rightarrow> string \<Rightarrow> world \<Rightarrow> (http_error + course) \<times> world" where
  "delete_video_from_course e cid vid w =
     (if \<not> is_valid_object_id cid then (Inl (BadRequest ''Invalid Course ID''), w)
      else if \<not> cfg_ok e then (Inl (ServerError ''Cloudinary configuration is missing''), w)
      else
        (case store w cid of
           None \<Rightarrow> (Inl (NotFound ''Course not found''), w)
         | Some c \<Rightarrow>
             (case find_index_nat (\<lambda>v. item_id v = Some vid) (courseData c) of
                None \<Rightarrow> (Inl (NotFound ''Video not found''), w)
              | Some k \<Rightarrow>
                  (let w1 = (case has_public_id (courseData c ! k) of
                               Some p \<Rightarrow> snd (delete_from_cloudinary e p ''video'' w)
                             | None \<Rightarrow> w);
                       c' = persist_course (c\<lparr>courseData := js_splice1 (courseData c) k\<rparr>)
                   in if \<not> db_ok e then (Inl (ServerError ''Failed to save course''), w1)
                      else
                        (let w2 = w1\<lparr>store := (store w1)(cid \<mapsto> c')\<rparr> in
                         if \<not> redis_up e then (Inl (ServerError ''Redis unavailable''), w2)
                         else (Inr c', w2\<lparr>cache := (cache w2)(cid \<mapsto> \<lparr>ce_val = CVCourse c', ce_ttl = None\<rparr>)\<rparr>))))))"

section \<open>clearCourseCache\<close>

text \<open>
  Each of the seven deletions is caught on its own; \<open>KEYS allCourses:*\<close> is not, so with
  Redis unreachable the handler answers 500 having deleted nothing.
\<close>

definition clear_course_cache :: "env \<Rightarrow> string \<Rightarrow> world \<Rightarrow> (http_error + unit) \<times> world" where
  "clear_course_cache e cid w =
     (if \<not> is_valid_object_id cid then (Inl (BadRequest ''Invalid course ID''), w)
      else if \<not> redis_up e then (Inl (ServerError ''Redis unavailable''), w)
      else (Inr (), w\<lparr>cache := (\<lambda>k. if k \<in> set (course_cache_keys cid) \<or> is_listing_key k then None else cache w k)\<rparr>))"

section \<open>Lemmas\<close>

lemma destroy_thumbnail_frame:
  "store (destroy_thumbnail e c w) = store w" "cache (destroy_thumbnail e c w) = cache w"
  "next_oid (destroy_thumbnail e c w) = next_oid w"
  by (auto simp: destroy_thumbnail_def frame_simps split: option.split)

lemma destroy_thumbnail_log:
  "\<exists>new. remote_log (destroy_thumbnail e c w) = remote_log w @ new \<and> video_destroys new = []"
  by (auto simp: destroy_thumbnail_def delete_from_cloudinary_log video_destroys_def split: option.split)

lemma item_asset_ids_pid_free:
  "list_all (\<lambda>v. videoPublicId v = None) vs \<Longrightarrow> item_asset_ids vs = []"
  by (induction vs) (auto simp: item_asset_ids_def)

lemma stored_course_pid_free:
  "store_pid_free w \<Longrightarrow> store w cid = Some c \<Longrightarrow> list_all (\<lambda>v. videoPublicId v = None) (courseData c)"
  by (auto simp: store_pid_free_def ran_def)

lemma persist_item_idem [simp]: "persist_item (persist_item v) = persist_item v"
  by (simp add: persist_item_def)

lemma store_pid_free_del:
  "store_pid_free w \<Longrightarrow> store w' = (store w)(k := None) \<Longrightarrow> store_pid_free w'"
  by (auto simp: store_pid_free_def ran_def split: if_splits)

lemma delete_course_pid_free: "store_pid_free w \<Longrightarrow> store_pid_free (snd (delete_course e cid w))"
proof -
  assume p: "store_pid_free w"
  have s: "store (delete_all_best_effort e ''video'' ps (destroy_thumbnail e c w)) = store w" for ps c
    by (simp add: frame_simps destroy_thumbnail_frame)
  have "store_pid_free (delete_all_best_effort e ''video'' ps (destroy_thumbnail e c w))" for ps c
    using store_pid_free_same [OF s] p by simp
  moreover have "store_pid_free ((delete_all_best_effort e ''video'' ps (destroy_thumbnail e c w))
      \<lparr>store := (store w)(cid := None)\<rparr>)" for ps c
    by (rule store_pid_free_del [OF p]) simp
  moreover have "store_pid_free ((delete_all_best_effort e ''video'' ps (destroy_thumbnail e c w))
      \<lparr>store := (store w)(cid := None), cache := x\<rparr>)" for ps c x
    by (rule store_pid_free_del [OF p]) simp
  ultimately show ?thesis using p
    by (simp add: delete_course_def Let_def s split: option.split)
qed

lemma delete_video_pid_free: "store_pid_free w \<Longrightarrow> store_pid_free (snd (delete_video_from_course e cid vid w))"
proof -
  assume p: "store_pid_free w"
  have w1: "store_pid_free w1" if "store w1 = store w" for w1
    using store_pid_free_same [OF that] p by simp
  have upd: "store_pid_free w2" if "store w2 = (store w)(cid \<mapsto> persist_course c)" for w2 c
    by (rule store_pid_free_upd [OF p that])
  show ?thesis
    using w1 upd
    by (auto simp: delete_video_from_course_def Let_def frame_simps split: option.split)
qed

lemma clear_course_cache_store: "store (snd (clear_course_cache e cid w)) = store w"
  by (simp add: clear_course_cache_def)

lemma demo_delete_ok: "fst (delete_course demo_env (oid_of 1) demo_edit_world) = Inr ()"
  by code_simp

lemma demo_delete_video_ok: "isl (fst (delete_video_from_course demo_env (oid_of 1) ''a'' demo_edit_world)) = False"
  by code_simp

lemma demo_valid_oid: "is_valid_object_id (oid_of 1)"
  by code_simp

lemma demo_edit_world_pid_free: "store_pid_free demo_edit_world"
  by (simp add: store_pid_free_def demo_edit_world_def demo_course_def demo_item_def)

section \<open>Properties of the deletion handlers\<close>

text \<open>Claim C32: on a store whose items carry no \<open>videoPublicId\<close>, \<open>deleteCourse\<close> issues no destroy of a video asset: the videos of a deleted course stay at Cloudinary, contrary to the spec, which has the whole-course delete remove every item's remote asset.\<close>

theorem delete_course_never_destroys_videos:
  assumes "store_pid_free w"
  shows "\<exists>new. remote_log (snd (delete_course e cid w)) = remote_log w @ new \<and> video_destroys new = []"
proof (cases "is_valid_object_id cid \<and> cfg_ok e \<and> store w cid \<noteq> None")
  case True
  then obtain c where c: "store w cid = Some c" by blast
  have "item_asset_ids (courseData c) = []"
    using stored_course_pid_free [OF assms c] by (rule item_asset_ids_pid_free)
  moreover obtain new where "remote_log (destroy_thumbnail e c w) = remote_log w @ new" "video_destroys new = []"
    using destroy_thumbnail_log by blast
  ultimately show ?thesis using True c
    by (auto simp: delete_course_def Let_def)
next
  case False
  then show ?thesis by (auto simp: delete_course_def video_destroys_def)
qed

theorem delete_course_never_destroys_videos_witness:
  "\<exists>new. remote_log (snd (delete_course demo_env (oid_of 1) demo_edit_world)) = remote_log demo_edit_world @ new \<and>
        video_destroys new = []"
  by (rule delete_course_never_destroys_videos [OF demo_edit_world_pid_free])

text \<open>Claim C33: a successful \<open>deleteCourse\<close> removes the course from the store but changes no cache entry other than the bare id: \<open>courseContent:id\<close>, \<open>course:id\<close> and the \<open>allCourses:*\<close> listings keep serving the deleted course.\<close>

theorem delete_course_leaves_cache:
  assumes "delete_course e cid w = (Inr u, w')" and "k \<noteq> cid"
  shows "store w' cid = None \<and> cache w' k = cache w k"
  using assms
  by (auto simp: delete_course_def Let_def destroy_thumbnail_frame delete_all_best_effort_frame
      split: if_splits option.splits)

theorem delete_course_leaves_cache_witness:
  "store (snd (delete_course demo_env (oid_of 1) demo_edit_world)) (oid_of 1) = None \<and>
   cache (snd (delete_course demo_env (oid_of 1) demo_edit_world)) ''allCourses:{}'' =
     Some \<lparr>ce_val = CVListing [(demo_course, 0)], ce_ttl = Some 1800\<rparr>"
proof -
  have "delete_course demo_env (oid_of 1) demo_edit_world = (Inr (), snd (delete_course demo_env (oid_of 1) demo_edit_world))"
    using demo_delete_ok by (metis prod.collapse)
  moreover have ne: "''allCourses:{}'' \<noteq> oid_of 1" by code_simp
  ultimately show ?thesis
    using delete_course_leaves_cache [of demo_env "oid_of 1" demo_edit_world "()" _ "''allCourses:{}''"]
    by (simp add: demo_edit_world_def ne)
qed

text \<open>With Redis unreachable, \<open>deleteCourse\<close> answers 500 although it has already deleted the course from the store.\<close>

theorem delete_course_redis_down:
  assumes "is_valid_object_id cid" and "cfg_ok e" and "db_ok e" and "\<not> redis_up e" and "store w cid = Some c"
  shows "fst (delete_course e cid w) = Inl (ServerError ''Redis unavailable'') \<and> store (snd (delete_course e cid w)) cid = None"
  using assms by (simp add: delete_course_def Let_def)

theorem delete_course_redis_down_witness:
  "fst (delete_course (demo_env\<lparr>redis_up := False\<rparr>) (oid_of 1) demo_edit_world) = Inl (ServerError ''Redis unavailable'') \<and>
   store (snd (delete_course (demo_env\<lparr>redis_up := False\<rparr>) (oid_of 1) demo_edit_world)) (oid_of 1) = None"
  by (rule delete_course_redis_down [of "oid_of 1" "demo_env\<lparr>redis_up := False\<rparr>" demo_edit_world demo_course])
    (rule demo_valid_oid, simp_all add: demo_env_def demo_edit_world_def)

text \<open>A successful \<open>deleteVideoFromCourse\<close> on a course with distinct item ids stores the course without the item, one shorter, caches it under the bare id with no expiry, and leaves \<open>courseContent:id\<close> as it was.\<close>

theorem delete_video_removes_item:
  assumes "delete_video_from_course e cid vid w = (Inr c', w')" and "store w cid = Some c"
    and "distinct (item_ids (courseData c))"
  shows "courseData c' = map persist_item [v \<leftarrow> courseData c. item_id v \<noteq> Some vid] \<and>
         length (courseData c') = length (courseData c) - 1 \<and>
         store w' cid = Some c' \<and> cache w' cid = Some \<lparr>ce_val = CVCourse c', ce_ttl = None\<rparr> \<and>
         cache w' (''courseContent:'' @ cid) = cache w (''courseContent:'' @ cid)"
proof -
  obtain k where k: "find_index_nat (\<lambda>v. item_id v = Some vid) (courseData c) = Some k"
    using assms(1,2) by (auto simp: delete_video_from_course_def split: if_splits option.splits)
  have kl: "k < length (courseData c)" using find_index_nat_Some [OF k] by simp
  have sp: "js_splice1 (courseData c) k = [v \<leftarrow> courseData c. item_id v \<noteq> Some vid]"
    using js_splice1_find_unique [OF k item_ids_unique [OF assms(3)]] by simp
  have len: "length [v \<leftarrow> courseData c. item_id v \<noteq> Some vid] = length (courseData c) - 1"
    using kl by (simp add: sp [symmetric] length_js_splice1)
  have ne: "''courseContent:'' @ cid \<noteq> cid" by (metis append_self_conv2 list.distinct(1) same_append_eq Nil_is_append_conv)
  show ?thesis
    using assms(1,2) k sp ne len
    by (auto simp: delete_video_from_course_def persist_course_def Let_def frame_simps
        split: if_splits option.splits)
qed

theorem delete_video_removes_item_witness:
  "length (courseData (projr (fst (delete_video_from_course demo_env (oid_of 1) ''a'' demo_edit_world)))) = 1 \<and>
   cache (snd (delete_video_from_course demo_env (oid_of 1) ''a'' demo_edit_world)) (''courseContent:'' @ oid_of 1) =
     cache demo_edit_world (''courseContent:'' @ oid_of 1)"
proof -
  let ?r = "delete_video_from_course demo_env (oid_of 1) ''a'' demo_edit_world"
  have "?r = (Inr (projr (fst ?r)), snd ?r)"
    using demo_delete_video_ok by (metis prod.collapse sum.collapse(2))
  from delete_video_removes_item [OF this, of demo_course] show ?thesis
    by (simp add: demo_edit_world_def demo_course_def demo_item_def item_ids_def)
qed

text \<open>For a valid id, the \<open>clearCourseCache\<close> endpoint has the same effect on the world as the helper \<open>clearAllCacheForCourse\<close>.\<close>

theorem clear_course_cache_matches_clear_all:
  assumes "is_valid_object_id cid"
  shows "snd (clear_course_cache e cid w) = clear_all_cache_for_course e cid w"
  using assms by (simp add: clear_course_cache_def clear_all_cache_for_course_def)

theorem clear_course_cache_matches_clear_all_witness:
  "snd (clear_course_cache demo_env (oid_of 1) demo_edit_world) = clear_all_cache_for_course demo_env (oid_of 1) demo_edit_world"
  by (rule clear_course_cache_matches_clear_all [OF demo_valid_oid])

end
