(* ===== verification/Js_Values.thy ===== *)
theory Js_Values
  imports World Organizer
begin

text \<open>
  The JavaScript value conversions the request handlers apply to query strings and
  form fields: \<open>String.prototype.trim\<close>, \<open>parseInt\<close> without a radix, \<open>String(n)\<close>
  of an integer and \<open>Array.prototype.slice\<close> with integer or \<open>NaN\<close> bounds, with
  the round trip of \<open>parseInt\<close> over \<open>String\<close>.
\<close>

text \<open>\<open>str.trim()\<close> on the whitespace characters of \<^const>\<open>is_js_space\<close>.\<close>

definition js_trim :: "string \<Rightarrow> string" where
  "js_trim s = rev (dropWhile is_js_space (rev (dropWhile is_js_space s)))"

text \<open>The value of a hexadecimal digit.\<close>

definition hex_val :: "char \<Rightarrow> nat" where
  "hex_val c = (let n = of_char c in if n \<le> 57 then n - 48 else if n \<le> 70 then n - 55 else n - 87)"

text \<open>
  \<open>parseInt(s)\<close> without a radix: leading white space, an optional sign, then a
  \<open>0x\<close>/\<open>0X\<close> prefix selects base 16; the longest run of digits is read, and a string
  with no digit gives \<open>NaN\<close> (\<open>None\<close>).
\<close>

definition js_parse_int :: "string \<Rightarrow> int option" where
  "js_parse_int s =
     (let s1 = dropWhile is_js_space s;
          neg = (case s1 of c # _ \<Rightarrow> c = CHR ''-'' | [] \<Rightarrow> False);
          s2 = (case s1 of c # r \<Rightarrow> if c = CHR ''-'' \<or> c = CHR ''+'' then r else s1 | [] \<Rightarrow> []);
          sgn = (\<lambda>n::nat. if neg then - int n else int n)
      in if take 2 s2 = ''0x'' \<or> take 2 s2 = ''0X''
         then (let ds = takeWhile is_hex (drop 2 s2) in
               if ds = [] then None else Some (sgn (foldl (\<lambda>n c. 16 * n + hex_val c) 0 ds)))
         else (let ds = takeWhile is_digit s2 in
               if ds = [] then None else Some (sgn (parse_digits ds))))"

text \<open>\<open>String(n)\<close> for an integer.\<close>

definition js_int_str :: "int \<Rightarrow> string" where
  "js_int_str n = (if n < 0 then ''-'' @ show_nat (nat (- n)) else show_nat (nat n))"

text \<open>
  A bound of \<open>Array.prototype.slice(start, end)\<close>, an integer or \<open>NaN\<close>
  (\<open>None\<close>): a negative bound counts from the end, \<open>NaN\<close> is 0, and the result is
  clamped to the length.
\<close>

definition slice_bound :: "int option \<Rightarrow> nat \<Rightarrow> nat" where
  "slice_bound b len =
     (case b of None \<Rightarrow> 0
      | Some n \<Rightarrow> if n < 0 then nat (max 0 (int len + n)) else min (nat n) len)"

definition js_slice :: "'a list \<Rightarrow> int option \<Rightarrow> int option \<Rightarrow> 'a list" where
  "js_slice xs s e = (let a = slice_bound s (length xs); b = slice_bound e (length xs) in take (b - a) (drop a xs))"

text \<open>\<open>Array.prototype.join(sep)\<close> on strings.\<close>

fun js_join :: "string \<Rightarrow> string list \<Rightarrow> string" where
  "js_join sep [] = []"
| "js_join sep [x] = x"
| "js_join sep (x # y # zs) = x @ sep @ js_join sep (y # zs)"

text \<open>
  A JSON value as \<open>express.json()\<close> hands a request body field to a handler, and as
  \<open>.lean()\<close> returns a stored document: \<open>undefined\<close> for an absent field.
\<close>

datatype json_val = JUndef | JNull | JBool bool | JNum int | JStr string
  | JArr "json_val list" | JObj "(string \<times> json_val) list"

text \<open>\<open>next(new ErrorHandler(message, status))\<close> as the pair \<open>(status, message)\<close>.\<close>

type_synonym status_error = "nat \<times> string"

text \<open>Truthiness: \<open>undefined\<close>, \<open>null\<close>, \<open>false\<close>, \<open>0\<close> and \<open>''\<close> are falsy.\<close>

fun js_truthy :: "json_val \<Rightarrow> bool" where
  "js_truthy JUndef = False"
| "js_truthy JNull = False"
| "js_truthy (JBool b) = b"
| "js_truthy (JNum n) = (n \<noteq> 0)"
| "js_truthy (JStr s) = (s \<noteq> [])"
| "js_truthy (JArr _) = True"
| "js_truthy (JObj _) = True"

text \<open>Property access \<open>v.k\<close> (\<open>v?.k\<close>): a missing key, or a value that is not an object, gives \<open>undefined\<close>.\<close>

fun js_get :: "json_val \<Rightarrow> string \<Rightarrow> json_val" where
  "js_get (JObj kvs) k = (case map_of kvs k of Some v \<Rightarrow> v | None \<Rightarrow> JUndef)"
| "js_get _ k = JUndef"

text \<open>Strict equality \<open>===\<close>: primitives by value; two objects or arrays are never equal
  unless they are the same object, which a request body and a stored document never are.\<close>

fun js_strict_eq :: "json_val \<Rightarrow> json_val \<Rightarrow> bool" where
  "js_strict_eq (JArr _) _ = False"
| "js_strict_eq (JObj _) _ = False"
| "js_strict_eq a b = (a = b)"

section \<open>Lemmas\<close>

lemma parse_digits_snoc: "parse_digits (xs @ [c]) = 10 * parse_digits xs + (of_char c - 48)"
  by (simp add: parse_digits_def)

lemma parse_digits_show_nat [simp]: "parse_digits (show_nat n) = n"
proof (induction n rule: show_nat.induct)
  case (1 n)
  show ?case
  proof (cases "n < 10")
    case True
    then show ?thesis by (subst show_nat.simps) (simp add: parse_digits_def)
  next
    case False
    then have "parse_digits (show_nat n) = 10 * (n div 10) + n mod 10"
      using "1.IH" by (subst show_nat.simps) (simp add: parse_digits_snoc)
    then show ?thesis by simp
  qed
qed

lemma parse_digits_zeros: "parse_digits (replicate k (CHR ''0'') @ s) = parse_digits s"
proof -
  have "foldl (\<lambda>n c. 10 * n + (of_char c - 48)) 0 (replicate k (CHR ''0'')) = (0::nat)"
    by (induction k) simp_all
  then show ?thesis by (simp add: parse_digits_def)
qed

lemma parse_digits_oid_of [simp]: "parse_digits (oid_of n) = n"
  by (simp add: oid_of_def parse_digits_zeros)

lemma oid_of_inj: "oid_of m = oid_of n \<longleftrightarrow> m = n"
  by (metis parse_digits_oid_of)

lemma show_nat_is_digit: "c \<in> set (show_nat n) \<Longrightarrow> is_digit c"
  using show_nat_chars [of c n] by (auto simp: is_digit_def)

lemma show_nat_not_Nil [simp]: "show_nat n \<noteq> []"
  by (subst show_nat.simps) simp

lemma takeWhile_digit_show_nat [simp]: "takeWhile is_digit (show_nat n) = show_nat n"
  using show_nat_is_digit by (simp add: takeWhile_eq_all_conv)

lemma show_nat_Cons: obtains c r where "show_nat n = c # r" and "is_digit c"
proof (cases "show_nat n")
  case (Cons c r)
  then show ?thesis using that show_nat_is_digit [of c n] by simp
qed simp

lemma digit_not_special: "is_digit c \<Longrightarrow> \<not> is_js_space c \<and> c \<noteq> CHR ''-'' \<and> c \<noteq> CHR ''+'' \<and> c \<noteq> CHR ''x'' \<and> c \<noteq> CHR ''X''"
  by (auto simp: is_digit_def is_js_space_def less_eq_char_def)

lemma digits_no_hex_prefix:
  assumes "\<forall>c \<in> set s. is_digit c"
  shows "\<not> (take 2 s = ''0x'' \<or> take 2 s = ''0X'')"
proof
  assume "take 2 s = ''0x'' \<or> take 2 s = ''0X''"
  then have "CHR ''x'' \<in> set s \<or> CHR ''X'' \<in> set s"
    by (metis in_set_takeD list.set_intros(1) list.set_intros(2))
  then show False using assms digit_not_special by blast
qed

text \<open>\<open>parseInt\<close> reads back a nonempty string of decimal digits as its value.\<close>

lemma js_parse_int_digits:
  assumes ne: "s \<noteq> []" and d: "\<forall>c \<in> set s. is_digit c"
  shows "js_parse_int s = Some (int (parse_digits s))"
proof -
  obtain c r where s: "s = c # r" using ne by (cases s) auto
  have dc: "is_digit c" using d s by simp
  have dw: "dropWhile is_js_space s = s" using digit_not_special [OF dc] s by simp
  have h1: "(case s of c # _ \<Rightarrow> c = CHR ''-'' | [] \<Rightarrow> False) = False"
    using digit_not_special [OF dc] s by simp
  have h2: "(case s of c # r \<Rightarrow> if c = CHR ''-'' \<or> c = CHR ''+'' then r else s | [] \<Rightarrow> []) = s"
    using digit_not_special [OF dc] s by simp
  have tw: "takeWhile is_digit s = s" using d by (simp add: takeWhile_eq_all_conv)
  show ?thesis
    unfolding js_parse_int_def Let_def dw h1 h2 tw
    using digits_no_hex_prefix [OF d] ne by simp
qed

lemma js_parse_int_show_nat: "js_parse_int (show_nat n) = Some (int n)"
  using js_parse_int_digits [of "show_nat n"] show_nat_is_digit by simp

lemma js_parse_int_neg_show_nat: "js_parse_int (CHR ''-'' # show_nat n) = Some (- int n)"
proof -
  have d: "\<forall>c \<in> set (show_nat n). is_digit c" using show_nat_is_digit by blast
  have tw: "takeWhile is_digit (show_nat n) = show_nat n" by simp
  show ?thesis
    unfolding js_parse_int_def Let_def tw
    using digits_no_hex_prefix [OF d] by (simp add: is_js_space_def)
qed

lemma slice_bound_nonneg: "0 \<le> a \<Longrightarrow> slice_bound (Some a) n = min (nat a) n"
  by (simp add: slice_bound_def)

lemma js_slice_nonneg:
  "0 \<le> a \<Longrightarrow> a \<le> b \<Longrightarrow> js_slice xs (Some a) (Some b) = take (nat b - nat a) (drop (nat a) xs)"
  by (auto simp: js_slice_def Let_def slice_bound_nonneg min_def take_all)

lemma concat_chunks: "concat (map (\<lambda>j. take l (drop (j * l) xs)) [0..<n]) = take (n * l) xs"
proof (induction n)
  case (Suc n)
  have "Suc n * l = n * l + l" by simp
  then show ?case using Suc.IH by (simp only: take_add) simp
qed simp

section \<open>Properties\<close>

text \<open>\<open>parseInt\<close> reads back every integer that \<open>String\<close> prints:
  \<open>parseInt(String(n)) = n\<close>, so a page number or limit that a client builds from
  an integer reaches \<open>paginateReviews\<close> and \<open>getAllOrders\<close> unchanged.\<close>

theorem parse_int_string_roundtrip: "js_parse_int (js_int_str n) = Some n"
proof (cases "n < 0")
  case True
  then show ?thesis using js_parse_int_neg_show_nat [of "nat (- n)"] by (simp add: js_int_str_def)
next
  case False
  then show ?thesis using js_parse_int_show_nat [of "nat n"] by (simp add: js_int_str_def)
qed

end
