(* ===== verification/Reviews.thy ===== *)
theory Reviews
  imports Js_Values
begin

text \<open>
  Course reviews: \<open>ReviewValidator\<close> (\<open>src/server/utils/validators.ts\<close>),
  \<open>ReviewHelper\<close> (\<open>src/server/utils/reviewHelper.ts\<close>), the attachment store of
  \<open>FileHandler\<close> (\<open>src/server/utils/fileHandler.ts\<close>) and the review handlers of
  \<open>course.controller.ts\<close>: \<open>addReview\<close>, \<open>addReplyToReview\<close>,
  \<open>getCourseReviews\<close>, \<open>deleteReview\<close> and \<open>updateReview\<close>. Each handler is a
  function of the environment, the authenticated user, the request fields and the
  world; a rejected request is an \<open>Inl\<close> with the world as the handler leaves it.
\<close>

section \<open>Validators\<close>

text \<open>
  \<open>ReviewValidator.validateRating(Number(rating))\<close>: \<open>None\<close> is \<open>NaN\<close>, for which
  \<open>!rating\<close> holds, as it does for 0.
\<close>

definition validate_rating :: "rat option \<Rightarrow> bool" where
  "validate_rating r = (case r of None \<Rightarrow> False | Some x \<Rightarrow> \<not> (x = 0 \<or> x < 1 \<or> 5 < x))"

text \<open>\<open>ReviewValidator.validateComment(comment, minLength)\<close>; \<open>None\<close> is \<open>undefined\<close>.\<close>

definition validate_comment :: "string option \<Rightarrow> nat \<Rightarrow> bool" where
  "validate_comment c minlen =
     (case c of None \<Rightarrow> False | Some s \<Rightarrow> \<not> (s = [] \<or> length (js_trim s) < minlen))"

text \<open>An uploaded file of \<open>express-fileupload\<close>: name, MIME type, size in bytes.\<close>

record upfile =
  uf_name :: string
  uf_mime :: string
  uf_size :: nat

definition review_file_types :: "string list" where
  "review_file_types = [''image/jpeg'', ''image/jpg'', ''image/png'', ''application/pdf'', ''text/plain'']"

text \<open>
  \<open>ReviewValidator.validateFiles\<close>: the count error first, then for each file (numbered
  from 1) the type, size and name-length errors, in that order.
\<close>

definition file_errors :: "nat \<Rightarrow> upfile \<Rightarrow> string list" where
  "file_errors i f =
     (if uf_mime f \<notin> set review_file_types then [''file '' @ show_nat i @ '': type''] else []) @
     (if 5 * 1024 * 1024 < uf_size f then [''file '' @ show_nat i @ '': size''] else []) @
     (if 255 < length (uf_name f) then [''file '' @ show_nat i @ '': name''] else [])"

definition validate_files :: "upfile list \<Rightarrow> string list" where
  "validate_files fs =
     (if 5 < length fs then [''max files 5''] else []) @
     concat (map (\<lambda>(i, f). file_errors i f) (zip [1..<Suc (length fs)] fs))"

section \<open>Review helpers\<close>

text \<open>\<open>ReviewHelper.calculateAverageRating\<close>: \<open>Math.round(avg * 100) / 100\<close>.\<close>

definition average_rating :: "review list \<Rightarrow> rat" where
  "average_rating rs =
     (if rs = [] then 0
      else of_int (js_round (sum_list (map rv_rating rs) / of_nat (length rs) * 100)) / 100)"

text \<open>
  \<open>ReviewHelper.calculateRatingDistribution\<close>: \<open>distribution[rating - 1]++\<close> for a
  rating between 1 and 5. A fractional rating passes the guard but names no array
  index: the increment lands on a property that the five elements do not show.
\<close>

definition rating_distribution :: "review list \<Rightarrow> nat list" where
  "rating_distribution rs = map (\<lambda>k. count_where (\<lambda>r. rv_rating r = of_nat k) rs) [1..<6]"

text \<open>
  The field \<open>a[sortBy]\<close> as a number: the timestamps through
  \<open>new Date(..).getTime()\<close> and the rating; any other field gives \<open>NaN\<close> in the
  subtraction (\<open>None\<close>).
\<close>

definition review_field :: "string \<Rightarrow> review \<Rightarrow> rat option" where
  "review_field f r =
     (if f = ''createdAt'' then Some (of_nat (rv_created r))
      else if f = ''updatedAt'' then Some (of_nat (rv_updated r))
      else if f = ''rating'' then Some (rv_rating r)
      else None)"

text \<open>The sign of a numeric comparator result; \<open>NaN\<close> acts as 0 in \<open>Array.prototype.sort\<close>.\<close>

definition rat_sign :: "rat \<Rightarrow> int" where
  "rat_sign d = (if d < 0 then -1 else if 0 < d then 1 else 0)"

definition review_cmp :: "string \<Rightarrow> string \<Rightarrow> review \<Rightarrow> review \<Rightarrow> int" where
  "review_cmp f ord a b =
     (case (review_field f a, review_field f b) of
        (Some x, Some y) \<Rightarrow> rat_sign (if ord = ''desc'' then y - x else x - y)
      | _ \<Rightarrow> 0)"

text \<open>\<open>ReviewHelper.sortReviews(reviews, sortBy, sortOrder)\<close>.\<close>

definition sort_reviews :: "review list \<Rightarrow> string \<Rightarrow> string \<Rightarrow> review list" where
  "sort_reviews rs f ord = js_sort (review_cmp f ord) rs"

record review_page =
  pg_reviews :: "review list"
  pg_total_pages :: "int option"
  pg_has_next :: bool
  pg_has_prev :: bool

text \<open>
  \<open>ReviewHelper.paginateReviews(reviews, page, limit)\<close> with \<open>page\<close> and
  \<open>limit\<close> as \<open>parseInt\<close> gives them (\<open>None\<close> for \<open>NaN\<close>); \<open>pg_total_pages\<close> is
  \<open>None\<close> when \<open>Math.ceil(length / limit)\<close> is not a finite number.
\<close>

definition paginate_reviews :: "review list \<Rightarrow> int option \<Rightarrow> int option \<Rightarrow> review_page" where
  "paginate_reviews rs page lmt =
     (let st = (case (page, lmt) of (Some p, Some l) \<Rightarrow> Some ((p - 1) * l) | _ \<Rightarrow> None);
          en = (case (st, lmt) of (Some s, Some l) \<Rightarrow> Some (s + l) | _ \<Rightarrow> None)
      in \<lparr>pg_reviews = js_slice rs st en,
          pg_total_pages = (case lmt of Some l \<Rightarrow> if l = 0 then None else Some \<lceil>of_nat (length rs) / (of_int l :: rat)\<rceil>
                                      | None \<Rightarrow> None),
          pg_has_next = (case en of Some n \<Rightarrow> n < int (length rs) | None \<Rightarrow> False),
          pg_has_prev = (case page of Some p \<Rightarrow> 1 < p | None \<Rightarrow> False)\<rparr>)"

section \<open>Attachment files\<close>

text \<open>
  \<open>path.extname(name)\<close>: from the last dot, unless that dot starts the name.
\<close>

definition js_extname :: "string \<Rightarrow> string" where
  "js_extname s =
     (case find_index_nat (\<lambda>c. c = CHR ''.'') (rev s) of
        None \<Rightarrow> []
      | Some i \<Rightarrow> if length s - 1 - i = 0 then [] else drop (length s - 1 - i) s)"

text \<open>
  \<open>FileHandler.uploadMultipleFiles\<close>: one \<open>uploadSingleFile\<close> after the other,
  each moving the file to \<open>/uploads/reviews/<now>-<random><ext>\<close> (the random
  part is drawn from the id counter). A failing \<open>file.mv\<close> rejects the whole call;
  the files moved before it stay on disk.
\<close>

fun upload_multiple_files :: "env \<Rightarrow> upfile list \<Rightarrow> world \<Rightarrow> (string + string list) \<times> world" where
  "upload_multiple_files e [] w = (Inr [], w)"
| "upload_multiple_files e (f # fs) w =
     (if \<not> mv_ok e (uf_name f) then (Inl ''mv failed'', w)
      else (let p = ''/uploads/reviews/'' @ show_nat (now e) @ ''-'' @ show_nat (next_oid w) @ js_extname (uf_name f);
                w1 = w\<lparr>files := insert p (files w), next_oid := Suc (next_oid w)\<rparr>
            in case upload_multiple_files e fs w1 of
                 (Inl m, w2) \<Rightarrow> (Inl m, w2)
               | (Inr ps, w2) \<Rightarrow> (Inr (p # ps), w2)))"

text \<open>
  \<open>FileHandler.deleteMultipleFiles\<close>: \<open>Promise.allSettled\<close> over
  \<open>deleteSingleFile\<close>, which swallows a failing unlink.
\<close>

definition delete_multiple_files :: "string list \<Rightarrow> world \<Rightarrow> world" where
  "delete_multiple_files ps w = w\<lparr>files := files w - set ps\<rparr>"

text \<open>
  The attachment step of \<open>addReview\<close> and \<open>addReplyToReview\<close>: no
  \<open>attachments\<close> field gives no files; otherwise validate, then upload.
\<close>

definition attach_files :: "env \<Rightarrow> upfile list option \<Rightarrow> world \<Rightarrow> (http_error + string list) \<times> world" where
  "attach_files e atts w =
     (case atts of
        None \<Rightarrow> (Inr [], w)
      | Some fs \<Rightarrow>
          (let errs = validate_files fs in
           if errs \<noteq> [] then (Inl (BadRequest (js_join '', '' errs)), w)
           else (case upload_multiple_files e fs w of
                   (Inl m, w') \<Rightarrow> (Inl (BadRequest (''File upload error: '' @ m)), w')
                 | (Inr ps, w') \<Rightarrow> (Inr ps, w'))))"

section \<open>Handlers\<close>

text \<open>
  \<open>await course.save()\<close> followed by
  \<open>redis.set(courseId, JSON.stringify(course), "EX", 604800)\<close>: a failed write or
  an unreachable Redis throws into the handler's \<open>catch\<close> (a 500), the latter after
  the write.
\<close>

definition save_and_cache :: "env \<Rightarrow> string \<Rightarrow> course \<Rightarrow> world \<Rightarrow> (http_error + course) \<times> world" where
  "save_and_cache e cid c w =
     (if \<not> db_ok e then (Inl (ServerError ''save failed''), w)
      else (let c' = persist_course c; w1 = w\<lparr>store := (store w)(cid \<mapsto> c')\<rparr> in
            if \<not> redis_up e then (Inl (ServerError ''Redis unavailable''), w1)
            else (Inr c', w1\<lparr>cache := (cache w1)(cid \<mapsto> \<lparr>ce_val = CVCourse c', ce_ttl = Some 604800\<rparr>)\<rparr>)))"

text \<open>
  \<open>addReview\<close> (lines 2033--2145): enrolment through \<open>req.user.courses\<close>
  (an entry whose \<open>_id\<close> is the course id), the course, the rating and comment
  validators, one review per user, the attachments, then the push, the new average, the
  write, the cache and the notification.
\<close>

definition add_review ::
  "env \<Rightarrow> user \<Rightarrow> string \<Rightarrow> string option \<Rightarrow> rat option \<Rightarrow> upfile list option \<Rightarrow> world \<Rightarrow> (http_error + course) \<times> world" where
  "add_review e u cid txt rating atts w =
     (if \<not> list_ex (\<lambda>uc. uc_id uc = cid) (u_courses u)
      then (Inl (Forbidden ''You are not enrolled in this course''), w)
      else case find_course cid w of
        Inl err \<Rightarrow> (Inl err, w)
      | Inr c \<Rightarrow>
          if \<not> validate_rating rating then (Inl (BadRequest ''rating''), w)
          else if \<not> validate_comment txt 10 then (Inl (BadRequest ''comment''), w)
          else if list_ex (\<lambda>r. rv_user r = u_id u) (reviews c)
          then (Inl (BadRequest ''You have already reviewed this course''), w)
          else (case attach_files e atts w of
                  (Inl err, w1) \<Rightarrow> (Inl err, w1)
                | (Inr ps, w1) \<Rightarrow>
                    (let rv = \<lparr>rv_id = oid_of (next_oid w1), rv_user = u_id u, rv_rating = the rating,
                               rv_text = js_trim (the txt), rv_attachments = ps, rv_replies = [],
                               rv_created = now e, rv_updated = now e\<rparr>;
                         rs = reviews c @ [rv];
                         c' = c\<lparr>reviews := rs, ratings := average_rating rs\<rparr>;
                         w2 = w1\<lparr>next_oid := Suc (next_oid w1)\<rparr>
                     in case save_and_cache e cid c' w2 of
                          (Inl err, w3) \<Rightarrow> (Inl err, w3)
                        | (Inr c'', w3) \<Rightarrow>
                            (Inr c'', notify (u_id u) ''New Review Added''
                                         (u_name u @ '' added a review for '' @ name c) w3))))"

text \<open>
  \<open>addReplyToReview\<close> (lines 2148--2242): comment of at least 5 characters, the
  course, the review by id, the attachments, the push, the write and cache, and a
  notification to the review's author unless the author replies.
\<close>

definition add_reply_to_review ::
  "env \<Rightarrow> user \<Rightarrow> string option \<Rightarrow> string \<Rightarrow> string \<Rightarrow> upfile list option \<Rightarrow> world \<Rightarrow> (http_error + course) \<times> world" where
  "add_reply_to_review e u cmt cid rid atts w =
     (if \<not> validate_comment cmt 5 then (Inl (BadRequest ''comment''), w)
      else case find_course cid w of
        Inl err \<Rightarrow> (Inl err, w)
      | Inr c \<Rightarrow>
          (case find_index_nat (\<lambda>r. rv_id r = rid) (reviews c) of
             None \<Rightarrow> (Inl (NotFound ''Review not found''), w)
           | Some i \<Rightarrow>
               (case attach_files e atts w of
                  (Inl err, w1) \<Rightarrow> (Inl err, w1)
                | (Inr ps, w1) \<Rightarrow>
                    (let rv = reviews c ! i;
                         rp = \<lparr>rr_user = u_id u, rr_comment = js_trim (the cmt), rr_attachments = ps, rr_created = now e\<rparr>;
                         c' = c\<lparr>reviews := (reviews c)[i := rv\<lparr>rv_replies := rv_replies rv @ [rp]\<rparr>]\<rparr>
                     in case save_and_cache e cid c' w1 of
                          (Inl err, w3) \<Rightarrow> (Inl err, w3)
                        | (Inr c'', w3) \<Rightarrow>
                            (Inr c'', if rv_user rv \<noteq> u_id u
                                      then notify (rv_user rv) ''Reply to Your Review''
                                             (u_name u @ '' replied to your review in '' @ name c) w3
                                      else w3)))))"

text \<open>
  \<open>getCourseReviews\<close> (lines 2244--2289): sort (defaults \<open>createdAt\<close>,
  \<open>desc\<close>), paginate with \<open>parseInt(page || '1')\<close> and
  \<open>parseInt(limit || '10')\<close>, and the distribution of all reviews.
\<close>

definition get_course_reviews ::
  "string \<Rightarrow> string option \<Rightarrow> string option \<Rightarrow> string option \<Rightarrow> string option \<Rightarrow> world \<Rightarrow>
   http_error + (review_page \<times> nat list)" where
  "get_course_reviews cid page lmt sort_by sort_order w =
     (case find_course cid w of
        Inl err \<Rightarrow> Inl err
      | Inr c \<Rightarrow>
          (let opt = (\<lambda>s d. case s of Some x \<Rightarrow> str_or x d | None \<Rightarrow> d);
               sorted = sort_reviews (reviews c) (opt sort_by ''createdAt'') (opt sort_order ''desc'')
           in Inr (paginate_reviews sorted (js_parse_int (opt page ''1'')) (js_parse_int (opt lmt ''10'')),
                   rating_distribution (reviews c))))"

text \<open>
  \<open>deleteReview\<close> (lines 2291--2343): the course, the review by id, owner or
  admin, the attachment files, the splice, the new average, the write and cache.
\<close>

definition delete_review :: "env \<Rightarrow> user \<Rightarrow> string \<Rightarrow> string \<Rightarrow> world \<Rightarrow> (http_error + course) \<times> world" where
  "delete_review e u cid rid w =
     (case find_course cid w of
        Inl err \<Rightarrow> (Inl err, w)
      | Inr c \<Rightarrow>
          (case find_index_nat (\<lambda>r. rv_id r = rid) (reviews c) of
             None \<Rightarrow> (Inl (NotFound ''Review not found''), w)
           | Some i \<Rightarrow>
               (let rv = reviews c ! i in
                if rv_user rv \<noteq> u_id u \<and> u_role u \<noteq> ''admin''
                then (Inl (Forbidden ''You are not allowed to delete this review''), w)
                else (let w1 = (if rv_attachments rv \<noteq> [] then delete_multiple_files (rv_attachments rv) w else w);
                          rs = js_splice1 (reviews c) i;
                          c' = c\<lparr>reviews := rs, ratings := average_rating rs\<rparr>
                      in save_and_cache e cid c' w1))))"

text \<open>
  \<open>updateReview\<close> (lines 2345--2410): the course, the review by id, only its owner,
  a truthy new rating is validated and set, then a truthy new comment is validated and
  set. The truthiness is that of the raw body value \<open>rating\<close>, before \<open>Number\<close>: the
  rating argument is \<open>None\<close> for a falsy value (absent, \<open>null\<close>, \<open>0\<close>, \<open>""\<close>,
  \<open>false\<close>) and \<open>Some n\<close> for a truthy one, \<open>n\<close> being \<open>Number(rating)\<close> as
  \<^const>\<open>validate_rating\<close> reads it (so the string \<open>"0"\<close> is truthy and rejected); \<open>updatedAt\<close>, the new average, the write and cache. A rejected comment
  returns before the write, so the rating set in memory is lost with it.
\<close>

definition update_review ::
  "env \<Rightarrow> user \<Rightarrow> string \<Rightarrow> string \<Rightarrow> string option \<Rightarrow> rat option option \<Rightarrow> world \<Rightarrow> (http_error + course) \<times> world" where
  "update_review e u cid rid txt rating w =
     (case find_course cid w of
        Inl err \<Rightarrow> (Inl err, w)
      | Inr c \<Rightarrow>
          (case find_index_nat (\<lambda>r. rv_id r = rid) (reviews c) of
             None \<Rightarrow> (Inl (NotFound ''Review not found''), w)
           | Some i \<Rightarrow>
               (let rv = reviews c ! i;
                    truthy_rating = (rating \<noteq> None);
                    truthy_text = (case txt of Some s \<Rightarrow> s \<noteq> [] | None \<Rightarrow> False)
                in if rv_user rv \<noteq> u_id u
                   then (Inl (Forbidden ''You are not allowed to update this review''), w)
                   else if truthy_rating \<and> \<not> validate_rating (the rating) then (Inl (BadRequest ''rating''), w)
                   else if truthy_text \<and> \<not> validate_comment txt 10 then (Inl (BadRequest ''comment''), w)
                   else (let rv1 = (if truthy_rating then rv\<lparr>rv_rating := the (the rating)\<rparr> else rv);
                             rv2 = (if truthy_text then rv1\<lparr>rv_text := js_trim (the txt)\<rparr> else rv1);
                             rs = (reviews c)[i := rv2\<lparr>rv_updated := now e\<rparr>];
                             c' = c\<lparr>reviews := rs, ratings := average_rating rs\<rparr>
                         in save_and_cache e cid c' w))))"

section \<open>A fixture\<close>

text \<open>
  A course with two reviews (ratings 4 and 5, average 4.5) and a user enrolled in it
  through a subdocument whose \<open>_id\<close> is the course id.
\<close>

definition demo_review :: "string \<Rightarrow> string \<Rightarrow> rat \<Rightarrow> nat \<Rightarrow> review" where
  "demo_review i u x t = \<lparr>rv_id = i, rv_user = u, rv_rating = x, rv_text = ''Clear and useful'',
     rv_attachments = [], rv_replies = [], rv_created = t, rv_updated = t\<rparr>"

definition demo_rcourse :: course where
  "demo_rcourse = \<lparr>course_id = oid_of 1, name = ''Go'', price = 10, thumbnail = None, courseData = [],
     reviews = [demo_review ''r1'' ''u2'' 4 10, demo_review ''r2'' ''u3'' 5 20], ratings = 9 / 2, purchased = 2,
     course_description = ''Learn Go'', categories = ''Programming'', created_at = 0\<rparr>"

definition demo_user :: user where
  "demo_user = \<lparr>u_id = ''u1'', u_name = ''Ali'', u_email = ''ali@example.com'', u_role = ''user'',
     u_courses = [\<lparr>uc_id = oid_of 1, uc_course = None\<rparr>]\<rparr>"

definition demo_review_world :: world where
  "demo_review_world = demo_world\<lparr>store := [oid_of 1 \<mapsto> demo_rcourse],
     cache := [''allCourses:{}'' \<mapsto> \<lparr>ce_val = CVListing [(demo_rcourse, 2)], ce_ttl = Some 1800\<rparr>]\<rparr>"

section \<open>The rating invariant\<close>

text \<open>A course's \<open>ratings\<close> field is the rounded average of its reviews.\<close>

definition course_ratings_ok :: "course \<Rightarrow> bool" where
  "course_ratings_ok c \<longleftrightarrow> ratings c = average_rating (reviews c)"

definition ratings_ok :: "world \<Rightarrow> bool" where
  "ratings_ok w \<longleftrightarrow> (\<forall>c \<in> ran (store w). course_ratings_ok c)"

section \<open>Lemmas\<close>

lemma upload_multiple_files_pair:
  "upload_multiple_files e fs w = (r, w') \<Longrightarrow>
     store w' = store w \<and> cache w' = cache w \<and> remote_log w' = remote_log w \<and>
     notifications w' = notifications w \<and> files w \<subseteq> files w'"
proof (induction fs arbitrary: w r w')
  case (Cons f fs)
  show ?case
  proof (cases "mv_ok e (uf_name f)")
    case True
    with Cons.prems obtain r1 where
      "upload_multiple_files e fs (w\<lparr>files := insert (''/uploads/reviews/'' @ show_nat (now e) @ ''-'' @
         show_nat (next_oid w) @ js_extname (uf_name f)) (files w), next_oid := Suc (next_oid w)\<rparr>) = (r1, w')"
      by (auto simp: Let_def split: sum.splits prod.splits)
    from Cons.IH [OF this] show ?thesis by auto
  qed (use Cons.prems in auto)
qed simp

lemma attach_files_pair:
  "attach_files e a w = (r, w') \<Longrightarrow>
     store w' = store w \<and> cache w' = cache w \<and> remote_log w' = remote_log w \<and>
     notifications w' = notifications w \<and> files w \<subseteq> files w'"
  unfolding attach_files_def Let_def
  by (auto split: option.splits if_splits sum.splits prod.splits dest!: upload_multiple_files_pair)

lemma save_and_cache_cases:
  "save_and_cache e cid c w = (r, w') \<Longrightarrow>
     (\<not> db_ok e \<and> r = Inl (ServerError ''save failed'') \<and> w' = w) \<or>
     (db_ok e \<and> \<not> redis_up e \<and> r = Inl (ServerError ''Redis unavailable'') \<and>
        w' = w\<lparr>store := (store w)(cid \<mapsto> persist_course c)\<rparr>) \<or>
     (db_ok e \<and> redis_up e \<and> r = Inr (persist_course c) \<and>
        w' = w\<lparr>store := (store w)(cid \<mapsto> persist_course c),
               cache := (cache w)(cid \<mapsto> \<lparr>ce_val = CVCourse (persist_course c), ce_ttl = Some 604800\<rparr>)\<rparr>)"
  by (auto simp: save_and_cache_def Let_def split: if_splits)

lemma save_and_cache_store:
  "store (snd (save_and_cache e cid c w)) = store w \<or>
   store (snd (save_and_cache e cid c w)) = (store w)(cid \<mapsto> persist_course c)"
  by (auto simp: save_and_cache_def Let_def)

lemma save_and_cache_cache_other:
  "k \<noteq> cid \<Longrightarrow> cache (snd (save_and_cache e cid c w)) k = cache w k"
  by (simp add: save_and_cache_def Let_def)

lemma save_and_cache_Inr:
  "fst (save_and_cache e cid c w) = Inr c' \<Longrightarrow>
     c' = persist_course c \<and> store (snd (save_and_cache e cid c w)) cid = Some c' \<and>
     cache (snd (save_and_cache e cid c w)) cid = Some \<lparr>ce_val = CVCourse c', ce_ttl = Some 604800\<rparr>"
  by (auto simp: save_and_cache_def Let_def split: if_splits)

lemma find_course_Inr: "find_course cid w = Inr c \<Longrightarrow> store w cid = Some c"
  by (auto simp: find_course_def split: if_splits option.splits)

lemma average_rating_cong: "map rv_rating rs = map rv_rating rs' \<Longrightarrow> average_rating rs = average_rating rs'"
  by (simp add: average_rating_def) (metis length_map list.map_disc_iff)

lemma map_rating_replies [simp]:
  "i < length rs \<Longrightarrow> map rv_rating (rs[i := (rs ! i)\<lparr>rv_replies := x\<rparr>]) = map rv_rating rs"
  by (simp add: map_update) (metis list_update_id nth_map)

lemma ratings_ok_upd:
  assumes "ratings_ok w" and "course_ratings_ok c"
    and "store w' = store w \<or> store w' = (store w)(k \<mapsto> persist_course c)"
  shows "ratings_ok w'"
proof -
  have "ran (store w') \<subseteq> insert (persist_course c) (ran (store w))"
    using assms(3) by (auto simp: ran_def split: if_splits)
  moreover have "course_ratings_ok (persist_course c)"
    using assms(2) by (simp add: course_ratings_ok_def)
  ultimately show ?thesis using assms(1) by (auto simp: ratings_ok_def)
qed

lemma save_and_cache_ratings_ok:
  "ratings_ok w \<Longrightarrow> course_ratings_ok c \<Longrightarrow> ratings_ok (snd (save_and_cache e cid c w))"
  using ratings_ok_upd save_and_cache_store by blast

lemma ratings_ok_same: "store w' = store w \<Longrightarrow> ratings_ok w' = ratings_ok w"
  by (simp add: ratings_ok_def)

lemma stored_ratings_ok: "ratings_ok w \<Longrightarrow> find_course cid w = Inr c \<Longrightarrow> course_ratings_ok c"
  by (auto simp: ratings_ok_def ran_def dest!: find_course_Inr)

lemma save_and_cache_ratings_pair:
  "save_and_cache e cid c w = (r, w') \<Longrightarrow> ratings_ok w \<Longrightarrow> course_ratings_ok c \<Longrightarrow> ratings_ok w'"
  using save_and_cache_ratings_ok [of w c e cid] by simp

lemma attach_files_ratings_ok: "attach_files e a w = (r, w') \<Longrightarrow> ratings_ok w' = ratings_ok w"
  using attach_files_pair ratings_ok_same by metis

lemma ratings_ok_notify [simp]: "ratings_ok (notify u t m w) = ratings_ok w"
  by (simp add: ratings_ok_def frame_simps)

lemma ratings_ok_next_oid [simp]: "ratings_ok (w\<lparr>next_oid := n\<rparr>) = ratings_ok w"
  by (simp add: ratings_ok_def)

lemma ratings_ok_files [simp]: "ratings_ok (delete_multiple_files ps w) = ratings_ok w"
  by (simp add: ratings_ok_def delete_multiple_files_def)

lemma add_review_ratings_ok:
  "ratings_ok w \<Longrightarrow> ratings_ok (snd (add_review e u cid t r a w))"
  unfolding add_review_def Let_def
  by (auto split: if_splits sum.splits prod.splits simp: attach_files_ratings_ok course_ratings_ok_def
      elim!: save_and_cache_ratings_pair)

lemma delete_review_ratings_ok:
  "ratings_ok w \<Longrightarrow> ratings_ok (snd (delete_review e u cid rid w))"
  unfolding delete_review_def Let_def
  by (simp split: sum.split option.split add: course_ratings_ok_def save_and_cache_ratings_ok)

lemma update_review_ratings_ok:
  "ratings_ok w \<Longrightarrow> ratings_ok (snd (update_review e u cid rid t r w))"
  unfolding update_review_def Let_def
  by (simp split: sum.split option.split add: course_ratings_ok_def save_and_cache_ratings_ok)

lemma reply_keeps_course_ratings_ok:
  assumes ok: "ratings_ok w" and fc: "find_course cid w = Inr c"
    and fi: "find_index_nat (\<lambda>r. rv_id r = rid) (reviews c) = Some i"
  shows "course_ratings_ok (c\<lparr>reviews := (reviews c)[i := (reviews c ! i)\<lparr>rv_replies := x\<rparr>]\<rparr>)"
proof -
  have "i < length (reviews c)" using fi by (simp add: find_index_nat_Some)
  then have "average_rating ((reviews c)[i := (reviews c ! i)\<lparr>rv_replies := x\<rparr>]) = average_rating (reviews c)"
    by (intro average_rating_cong map_rating_replies)
  then show ?thesis using stored_ratings_ok [OF ok fc]
    by (simp add: course_ratings_ok_def)
qed

lemma add_reply_unchanged:
  "\<not> (validate_comment t 5 \<and> (\<exists>c. find_course cid w = Inr c \<and> find_index_nat (\<lambda>r. rv_id r = rid) (reviews c) \<noteq> None))
   \<Longrightarrow> snd (add_reply_to_review e u t cid rid a w) = w"
  by (cases "find_course cid w") (auto simp: add_reply_to_review_def)

lemma add_reply_attach_fail:
  "validate_comment t 5 \<Longrightarrow> find_course cid w = Inr c \<Longrightarrow> find_index_nat (\<lambda>r. rv_id r = rid) (reviews c) = Some i \<Longrightarrow>
   attach_files e a w = (Inl err, w1) \<Longrightarrow> add_reply_to_review e u t cid rid a w = (Inl err, w1)"
  by (simp add: add_reply_to_review_def)

lemma add_reply_attached:
  assumes "validate_comment t 5" "find_course cid w = Inr c" "find_index_nat (\<lambda>r. rv_id r = rid) (reviews c) = Some i"
    "attach_files e a w = (Inr ps, w1)"
  shows "snd (add_reply_to_review e u t cid rid a w) =
    (let rv = reviews c ! i;
         c' = c\<lparr>reviews := (reviews c)[i := rv\<lparr>rv_replies := rv_replies rv @
                 [\<lparr>rr_user = u_id u, rr_comment = js_trim (the t), rr_attachments = ps, rr_created = now e\<rparr>]\<rparr>]\<rparr>
     in case save_and_cache e cid c' w1 of (r3, w3) \<Rightarrow>
          (if isl r3 then w3 else if rv_user rv \<noteq> u_id u
           then notify (rv_user rv) ''Reply to Your Review'' (u_name u @ '' replied to your review in '' @ name c) w3 else w3))"
  using assms unfolding add_reply_to_review_def Let_def
  by (simp split: sum.split prod.split)

lemma add_reply_preserves:
  assumes p: "P w"
    and att: "\<And>w r w'. attach_files e a w = (r, w') \<Longrightarrow> P w \<Longrightarrow> P w'"
    and sv: "\<And>c w r w'. save_and_cache e cid c w = (r, w') \<Longrightarrow> P w \<Longrightarrow> Q c \<Longrightarrow> P w'"
    and nt: "\<And>x y z w. P w \<Longrightarrow> P (notify x y z w)"
    and q: "\<And>c i x. find_course cid w = Inr c \<Longrightarrow> find_index_nat (\<lambda>r. rv_id r = rid) (reviews c) = Some i \<Longrightarrow>
              Q (c\<lparr>reviews := (reviews c)[i := (reviews c ! i)\<lparr>rv_replies := x\<rparr>]\<rparr>)"
  shows "P (snd (add_reply_to_review e u t cid rid a w))"
proof (cases "validate_comment t 5 \<and> (\<exists>c. find_course cid w = Inr c \<and> find_index_nat (\<lambda>r. rv_id r = rid) (reviews c) \<noteq> None)")
  case False
  then show ?thesis using p by (simp add: add_reply_unchanged)
next
  case True
  then obtain c i where v: "validate_comment t 5" and fc: "find_course cid w = Inr c"
    and fi: "find_index_nat (\<lambda>r. rv_id r = rid) (reviews c) = Some i" by auto
  obtain r1 w1 where a1: "attach_files e a w = (r1, w1)" by fastforce
  have p1: "P w1" by (rule att [OF a1 p])
  show ?thesis
  proof (cases r1)
    case (Inl err)
    with a1 have "attach_files e a w = (Inl err, w1)" by simp
    from add_reply_attach_fail [OF v fc fi this] show ?thesis using p1 by simp
  next
    case (Inr ps)
    define c' where "c' = c\<lparr>reviews := (reviews c)[i := (reviews c ! i)\<lparr>rv_replies := rv_replies (reviews c ! i) @
                       [\<lparr>rr_user = u_id u, rr_comment = js_trim (the t), rr_attachments = ps, rr_created = now e\<rparr>]\<rparr>]\<rparr>"
    obtain r3 w3 where s3: "save_and_cache e cid c' w1 = (r3, w3)" by fastforce
    have p3: "P w3" using sv [OF s3 p1] q [OF fc fi] by (simp add: c'_def)
    have "snd (add_reply_to_review e u t cid rid a w) = w3 \<or>
          (\<exists>x y z. snd (add_reply_to_review e u t cid rid a w) = notify x y z w3)"
      using add_reply_attached [where u = u, OF v fc fi a1 [unfolded Inr]] s3 unfolding c'_def Let_def
      by auto
    then show ?thesis using p3 nt by auto
  qed
qed

lemma add_reply_ratings_ok:
  "ratings_ok w \<Longrightarrow> ratings_ok (snd (add_reply_to_review e u t cid rid a w))"
  by (rule add_reply_preserves [where Q = course_ratings_ok])
     (auto simp: attach_files_ratings_ok elim: save_and_cache_ratings_pair intro: reply_keeps_course_ratings_ok)

lemma save_and_cache_cache_pair:
  "save_and_cache e cid c w = (r, w') \<Longrightarrow> k \<noteq> cid \<Longrightarrow> cache w' k = cache w k"
  using save_and_cache_cache_other [of k cid e c w] by simp

lemma add_reply_cache_other:
  "k \<noteq> cid \<Longrightarrow> cache (snd (add_reply_to_review e u t cid rid a w)) k = cache w k"
  by (rule add_reply_preserves [where P = "\<lambda>w'. cache w' k = cache w k" and Q = "\<lambda>_. True"])
     (auto dest: attach_files_pair save_and_cache_cache_pair simp: frame_simps)

lemma add_review_cache_other:
  "k \<noteq> cid \<Longrightarrow> cache (snd (add_review e u cid t r a w)) k = cache w k"
  unfolding add_review_def Let_def
  by (auto split: if_splits sum.splits prod.splits simp: frame_simps
      dest!: attach_files_pair save_and_cache_cache_pair)

lemma delete_review_cache_other:
  "k \<noteq> cid \<Longrightarrow> cache (snd (delete_review e u cid rid w)) k = cache w k"
  unfolding delete_review_def Let_def
  by (simp split: sum.split option.split add: save_and_cache_cache_other delete_multiple_files_def)

lemma update_review_cache_other:
  "k \<noteq> cid \<Longrightarrow> cache (snd (update_review e u cid rid t r w)) k = cache w k"
  unfolding update_review_def Let_def
  by (simp split: sum.split option.split add: save_and_cache_cache_other)


lemma paginate_page:
  "0 < l \<Longrightarrow> pg_reviews (paginate_reviews rs (Some (int (Suc j))) (Some l)) = take (nat l) (drop (j * nat l) rs)"
proof -
  assume l: "0 < l"
  have "js_slice rs (Some (int j * l)) (Some (int j * l + l)) = take (nat l) (drop (j * nat l) rs)"
    using l by (simp add: js_slice_nonneg nat_mult_distrib nat_add_distrib)
  then show ?thesis by (simp add: paginate_reviews_def algebra_simps)
qed

lemma ceiling_div_cover:
  assumes l: "0 < l"
  shows "n \<le> nat \<lceil>of_nat n / (of_int l :: rat)\<rceil> * nat l"
proof -
  let ?q = "\<lceil>of_nat n / (of_int l :: rat)\<rceil>"
  have lpos: "(0::rat) < of_int l" using l by simp
  have "of_nat n / (of_int l :: rat) \<le> of_int ?q" by (rule le_of_int_ceiling)
  then have "(of_nat n :: rat) \<le> of_int ?q * of_int l" unfolding pos_divide_le_eq [OF lpos] .
  then have "int n \<le> ?q * l" by (metis of_int_le_iff of_int_mult of_int_of_nat_eq)
  moreover have "(0::rat) \<le> of_nat n / of_int l" using lpos by (simp add: divide_nonneg_pos)
  then have "0 \<le> ?q" by linarith
  ultimately show ?thesis using l by (metis nat_int nat_mono nat_mult_distrib)
qed

lemma review_field_known:
  "f \<in> {''createdAt'', ''updatedAt'', ''rating''} \<Longrightarrow> review_field f r = Some (the (review_field f r))"
  by (auto simp: review_field_def)

lemma sort_key_const: "sort_key (\<lambda>x. c) xs = xs"
  by (induction xs) (simp_all, metis insort_key.simps list.exhaust order_refl)

lemma sort_reviews_unknown_field:
  "f \<notin> {''createdAt'', ''updatedAt'', ''rating''} \<Longrightarrow> sort_reviews rs f ord = rs"
proof -
  assume f: "f \<notin> {''createdAt'', ''updatedAt'', ''rating''}"
  have "sort_reviews rs f ord = sort_key (\<lambda>r. ()) rs"
    unfolding sort_reviews_def
    by (rule js_sort_refines_sort_key) (use f in \<open>simp add: review_cmp_def review_field_def\<close>)
  then show ?thesis by (simp add: sort_key_const)
qed

lemma sum_ratings_bounds:
  "\<forall>r \<in> set rs. a \<le> rv_rating r \<and> rv_rating r \<le> b \<Longrightarrow>
   of_nat (length rs) * a \<le> sum_list (map rv_rating rs) \<and> sum_list (map rv_rating rs) \<le> of_nat (length rs) * b"
  by (induction rs) (auto simp: algebra_simps add_mono)

lemma save_and_cache_pid_pair:
  "save_and_cache e cid c w = (r, w') \<Longrightarrow> store_pid_free w \<Longrightarrow> store_pid_free w'"
  using save_and_cache_store [of e cid c w] store_pid_free_step [of w w'] by auto

lemma save_and_cache_pid: "store_pid_free w \<Longrightarrow> store_pid_free (snd (save_and_cache e cid c w))"
  using save_and_cache_pid_pair [of e cid c w "fst (save_and_cache e cid c w)" "snd (save_and_cache e cid c w)"] by simp

lemma store_pid_free_files [simp]: "store_pid_free (delete_multiple_files ps w) = store_pid_free w"
  by (simp add: store_pid_free_def delete_multiple_files_def)

lemma attach_files_pid: "attach_files e a w = (r, w') \<Longrightarrow> store_pid_free w' = store_pid_free w"
  using attach_files_pair store_pid_free_same by metis

lemma add_review_pid_free: "store_pid_free w \<Longrightarrow> store_pid_free (snd (add_review e u cid t r a w))"
  unfolding add_review_def Let_def
  by (auto split: if_splits sum.splits prod.splits simp: attach_files_pid elim!: save_and_cache_pid_pair)

lemma add_reply_pid_free: "store_pid_free w \<Longrightarrow> store_pid_free (snd (add_reply_to_review e u t cid rid a w))"
  by (rule add_reply_preserves [where Q = "\<lambda>_. True"]) (auto simp: attach_files_pid elim: save_and_cache_pid_pair)

lemma delete_review_pid_free: "store_pid_free w \<Longrightarrow> store_pid_free (snd (delete_review e u cid rid w))"
  unfolding delete_review_def Let_def
  by (simp split: sum.split option.split add: save_and_cache_pid)

lemma update_review_pid_free: "store_pid_free w \<Longrightarrow> store_pid_free (snd (update_review e u cid rid t r w))"
  unfolding update_review_def Let_def
  by (simp split: sum.split option.split add: save_and_cache_pid)

lemma save_and_cache_log [simp]: "remote_log (snd (save_and_cache e cid c w)) = remote_log w"
  by (simp add: save_and_cache_def Let_def)

lemma save_and_cache_log_pair: "save_and_cache e cid c w = (r, w') \<Longrightarrow> remote_log w' = remote_log w"
  using save_and_cache_log [of e cid c w] by simp

lemma add_review_log: "remote_log (snd (add_review e u cid t r a w)) = remote_log w"
  unfolding add_review_def Let_def
  by (auto split: if_splits sum.splits prod.splits simp: frame_simps dest!: attach_files_pair save_and_cache_log_pair)

lemma add_reply_log: "remote_log (snd (add_reply_to_review e u t cid rid a w)) = remote_log w"
  by (rule add_reply_preserves [where P = "\<lambda>w'. remote_log w' = remote_log w" and Q = "\<lambda>_. True"])
     (auto dest: attach_files_pair save_and_cache_log_pair simp: frame_simps)

lemma delete_review_log: "remote_log (snd (delete_review e u cid rid w)) = remote_log w"
  unfolding delete_review_def Let_def
  by (simp split: sum.split option.split add: delete_multiple_files_def)

lemma update_review_log: "remote_log (snd (update_review e u cid rid t r w)) = remote_log w"
  unfolding update_review_def Let_def
  by (simp split: sum.split option.split)

section \<open>Properties\<close>

text \<open>Claim C11: every review handler (\<open>addReview\<close>, \<open>addReplyToReview\<close>,
  \<open>deleteReview\<close>, \<open>updateReview\<close>) keeps each stored course's \<open>ratings\<close> equal
  to the rounded average of its reviews, on every path, failures included.\<close>

theorem review_handlers_keep_ratings:
  assumes "ratings_ok w"
  shows "ratings_ok (snd (add_review e u cid t r a w)) \<and> ratings_ok (snd (add_reply_to_review e u t' cid rid a' w)) \<and>
         ratings_ok (snd (delete_review e u cid rid w)) \<and> ratings_ok (snd (update_review e u cid rid t'' r' w))"
  by (intro conjI add_review_ratings_ok add_reply_ratings_ok delete_review_ratings_ok update_review_ratings_ok assms)

theorem review_handlers_keep_ratings_witness:
  "ratings_ok (snd (add_review demo_env demo_user (oid_of 1) (Some ''A very clear course'') (Some 3) None demo_review_world)) \<and>
   ratings_ok (snd (add_reply_to_review demo_env demo_user (Some ''Thanks!'') (oid_of 1) ''r1'' None demo_review_world)) \<and>
   ratings_ok (snd (delete_review demo_env demo_user (oid_of 1) ''r1'' demo_review_world)) \<and>
   ratings_ok (snd (update_review demo_env demo_user (oid_of 1) ''r1'' None (Some (Some 2)) demo_review_world))"
  by (rule review_handlers_keep_ratings)
     (simp add: ratings_ok_def course_ratings_ok_def demo_review_world_def demo_rcourse_def average_rating_def
       demo_review_def)

text \<open>Claim C23: the average that \<open>calculateAverageRating\<close> stores lies between 1 and 5
  when every rating does, as \<open>validateRating\<close> guarantees for the ratings the handlers
  accept: rounding to two decimals never leaves the range.\<close>

theorem average_rating_bounds:
  assumes ne: "rs \<noteq> []" and r: "\<forall>r \<in> set rs. 1 \<le> rv_rating r \<and> rv_rating r \<le> 5"
  shows "1 \<le> average_rating rs \<and> average_rating rs \<le> 5"
proof -
  let ?n = "of_nat (length rs) :: rat" and ?s = "sum_list (map rv_rating rs)"
  have n: "0 < ?n" using ne by simp
  have s: "?n \<le> ?s \<and> ?s \<le> ?n * 5" using sum_ratings_bounds [OF r] by simp
  have lo: "100 \<le> ?s / ?n * 100" and hi: "?s / ?n * 100 \<le> 500"
    using s n by (simp_all add: pos_le_divide_eq pos_divide_le_eq)
  have "100 \<le> js_round (?s / ?n * 100)" using js_round_mono [OF lo] by simp
  moreover have "js_round (?s / ?n * 100) \<le> 500" using js_round_mono [OF hi] by simp
  ultimately show ?thesis using ne by (simp add: average_rating_def)
qed

theorem average_rating_bounds_witness:
  "1 \<le> average_rating [demo_review ''r1'' ''u2'' 4 10, demo_review ''r2'' ''u3'' (9 / 2) 20] \<and>
   average_rating [demo_review ''r1'' ''u2'' 4 10, demo_review ''r2'' ''u3'' (9 / 2) 20] \<le> 5"
  by (rule average_rating_bounds) (simp_all add: demo_review_def)

text \<open>Claim C21: \<open>paginateReviews\<close> with a positive \<open>limit\<close> partitions the reviews:
  pages 1 to \<open>totalPages\<close>, concatenated, give back the list, each review once and in
  order.\<close>

theorem paginate_reviews_partition:
  assumes l: "0 < l"
  shows "concat (map (\<lambda>p. pg_reviews (paginate_reviews rs (Some (int p)) (Some l)))
                   [1..<Suc (nat (the (pg_total_pages (paginate_reviews rs (Some 1) (Some l)))))]) = rs"
proof -
  let ?n = "nat \<lceil>of_nat (length rs) / (of_int l :: rat)\<rceil>"
  have tp: "the (pg_total_pages (paginate_reviews rs (Some 1) (Some l))) = \<lceil>of_nat (length rs) / (of_int l :: rat)\<rceil>"
    using l by (simp add: paginate_reviews_def)
  have pages: "map (\<lambda>p. pg_reviews (paginate_reviews rs (Some (int p)) (Some l))) [1..<Suc m] =
               map (\<lambda>j. take (nat l) (drop (j * nat l) rs)) [0..<m]" for m
    using paginate_page [OF l] by (simp add: map_Suc_upt [symmetric] del: upt_Suc)
  have "take (?n * nat l) rs = rs" using ceiling_div_cover [OF l, of "length rs"] by simp
  then show ?thesis unfolding tp pages concat_chunks .
qed

theorem paginate_reviews_partition_witness:
  "concat (map (\<lambda>p. pg_reviews (paginate_reviews (reviews demo_rcourse) (Some (int p)) (Some 1)))
      [1..<Suc (nat (the (pg_total_pages (paginate_reviews (reviews demo_rcourse) (Some 1) (Some 1)))))]) =
   reviews demo_rcourse"
  by (rule paginate_reviews_partition) simp

text \<open>Claim C22: \<open>sortReviews\<close> on a field it knows (\<open>createdAt\<close>, \<open>updatedAt\<close>,
  \<open>rating\<close>) refines the stable sort by that field, descending for \<open>desc\<close> and
  ascending otherwise: reviews with equal keys keep their stored order.\<close>

theorem sort_reviews_refines_sort_key:
  assumes f: "f \<in> {''createdAt'', ''updatedAt'', ''rating''}"
  shows "sort_reviews rs f ord =
           sort_key (\<lambda>r. if ord = ''desc'' then - the (review_field f r) else the (review_field f r)) rs"
  unfolding sort_reviews_def
proof (rule js_sort_refines_sort_key, intro ballI)
  fix a b
  show "(review_cmp f ord a b < 0) =
        ((if ord = ''desc'' then - the (review_field f a) else the (review_field f a)) <
         (if ord = ''desc'' then - the (review_field f b) else the (review_field f b)))"
    using review_field_known [OF f, of a] review_field_known [OF f, of b]
    by (auto simp: review_cmp_def rat_sign_def split: option.split)
qed

theorem sort_reviews_refines_sort_key_witness:
  "sort_reviews (reviews demo_rcourse) ''createdAt'' ''desc'' =
     sort_key (\<lambda>r. - the (review_field ''createdAt'' r)) (reviews demo_rcourse)"
  using sort_reviews_refines_sort_key [of "''createdAt''" "reviews demo_rcourse" "''desc''"] by simp

text \<open>Claim C16: the review handlers write the course under the key \<open>courseId\<close> and
  leave every other cache key as it was: \<open>course:<id>\<close>, \<open>courseContent:<id>\<close>
  and the \<open>allCourses:*\<close> listings keep serving the course with its old reviews and
  ratings.\<close>

theorem review_writes_keep_other_cache_keys:
  assumes "k \<noteq> cid"
  shows "cache (snd (add_review e u cid t r a w)) k = cache w k \<and>
         cache (snd (add_reply_to_review e u t' cid rid a' w)) k = cache w k \<and>
         cache (snd (delete_review e u cid rid w)) k = cache w k \<and>
         cache (snd (update_review e u cid rid t'' r' w)) k = cache w k"
  by (intro conjI add_review_cache_other add_reply_cache_other delete_review_cache_other update_review_cache_other assms)

theorem review_writes_keep_other_cache_keys_witness:
  "cache (snd (add_review demo_env demo_user (oid_of 1) (Some ''A very clear course'') (Some 3) None demo_review_world))
     ''allCourses:{}'' = Some \<lparr>ce_val = CVListing [(demo_rcourse, 2)], ce_ttl = Some 1800\<rparr> \<and>
   cache (snd (add_reply_to_review demo_env demo_user (Some ''Thanks!'') (oid_of 1) ''r1'' None demo_review_world))
     ''allCourses:{}'' = Some \<lparr>ce_val = CVListing [(demo_rcourse, 2)], ce_ttl = Some 1800\<rparr> \<and>
   cache (snd (delete_review demo_env demo_user (oid_of 1) ''r1'' demo_review_world))
     ''allCourses:{}'' = Some \<lparr>ce_val = CVListing [(demo_rcourse, 2)], ce_ttl = Some 1800\<rparr> \<and>
   cache (snd (update_review demo_env demo_user (oid_of 1) ''r1'' None (Some (Some 2)) demo_review_world))
     ''allCourses:{}'' = Some \<lparr>ce_val = CVListing [(demo_rcourse, 2)], ce_ttl = Some 1800\<rparr>"
proof -
  have k: "''allCourses:{}'' \<noteq> oid_of 1" by code_simp
  show ?thesis
    using review_writes_keep_other_cache_keys [OF k] by (simp add: demo_review_world_def)
qed

text \<open>The rating distribution of \<open>getCourseReviews\<close> counts exactly the
  reviews whose rating is one of the integers 1 to 5: a rating such as 4.5, which
  \<open>validateRating\<close> accepts and the average includes, appears in no bucket.\<close>

theorem rating_distribution_counts_integral:
  "sum_list (rating_distribution rs) = count_where (\<lambda>r. rv_rating r \<in> {1, 2, 3, 4, 5}) rs"
  by (induction rs) (auto simp: rating_distribution_def upt_rec)

end
