(* ===== verification/QA.thy ===== *)
theory QA
  imports Js_Values
begin

text \<open>
  Questions and answers on a lecture: \<open>addQuestion\<close>, \<open>addAnswer\<close> and
  \<open>deleteQuestion\<close> of \<open>course.controller.ts\<close> (lines 1811--2031), with the file
  check \<open>validateFile\<close> that the module declares. A question lives in the
  \<open>questions\<close> array of a content item; Mongoose loads a missing array as \<open>[]\<close>.
  Each handler writes the course and deletes the cache key \<open>courseContent:<id>\<close>,
  swallowing a Redis error.
\<close>

section \<open>Helpers\<close>

text \<open>\<open>validateFile\<close>: the allowed MIME types and the 10 MB limit (the first failing
  check is the error).\<close>

definition qa_file_types :: "string list" where
  "qa_file_types = [''image/jpeg'', ''image/png'', ''image/gif'', ''image/webp'', ''application/pdf'',
     ''application/msword'', ''application/vnd.openxmlformats-officedocument.wordprocessingml.document'']"

definition validate_file :: "string \<Rightarrow> nat \<Rightarrow> string option" where
  "validate_file mime sz =
     (if mime \<notin> set qa_file_types then Some ''Invalid file type''
      else if 10 * 1024 * 1024 < sz then Some ''File size too large'' else None)"

text \<open>The questions of an item as a loaded document shows them.\<close>

definition item_questions :: "content_item \<Rightarrow> question list" where
  "item_questions v = (case questions v of None \<Rightarrow> [] | Some qs \<Rightarrow> qs)"

text \<open>\<open>course.courseData.find(item => item._id.equals(contentId))\<close>.\<close>

definition find_content :: "string \<Rightarrow> course \<Rightarrow> nat option" where
  "find_content cnt c = find_index_nat (\<lambda>v. item_id v = Some cnt) (courseData c)"

text \<open>Replace the questions of item \<open>i\<close>.\<close>

definition set_questions :: "course \<Rightarrow> nat \<Rightarrow> question list \<Rightarrow> course" where
  "set_questions c i qs = c\<lparr>courseData := (courseData c)[i := (courseData c ! i)\<lparr>questions := Some qs\<rparr>]\<rparr>"

text \<open>
  \<open>await course.save()\<close>, then \<open>redis.del(`courseContent:${courseId}`)\<close> in its own
  \<open>try\<close>: an unreachable Redis is only logged.
\<close>

definition save_clear_content :: "env \<Rightarrow> string \<Rightarrow> course \<Rightarrow> world \<Rightarrow> (http_error + course) \<times> world" where
  "save_clear_content e cid c w =
     (if \<not> db_ok e then (Inl (ServerError ''save failed''), w)
      else (let c' = persist_course c; w1 = w\<lparr>store := (store w)(cid \<mapsto> c')\<rparr> in
            (Inr c', if redis_up e then w1\<lparr>cache := (cache w1)(''courseContent:'' @ cid := None)\<rparr> else w1)))"

section \<open>Handlers\<close>

text \<open>
  \<open>addQuestion\<close> (lines 1811--1872): the course, a valid content id, the item, the new
  question (a fresh id, the asker as its \<open>user\<close>, no replies), the write, the cache
  deletion and a notification addressed to the asker.
\<close>

definition add_question ::
  "env \<Rightarrow> user \<Rightarrow> string \<Rightarrow> string \<Rightarrow> string \<Rightarrow> world \<Rightarrow> (http_error + course) \<times> world" where
  "add_question e u q cid cnt w =
     (case find_course cid w of
        Inl err \<Rightarrow> (Inl err, w)
      | Inr c \<Rightarrow>
          if \<not> is_valid_object_id cnt then (Inl (BadRequest ''Invalid content Id''), w)
          else (case find_content cnt c of
                  None \<Rightarrow> (Inl (BadRequest ''Invalid content Id''), w)
                | Some i \<Rightarrow>
                    (let v = courseData c ! i;
                         nq = \<lparr>q_user = UserRef (u_id u), q_text = q, q_id = oid_of (next_oid w), q_replies = []\<rparr>;
                         w1 = w\<lparr>next_oid := Suc (next_oid w)\<rparr>
                     in case save_clear_content e cid (set_questions c i (item_questions v @ [nq])) w1 of
                          (Inl err, w2) \<Rightarrow> (Inl err, w2)
                        | (Inr c', w2) \<Rightarrow>
                            (Inr c', notify (u_id u) ''New Question Received''
                                       (''You have a new question in '' @ title v) w2))))"

text \<open>
  \<open>addAnswer\<close> (lines 1875--1962): the course, the content id, the item, the question
  by id, the new answer, the write and the cache deletion. Then
  \<open>req.user?._id === question.user?._id\<close> compares the session's string id with the
  populated user's ObjectId (or with \<open>undefined\<close>), which is never true; so the
  handler always mails the question's author, reading \<open>question.user.name\<close> and
  \<open>email\<close>: a deleted author (populated as \<open>null\<close>) or a missing \<open>user\<close> throws
  after the write, as does a failed mail; a plain-string \<open>user\<close> has no
  \<open>email\<close>, and the mailer rejects a message without recipients.
\<close>

definition answer_mail :: "env \<Rightarrow> js_user \<Rightarrow> world \<Rightarrow> (http_error + unit) \<times> world" where
  "answer_mail e qu w =
     (case qu of
        UserRef s \<Rightarrow>
          (case users w s of
             None \<Rightarrow> (Inl (ServerError ''Cannot read properties of null''), w)
           | Some au \<Rightarrow>
               if mail_ok e then (Inr (), w\<lparr>mails := mails w @ [(u_email au, ''Question Reply'')]\<rparr>)
               else (Inl (ServerError ''mail failed''), w))
      | UserText s \<Rightarrow> (Inl (ServerError ''No recipients defined''), w)
      | UserMissing \<Rightarrow> (Inl (ServerError ''Cannot read properties of undefined''), w))"

definition add_answer ::
  "env \<Rightarrow> user \<Rightarrow> string \<Rightarrow> string \<Rightarrow> string \<Rightarrow> string \<Rightarrow> world \<Rightarrow> (http_error + course) \<times> world" where
  "add_answer e u ans cid cnt qid w =
     (case find_course cid w of
        Inl err \<Rightarrow> (Inl err, w)
      | Inr c \<Rightarrow>
          if \<not> is_valid_object_id cnt then (Inl (BadRequest ''Invalid content Id''), w)
          else (case find_content cnt c of
                  None \<Rightarrow> (Inl (BadRequest ''Invalid content Id''), w)
                | Some i \<Rightarrow>
                    (let qs = item_questions (courseData c ! i) in
                     case find_index_nat (\<lambda>q. q_id q = qid) qs of
                       None \<Rightarrow> (Inl (BadRequest ''Invalid Question Id''), w)
                     | Some j \<Rightarrow>
                         (let q = qs ! j;
                              na = \<lparr>a_id = oid_of (next_oid w), a_user = u_id u, a_text = ans\<rparr>;
                              qs' = qs[j := q\<lparr>q_replies := q_replies q @ [na]\<rparr>];
                              w1 = w\<lparr>next_oid := Suc (next_oid w)\<rparr>
                          in case save_clear_content e cid (set_questions c i qs') w1 of
                               (Inl err, w2) \<Rightarrow> (Inl err, w2)
                             | (Inr c', w2) \<Rightarrow>
                                 (case answer_mail e (q_user q) w2 of
                                    (Inl err, w3) \<Rightarrow> (Inl err, w3)
                                  | (Inr _, w3) \<Rightarrow> (Inr c', w3))))))"

text \<open>
  \<open>deleteQuestion\<close> (lines 1965--2031): an authenticated user, three valid ids, the
  course, the item, the question by id; the author's id is read through
  \<open>question.user._id\<close>, which throws for a deleted author or a plain-string or
  missing \<open>user\<close>; only the author or an admin (the course has no \<open>instructor\<close>
  field) may delete; splice, write, cache deletion.
\<close>

definition delete_question ::
  "env \<Rightarrow> user option \<Rightarrow> string \<Rightarrow> string \<Rightarrow> string \<Rightarrow> world \<Rightarrow> (http_error + course) \<times> world" where
  "delete_question e ru cid cnt qid w =
     (case ru of
        None \<Rightarrow> (Inl (Unauthorized ''Unauthorized''), w)
      | Some u \<Rightarrow>
          if \<not> list_all is_valid_object_id [cid, cnt, qid] then (Inl (BadRequest ''Invalid ID format''), w)
          else (case store w cid of
                  None \<Rightarrow> (Inl (NotFound ''Course not found''), w)
                | Some c \<Rightarrow>
                    (case find_content cnt c of
                       None \<Rightarrow> (Inl (NotFound ''Course content not found''), w)
                     | Some i \<Rightarrow>
                         (let qs = item_questions (courseData c ! i) in
                          case find_index_nat (\<lambda>q. q_id q = qid) qs of
                            None \<Rightarrow> (Inl (NotFound ''Question not found''), w)
                          | Some j \<Rightarrow>
                              (case q_user (qs ! j) of
                                 UserRef s \<Rightarrow>
                                   if users w s = None then (Inl (ServerError ''Cannot read properties of null''), w)
                                   else if s \<noteq> u_id u \<and> u_role u \<noteq> ''admin'' then (Inl (Forbidden ''Access denied''), w)
                                   else save_clear_content e cid (set_questions c i (js_splice1 qs j)) w
                               | _ \<Rightarrow> (Inl (ServerError ''Cannot read properties of undefined''), w))))))"

section \<open>A fixture\<close>

text \<open>One lecture with one question whose author is the user \<open>u1\<close>.\<close>

definition qa_question :: question where
  "qa_question = \<lparr>q_user = UserRef ''u1'', q_text = ''Why?'', q_id = oid_of 3, q_replies = []\<rparr>"

definition qa_course :: course where
  "qa_course = \<lparr>course_id = oid_of 1, name = ''Go'', price = 0, thumbnail = None,
     courseData = [\<lparr>item_id = Some (oid_of 2), title = ''Video 1'', description = [], videoUrl = ''https://cdn/v1'',
       videoPublicId = None, storageType = None, videoThumbnail = None, videoSection = ''S'', videoLength = 60,
       videoPlayer = ''cloudinary'', links = [], suggestion = [], questions = Some [qa_question]\<rparr>],
     reviews = [], ratings = 0, purchased = 0,
     course_description = ''Learn Go'', categories = ''Programming'', created_at = 0\<rparr>"

definition qa_user :: user where
  "qa_user = \<lparr>u_id = ''u1'', u_name = ''Ali'', u_email = ''ali@example.com'', u_role = ''user'', u_courses = []\<rparr>"

definition qa_world :: world where
  "qa_world = demo_world\<lparr>store := [oid_of 1 \<mapsto> qa_course], users := [''u1'' \<mapsto> qa_user]\<rparr>"

section \<open>Lemmas\<close>

lemma answer_mail_frame:
  "answer_mail e qu w = (r, w') \<Longrightarrow>
     store w' = store w \<and> cache w' = cache w \<and> notifications w' = notifications w \<and>
     (\<not> isl r \<longrightarrow> (\<exists>m. mails w' = mails w @ [(m, ''Question Reply'')])) \<and>
     (isl r \<longrightarrow> w' = w)"
  by (auto simp: answer_mail_def split: js_user.splits option.splits if_splits)

lemma save_clear_content_pair:
  "save_clear_content e cid c w = (r, w') \<Longrightarrow>
     (r = Inl (ServerError ''save failed'') \<and> w' = w \<and> \<not> db_ok e) \<or>
     (db_ok e \<and> r = Inr (persist_course c) \<and> store w' = (store w)(cid \<mapsto> persist_course c) \<and>
      notifications w' = notifications w \<and> mails w' = mails w \<and>
      cache w' = (if redis_up e then (cache w)(''courseContent:'' @ cid := None) else cache w))"
  by (auto simp: save_clear_content_def Let_def split: if_splits)

lemma add_answer_Inr:
  "add_answer e u ans cid cnt qid w = (Inr c', w') \<Longrightarrow>
   notifications w' = notifications w \<and> (\<exists>m. mails w' = mails w @ [(m, ''Question Reply'')])"
  unfolding add_answer_def Let_def
  by (auto split: sum.splits option.splits if_splits prod.splits
      dest!: save_clear_content_pair answer_mail_frame)

lemma add_answer_written:
  assumes "find_course cid w = Inr c" "is_valid_object_id cnt" "find_content cnt c = Some i"
    "find_index_nat (\<lambda>q. q_id q = qid) (item_questions (courseData c ! i)) = Some j" "db_ok e"
  shows "store (snd (add_answer e u ans cid cnt qid w)) cid =
           Some (persist_course (set_questions c i ((item_questions (courseData c ! i))[j :=
             (item_questions (courseData c ! i) ! j)\<lparr>q_replies := q_replies (item_questions (courseData c ! i) ! j) @
               [\<lparr>a_id = oid_of (next_oid w), a_user = u_id u, a_text = ans\<rparr>]\<rparr>])))"
  using assms
  by (auto simp: add_answer_def save_clear_content_def Let_def frame_simps split: sum.split prod.split
      dest!: answer_mail_frame)

lemma save_clear_content_pid_pair:
  "save_clear_content e cid c w = (r, w') \<Longrightarrow> store_pid_free w \<Longrightarrow> store_pid_free w'"
  using save_clear_content_pair [of e cid c w r w'] store_pid_free_step [of w w'] by auto

lemma answer_mail_pid: "answer_mail e qu w = (r, w') \<Longrightarrow> store_pid_free w' = store_pid_free w"
  using answer_mail_frame store_pid_free_same by metis

lemma add_question_pid_free: "store_pid_free w \<Longrightarrow> store_pid_free (snd (add_question e u q cid cnt w))"
  unfolding add_question_def Let_def
  by (auto split: sum.splits option.splits prod.splits if_splits elim!: save_clear_content_pid_pair)

lemma add_answer_pid_free: "store_pid_free w \<Longrightarrow> store_pid_free (snd (add_answer e u a cid cnt qid w))"
  unfolding add_answer_def Let_def
  by (auto split: sum.splits option.splits prod.splits if_splits simp: answer_mail_pid
      elim!: save_clear_content_pid_pair)

lemma save_clear_content_pid: "store_pid_free w \<Longrightarrow> store_pid_free (snd (save_clear_content e cid c w))"
  using save_clear_content_pid_pair [of e cid c w "fst (save_clear_content e cid c w)" "snd (save_clear_content e cid c w)"]
  by simp

lemma delete_question_pid_free: "store_pid_free w \<Longrightarrow> store_pid_free (snd (delete_question e u cid cnt qid w))"
  unfolding delete_question_def Let_def
  by (auto split: sum.splits option.splits prod.splits if_splits js_user.splits intro: save_clear_content_pid)

lemma save_clear_content_log [simp]: "remote_log (snd (save_clear_content e cid c w)) = remote_log w"
  by (simp add: save_clear_content_def Let_def)

lemma save_clear_content_log_pair: "save_clear_content e cid c w = (r, w') \<Longrightarrow> remote_log w' = remote_log w"
  using save_clear_content_log [of e cid c w] by simp

lemma answer_mail_log: "answer_mail e qu w = (r, w') \<Longrightarrow> remote_log w' = remote_log w"
  by (auto simp: answer_mail_def split: js_user.splits option.splits if_splits)

lemma add_question_log: "remote_log (snd (add_question e u q cid cnt w)) = remote_log w"
  unfolding add_question_def Let_def
  by (auto split: sum.splits option.splits prod.splits if_splits simp: notify_def dest!: save_clear_content_log_pair)

lemma add_answer_log: "remote_log (snd (add_answer e u a cid cnt qid w)) = remote_log w"
  unfolding add_answer_def Let_def
  by (auto simp: frame_simps split: sum.splits option.splits prod.splits if_splits dest!: save_clear_content_log_pair answer_mail_log)

lemma delete_question_log: "remote_log (snd (delete_question e u cid cnt qid w)) = remote_log w"
  unfolding delete_question_def Let_def
  by (simp split: sum.split option.split prod.split js_user.split)

section \<open>Properties\<close>

text \<open>Claim C15: a successful \<open>addAnswer\<close> never creates a notification and always
  sends one \<open>Question Reply\<close> mail, also when the author of the question answers it:
  the self-reply test \<open>req.user?._id === question.user?._id\<close> compares a string
  with an ObjectId and is never true.\<close>

theorem add_answer_always_mails:
  assumes "fst (add_answer e u ans cid cnt qid w) = Inr c'"
  shows "notifications (snd (add_answer e u ans cid cnt qid w)) = notifications w \<and>
         (\<exists>m. mails (snd (add_answer e u ans cid cnt qid w)) = mails w @ [(m, ''Question Reply'')])"
  using add_answer_Inr [of e u ans cid cnt qid w c' "snd (add_answer e u ans cid cnt qid w)"] assms
  by (metis prod.collapse)

theorem add_answer_always_mails_witness:
  "notifications (snd (add_answer demo_env qa_user ''Because.'' (oid_of 1) (oid_of 2) (oid_of 3) qa_world)) =
     notifications qa_world \<and>
   (\<exists>m. mails (snd (add_answer demo_env qa_user ''Because.'' (oid_of 1) (oid_of 2) (oid_of 3) qa_world)) =
     mails qa_world @ [(m, ''Question Reply'')])"
proof -
  let ?x = "add_answer demo_env qa_user ''Because.'' (oid_of 1) (oid_of 2) (oid_of 3) qa_world"
  have "fst ?x = Inr (projr (fst ?x))"
    by (simp add: add_answer_def find_course_def qa_world_def qa_course_def find_content_def item_questions_def
        qa_question_def save_clear_content_def answer_mail_def qa_user_def demo_env_def Let_def)
  then show ?thesis by (rule add_answer_always_mails)
qed

text \<open>When the author of a question no longer exists, \<open>addAnswer\<close> writes
  the answer and then fails with a 500: the response reports an error for a change
  that was committed.\<close>

theorem add_answer_error_after_write:
  assumes "find_course cid w = Inr c" "is_valid_object_id cnt" "find_content cnt c = Some i"
    "find_index_nat (\<lambda>q. q_id q = qid) (item_questions (courseData c ! i)) = Some j" "db_ok e"
    "q_user (item_questions (courseData c ! i) ! j) = UserRef s" "users w s = None"
  shows "fst (add_answer e u ans cid cnt qid w) = Inl (ServerError ''Cannot read properties of null'') \<and>
         store (snd (add_answer e u ans cid cnt qid w)) cid =
           Some (persist_course (set_questions c i ((item_questions (courseData c ! i))[j :=
             (item_questions (courseData c ! i) ! j)\<lparr>q_replies := q_replies (item_questions (courseData c ! i) ! j) @
               [\<lparr>a_id = oid_of (next_oid w), a_user = u_id u, a_text = ans\<rparr>]\<rparr>])))"
  using assms add_answer_written [OF assms(1-5)]
  by (simp add: add_answer_def save_clear_content_def answer_mail_def Let_def)

theorem add_answer_error_after_write_witness:
  "fst (add_answer demo_env qa_user ''Because.'' (oid_of 1) (oid_of 2) (oid_of 3) (qa_world\<lparr>users := Map.empty\<rparr>)) =
     Inl (ServerError ''Cannot read properties of null'') \<and>
   store (snd (add_answer demo_env qa_user ''Because.'' (oid_of 1) (oid_of 2) (oid_of 3) (qa_world\<lparr>users := Map.empty\<rparr>))) (oid_of 1) =
     Some (persist_course (set_questions qa_course 0 ((item_questions (courseData qa_course ! 0))[0 :=
       (item_questions (courseData qa_course ! 0) ! 0)\<lparr>q_replies := q_replies (item_questions (courseData qa_course ! 0) ! 0) @
         [\<lparr>a_id = oid_of (next_oid (qa_world\<lparr>users := Map.empty\<rparr>)), a_user = u_id qa_user, a_text = ''Because.''\<rparr>]\<rparr>])))"
  by (rule add_answer_error_after_write [where s = "''u1''"])
     (simp_all add: find_course_def qa_world_def qa_course_def find_content_def item_questions_def qa_question_def
       demo_env_def)

end
