(* ===== verification/Reads.thy ===== *)
theory Reads
  imports Js_Values
begin

text \<open>
  The read endpoints of \<open>course.controller.ts\<close>: \<open>getSingleCourse\<close> (lines
  1172--1218), \<open>getCourseContent\<close> (lines 1319--1370) and \<open>getCourseByUser\<close> (lines
  1431--1693), the content endpoint that enrols a user in a free course or restores
  access from a paid order, and serves \<open>courseContent:<id>\<close> from Redis when the key
  is present. The access checks read \<open>user.courses\<close> entries by their \<open>_id\<close>.
\<close>

section \<open>Projections and access\<close>

text \<open>
  \<open>select("-courseData.videoUrl -courseData.suggestion -courseData.questions
  -courseData.links")\<close>: the excluded paths are absent from the result.
\<close>

definition strip_item :: "content_item \<Rightarrow> content_item" where
  "strip_item v = v\<lparr>videoUrl := [], suggestion := [], questions := None, links := []\<rparr>"

definition strip_course :: "course \<Rightarrow> course" where
  "strip_course c = c\<lparr>courseData := map strip_item (courseData c)\<rparr>"

text \<open>\<open>courses.some(c => c._id.toString() === courseId)\<close>.\<close>

definition enrolled_by_id :: "user \<Rightarrow> string \<Rightarrow> bool" where
  "enrolled_by_id u cid \<longleftrightarrow> list_ex (\<lambda>uc. uc_id uc = cid) (u_courses u)"

text \<open>An order of the user for the course whose payment status is
  \<open>succeeded\<close> or \<open>completed\<close> (\<open>OrderModel.findOne\<close> with \<open>$in\<close>).\<close>

definition has_paid_order :: "world \<Rightarrow> string \<Rightarrow> string \<Rightarrow> bool" where
  "has_paid_order w uid cid \<longleftrightarrow>
     list_ex (\<lambda>od. o_user od = uid \<and> o_course od = cid \<and> o_pay_status od \<in> {Some ''succeeded'', Some ''completed''})
       (orders w)"

text \<open>
  \<open>freshUser.courses.push(course._id)\<close>, \<open>save()\<close>, and the session refresh
  \<open>redis.del(userId)\<close>, \<open>redis.set(userId, JSON.stringify(updatedUser))\<close>: the
  pushed ObjectId becomes the entry's \<open>_id\<close>. The result says whether every step
  returned normally.
\<close>

definition enrol_by_id :: "env \<Rightarrow> user \<Rightarrow> string \<Rightarrow> world \<Rightarrow> bool \<times> world" where
  "enrol_by_id e u cid w =
     (if \<not> db_ok e then (False, w)
      else (let u' = u\<lparr>u_courses := u_courses u @ [\<lparr>uc_id = cid, uc_course = None\<rparr>]\<rparr>;
                w1 = w\<lparr>users := (users w)(u_id u \<mapsto> u')\<rparr>
            in if redis_up e then (True, w1\<lparr>cache := (cache w1)(u_id u \<mapsto> \<lparr>ce_val = CVUser u', ce_ttl = None\<rparr>)\<rparr>)
               else (False, w1)))"

text \<open>A cached \<open>courseContent:<id>\<close> entry, as the handler parses it.\<close>

definition cached_content :: "cache_entry option \<Rightarrow> course option" where
  "cached_content ce = (case ce of Some x \<Rightarrow> (case ce_val x of CVContent c \<Rightarrow> Some c | _ \<Rightarrow> None) | None \<Rightarrow> None)"

section \<open>Handlers\<close>

text \<open>
  \<open>getSingleCourse\<close>: a valid id, the course from the store with the heavy paths
  excluded, and the projection written to the key \<open>courseId\<close> for an hour (a Redis
  error is only logged).
\<close>

definition get_single_course :: "env \<Rightarrow> string \<Rightarrow> world \<Rightarrow> (http_error + course) \<times> world" where
  "get_single_course e cid w =
     (if \<not> is_valid_object_id cid then (Inl (BadRequest ''Invalid course ID''), w)
      else case store w cid of
        None \<Rightarrow> (Inl (NotFound ''Course not found''), w)
      | Some c \<Rightarrow>
          (let c' = strip_course c in
           (Inr c', if redis_up e then w\<lparr>cache := (cache w)(cid \<mapsto> \<lparr>ce_val = CVCourse c', ce_ttl = Some 3600\<rparr>)\<rparr> else w)))"

text \<open>
  \<open>getCourseContent\<close>: a valid id, the user's stored \<open>courses\<close> must hold an entry
  whose \<open>_id\<close> is the course id, then the course's content from the store.
\<close>

definition get_course_content :: "user \<Rightarrow> string \<Rightarrow> world \<Rightarrow> http_error + content_item list" where
  "get_course_content u cid w =
     (if \<not> is_valid_object_id cid then Inl (BadRequest ''Invalid course ID'')
      else if \<not> (case users w (u_id u) of None \<Rightarrow> False | Some fu \<Rightarrow> enrolled_by_id fu cid)
      then Inl (Forbidden ''You are not enrolled in this course'')
      else case store w cid of
        None \<Rightarrow> Inl (NotFound ''Course not found'')
      | Some c \<Rightarrow> Inr (courseData c))"

text \<open>
  The access step of \<open>getCourseByUser\<close> for a user who is not an admin (lines
  1451--1587). Paid course without an entry: a paid order restores access (the
  enrolment's errors are logged and the request continues), none gives a 403. Free
  course without an entry: enrol (an error is a 500), notify, and record a free order
  (its error is logged).
\<close>

definition course_access :: "env \<Rightarrow> user \<Rightarrow> string \<Rightarrow> course \<Rightarrow> world \<Rightarrow> (http_error + unit) \<times> world" where
  "course_access e u cid c w =
     (case users w (u_id u) of
        None \<Rightarrow> (Inl (NotFound ''User not found''), w)
      | Some fu \<Rightarrow>
          if enrolled_by_id fu cid then (Inr (), w)
          else if 0 < price c then
            (if has_paid_order w (u_id u) cid
             then (let (ok, w1) = enrol_by_id e fu cid w in
                   (Inr (), if ok then notify (u_id fu) ''Course Access Restored'' (name c) w1 else w1))
             else (Inl (Forbidden ''You must purchase this course to access its content''), w))
          else
            (case enrol_by_id e fu cid w of
               (False, w1) \<Rightarrow> (Inl (ServerError ''Failed to enroll in free course''), w1)
             | (True, w1) \<Rightarrow>
                 (let w2 = notify (u_id fu) ''Free Course Enrolled'' (name c) w1 in
                  (Inr (), if db_ok e
                           then w2\<lparr>orders := orders w2 @ [\<lparr>o_id = oid_of (next_oid w2), o_course = cid, o_user = u_id fu,
                                     o_pay_id = Some ''free_auto_enroll'', o_pay_status = Some ''completed'',
                                     o_pay_type = Some ''free'', o_created = 0\<rparr>],
                                   next_oid := Suc (next_oid w2)\<rparr>
                           else w2))))"

text \<open>
  \<open>getCourseByUser\<close>: a valid id, the course, the access step unless the user is an
  admin, then \<open>courseContent:<id>\<close> from Redis if present; otherwise the course from
  the store, cached under that key for 24 hours. The result is the course whose
  content and information the response carries.
\<close>

definition get_course_by_user :: "env \<Rightarrow> user \<Rightarrow> string \<Rightarrow> world \<Rightarrow> (http_error + course) \<times> world" where
  "get_course_by_user e u cid w =
     (if \<not> is_valid_object_id cid then (Inl (BadRequest ''Invalid course ID''), w)
      else case store w cid of
        None \<Rightarrow> (Inl (NotFound ''Course not found''), w)
      | Some c \<Rightarrow>
          (case (if u_role u = ''admin'' then (Inr (), w) else course_access e u cid c w) of
             (Inl err, w1) \<Rightarrow> (Inl err, w1)
           | (Inr _, w1) \<Rightarrow>
               (let key = ''courseContent:'' @ cid in
                case (if redis_up e then cached_content (cache w1 key) else None) of
                  Some c0 \<Rightarrow> (Inr c0, w1)
                | None \<Rightarrow>
                    (case store w1 cid of
                       None \<Rightarrow> (Inl (NotFound ''Course not found''), w1)
                     | Some c1 \<Rightarrow>
                         (Inr c1, if redis_up e
                                  then w1\<lparr>cache := (cache w1)(key \<mapsto> \<lparr>ce_val = CVContent c1, ce_ttl = Some 86400\<rparr>)\<rparr>
                                  else w1)))))"

section \<open>A fixture\<close>

text \<open>A course whose stored version has a review that the cached content, written
  before the review, lacks; an admin reads it.\<close>

definition rd_course :: "rat \<Rightarrow> course" where
  "rd_course r = \<lparr>course_id = oid_of 1, name = ''Go'', price = 10, thumbnail = None, courseData = [],
     reviews = [], ratings = r, purchased = 0,
     course_description = ''Learn Go'', categories = ''Programming'', created_at = 0\<rparr>"

definition rd_admin :: user where
  "rd_admin = \<lparr>u_id = ''a1'', u_name = ''Admin'', u_email = ''admin@example.com'', u_role = ''admin'', u_courses = []\<rparr>"

definition rd_world :: world where
  "rd_world = demo_world\<lparr>store := [oid_of 1 \<mapsto> rd_course 5],
     cache := [''courseContent:'' @ oid_of 1 \<mapsto> \<lparr>ce_val = CVContent (rd_course 0), ce_ttl = Some 86400\<rparr>]\<rparr>"

section \<open>Lemmas\<close>

lemma enrol_by_id_users_ok:
  assumes "users_ok w" "users w k = Some u" "enrol_by_id e u cid w = (b, w')"
  shows "users_ok w'"
proof (cases "db_ok e")
  case False then show ?thesis using assms by (simp add: enrol_by_id_def)
next
  case True
  let ?u' = "u\<lparr>u_courses := u_courses u @ [\<lparr>uc_id = cid, uc_course = None\<rparr>]\<rparr>"
  have "distinct (List.map_filter uc_course (u_courses ?u'))"
    using stored_user_distinct [OF assms(1,2)] by (simp add: map_filter_snoc)
  moreover have "users w' = (users w)(u_id u \<mapsto> ?u')" using True assms(3)
    by (auto simp: enrol_by_id_def Let_def split: if_splits)
  ultimately show ?thesis by (rule users_ok_upd [OF assms(1,2)])
qed

lemma course_access_users_ok:
  assumes ok: "users_ok w" and r: "course_access e u cid c w = (r, w')"
  shows "users_ok w'"
proof (cases "users w (u_id u)")
  case None then show ?thesis using ok r by (simp add: course_access_def)
next
  case (Some fu)
  obtain b w1 where a: "enrol_by_id e fu cid w = (b, w1)" by fastforce
  have ok1: "users_ok w1" by (rule enrol_by_id_users_ok [OF ok Some a])
  show ?thesis using ok ok1 r Some a
    by (auto simp: course_access_def Let_def split: if_splits bool.splits)
qed

lemma get_course_by_user_users_ok:
  assumes ok: "users_ok w"
  shows "users_ok (snd (get_course_by_user e u cid w))"
proof (cases "is_valid_object_id cid \<and> store w cid \<noteq> None")
  case False then show ?thesis using ok by (auto simp: get_course_by_user_def)
next
  case True
  then obtain c where v: "is_valid_object_id cid" and s: "store w cid = Some c" by auto
  obtain r w1 where a: "(if u_role u = ''admin'' then (Inr (), w) else course_access e u cid c w) = (r, w1)"
    by fastforce
  have ok1: "users_ok w1" using a ok course_access_users_ok [OF ok] by (auto split: if_splits)
  show ?thesis using v s a ok1
    by (cases r) (auto simp: get_course_by_user_def Let_def split: option.split)
qed

lemma get_single_course_frame:
  "store (snd (get_single_course e cid w)) = store w" "remote_log (snd (get_single_course e cid w)) = remote_log w"
  by (auto simp: get_single_course_def Let_def split: option.split)

lemma enrol_by_id_frame: "enrol_by_id e u cid w = (b, w') \<Longrightarrow> store w' = store w \<and> remote_log w' = remote_log w"
  by (auto simp: enrol_by_id_def Let_def split: if_splits)

lemma course_access_frame:
  "course_access e u cid c w = (r, w') \<Longrightarrow> store w' = store w \<and> remote_log w' = remote_log w"
  by (auto simp: course_access_def Let_def notify_def split: option.splits if_splits prod.splits bool.splits
      dest!: enrol_by_id_frame)

lemma get_course_by_user_frame:
  "store (snd (get_course_by_user e u cid w)) = store w \<and> remote_log (snd (get_course_by_user e u cid w)) = remote_log w"
proof (cases "is_valid_object_id cid \<and> store w cid \<noteq> None")
  case False then show ?thesis by (auto simp: get_course_by_user_def)
next
  case True
  then obtain c where v: "is_valid_object_id cid" and s: "store w cid = Some c" by auto
  obtain r w1 where a: "(if u_role u = ''admin'' then (Inr (), w) else course_access e u cid c w) = (r, w1)"
    by fastforce
  have f: "store w1 = store w \<and> remote_log w1 = remote_log w" using a course_access_frame by (auto split: if_splits)
  show ?thesis using v s a f
    by (cases r) (auto simp: get_course_by_user_def Let_def split: option.split)
qed

section \<open>Properties\<close>

text \<open>Claim C14: \<open>getCourseByUser\<close>, the access-gated content endpoint, answers from
  \<open>courseContent:<id>\<close> whenever Redis holds that key and the caller may see the
  course, whatever the store now holds; the specification requires this endpoint to
  bypass the cache read.\<close>

theorem course_by_user_serves_cache:
  assumes "is_valid_object_id cid" "store w cid = Some c" "redis_up e"
    "u_role u = ''admin'' \<or> (\<exists>fu. users w (u_id u) = Some fu \<and> enrolled_by_id fu cid)"
    "cached_content (cache w (''courseContent:'' @ cid)) = Some c0"
  shows "get_course_by_user e u cid w = (Inr c0, w)"
  using assms by (auto simp: get_course_by_user_def course_access_def)

theorem course_by_user_serves_cache_witness:
  "get_course_by_user demo_env rd_admin (oid_of 1) rd_world = (Inr (rd_course 0), rd_world)"
  by (rule course_by_user_serves_cache [where c = "rd_course 5"])
     (simp_all add: rd_world_def rd_admin_def demo_env_def cached_content_def)

end
