(* ===== verification/Orders.thy ===== *)
theory Orders
  imports Js_Values
begin

text \<open>
  Orders and enrolment: \<open>src/server/controller/order.controller.ts\<close> and
  \<open>src/server/services/order.service.ts\<close>. \<open>createOrder\<close> enrols a user in a free
  course at once and in a paid course after an optional Stripe check; the user's
  \<open>courses\<close> entry it pushes is \<open>{courseId}\<close>, and \<open>checkCourseAccess\<close> and
  \<open>fixMissingCourses\<close> read that field. The read services present orders with
  defaults for missing references.
\<close>

section \<open>Requests\<close>

text \<open>The \<open>payment_info\<close> object of a request: \<open>id\<close>, \<open>status\<close>, \<open>type\<close>.\<close>

record pay_in =
  pi_id :: "string option"
  pi_status :: "string option"
  pi_type :: "string option"

record order_req =
  or_course :: "string option"
  or_payment :: "pay_in option"

text \<open>
  \<open>validateAndSanitizeOrderData\<close> (lines 28--74): \<open>courseId\<close> and \<open>payment_info\<close>
  are required (\<open>!courseId\<close>: an empty id is rejected too), and \<open>type\<close> defaults to \<open>stripe\<close> (\<open>payment_info.type || "stripe"\<close>).
  The sanitised \<open>courseData\<close> is not modelled: no handler reads it back.
\<close>

definition sanitize_order :: "order_req \<Rightarrow> string + (string \<times> pay_in)" where
  "sanitize_order r =
     (case or_course r of
        None \<Rightarrow> Inl ''courseId is required''
      | Some cid \<Rightarrow>
          if cid = [] then Inl ''courseId is required''
          else (case or_payment r of
             None \<Rightarrow> Inl ''payment_info is required''
           | Some p \<Rightarrow>
               Inr (cid, p\<lparr>pi_type := Some (case pi_type p of Some t \<Rightarrow> str_or t ''stripe'' | None \<Rightarrow> ''stripe'')\<rparr>)))"

text \<open>\<open>user.courses.some(c => c.courseId === courseId)\<close>.\<close>

definition enrolled_by_course :: "user \<Rightarrow> string \<Rightarrow> bool" where
  "enrolled_by_course u cid \<longleftrightarrow> list_ex (\<lambda>uc. uc_course uc = Some cid) (u_courses u)"

text \<open>
  \<open>orderSchema\<close> requires the three \<open>payment_info\<close> strings; an absent or empty one
  fails validation on \<open>save()\<close>.
\<close>

definition order_valid :: "pay_in \<Rightarrow> bool" where
  "order_valid p \<longleftrightarrow> list_all (\<lambda>f. f \<noteq> None \<and> f \<noteq> Some []) [pi_id p, pi_status p, pi_type p]"

definition new_order :: "string \<Rightarrow> string \<Rightarrow> pay_in \<Rightarrow> env \<Rightarrow> world \<Rightarrow> order" where
  "new_order cid uid p e w = \<lparr>o_id = oid_of (next_oid w), o_course = cid, o_user = uid,
     o_pay_id = pi_id p, o_pay_status = pi_status p, o_pay_type = pi_type p, o_created = now e\<rparr>"

text \<open>
  \<open>user.courses.push({ courseId })\<close>, \<open>user.save()\<close> and the session refresh in
  Redis; the new entry gets a fresh subdocument \<open>_id\<close>. \<open>False\<close> when a step throws.
\<close>

definition enrol_by_course :: "env \<Rightarrow> user \<Rightarrow> string \<Rightarrow> world \<Rightarrow> bool \<times> world" where
  "enrol_by_course e u cid w =
     (if \<not> db_ok e then (False, w)
      else (let u' = u\<lparr>u_courses := u_courses u @ [\<lparr>uc_id = oid_of (next_oid w), uc_course = Some cid\<rparr>]\<rparr>;
                w1 = w\<lparr>users := (users w)(u_id u \<mapsto> u'), next_oid := Suc (next_oid w)\<rparr>
            in if redis_up e then (True, w1\<lparr>cache := (cache w1)(u_id u \<mapsto> \<lparr>ce_val = CVUser u', ce_ttl = None\<rparr>)\<rparr>)
               else (False, w1)))"

text \<open>
  \<open>course.purchased = (course.purchased || 0) + 1\<close>, \<open>course.save()\<close> and
  \<open>redis.set(courseId, ..., "EX", 604800)\<close>, all inside a \<open>try\<close> whose errors are
  only logged.
\<close>

definition bump_purchased :: "env \<Rightarrow> string \<Rightarrow> course \<Rightarrow> world \<Rightarrow> world" where
  "bump_purchased e cid c w =
     (if \<not> db_ok e then w
      else (let c' = persist_course (c\<lparr>purchased := purchased c + 1\<rparr>); w1 = w\<lparr>store := (store w)(cid \<mapsto> c')\<rparr> in
            if redis_up e then w1\<lparr>cache := (cache w1)(cid \<mapsto> \<lparr>ce_val = CVCourse c', ce_ttl = Some 604800\<rparr>)\<rparr> else w1))"

text \<open>The confirmation mail; a failure is only logged.\<close>

definition order_mail :: "env \<Rightarrow> user \<Rightarrow> string \<Rightarrow> world \<Rightarrow> world" where
  "order_mail e u subj w = (if mail_ok e then w\<lparr>mails := mails w @ [(u_email u, subj)]\<rparr> else w)"

section \<open>createOrder\<close>

text \<open>
  The free branch (lines 138--220): push the entry (a failing save or session refresh
  throws into the outer \<open>catch\<close>, a 500), save a \<open>free\<close> order with status
  \<open>completed\<close>, count the purchase, notify and mail.
\<close>

definition create_free_order :: "env \<Rightarrow> user \<Rightarrow> string \<Rightarrow> course \<Rightarrow> world \<Rightarrow> (http_error + order) \<times> world" where
  "create_free_order e u cid c w =
     (case enrol_by_course e u cid w of
        (False, w1) \<Rightarrow> (Inl (ServerError ''Internal server error''), w1)
      | (True, w1) \<Rightarrow>
          (let od = new_order cid (u_id u) \<lparr>pi_id = Some ''free_course'', pi_status = Some ''completed'', pi_type = Some ''free''\<rparr> e w1;
               w2 = w1\<lparr>orders := orders w1 @ [od], next_oid := Suc (next_oid w1)\<rparr>;
               w3 = bump_purchased e cid c w2;
               w4 = notify (u_id u) ''Free Course Enrolled'' (name c) w3
           in (Inr od, order_mail e u ''Free Course Enrollment Confirmation'' w4)))"

text \<open>
  The paid branch (lines 222--335): the payment intent is checked only when
  \<open>payment_info\<close> has an \<open>id\<close> and its type is \<open>stripe\<close>; the order is saved
  (schema validation first, a 400); then the enrolment, whose failure deletes the order
  again and answers 500; then the purchase count, notification and mail.
\<close>

definition create_paid_order :: "env \<Rightarrow> user \<Rightarrow> string \<Rightarrow> pay_in \<Rightarrow> course \<Rightarrow> world \<Rightarrow> (http_error + order) \<times> world" where
  "create_paid_order e u cid p c w =
     (if pi_id p \<noteq> None \<and> pi_type p = Some ''stripe'' \<and> \<not> payment_succeeded e (the (pi_id p))
      then (Inl (BadRequest ''Payment not authorized!''), w)
      else if \<not> order_valid p then (Inl (BadRequest ''Validation Error''), w)
      else if \<not> db_ok e then (Inl (ServerError ''Internal server error''), w)
      else
        (let od = new_order cid (u_id u) p e w;
             w1 = w\<lparr>orders := orders w @ [od], next_oid := Suc (next_oid w)\<rparr>
         in case enrol_by_course e u cid w1 of
              (False, w2) \<Rightarrow> (Inl (ServerError ''Failed to enroll user in course''),
                              w2\<lparr>orders := removeAll od (orders w2)\<rparr>)
            | (True, w2) \<Rightarrow>
                (let w3 = bump_purchased e cid c w2;
                     w4 = notify (u_id u) ''New Order'' (name c) w3
                 in (Inr od, order_mail e u ''Order Confirmation'' w4))))"

text \<open>
  \<open>createOrder\<close> (lines 99--356): the user from the database, the sanitised request,
  the course (an id that is not an ObjectId is a \<open>CastError\<close>, answered 400), no
  \<open>{courseId}\<close> entry yet, then the free or the paid branch by \<open>price > 0\<close>.
\<close>

definition create_order :: "env \<Rightarrow> user \<Rightarrow> order_req \<Rightarrow> world \<Rightarrow> (http_error + order) \<times> world" where
  "create_order e su r w =
     (case users w (u_id su) of
        None \<Rightarrow> (Inl (NotFound ''User not found''), w)
      | Some u \<Rightarrow>
          (case sanitize_order r of
             Inl m \<Rightarrow> (Inl (BadRequest m), w)
           | Inr (cid, p) \<Rightarrow>
               if \<not> is_valid_object_id cid then (Inl (BadRequest ''Invalid ID format''), w)
               else case store w cid of
                 None \<Rightarrow> (Inl (NotFound ''Course not found''), w)
               | Some c \<Rightarrow>
                   if enrolled_by_course u cid then (Inl (BadRequest ''You have already enrolled in this course''), w)
                   else if 0 < price c then create_paid_order e u cid p c w
                   else create_free_order e u cid c w))"

section \<open>Access and repair\<close>

text \<open>A completed order of the user for the course (\<open>payment_info.status\<close> in
  \<open>succeeded\<close>, \<open>completed\<close>).\<close>

definition completed_order :: "string \<Rightarrow> order \<Rightarrow> bool" where
  "completed_order uid od \<longleftrightarrow> o_user od = uid \<and> o_pay_status od \<in> {Some ''succeeded'', Some ''completed''}"

record access_info =
  ai_access :: bool
  ai_in_courses :: bool
  ai_valid_order :: bool
  ai_needs_purchase :: bool

text \<open>\<open>checkCourseAccess\<close> (lines 359--417); the order is looked up only without an entry.\<close>

definition check_course_access :: "user \<Rightarrow> string \<Rightarrow> world \<Rightarrow> http_error + access_info" where
  "check_course_access su cid w =
     (if \<not> is_valid_object_id cid then Inl (ServerError ''CastError'')
      else case store w cid of
        None \<Rightarrow> Inl (NotFound ''Course not found'')
      | Some c \<Rightarrow>
          (case users w (u_id su) of
             None \<Rightarrow> Inl (NotFound ''User not found'')
           | Some u \<Rightarrow>
               (let h = enrolled_by_course u cid;
                    oe = (\<not> h \<and> list_ex (\<lambda>od. completed_order (u_id u) od \<and> o_course od = cid) (orders w))
                in Inr \<lparr>ai_access = h \<or> oe, ai_in_courses = h, ai_valid_order = oe,
                        ai_needs_purchase = (\<not> h \<and> \<not> oe \<and> 0 < price c)\<rparr>)))"

text \<open>
  The loop of \<open>fixMissingCourses\<close> (lines 442--455) over the user's completed
  orders with their course populated: a deleted course populates as \<open>null\<close> and
  \<open>order.courseId._id\<close> throws.
\<close>

fun fix_loop :: "world \<Rightarrow> order list \<Rightarrow> user \<Rightarrow> nat \<Rightarrow> nat \<Rightarrow> (user \<times> nat \<times> nat) option" where
  "fix_loop w [] u n k = Some (u, n, k)"
| "fix_loop w (od # ods) u n k =
     (if store w (o_course od) = None then None
      else if enrolled_by_course u (o_course od) then fix_loop w ods u n k
      else fix_loop w ods (u\<lparr>u_courses := u_courses u @ [\<lparr>uc_id = oid_of k, uc_course = Some (o_course od)\<rparr>]\<rparr>) (Suc n) (Suc k))"

text \<open>\<open>fixMissingCourses\<close> (lines 420--480): the loop, then save and refresh the
  session when something was added; the result is the number of entries added.\<close>

definition fix_missing_courses :: "env \<Rightarrow> user \<Rightarrow> world \<Rightarrow> (http_error + nat) \<times> world" where
  "fix_missing_courses e su w =
     (case users w (u_id su) of
        None \<Rightarrow> (Inl (NotFound ''User not found''), w)
      | Some u \<Rightarrow>
          (case fix_loop w (filter (completed_order (u_id su)) (orders w)) u 0 (next_oid w) of
             None \<Rightarrow> (Inl (ServerError ''Cannot read properties of null''), w)
           | Some (u', n, k) \<Rightarrow>
               if n = 0 then (Inr 0, w)
               else if \<not> db_ok e then (Inl (ServerError ''save failed''), w)
               else (let w1 = w\<lparr>users := (users w)(u_id u \<mapsto> u'), next_oid := k\<rparr> in
                     if redis_up e then (Inr n, w1\<lparr>cache := (cache w1)(u_id u \<mapsto> \<lparr>ce_val = CVUser u', ce_ttl = None\<rparr>)\<rparr>)
                     else (Inl (ServerError ''Redis unavailable''), w1))))"

section \<open>Order views\<close>

text \<open>
  The cleaned order of \<open>getAllOrders\<close>, \<open>getAllOrdersService\<close>,
  \<open>getOrderByIdService\<close> and \<open>getOrdersByUserService\<close>: the populated course and
  user (absent when the reference is dangling) with \<open>||\<close> defaults, and the payment
  fields with theirs.
\<close>

record order_view =
  ov_id :: string
  ov_course :: "string option"
  ov_course_name :: string
  ov_course_price :: int
  ov_user :: "string option"
  ov_user_name :: string
  ov_user_email :: string
  ov_pay_id :: string
  ov_pay_status :: string
  ov_pay_type :: string
  ov_is_paid :: bool

definition order_view :: "world \<Rightarrow> order \<Rightarrow> order_view" where
  "order_view w od =
     (let c = store w (o_course od); u = users w (o_user od);
          pr = (case c of Some c \<Rightarrow> price c | None \<Rightarrow> 0)
      in \<lparr>ov_id = o_id od,
          ov_course = (case c of Some _ \<Rightarrow> Some (o_course od) | None \<Rightarrow> None),
          ov_course_name = (case c of Some c \<Rightarrow> str_or (name c) ''Unknown Course'' | None \<Rightarrow> ''Unknown Course''),
          ov_course_price = pr,
          ov_user = (case u of Some _ \<Rightarrow> Some (o_user od) | None \<Rightarrow> None),
          ov_user_name = (case u of Some u \<Rightarrow> str_or (u_name u) ''Unknown User'' | None \<Rightarrow> ''Unknown User''),
          ov_user_email = (case u of Some u \<Rightarrow> str_or (u_email u) ''Unknown Email'' | None \<Rightarrow> ''Unknown Email''),
          ov_pay_id = opt_or (o_pay_id od) ''N/A'',
          ov_pay_status = opt_or (o_pay_status od) ''unknown'',
          ov_pay_type = opt_or (o_pay_type od) ''unknown'',
          ov_is_paid = (0 < pr)\<rparr>)"

text \<open>\<open>.sort({ createdAt: -1 })\<close>: newest first; orders created in the same
  millisecond keep their stored order.\<close>

definition newest_first :: "order list \<Rightarrow> order list" where
  "newest_first ods = sort_key (\<lambda>od. - int (o_created od)) ods"

text \<open>\<open>getAllOrdersService\<close> (service lines 29--85) and
  \<open>getOrdersByUserService\<close> (service lines 152--196).\<close>

definition all_orders_service :: "world \<Rightarrow> order_view list" where
  "all_orders_service w = map (order_view w) (newest_first (orders w))"

definition orders_by_user_service :: "string \<Rightarrow> world \<Rightarrow> order_view list" where
  "orders_by_user_service uid w = map (order_view w) (newest_first (filter (\<lambda>od. o_user od = uid) (orders w)))"

text \<open>
  \<open>getOrderByIdService\<close> (service lines 89--149), which \<open>getOrderById\<close> (lines
  703--718) calls with the route's id for any authenticated user: the order is not
  matched against the requesting user.
\<close>

definition get_order_by_id :: "string \<Rightarrow> world \<Rightarrow> http_error + order_view" where
  "get_order_by_id oid w =
     (case find (\<lambda>od. o_id od = oid) (orders w) of
        None \<Rightarrow> Inl (NotFound ''Order not found'')
      | Some od \<Rightarrow> Inr (order_view w od))"

text \<open>
  \<open>getOrderDetails\<close> (lines 483--530): the order must belong to the user; a course
  that no longer exists is a 500.
\<close>

definition get_order_details :: "user \<Rightarrow> string \<Rightarrow> world \<Rightarrow> http_error + order_view" where
  "get_order_details u oid w =
     (if \<not> is_valid_object_id oid then Inl (ServerError ''CastError'')
      else case find (\<lambda>od. o_id od = oid \<and> o_user od = u_id u) (orders w) of
        None \<Rightarrow> Inl (NotFound ''Order not found'')
      | Some od \<Rightarrow>
          if store w (o_course od) = None then Inl (ServerError ''Course data not properly loaded'')
          else Inr (order_view w od))"

text \<open>
  \<open>getOrderDetailsAlternative\<close> (lines 533--580): the same lookup, then the course
  read on its own; a course that no longer exists is a 404 here.
\<close>

definition get_order_details_alternative :: "user \<Rightarrow> string \<Rightarrow> world \<Rightarrow> http_error + order_view" where
  "get_order_details_alternative u oid w =
     (if \<not> is_valid_object_id oid then Inl (ServerError ''CastError'')
      else case find (\<lambda>od. o_id od = oid \<and> o_user od = u_id u) (orders w) of
        None \<Rightarrow> Inl (NotFound ''Order not found'')
      | Some od \<Rightarrow>
          if store w (o_course od) = None then Inl (NotFound ''Course not found'')
          else Inr (order_view w od))"

text \<open>
  \<open>getAllOrders\<close> (lines 582--681): \<open>parseInt(page) || 1\<close> and
  \<open>parseInt(limit) || 10\<close> (\<open>NaN\<close> and 0 are falsy), \<open>skip((page - 1) * limit)\<close>
  (MongoDB rejects a negative skip) and \<open>limit(limit)\<close> (a negative limit counts
  by its absolute value), newest first; the page count is \<open>Math.ceil(total / limit)\<close>.
\<close>

definition or_default :: "int option \<Rightarrow> int \<Rightarrow> int" where
  "or_default x d = (case x of Some n \<Rightarrow> if n = 0 then d else n | None \<Rightarrow> d)"

record orders_page =
  op_orders :: "order_view list"
  op_page :: int
  op_total_pages :: int
  op_has_next :: bool
  op_has_prev :: bool

definition get_all_orders :: "string \<Rightarrow> string \<Rightarrow> world \<Rightarrow> http_error + orders_page" where
  "get_all_orders ps ls w =
     (let page = or_default (js_parse_int ps) 1; lim = or_default (js_parse_int ls) 10;
          skip = (page - 1) * lim; total = length (orders w);
          tp = \<lceil>of_nat total / (of_int lim :: rat)\<rceil>
      in if skip < 0 then Inl (ServerError ''BSON field 'skip' value must be >= 0'')
         else Inr \<lparr>op_orders = map (order_view w) (take (nat \<bar>lim\<bar>) (drop (nat skip) (newest_first (orders w)))),
                   op_page = page, op_total_pages = tp, op_has_next = page < tp, op_has_prev = 1 < page\<rparr>)"

section \<open>Statistics\<close>

record order_stats =
  st_total :: nat
  st_paid :: nat
  st_free :: nat
  st_revenue :: int
  st_average :: rat
  st_conversion :: rat

text \<open>
  \<open>getOrdersStatistics\<close> (service lines 211--286): \<open>paidOrders\<close> counts the
  statuses \<open>succeeded\<close> and \<open>completed\<close>, \<open>freeOrders\<close> the type \<open>free\<close>; the
  revenue sums the price of the courses of completed non-free orders whose course still
  exists (\<open>$lookup\<close> and \<open>$unwind\<close>), the average is rounded to two decimals, and so
  is the conversion rate \<open>paid / total * 100\<close>.
\<close>

definition paid_status :: "order \<Rightarrow> bool" where
  "paid_status od \<longleftrightarrow> o_pay_status od \<in> {Some ''succeeded'', Some ''completed''}"

definition order_stats :: "world \<Rightarrow> order_stats" where
  "order_stats w =
     (let ods = orders w; total = length ods;
          paid = count_where paid_status ods;
          free = count_where (\<lambda>od. o_pay_type od = Some ''free'') ods;
          prices = List.map_filter (\<lambda>od. if paid_status od \<and> o_pay_type od \<noteq> Some ''free''
                                          then map_option price (store w (o_course od)) else None) ods;
          avg = (if prices = [] then 0 else of_int (sum_list prices) / of_nat (length prices))
      in \<lparr>st_total = total, st_paid = paid, st_free = free, st_revenue = sum_list prices,
          st_average = of_int (js_round (avg * 100)) / 100,
          st_conversion = (if 0 < total then of_int (js_round (of_nat paid / of_nat total * 100 * 100)) / 100 else 0)\<rparr>)"

section \<open>Payments and the remaining handlers\<close>

text \<open>\<open>newPayment\<close> (lines 759--804): a positive \<open>amount\<close> becomes
  \<open>Math.round(amount * 100)\<close> cents for the payment intent.\<close>

definition new_payment_amount :: "rat option \<Rightarrow> http_error + int" where
  "new_payment_amount a =
     (case a of
        None \<Rightarrow> Inl (BadRequest ''Valid amount is required'')
      | Some x \<Rightarrow> if x = 0 \<or> x \<le> 0 then Inl (BadRequest ''Valid amount is required'') else Inr (js_round (x * 100)))"

text \<open>\<open>cancelOrder\<close> (lines 809--832): finds the user's order and answers that the
  request was received; nothing is changed.\<close>

definition cancel_order :: "user \<Rightarrow> string \<Rightarrow> world \<Rightarrow> (http_error + string) \<times> world" where
  "cancel_order u oid w =
     (case find (\<lambda>od. o_id od = oid \<and> o_user od = u_id u) (orders w) of
        None \<Rightarrow> (Inl (NotFound ''Order not found''), w)
      | Some _ \<Rightarrow> (Inr oid, w))"

text \<open>\<open>deleteOrderService\<close> (service lines 311--323) and \<open>checkOrderExists\<close>
  (service lines 200--208).\<close>

definition delete_order_service :: "string \<Rightarrow> world \<Rightarrow> (string + order) \<times> world" where
  "delete_order_service oid w =
     (case find (\<lambda>od. o_id od = oid) (orders w) of
        None \<Rightarrow> (Inl ''Failed to delete order: Order not found'', w)
      | Some od \<Rightarrow> (Inr od, w\<lparr>orders := remove1 od (orders w)\<rparr>))"

definition check_order_exists :: "string \<Rightarrow> string \<Rightarrow> world \<Rightarrow> bool" where
  "check_order_exists uid cid w \<longleftrightarrow> list_ex (\<lambda>od. o_user od = uid \<and> o_course od = cid) (orders w)"

text \<open>\<open>getUserOrders\<close> (lines 685--700): the service for the session's user.\<close>

definition get_user_orders :: "user \<Rightarrow> world \<Rightarrow> order_view list" where
  "get_user_orders u w = orders_by_user_service (u_id u) w"

text \<open>\<open>checkOrdersCount\<close> (lines 721--738): the statistics, or a 500 when a query fails.\<close>

definition check_orders_count :: "env \<Rightarrow> world \<Rightarrow> http_error + order_stats" where
  "check_orders_count e w = (if db_ok e then Inr (order_stats w) else Inl (ServerError ''Failed to get orders statistics''))"

text \<open>\<open>sendStripePublishableKey\<close> (lines 740--757): \<open>STRIPE_PUBLISHABLE_KEY\<close>, a 500
  when it is unset or empty.\<close>

definition send_stripe_publishable_key :: "string option \<Rightarrow> http_error + string" where
  "send_stripe_publishable_key k =
     (case k of Some s \<Rightarrow> if s = [] then Inl (ServerError ''Stripe publishable key not configured'') else Inr s
              | None \<Rightarrow> Inl (ServerError ''Stripe publishable key not configured''))"

text \<open>
  \<open>getRecentOrders\<close> (lines 835--897): \<open>parseInt(limit) || 10\<close>, newest first,
  \<open>.limit(n)\<close> (a negative limit counts by its absolute value); the service of the
  same name (service lines 290--308) takes the limit as a number, default 10.
\<close>

definition get_recent_orders :: "string \<Rightarrow> world \<Rightarrow> order_view list" where
  "get_recent_orders ls w =
     map (order_view w) (take (nat \<bar>or_default (js_parse_int ls) 10\<bar>) (newest_first (orders w)))"

definition recent_orders_service :: "nat \<Rightarrow> world \<Rightarrow> order list" where
  "recent_orders_service n w = take n (newest_first (orders w))"

text \<open>
  \<open>debugOrdersData\<close> (lines 899--946): the number of orders, the orders without a
  \<open>courseId\<close> or a \<open>userId\<close> (none: \<open>orderSchema\<close> requires both, and every order of
  the model has them) and the first order.
\<close>

record debug_info =
  dbg_total :: nat
  dbg_missing_courses :: nat
  dbg_missing_users :: nat
  dbg_first :: "order option"

definition debug_orders_data :: "world \<Rightarrow> debug_info" where
  "debug_orders_data w = \<lparr>dbg_total = length (orders w), dbg_missing_courses = 0, dbg_missing_users = 0,
     dbg_first = (case orders w of [] \<Rightarrow> None | od # _ \<Rightarrow> Some od)\<rparr>"

text \<open>
  \<open>createOrderInDB\<close> and \<open>newOrder\<close> (service lines 8--27): \<open>OrderModel.create\<close>;
  a validation failure is rethrown as \<open>Failed to create order\<close> (a 400 in
  \<open>newOrder\<close>).
\<close>

definition create_order_in_db :: "env \<Rightarrow> string \<Rightarrow> string \<Rightarrow> pay_in \<Rightarrow> world \<Rightarrow> (string + order) \<times> world" where
  "create_order_in_db e cid uid p w =
     (if \<not> db_ok e \<or> \<not> order_valid p then (Inl ''Failed to create order'', w)
      else (let od = new_order cid uid p e w in
            (Inr od, w\<lparr>orders := orders w @ [od], next_oid := Suc (next_oid w)\<rparr>)))"

section \<open>A fixture\<close>

text \<open>A paid and a free course, and a user enrolled in neither.\<close>

definition ord_course :: "string \<Rightarrow> int \<Rightarrow> course" where
  "ord_course cid pr = \<lparr>course_id = cid, name = ''Go'', price = pr, thumbnail = None, courseData = [],
     reviews = [], ratings = 0, purchased = 0,
     course_description = ''Learn Go'', categories = ''Programming'', created_at = 0\<rparr>"

definition ord_user :: user where
  "ord_user = \<lparr>u_id = ''u1'', u_name = ''Ali'', u_email = ''ali@example.com'', u_role = ''user'', u_courses = []\<rparr>"

definition ord_world :: world where
  "ord_world = demo_world\<lparr>store := [oid_of 1 \<mapsto> ord_course (oid_of 1) 10, oid_of 2 \<mapsto> ord_course (oid_of 2) 0],
     users := [''u1'' \<mapsto> ord_user], next_oid := 10\<rparr>"

definition ord_req :: "string \<Rightarrow> pay_in \<Rightarrow> order_req" where
  "ord_req cid p = \<lparr>or_course = Some cid, or_payment = Some p\<rparr>"

section \<open>Lemmas\<close>

lemma enrolled_by_course_iff: "enrolled_by_course u cid \<longleftrightarrow> cid \<in> set (List.map_filter uc_course (u_courses u))"
  by (simp add: enrolled_by_course_def list_ex_map_filter)

lemma enrol_by_course_users_ok:
  assumes "users_ok w" "users w k = Some u" "\<not> enrolled_by_course u cid" "enrol_by_course e u cid w = (b, w')"
  shows "users_ok w'"
proof -
  have d: "distinct (List.map_filter uc_course (u_courses u))" by (rule stored_user_distinct [OF assms(1,2)])
  show ?thesis
  proof (cases "db_ok e")
    case False then show ?thesis using assms(1,4) by (simp add: enrol_by_course_def)
  next
    case True
    let ?u' = "u\<lparr>u_courses := u_courses u @ [\<lparr>uc_id = oid_of (next_oid w), uc_course = Some cid\<rparr>]\<rparr>"
    have "distinct (List.map_filter uc_course (u_courses ?u'))"
      using d assms(3) by (simp add: map_filter_snoc enrolled_by_course_iff)
    moreover have "users w' = (users w)(u_id u \<mapsto> ?u')" using True assms(4)
      by (auto simp: enrol_by_course_def Let_def split: if_splits)
    ultimately show ?thesis by (rule users_ok_upd [OF assms(1,2)])
  qed
qed

lemma users_ok_frames [simp]:
  "users_ok (bump_purchased e cid c w) = users_ok w"
  "users_ok (order_mail e u s w) = users_ok w"
  by (simp_all add: users_ok_def bump_purchased_def order_mail_def Let_def)

lemma create_order_users_ok:
  assumes ok: "users_ok w"
  shows "users_ok (snd (create_order e su r w))"
proof (cases "users w (u_id su)")
  case None then show ?thesis using ok by (simp add: create_order_def)
next
  case (Some u)
  show ?thesis
  proof (cases "\<exists>cid p c. sanitize_order r = Inr (cid, p) \<and> is_valid_object_id cid \<and> store w cid = Some c \<and> \<not> enrolled_by_course u cid")
    case False
    then show ?thesis using ok Some by (auto simp: create_order_def split: sum.split prod.split option.split)
  next
    case True
    then obtain cid p c where s: "sanitize_order r = Inr (cid, p)" "is_valid_object_id cid" "store w cid = Some c"
      "\<not> enrolled_by_course u cid" by blast
    have eb: "users_ok w'" if "enrol_by_course e u cid w1 = (b, w')" "users_ok w1" "users w1 (u_id su) = Some u" for b w' w1
      using enrol_by_course_users_ok [OF that(2,3) s(4) that(1)] .
    have free: "users_ok (snd (create_free_order e u cid c w))"
    proof -
      obtain b w1 where a: "enrol_by_course e u cid w = (b, w1)" by fastforce
      have "users_ok w1" by (rule eb [OF a ok Some])
      then show ?thesis using a by (cases b) (simp_all add: create_free_order_def Let_def)
    qed
    have paid: "users_ok (snd (create_paid_order e u cid p c w))"
    proof -
      let ?w0 = "w\<lparr>orders := orders w @ [new_order cid (u_id u) p e w], next_oid := Suc (next_oid w)\<rparr>"
      obtain b w1 where a: "enrol_by_course e u cid ?w0 = (b, w1)" by fastforce
      have "users_ok w1" by (rule eb [OF a]) (simp_all add: ok Some)
      then show ?thesis using a ok by (cases b) (simp_all add: create_paid_order_def Let_def)
    qed
    show ?thesis using Some s free paid by (simp add: create_order_def)
  qed
qed

lemma fix_loop_distinct:
  "fix_loop w ods u n k = Some (u', n', k') \<Longrightarrow> distinct (List.map_filter uc_course (u_courses u)) \<Longrightarrow>
   distinct (List.map_filter uc_course (u_courses u'))"
  by (induction w ods u n k rule: fix_loop.induct) (auto simp: map_filter_snoc enrolled_by_course_iff split: if_splits)

lemma fix_missing_courses_users_ok:
  assumes ok: "users_ok w"
  shows "users_ok (snd (fix_missing_courses e su w))"
proof (cases "users w (u_id su)")
  case None then show ?thesis using ok by (simp add: fix_missing_courses_def)
next
  case (Some u)
  show ?thesis
  proof (cases "fix_loop w (filter (completed_order (u_id su)) (orders w)) u 0 (next_oid w)")
    case None then show ?thesis using ok Some by (simp add: fix_missing_courses_def)
  next
    case (Some r)
    then obtain u' n k where fl: "fix_loop w (filter (completed_order (u_id su)) (orders w)) u 0 (next_oid w) = Some (u', n, k)"
      by (cases r) auto
    have d: "distinct (List.map_filter uc_course (u_courses u'))"
      by (rule fix_loop_distinct [OF fl stored_user_distinct [OF ok \<open>users w (u_id su) = Some u\<close>]])
    have "users_ok (w\<lparr>users := (users w)(u_id u \<mapsto> u'), next_oid := k\<rparr>)"
      by (rule users_ok_upd [OF ok \<open>users w (u_id su) = Some u\<close> d]) simp
    then show ?thesis using ok \<open>users w (u_id su) = Some u\<close> fl
      by (auto simp: fix_missing_courses_def Let_def users_ok_def)
  qed
qed

lemma create_free_order_env:
  "create_free_order (e\<lparr>payment_succeeded := ps\<rparr>) u cid c w = create_free_order e u cid c w"
  by (simp add: create_free_order_def enrol_by_course_def bump_purchased_def order_mail_def new_order_def Let_def)

lemma create_paid_order_env:
  "pi_type p \<noteq> Some ''stripe'' \<Longrightarrow>
   create_paid_order (e\<lparr>payment_succeeded := ps\<rparr>) u cid p c w = create_paid_order e u cid p c w"
  by (simp add: create_paid_order_def enrol_by_course_def bump_purchased_def order_mail_def new_order_def Let_def)

lemma free_order_orders:
  "create_free_order e u cid c w = (Inr od, w') \<Longrightarrow> orders w' = orders w @ [od] \<and> paid_status od \<and> o_pay_type od = Some ''free''"
  by (auto simp: create_free_order_def enrol_by_course_def bump_purchased_def order_mail_def notify_def
      new_order_def paid_status_def Let_def split: if_splits)

lemma store_pid_free_order_mail [simp]:
  "store_pid_free (order_mail e u s w) = store_pid_free w"
  by (simp add: store_pid_free_def order_mail_def)

lemma bump_purchased_pid [simp]: "store_pid_free w \<Longrightarrow> store_pid_free (bump_purchased e cid c w)"
  by (simp add: bump_purchased_def Let_def)

lemma enrol_by_course_store: "enrol_by_course e u cid w = (b, w') \<Longrightarrow> store w' = store w"
  by (auto simp: enrol_by_course_def Let_def split: if_splits)

lemma enrol_by_course_pid: "enrol_by_course e u cid w = (b, w') \<Longrightarrow> store_pid_free w' = store_pid_free w"
  using enrol_by_course_store store_pid_free_same by metis

lemma create_free_order_pid: "store_pid_free w \<Longrightarrow> store_pid_free (snd (create_free_order e u cid c w))"
proof -
  assume p: "store_pid_free w"
  obtain b w1 where a: "enrol_by_course e u cid w = (b, w1)" by fastforce
  have "store_pid_free w1" using enrol_by_course_pid [OF a] p by simp
  then show ?thesis using a by (cases b) (simp_all add: create_free_order_def Let_def)
qed

lemma create_paid_order_pid: "store_pid_free w \<Longrightarrow> store_pid_free (snd (create_paid_order e u cid p c w))"
proof -
  assume p: "store_pid_free w"
  let ?w0 = "w\<lparr>orders := orders w @ [new_order cid (u_id u) p e w], next_oid := Suc (next_oid w)\<rparr>"
  obtain b w1 where a: "enrol_by_course e u cid ?w0 = (b, w1)" by fastforce
  have "store_pid_free w1" using enrol_by_course_pid [OF a] p by simp
  then show ?thesis using a p by (cases b) (simp_all add: create_paid_order_def Let_def)
qed

lemma create_order_pid_free: "store_pid_free w \<Longrightarrow> store_pid_free (snd (create_order e su r w))"
  unfolding create_order_def
  by (auto split: option.splits sum.splits prod.splits simp: create_free_order_pid create_paid_order_pid)

lemma enrol_by_course_log: "enrol_by_course e u cid w = (b, w') \<Longrightarrow> remote_log w' = remote_log w"
  by (auto simp: enrol_by_course_def Let_def split: if_splits)

lemma create_free_order_log: "remote_log (snd (create_free_order e u cid c w)) = remote_log w"
  by (auto simp: create_free_order_def Let_def bump_purchased_def notify_def order_mail_def
      split: prod.split bool.split dest: enrol_by_course_log)

lemma create_paid_order_log: "remote_log (snd (create_paid_order e u cid p c w)) = remote_log w"
  by (auto simp: create_paid_order_def Let_def bump_purchased_def notify_def order_mail_def
      split: prod.split bool.split dest: enrol_by_course_log)

lemma create_order_log: "remote_log (snd (create_order e su r w)) = remote_log w"
  unfolding create_order_def
  by (auto split: option.splits sum.splits prod.splits simp: create_free_order_log create_paid_order_log)

lemma fix_missing_courses_frame:
  "store (snd (fix_missing_courses e su w)) = store w" "remote_log (snd (fix_missing_courses e su w)) = remote_log w"
  by (auto simp: fix_missing_courses_def Let_def split: option.split prod.split)

lemma enrol_by_course_users:
  "enrol_by_course e u cid w = (True, w') \<Longrightarrow>
   users w' = (users w)(u_id u \<mapsto> u\<lparr>u_courses := u_courses u @ [\<lparr>uc_id = oid_of (next_oid w), uc_course = Some cid\<rparr>]\<rparr>)"
  by (auto simp: enrol_by_course_def Let_def split: if_splits)

lemma order_frames_users [simp]:
  "users (bump_purchased e cid c w) = users w" "users (order_mail e u s w) = users w"
  by (simp_all add: bump_purchased_def order_mail_def Let_def)

lemma create_order_Inr_users:
  assumes "create_order e su r w = (Inr od, w')"
  shows "\<exists>u n. users w (u_id su) = Some u \<and> next_oid w \<le> n \<and> is_valid_object_id (o_course od) \<and>
           store w (o_course od) \<noteq> None \<and>
           users w' = (users w)(u_id u \<mapsto> u\<lparr>u_courses := u_courses u @ [\<lparr>uc_id = oid_of n, uc_course = Some (o_course od)\<rparr>]\<rparr>)"
proof -
  obtain u cid p c where u: "users w (u_id su) = Some u" and s: "sanitize_order r = Inr (cid, p)"
    and v: "is_valid_object_id cid" and c: "store w cid = Some c"
    and r: "(if 0 < price c then create_paid_order e u cid p c w else create_free_order e u cid c w) = (Inr od, w')"
    using assms by (auto simp: create_order_def split: option.splits sum.splits prod.splits if_splits)
  show ?thesis
  proof (cases "0 < price c")
    case True
    let ?w0 = "w\<lparr>orders := orders w @ [new_order cid (u_id u) p e w], next_oid := Suc (next_oid w)\<rparr>"
    obtain b w2 where a: "enrol_by_course e u cid ?w0 = (b, w2)" by fastforce
    have "b \<and> od = new_order cid (u_id u) p e w \<and> users w' = users w2"
      using r True a by (auto simp: create_paid_order_def Let_def frame_simps split: if_splits bool.splits)
    then show ?thesis using enrol_by_course_users [of e u cid ?w0 w2] a u v c
      by (intro exI [of _ u] exI [of _ "Suc (next_oid w)"]) (simp add: new_order_def)
  next
    case False
    obtain b w1 where a: "enrol_by_course e u cid w = (b, w1)" by fastforce
    have "b \<and> od = new_order cid (u_id u) \<lparr>pi_id = Some ''free_course'', pi_status = Some ''completed'', pi_type = Some ''free''\<rparr> e w1 \<and> users w' = users w1"
      using r False a by (auto simp: create_free_order_def Let_def frame_simps split: if_splits bool.splits)
    then show ?thesis using enrol_by_course_users [of e u cid w w1] a u v c
      by (intro exI [of _ u] exI [of _ "next_oid w"]) (simp add: new_order_def)
  qed
qed

section \<open>Properties\<close>

text \<open>Claim C13: \<open>createOrder\<close> consults Stripe only when \<open>payment_info.type\<close> is
  \<open>stripe\<close>: for a request that names any other non-empty type, the outcome does
  not depend on whether the payment intent succeeded, so a client enrols in a paid
  course by choosing the type.\<close>

theorem paid_order_skips_payment_check:
  assumes "or_payment r = Some p" and "pi_type p = Some t" and "t \<noteq> []" and "t \<noteq> ''stripe''"
  shows "create_order (e\<lparr>payment_succeeded := ps\<rparr>) su r w = create_order e su r w"
proof -
  have st: "sanitize_order r = Inr (cid, q) \<Longrightarrow> pi_type q = Some t" for cid q
    using assms by (auto simp: sanitize_order_def str_or_def split: option.splits if_splits)
  show ?thesis
    unfolding create_order_def
    by (auto split: option.split sum.split prod.split simp: create_free_order_env create_paid_order_env st assms(4))
qed

theorem paid_order_skips_payment_check_witness:
  "create_order (demo_env\<lparr>payment_succeeded := (\<lambda>_. False)\<rparr>) ord_user
     (ord_req (oid_of 1) \<lparr>pi_id = Some ''pi_0'', pi_status = Some ''succeeded'', pi_type = Some ''manual''\<rparr>) ord_world =
   create_order demo_env ord_user
     (ord_req (oid_of 1) \<lparr>pi_id = Some ''pi_0'', pi_status = Some ''succeeded'', pi_type = Some ''manual''\<rparr>) ord_world"
  by (rule paid_order_skips_payment_check [where t = "''manual''"]) (simp add: ord_req_def, simp_all)

text \<open>A free enrolment through \<open>createOrder\<close> stores an order with status
  \<open>completed\<close> and type \<open>free\<close>, which the statistics count both as a free order and
  as a paid one: \<open>paidOrders\<close> and the conversion rate include free enrolments.\<close>

theorem free_enrolment_counts_as_paid:
  assumes "create_order e su r w = (Inr od, w')" and "store w (o_course od) = Some c" and "price c \<le> 0"
  shows "st_paid (order_stats w') = Suc (st_paid (order_stats w)) \<and> st_free (order_stats w') = Suc (st_free (order_stats w))"
proof -
  have "orders w' = orders w @ [od] \<and> paid_status od \<and> o_pay_type od = Some ''free''"
  proof -
    have paid_course: "o_course od = cid \<and> 0 < price c'" if "create_paid_order e u cid p c' w = (Inr od, w')" "0 < price c'" for u cid p c'
      using that by (auto simp: create_paid_order_def new_order_def Let_def split: if_splits prod.splits bool.splits)
    show ?thesis using assms
      by (auto simp: create_order_def split: option.splits sum.splits prod.splits if_splits
          dest: free_order_orders paid_course)
  qed
  then show ?thesis by (simp add: order_stats_def Let_def)
qed

theorem free_enrolment_counts_as_paid_witness:
  "st_paid (order_stats (snd (create_order demo_env ord_user (ord_req (oid_of 2) \<lparr>pi_id = None, pi_status = None, pi_type = None\<rparr>) ord_world)))
     = Suc (st_paid (order_stats ord_world)) \<and>
   st_free (order_stats (snd (create_order demo_env ord_user (ord_req (oid_of 2) \<lparr>pi_id = None, pi_status = None, pi_type = None\<rparr>) ord_world)))
     = Suc (st_free (order_stats ord_world))"
proof -
  let ?x = "create_order demo_env ord_user (ord_req (oid_of 2) \<lparr>pi_id = None, pi_status = None, pi_type = None\<rparr>) ord_world"
  have x: "?x = (Inr (projr (fst ?x)), snd ?x)"
    by (simp add: create_order_def ord_world_def ord_req_def sanitize_order_def ord_user_def enrolled_by_course_def
        ord_course_def create_free_order_def enrol_by_course_def demo_env_def Let_def)
  have c: "store ord_world (o_course (projr (fst ?x))) = Some (ord_course (oid_of 2) 0)"
    by (simp add: create_order_def ord_world_def ord_req_def sanitize_order_def ord_user_def enrolled_by_course_def
        ord_course_def create_free_order_def enrol_by_course_def new_order_def demo_env_def Let_def)
  show ?thesis by (rule free_enrolment_counts_as_paid [OF x c]) (simp add: ord_course_def)
qed

end
