(* ===== verification/Listing.thy ===== *)
theory Listing
  imports Reads
begin

text \<open>
  The course catalogue: \<open>getAllCourses\<close> of \<open>course.controller.ts\<close> (lines
  1220--1316), the only reader of the \<open>allCourses:*\<close> keys. The query string gives
  \<open>category\<close>, \<open>sort\<close> (default \<open>createdAt\<close>), \<open>order\<close> (default \<open>desc\<close>), \<open>price\<close>
  and \<open>search\<close>; the listing is cached for 30 minutes under a key that is the JSON
  text of these five parameters. \<open>CourseModel.find\<close> scans the collection, which the
  model takes as the list of stored documents in their natural order; the regular
  expression engine is an input (\<open>None\<close> for a pattern MongoDB rejects), and whether
  Mongoose strips filter paths the schema does not declare (\<open>strictQuery\<close>, which
  changed default between Mongoose 6 and 7) is a parameter.
\<close>

record listing_query =
  lq_category :: "string option"
  lq_sort :: "string option"
  lq_order :: "string option"
  lq_price :: "string option"
  lq_search :: "string option"

section \<open>Number(s)\<close>

text \<open>A JavaScript number as the price filter compares it: \<open>NaN\<close>, an infinity
  (\<open>True\<close> for the negative one) or a finite rational.\<close>

datatype js_num = NNaN | NInf bool | NFin rat

definition digits_value :: "nat \<Rightarrow> string \<Rightarrow> nat" where
  "digits_value b ds = foldl (\<lambda>n c. b * n + hex_val c) 0 ds"

definition is_radix_digit :: "nat \<Rightarrow> char \<Rightarrow> bool" where
  "is_radix_digit b c \<longleftrightarrow> (if b = 16 then is_hex c else is_digit c \<and> hex_val c < b)"

text \<open>\<open>StrDecimalLiteral\<close> without its sign: digits with an optional fraction (a digit
  on at least one side of the point) and an optional exponent.\<close>

definition dec_literal :: "string \<Rightarrow> rat option" where
  "dec_literal u =
     (let m = takeWhile (\<lambda>c. c \<noteq> CHR ''e'' \<and> c \<noteq> CHR ''E'') u;
          ex = dropWhile (\<lambda>c. c \<noteq> CHR ''e'' \<and> c \<noteq> CHR ''E'') u;
          ip = takeWhile is_digit m; rest = dropWhile is_digit m;
          mant = (if rest = [] then (if ip = [] then None else Some (of_nat (parse_digits ip) :: rat))
                  else if hd rest = CHR ''.'' \<and> list_all is_digit (tl rest) \<and> (ip \<noteq> [] \<or> tl rest \<noteq> [])
                  then Some (of_nat (parse_digits ip) + of_nat (parse_digits (tl rest)) / 10 ^ length (tl rest))
                  else None);
          expo = (if ex = [] then Some (0::int)
                  else (let es = tl ex;
                            (sg, ds) = (case es of c # r \<Rightarrow> if c = CHR ''-'' then (-1, r) else if c = CHR ''+'' then (1, r) else (1, es)
                                                 | [] \<Rightarrow> (1, []))
                        in if ds \<noteq> [] \<and> list_all is_digit ds then Some (sg * int (parse_digits ds)) else None))
      in case (mant, expo) of
           (Some x, Some k) \<Rightarrow> Some (if 0 \<le> k then x * 10 ^ nat k else x / 10 ^ nat (- k))
         | _ \<Rightarrow> None)"

text \<open>A \<open>0x\<close>, \<open>0o\<close> or \<open>0b\<close> literal with at least one digit of its radix.\<close>

definition radix_literal :: "string \<Rightarrow> nat option" where
  "radix_literal t =
     (case t of
        c0 # c1 # r \<Rightarrow>
          (if c0 = CHR ''0'' \<and> c1 \<in> {CHR ''x'', CHR ''X'', CHR ''o'', CHR ''O'', CHR ''b'', CHR ''B''}
           then (let b = (if c1 \<in> {CHR ''x'', CHR ''X''} then 16 else if c1 \<in> {CHR ''o'', CHR ''O''} then 8 else 2) in
                 if r \<noteq> [] \<and> list_all (is_radix_digit b) r then Some (digits_value b r) else None)
           else None)
      | _ \<Rightarrow> None)"

text \<open>An optional sign before \<open>Infinity\<close> or a decimal literal; anything else is \<open>NaN\<close>.\<close>

definition signed_number :: "string \<Rightarrow> js_num" where
  "signed_number t =
     (let (neg, u) = (case t of c # r \<Rightarrow> if c = CHR ''-'' then (True, r) else if c = CHR ''+'' then (False, r) else (False, t)
                               | [] \<Rightarrow> (False, t))
      in if u = ''Infinity'' then NInf neg
         else (case dec_literal u of Some x \<Rightarrow> NFin (if neg then - x else x) | None \<Rightarrow> NNaN))"

text \<open>\<open>Number(s)\<close> of a string (\<open>StringToNumber\<close>): the trimmed empty string is 0, then
  a radix literal, then a signed decimal literal or infinity.\<close>

definition js_number :: "string \<Rightarrow> js_num" where
  "js_number s =
     (let t = js_trim s in
      if t = [] then NFin 0
      else (case radix_literal t of Some n \<Rightarrow> NFin (of_nat n) | None \<Rightarrow> signed_number t))"

section \<open>The cache key\<close>

text \<open>\<open>JSON.stringify\<close> of a string: quotes, with \<open>"\<close>, \<open>\\\<close> and the control
  characters escaped (\<open>\b \t \n \f \r\<close> by name, the others as \<open>\u00XX\<close>).\<close>

definition hex_digit :: "nat \<Rightarrow> char" where
  "hex_digit n = (if n < 10 then char_of (48 + n) else char_of (87 + n))"

definition json_esc :: "char \<Rightarrow> string" where
  "json_esc c =
     (let n = of_char c :: nat in
      if c = CHR 0x22 then [CHR 0x5C, CHR 0x22]
      else if c = CHR 0x5C then [CHR 0x5C, CHR 0x5C]
      else if n = 8 then [CHR 0x5C, CHR ''b''] else if n = 9 then [CHR 0x5C, CHR ''t'']
      else if n = 10 then [CHR 0x5C, CHR ''n''] else if n = 12 then [CHR 0x5C, CHR ''f'']
      else if n = 13 then [CHR 0x5C, CHR ''r'']
      else if n < 32 then [CHR 0x5C, CHR ''u'', CHR ''0'', CHR ''0'', hex_digit (n div 16), hex_digit (n mod 16)]
      else [c])"

definition json_quote :: "string \<Rightarrow> string" where
  "json_quote s = CHR 0x22 # concat (map json_esc s) @ [CHR 0x22]"

text \<open>The defaults of the destructuring \<open>{ sort = "createdAt", order = "desc" }\<close>,
  which apply to an absent parameter only.\<close>

definition lq_sort_field :: "listing_query \<Rightarrow> string" where
  "lq_sort_field q = (case lq_sort q of Some s \<Rightarrow> s | None \<Rightarrow> ''createdAt'')"

definition lq_order_dir :: "listing_query \<Rightarrow> string" where
  "lq_order_dir q = (case lq_order q of Some s \<Rightarrow> s | None \<Rightarrow> ''desc'')"

text \<open>\<open>`allCourses:${JSON.stringify({ category, sort, order, price, search })}`\<close>:
  an \<open>undefined\<close> member is left out.\<close>

definition listing_key :: "listing_query \<Rightarrow> string" where
  "listing_key q =
     ''allCourses:{'' @
     js_join '','' (List.map_filter (\<lambda>(k, v). map_option (\<lambda>x. json_quote k @ '':'' @ json_quote x) v)
                    [(''category'', lq_category q), (''sort'', Some (lq_sort_field q)), (''order'', Some (lq_order_dir q)),
                     (''price'', lq_price q), (''search'', lq_search q)]) @ ''}''"

section \<open>The query\<close>

text \<open>
  The filter built from the query. A truthy \<open>category\<close> adds \<open>{ category }\<close>, a path
  the schema does not have (it declares \<open>categories\<close>): with \<open>strictQuery\<close> Mongoose
  drops the condition, without it no document has the field. A truthy \<open>price\<close> adds
  \<open>{ price: { $lte: Number(price) } }\<close>; a truthy \<open>search\<close> adds the case-insensitive
  regular expression on \<open>name\<close> or \<open>description\<close> (\<open>m\<close>, the compiled pattern).
\<close>

definition course_matches :: "bool \<Rightarrow> (string \<Rightarrow> bool) \<Rightarrow> listing_query \<Rightarrow> course \<Rightarrow> bool" where
  "course_matches strict m q c \<longleftrightarrow>
     (case lq_category q of Some cat \<Rightarrow> cat = [] \<or> strict | None \<Rightarrow> True) \<and>
     (case lq_price q of
        Some p \<Rightarrow> p = [] \<or> (case js_number p of NFin r \<Rightarrow> of_int (price c) \<le> r | NInf neg \<Rightarrow> \<not> neg | NNaN \<Rightarrow> False)
      | None \<Rightarrow> True) \<and>
     (case lq_search q of Some t \<Rightarrow> t = [] \<or> m (name c) \<or> m (course_description c) | None \<Rightarrow> True)"

text \<open>\<open>CourseModel.find(query)\<close>: a search pattern MongoDB rejects fails the query.\<close>

definition filter_courses ::
  "bool \<Rightarrow> (string \<Rightarrow> (string \<Rightarrow> bool) option) \<Rightarrow> listing_query \<Rightarrow> course list \<Rightarrow> course list option" where
  "filter_courses strict rx q docs =
     (let t = (case lq_search q of Some t \<Rightarrow> t | None \<Rightarrow> []) in
      if t = [] then Some (filter (course_matches strict (\<lambda>_. False) q) docs)
      else (case rx t of
              None \<Rightarrow> None
            | Some m \<Rightarrow> Some (filter (course_matches strict m q) docs)))"

text \<open>A sort key as MongoDB compares it: a missing field sorts first (as \<open>null\<close>), then
  numbers, strings, ObjectIds and dates.\<close>

datatype sort_val = SMissing | SNum rat | SStr string | SOid string | SDate nat

definition sort_rank :: "sort_val \<Rightarrow> nat \<times> rat \<times> string \<times> nat" where
  "sort_rank v = (case v of SMissing \<Rightarrow> (0, 0, [], 0) | SNum r \<Rightarrow> (1, r, [], 0) | SStr s \<Rightarrow> (2, 0, s, 0)
                   | SOid s \<Rightarrow> (3, 0, s, 0) | SDate d \<Rightarrow> (4, 0, [], d))"

definition course_field :: "string \<Rightarrow> course \<Rightarrow> sort_val" where
  "course_field f c =
     (if f = ''createdAt'' then SDate (created_at c)
      else if f = ''price'' then SNum (of_int (price c))
      else if f = ''ratings'' then SNum (ratings c)
      else if f = ''purchased'' then SNum (of_int (purchased c))
      else if f = ''name'' then SStr (name c)
      else if f = ''description'' then SStr (course_description c)
      else if f = ''categories'' then SStr (categories c)
      else if f = ''_id'' then SOid (course_id c)
      else SMissing)"

definition sort_cmp :: "sort_val \<Rightarrow> sort_val \<Rightarrow> int" where
  "sort_cmp a b = (if sort_rank a < sort_rank b then -1 else if sort_rank a = sort_rank b then 0 else 1)"

text \<open>\<open>.sort({ [sort]: order === "desc" ? -1 : 1 })\<close>. MongoDB leaves the order of
  documents with equal keys unspecified; the model keeps their natural order.\<close>

definition sort_courses :: "listing_query \<Rightarrow> course list \<Rightarrow> course list" where
  "sort_courses q cs =
     (let f = lq_sort_field q in
      if lq_order_dir q = ''desc''
      then js_sort (\<lambda>a b. sort_cmp (course_field f b) (course_field f a)) cs
      else js_sort (\<lambda>a b. sort_cmp (course_field f a) (course_field f b)) cs)"

text \<open>\<open>OrderModel.countDocuments({ courseId })\<close>: free and paid orders alike.\<close>

definition students_enrolled :: "world \<Rightarrow> course \<Rightarrow> nat" where
  "students_enrolled w c = length (filter (\<lambda>od. o_course od = course_id c) (orders w))"

text \<open>The cached listing under a key, if any.\<close>

definition cached_listing :: "cache_entry option \<Rightarrow> (course \<times> nat) list option" where
  "cached_listing ce = (case ce of Some x \<Rightarrow> (case ce_val x of CVListing l \<Rightarrow> Some l | _ \<Rightarrow> None) | None \<Rightarrow> None)"

text \<open>
  \<open>getAllCourses\<close>: the cached listing if Redis has one (a Redis error is only logged),
  else the query, projected as for \<open>getSingleCourse\<close>, sorted, each course with its
  number of orders, cached for 1800 s.
\<close>

definition get_all_courses ::
  "env \<Rightarrow> bool \<Rightarrow> (string \<Rightarrow> (string \<Rightarrow> bool) option) \<Rightarrow> listing_query \<Rightarrow> course list \<Rightarrow> world \<Rightarrow>
   (http_error + (course \<times> nat) list) \<times> world" where
  "get_all_courses e strict rx q docs w =
     (let key = listing_key q in
      case (if redis_up e then cached_listing (cache w key) else None) of
        Some l \<Rightarrow> (Inr l, w)
      | None \<Rightarrow>
          if \<not> db_ok e then (Inl (ServerError ''query failed''), w)
          else (case filter_courses strict rx q docs of
                  None \<Rightarrow> (Inl (ServerError ''Regular expression is invalid''), w)
                | Some cs \<Rightarrow>
                    (let res = map (\<lambda>c. (strip_course c, students_enrolled w c)) (sort_courses q cs) in
                     (Inr res, if redis_up e
                               then w\<lparr>cache := (cache w)(key \<mapsto> \<lparr>ce_val = CVListing res, ce_ttl = Some 1800\<rparr>)\<rparr>
                               else w))))"

text \<open>
  \<open>getAdminAllCourses\<close> (lines 2413--2421) calls \<open>getAllCoursesService\<close>
  (\<open>course.service.ts\<close>, lines 17--25): every course, whole, newest first, no cache.
  The call is not awaited, so a failing query is an unhandled rejection and the
  request gets no answer (\<open>None\<close>).
\<close>

definition get_admin_all_courses :: "env \<Rightarrow> course list \<Rightarrow> course list option" where
  "get_admin_all_courses e docs =
     (if db_ok e then Some (js_sort (\<lambda>a b. sort_cmp (course_field ''createdAt'' b) (course_field ''createdAt'' a)) docs)
      else None)"

section \<open>Lemmas\<close>

lemma digit_not_letter:
  "is_digit c \<Longrightarrow> c \<notin> {CHR ''e'', CHR ''E'', CHR ''x'', CHR ''X'', CHR ''o'', CHR ''O'', CHR ''b'', CHR ''B''} \<and>
     \<not> is_js_space c \<and> c \<noteq> CHR ''-'' \<and> c \<noteq> CHR ''+''"
  by (auto simp: is_digit_def is_js_space_def less_eq_char_def)

lemma dropWhile_none: "\<forall>x \<in> set s. \<not> P x \<Longrightarrow> dropWhile P s = s"
  by (induction s) auto

lemma js_trim_no_space: "\<forall>x \<in> set s. \<not> is_js_space x \<Longrightarrow> js_trim s = s"
  by (simp add: js_trim_def dropWhile_none)

lemma show_nat_all_digits: "list_all is_digit (show_nat n)"
  using show_nat_is_digit by (simp add: list_all_iff)

lemma dec_literal_digits:
  assumes "s \<noteq> []" and "list_all is_digit s"
  shows "dec_literal s = Some (of_nat (parse_digits s))"
proof -
  have ne: "\<forall>x \<in> set s. x \<noteq> CHR ''e'' \<and> x \<noteq> CHR ''E''" using assms(2) digit_not_letter by (auto simp: list_all_iff)
  have t1: "takeWhile (\<lambda>c. c \<noteq> CHR ''e'' \<and> c \<noteq> CHR ''E'') s = s"
    and t2: "dropWhile (\<lambda>c. c \<noteq> CHR ''e'' \<and> c \<noteq> CHR ''E'') s = []"
    using ne by (simp_all add: takeWhile_eq_all_conv dropWhile_eq_Nil_conv)
  have t3: "takeWhile is_digit s = s" and t4: "dropWhile is_digit s = []"
    using assms(2) by (simp_all add: takeWhile_eq_all_conv dropWhile_eq_Nil_conv list_all_iff)
  show ?thesis using assms(1) unfolding dec_literal_def Let_def t1 t2 t3 t4 by simp
qed

lemma radix_literal_digits: "list_all is_digit s \<Longrightarrow> radix_literal s = None"
  by (auto simp: radix_literal_def split: list.split dest: digit_not_letter)

lemma js_number_int_str: "js_number (js_int_str n) = NFin (of_int n)"
proof -
  let ?ds = "show_nat (nat \<bar>n\<bar>)"
  have d: "list_all is_digit ?ds" "?ds \<noteq> []" by (simp_all add: show_nat_all_digits)
  have sp: "\<forall>x \<in> set ?ds. \<not> is_js_space x" using d(1) digit_not_letter by (auto simp: list_all_iff)
  have inf: "?ds \<noteq> ''Infinity''" using d(1) by (auto simp: is_digit_def less_eq_char_def)
  obtain c r where cr: "?ds = c # r" and c: "is_digit c" using show_nat_Cons by blast
  show ?thesis
  proof (cases "n < 0")
    case True
    then have s: "js_int_str n = CHR ''-'' # ?ds" by (simp add: js_int_str_def)
    have "js_trim (CHR ''-'' # ?ds) = CHR ''-'' # ?ds" using sp by (intro js_trim_no_space) (auto simp: is_js_space_def)
    moreover have "radix_literal (CHR ''-'' # ?ds) = None" by (simp add: radix_literal_def split: list.split)
    ultimately show ?thesis using True s d inf
      by (simp add: js_number_def signed_number_def dec_literal_digits)
  next
    case False
    then have s: "js_int_str n = ?ds" by (simp add: js_int_str_def)
    have "c \<noteq> CHR ''-'' \<and> c \<noteq> CHR ''+''" using digit_not_letter [OF c] by simp
    moreover have "parse_digits (c # r) = nat \<bar>n\<bar>" using cr parse_digits_show_nat by metis
    ultimately show ?thesis using False s d inf sp cr
      by (simp add: js_number_def signed_number_def dec_literal_digits js_trim_no_space radix_literal_digits)
  qed
qed

lemma js_int_str_not_Nil [simp]: "js_int_str n \<noteq> []"
  by (simp add: js_int_str_def)

lemma listing_key_is_listing [simp]: "is_listing_key (listing_key q)"
  by (simp add: listing_key_def is_listing_key_def)

lemma get_all_courses_cached:
  "redis_up e \<Longrightarrow> cache w (listing_key q) = Some \<lparr>ce_val = CVListing l, ce_ttl = t\<rparr> \<Longrightarrow>
   get_all_courses e strict rx q docs w = (Inr l, w)"
  by (simp add: get_all_courses_def cached_listing_def)

lemma filter_category:
  "lq_category q = Some cat \<Longrightarrow>
   filter (course_matches strict m q) docs =
     (if cat = [] \<or> strict then filter (course_matches strict m (q\<lparr>lq_category := None\<rparr>)) docs else [])"
proof -
  assume q: "lq_category q = Some cat"
  have "course_matches strict m q = (\<lambda>c. (cat = [] \<or> strict) \<and> course_matches strict m (q\<lparr>lq_category := None\<rparr>) c)"
    using q by (simp add: course_matches_def fun_eq_iff)
  then show ?thesis by (cases "cat = [] \<or> strict") simp_all
qed

section \<open>Properties\<close>

text \<open>Claim C25: the \<open>category\<close> parameter of \<open>getAllCourses\<close> never selects the
  courses of a category: the filter names \<open>category\<close> while the schema declares
  \<open>categories\<close>, so the condition is either dropped (\<open>strictQuery\<close>) and the listing is
  the one without a category, or it matches no document and the listing is empty.\<close>

theorem listing_category_never_filters:
  assumes "lq_category q = Some cat" and "cat \<noteq> []"
  shows "filter_courses strict rx q docs =
           map_option (\<lambda>cs. if strict then cs else []) (filter_courses strict rx (q\<lparr>lq_category := None\<rparr>) docs)"
  using assms by (simp add: filter_courses_def filter_category [OF assms(1)] split: option.split)

theorem listing_category_never_filters_witness:
  "filter_courses False (\<lambda>_. None)
     \<lparr>lq_category = Some ''Programming'', lq_sort = None, lq_order = None, lq_price = None, lq_search = None\<rparr> [rd_course 0]
   = map_option (\<lambda>cs. if False then cs else [])
       (filter_courses False (\<lambda>_. None)
         (\<lparr>lq_category = Some ''Programming'', lq_sort = None, lq_order = None, lq_price = None, lq_search = None\<rparr>
          \<lparr>lq_category := None\<rparr>) [rd_course 0])"
  by (rule listing_category_never_filters [where cat = "''Programming''"]) simp_all

text \<open>A \<open>price\<close> parameter that is the decimal text of an integer \<open>p\<close> keeps
  exactly the courses priced at most \<open>p\<close>: \<open>Number\<close> reads back what \<open>String\<close> prints,
  and the other conditions are unaffected.\<close>

theorem listing_price_filter_integer:
  "course_matches strict m (q\<lparr>lq_price := Some (js_int_str p)\<rparr>) c \<longleftrightarrow>
     price c \<le> p \<and> course_matches strict m (q\<lparr>lq_price := None\<rparr>) c"
  by (auto simp: course_matches_def js_number_int_str)

end
