(* ===== verification/Video.thy ===== *)
theory Video
  imports Js_Values "HOL-Library.Sublist"
begin

text \<open>
  The video endpoints at the end of \<open>course.controller.ts\<close>: \<open>generateVideoUrl\<close>
  (lines 2427--2507) with its \<open>validateVideoRequest\<close> middleware and the helper
  \<open>retryVideoUrlGeneration\<close> (lines 2510--2556), which ask VdoCipher for a playback
  OTP; and the transcript endpoints \<open>getTranscript\<close>, \<open>validateTranscriptRequest\<close>,
  \<open>getCourseWithTranscript\<close> and \<open>getTranscriptAdvanced\<close> (lines 2560--2777), which
  read the course. The OTP service's answer is an input: a resolved response, or the
  error \<open>axios\<close> throws with its \<open>response\<close>, \<open>request\<close> and \<open>code\<close> fields.
\<close>

section \<open>generateVideoUrl\<close>

text \<open>An error thrown by \<open>axios\<close>: \<open>response.status\<close> and \<open>response.data?.message\<close>
  when the server answered, whether \<open>request\<close> is set, \<open>code\<close> and \<open>message\<close>.\<close>

record otp_error =
  oe_status :: "nat option"
  oe_data_message :: "string option"
  oe_request :: bool
  oe_code :: string
  oe_message :: string

text \<open>A resolved response (status and \<open>response.data\<close>, \<open>None\<close> when falsy) or a thrown error.\<close>

datatype otp_answer = OtpReply nat "string option" | OtpThrown otp_error

text \<open>The \<open>catch\<close> block of \<open>generateVideoUrl\<close> (lines 2470--2505).\<close>

definition otp_error_response :: "otp_error \<Rightarrow> status_error" where
  "otp_error_response err =
     (case oe_status err of
        Some st \<Rightarrow>
          (if st = 401 then (401, ''Invalid API key'')
           else if st = 404 then (404, ''Video not found'')
           else if st = 429 then (429, ''Rate limit exceeded, try again later'')
           else (st, ''Server error: '' @ (case oe_data_message err of
                                            Some m \<Rightarrow> str_or m (oe_message err)
                                          | None \<Rightarrow> oe_message err)))
      | None \<Rightarrow>
          (if oe_request err then (503, ''Network connection error'')
           else if oe_code err = ''ECONNABORTED'' then (408, ''Request timeout'')
           else (500, str_or (oe_message err) ''Unexpected error occurred'')))"

text \<open>\<open>generateVideoUrl\<close>: the body's \<open>videoId\<close>, whether
  \<open>VDOCIPHER_API_SECRET\<close> is set, and the OTP service; the success answer carries the
  OTP data (valid for 300 s).\<close>

definition generate_video_url :: "json_val \<Rightarrow> bool \<Rightarrow> (json_val \<Rightarrow> otp_answer) \<Rightarrow> status_error + string" where
  "generate_video_url vid secret svc =
     (if \<not> js_truthy vid then Inl (400, ''Video ID is required'')
      else if \<not> secret then Inl (500, ''API secret not configured'')
      else (case svc vid of
              OtpReply st d \<Rightarrow>
                (case d of
                   Some x \<Rightarrow> if st = 200 then Inr x else Inl (400, ''Failed to generate video URL'')
                 | None \<Rightarrow> Inl (400, ''Failed to generate video URL''))
            | OtpThrown err \<Rightarrow> Inl (otp_error_response err)))"

text \<open>\<open>validateVideoRequest\<close>: \<open>None\<close> when it calls \<open>next()\<close>.\<close>

definition validate_video_request :: "json_val \<Rightarrow> status_error option" where
  "validate_video_request vid =
     (if \<not> js_truthy vid then Some (400, ''Video ID is required'')
      else (case vid of
              JStr s \<Rightarrow> if js_trim s = [] then Some (400, ''Invalid video ID format'') else None
            | _ \<Rightarrow> Some (400, ''Invalid video ID format'')))"

section \<open>retryVideoUrlGeneration\<close>

text \<open>The outcome of the helper: the resolved data, the rethrown error, or
  \<open>undefined\<close> when the loop body never runs.\<close>

datatype retry_result = RetryData "string option" | RetryThrow otp_error | RetryUndefined

text \<open>
  The loop from attempt \<open>a\<close> with \<open>k\<close> attempts left; the service is indexed by the
  attempt number. A resolved post returns its data at once; a failure at the last
  attempt (\<open>attempt === maxRetries\<close>) is rethrown, any other is followed by a wait of
  \<open>delay * attempt\<close> ms, recorded in the second component.
\<close>

fun retry_loop :: "(nat \<Rightarrow> otp_answer) \<Rightarrow> nat \<Rightarrow> nat \<Rightarrow> nat \<Rightarrow> retry_result \<times> nat list" where
  "retry_loop svc dl a 0 = (RetryUndefined, [])"
| "retry_loop svc dl a (Suc k) =
     (case svc a of
        OtpReply st d \<Rightarrow> (RetryData d, [])
      | OtpThrown err \<Rightarrow>
          if k = 0 then (RetryThrow err, [])
          else (let (r, ws) = retry_loop svc dl (Suc a) k in (r, dl * a # ws)))"

text \<open>\<open>for (let attempt = 1; attempt <= maxRetries; attempt++)\<close> with an integer
  \<open>maxRetries\<close> (default 3) and \<open>delay\<close> (default 1000).\<close>

definition retry_video_url_generation :: "(nat \<Rightarrow> otp_answer) \<Rightarrow> int \<Rightarrow> nat \<Rightarrow> retry_result \<times> nat list" where
  "retry_video_url_generation svc mr dl = retry_loop svc dl 1 (nat mr)"

text \<open>The reference behaviour: the first attempt among \<open>1..n\<close> whose post resolves
  gives its data after waiting \<open>delay * i\<close> after each earlier attempt \<open>i\<close>; if none
  does, the last error is thrown.\<close>

definition is_reply :: "otp_answer \<Rightarrow> bool" where
  "is_reply x = (case x of OtpReply _ _ \<Rightarrow> True | OtpThrown _ \<Rightarrow> False)"

definition retry_reference :: "(nat \<Rightarrow> otp_answer) \<Rightarrow> nat \<Rightarrow> nat \<Rightarrow> nat \<Rightarrow> retry_result \<times> nat list" where
  "retry_reference svc dl a k =
     (case find (\<lambda>i. is_reply (svc i)) [a..<a + k] of
        Some j \<Rightarrow> (case svc j of OtpReply _ d \<Rightarrow> RetryData d | OtpThrown err \<Rightarrow> RetryThrow err,
                  map (\<lambda>i. dl * i) [a..<j])
      | None \<Rightarrow> if k = 0 then (RetryUndefined, [])
                else (case svc (a + k - 1) of OtpThrown err \<Rightarrow> RetryThrow err | OtpReply _ d \<Rightarrow> RetryData d,
                      map (\<lambda>i. dl * i) [a..<a + k - 1]))"

section \<open>Transcripts\<close>

text \<open>The response of \<open>getTranscript\<close>: the course's id, name and description, the
  requested \<open>videoName\<close> (\<open>videoName || null\<close>) and the request time.\<close>

record transcript_info =
  ti_course_id :: string
  ti_name :: string
  ti_description :: string
  ti_video :: json_val
  ti_requested :: nat

text \<open>
  \<open>getTranscript\<close> (lines 2560--2636): the route's \<open>id\<close>, the body's \<open>videoName\<close>.
  A truthy \<open>videoName\<close> must be a string with a non-blank trim. The id is validated
  before \<open>findById\<close>, so the \<open>CastError\<close> branch of the \<open>catch\<close> is not reached; a
  failing query is a 500.
\<close>

definition get_transcript :: "env \<Rightarrow> string \<Rightarrow> json_val \<Rightarrow> world \<Rightarrow> status_error + transcript_info" where
  "get_transcript e cid vn w =
     (if cid = [] then Inl (400, ''Course ID is required'')
      else if \<not> is_valid_object_id cid then Inl (400, ''Invalid course ID format'')
      else if js_truthy vn \<and> (case vn of JStr s \<Rightarrow> js_trim s = [] | _ \<Rightarrow> True)
      then Inl (400, ''Invalid video name format'')
      else if \<not> db_ok e then Inl (500, ''Internal server error'')
      else (case store w cid of
              None \<Rightarrow> Inl (404, ''Course not found'')
            | Some c \<Rightarrow> Inr \<lparr>ti_course_id = cid, ti_name = name c, ti_description = course_description c,
                             ti_video = (if js_truthy vn then vn else JNull), ti_requested = now e\<rparr>))"

text \<open>\<open>validateTranscriptRequest\<close> (lines 2639--2666); the length is counted in
  characters.\<close>

definition validate_transcript_request :: "string \<Rightarrow> json_val \<Rightarrow> status_error option" where
  "validate_transcript_request cid vn =
     (if cid = [] then Some (400, ''Course ID is required'')
      else if \<not> is_valid_object_id cid then Some (400, ''Invalid course ID format'')
      else (case vn of
              JUndef \<Rightarrow> None
            | JStr s \<Rightarrow>
                if js_trim s = [] then Some (400, ''Video name cannot be empty'')
                else if 255 < length s then Some (400, ''Video name is too long (max 255 characters)'')
                else None
            | _ \<Rightarrow> Some (400, ''Video name must be a string'')))"

text \<open>A stored item as \<open>.lean()\<close> returns it: \<open>videoSection\<close> is the string the
  schema declares.\<close>

definition item_json :: "content_item \<Rightarrow> json_val" where
  "item_json v = JObj [(''title'', JStr (title v)), (''description'', JStr (description v)),
     (''videoUrl'', JStr (videoUrl v)), (''videoSection'', JStr (videoSection v)),
     (''videoLength'', JNum (videoLength v)), (''videoPlayer'', JStr (videoPlayer v)),
     (''suggestion'', JStr (suggestion v))]"

text \<open>\<open>String(x)\<close> of a value, as \<open>includes\<close> converts its argument.\<close>

fun js_to_string :: "json_val \<Rightarrow> string" where
  "js_to_string JUndef = ''undefined''"
| "js_to_string JNull = ''null''"
| "js_to_string (JBool b) = (if b then ''true'' else ''false'')"
| "js_to_string (JNum n) = js_int_str n"
| "js_to_string (JStr s) = s"
| "js_to_string (JArr vs) =
     js_join '','' (map (\<lambda>v. if v = JUndef \<or> v = JNull then [] else js_to_string v) vs)"
| "js_to_string (JObj _) = ''[object Object]''"

text \<open>The test of the \<open>find\<close> callback:
  \<open>video.title === videoName || video.videoUrl?.includes(videoName) || video.videoId === videoName\<close>.\<close>

definition video_match :: "json_val \<Rightarrow> json_val \<Rightarrow> bool" where
  "video_match vn v \<longleftrightarrow>
     js_strict_eq (js_get v ''title'') vn \<or>
     (case js_get v ''videoUrl'' of JStr u \<Rightarrow> sublist (js_to_string vn) u | _ \<Rightarrow> False) \<or>
     js_strict_eq (js_get v ''videoId'') vn"

text \<open>The search loop of \<open>getCourseWithTranscript\<close>: a section is searched when its
  \<open>videoSection\<close> is an array; the first match ends the loop.\<close>

fun find_video :: "json_val \<Rightarrow> content_item list \<Rightarrow> json_val option" where
  "find_video vn [] = None"
| "find_video vn (s # ss) =
     (case js_get (item_json s) ''videoSection'' of
        JArr vs \<Rightarrow> (case find (video_match vn) vs of Some v \<Rightarrow> Some v | None \<Rightarrow> find_video vn ss)
      | _ \<Rightarrow> find_video vn ss)"

text \<open>\<open>getCourseWithTranscript\<close> (lines 2669--2706): a missing course throws
  \<open>Course not found\<close>; the result is the course and the video found.\<close>

definition get_course_with_transcript :: "string \<Rightarrow> json_val \<Rightarrow> world \<Rightarrow> string + course \<times> json_val option" where
  "get_course_with_transcript cid vn w =
     (case store w cid of
        None \<Rightarrow> Inl ''Course not found''
      | Some c \<Rightarrow> Inr (c, if js_truthy vn then find_video vn (courseData c) else None))"

text \<open>The response of \<open>getTranscriptAdvanced\<close>: with a truthy \<open>videoName\<close>, the name,
  \<open>videoFound\<close> and the found video's title, description, length and transcript
  (\<open>|| null\<close>); with a truthy \<open>includeMetadata\<close>, the number of sections.\<close>

record advanced_info =
  ta_course_id :: string
  ta_name :: string
  ta_description :: string
  ta_video :: "(json_val \<times> bool \<times> (json_val \<times> json_val \<times> json_val \<times> json_val) option) option"
  ta_sections :: "nat option"

definition video_fields :: "json_val \<Rightarrow> json_val \<times> json_val \<times> json_val \<times> json_val" where
  "video_fields v = (js_get v ''title'', js_get v ''description'', js_get v ''videoLength'',
     (if js_truthy (js_get v ''transcript'') then js_get v ''transcript'' else JNull))"

text \<open>
  \<open>getTranscriptAdvanced\<close> (lines 2709--2777). \<open>includeMetadata\<close> defaults to
  \<open>false\<close> when absent. Every exception, the helper's \<open>Course not found\<close>
  included, reaches the \<open>catch\<close>, which answers 500 with its message.
\<close>

definition get_transcript_advanced :: "env \<Rightarrow> string \<Rightarrow> json_val \<Rightarrow> json_val \<Rightarrow> world \<Rightarrow> status_error + advanced_info" where
  "get_transcript_advanced e cid vn incl w =
     (if cid = [] \<or> \<not> is_valid_object_id cid then Inl (400, ''Valid course ID is required'')
      else if \<not> db_ok e then Inl (500, ''Failed to retrieve transcript'')
      else (case get_course_with_transcript cid vn w of
              Inl m \<Rightarrow> Inl (500, str_or m ''Failed to retrieve transcript'')
            | Inr (c, vd) \<Rightarrow>
                Inr \<lparr>ta_course_id = cid, ta_name = name c, ta_description = course_description c,
                     ta_video = (if js_truthy vn then Some (vn, vd \<noteq> None, map_option video_fields vd) else None),
                     ta_sections = (if js_truthy incl then Some (length (courseData c)) else None)\<rparr>))"

section \<open>Lemmas\<close>

lemma upt_Suc_Cons: "[a..<a + Suc k] = a # [Suc a..<Suc a + k]"
  by (simp add: upt_rec)

lemma find_upt_bound: "find P [m..<n] = Some j \<Longrightarrow> m \<le> j \<and> j < n"
  by (auto simp: find_Some_iff)

lemma retry_loop_reference: "retry_loop svc dl a k = retry_reference svc dl a k"
proof (induction k arbitrary: a)
  case 0
  then show ?case by (simp add: retry_reference_def)
next
  case (Suc k)
  show ?case
  proof (cases "svc a")
    case (OtpReply st d)
    then show ?thesis by (simp del: upt_Suc add: retry_reference_def upt_conv_Cons is_reply_def)
  next
    case (OtpThrown err)
    then show ?thesis
      using Suc.IH [of "Suc a"]
      by (cases k) (auto simp del: upt_Suc simp: retry_reference_def upt_conv_Cons is_reply_def split: option.splits otp_answer.splits dest!: find_upt_bound)
  qed
qed

lemma item_json_section: "js_get (item_json v) ''videoSection'' = JStr (videoSection v)"
  by (simp add: item_json_def)

lemma find_video_None: "find_video vn items = None"
  by (induction items) (simp_all add: item_json_section)

section \<open>Properties\<close>

text \<open>Claim C28: \<open>retryVideoUrlGeneration\<close> behaves as its reference: with
  \<open>n = maxRetries\<close> attempts, the first attempt whose post resolves gives its data, after
  a wait of \<open>delay * i\<close> after each earlier failed attempt \<open>i\<close>; if all \<open>n\<close> fail, the
  last error is rethrown; and for \<open>maxRetries \<le> 0\<close> the helper returns
  \<open>undefined\<close> without calling the service.\<close>

theorem retry_url_matches_reference:
  "retry_video_url_generation svc mr dl = retry_reference svc dl 1 (nat mr)"
  by (simp add: retry_video_url_generation_def retry_loop_reference)

text \<open>A request that times out reaches \<open>generateVideoUrl\<close>'s \<open>catch\<close> as an
  \<open>axios\<close> error with no \<open>response\<close> and with \<open>request\<close> set, which the handler answers
  503 \<open>Network connection error\<close>: the 408 \<open>Request timeout\<close> branch is reached only by
  an error that has neither.\<close>

theorem video_timeout_reported_as_network_error:
  assumes "js_truthy vid" and "svc vid = OtpThrown err" and "oe_status err = None"
  shows "generate_video_url vid True svc =
           (if oe_request err then Inl (503, ''Network connection error'')
            else if oe_code err = ''ECONNABORTED'' then Inl (408, ''Request timeout'')
            else Inl (500, str_or (oe_message err) ''Unexpected error occurred''))"
  using assms by (simp add: generate_video_url_def otp_error_response_def)

theorem video_timeout_reported_as_network_error_witness:
  "generate_video_url (JStr ''v1'') True
     (\<lambda>_. OtpThrown \<lparr>oe_status = None, oe_data_message = None, oe_request = True,
                      oe_code = ''ECONNABORTED'', oe_message = ''timeout of 10000ms exceeded''\<rparr>)
   = Inl (503, ''Network connection error'')"
  using video_timeout_reported_as_network_error
    [of "JStr ''v1''" "\<lambda>_. OtpThrown \<lparr>oe_status = None, oe_data_message = None, oe_request = True,
                      oe_code = ''ECONNABORTED'', oe_message = ''timeout of 10000ms exceeded''\<rparr>"]
  by simp

text \<open>Claim C31: the video search of \<open>getCourseWithTranscript\<close> never finds a video: it
  looks for an array in each item's \<open>videoSection\<close>, which the schema stores as a
  string, so \<open>videoData\<close> is always \<open>null\<close> and \<open>getTranscriptAdvanced\<close> always reports
  \<open>videoFound: false\<close>.\<close>

theorem transcript_search_never_finds:
  "get_course_with_transcript cid vn w =
     (case store w cid of None \<Rightarrow> Inl ''Course not found'' | Some c \<Rightarrow> Inr (c, None))"
  by (simp add: get_course_with_transcript_def find_video_None split: option.split)

text \<open>\<open>getTranscriptAdvanced\<close> answers 500 \<open>Course not found\<close> for a valid id
  of a course that does not exist: the helper throws before the handler's own 404 check,
  which is never reached.\<close>

theorem transcript_advanced_missing_course_500:
  assumes "is_valid_object_id cid" and "db_ok e" and "store w cid = None"
  shows "get_transcript_advanced e cid vn incl w = Inl (500, ''Course not found'')"
  using assms by (auto simp: get_transcript_advanced_def get_course_with_transcript_def str_or_def is_valid_object_id_def)

theorem transcript_advanced_missing_course_500_witness:
  "get_transcript_advanced demo_env (oid_of 1) (JStr ''Intro'') JUndef demo_world = Inl (500, ''Course not found'')"
  by (rule transcript_advanced_missing_course_500) (simp_all add: demo_env_def demo_world_def)

end
