(* ===== verification/Layout.thy ===== *)
theory Layout
  imports Js_Values "HOL-Library.Sublist"
begin

text \<open>
  The site layout: \<open>createLayout\<close>, \<open>editLayout\<close> and \<open>getLayoutByType\<close> of
  \<open>layout.controller.ts\<close> over the \<open>Layout\<close> collection of \<open>layout.model.ts\<close>, one
  document per type (\<open>Banner\<close>, \<open>FAQ\<close>, \<open>Categories\<close>, \<open>Blogs\<close>). The collection is a
  state of its own, passed explicitly with the Cloudinary assets the handlers upload;
  the image upload (\<open>cloudinary.v2.uploader.upload\<close>) is an input, \<open>None\<close> when it
  throws. The \<open>Promise.all\<close> over the items is taken in list order: every upload is
  started, so all that succeed leave their asset, whatever the others do.
\<close>

section \<open>Documents\<close>

text \<open>\<open>blogSchema\<close>: \<open>title\<close>, \<open>date\<close>, \<open>author\<close>, \<open>content\<close> and \<open>category\<close> are
  required; the image is \<open>{ public_id, url }\<close>.\<close>

record blog =
  bg_title :: "string option"
  bg_date :: "string option"
  bg_author :: "string option"
  bg_comments :: int
  bg_content :: "string option"
  bg_image :: "(string option \<times> string) option"
  bg_category :: "string option"

text \<open>A layout document: its type, the FAQ items (question, answer), the category
  titles, the banner (image, title, subtitle) and the blogs.\<close>

record layout_doc =
  ld_id :: nat
  ld_type :: string
  ld_faq :: "(string option \<times> string option) list"
  ld_categories :: "string option list"
  ld_banner :: "((string \<times> string) \<times> string option \<times> string option) option"
  ld_blogs :: "blog list"

record layout_state =
  ls_docs :: "layout_doc list"
  ls_assets :: "string set"
  ls_next :: nat

text \<open>A blog item of a request; its image is absent, a string (a URL or a
  \<open>data:image\<close> URI) or an object already stored.\<close>

datatype image_in = ImgNone | ImgStr string | ImgObj "string option" string

record blog_in =
  bi_title :: "string option"
  bi_date :: "string option"
  bi_author :: "string option"
  bi_comments :: int
  bi_content :: "string option"
  bi_image :: image_in
  bi_category :: "string option"

text \<open>The request body; a list field is \<open>None\<close> when absent, and then its
  \<open>.map\<close> throws.\<close>

record layout_req =
  lr_type :: "string option"
  lr_image :: "string option"
  lr_title :: "string option"
  lr_subtitle :: "string option"
  lr_faq :: "(string option \<times> string option) list option"
  lr_categories :: "string option list option"
  lr_blogs :: "blog_in list option"

section \<open>Queries and validation\<close>

text \<open>\<open>LayoutModel.findOne({ type })\<close>: an undefined \<open>type\<close> is dropped from the filter,
  which then matches the first document.\<close>

definition find_layout :: "string option \<Rightarrow> layout_doc list \<Rightarrow> layout_doc option" where
  "find_layout tq docs =
     (case tq of None \<Rightarrow> (case docs of [] \<Rightarrow> None | d # _ \<Rightarrow> Some d)
               | Some t \<Rightarrow> find (\<lambda>d. ld_type d = t) docs)"

text \<open>The \<open>required\<close> validator of a string path rejects an absent and an empty string.\<close>

definition req_str :: "string option \<Rightarrow> bool" where
  "req_str x \<longleftrightarrow> (case x of Some s \<Rightarrow> s \<noteq> [] | None \<Rightarrow> False)"

definition blog_valid :: "blog \<Rightarrow> bool" where
  "blog_valid b \<longleftrightarrow> req_str (bg_title b) \<and> req_str (bg_date b) \<and> req_str (bg_author b) \<and>
                     req_str (bg_content b) \<and> req_str (bg_category b)"

text \<open>\<open>LayoutModel.create(doc)\<close>: validation, then a new document with a fresh id.\<close>

definition layout_create :: "layout_doc \<Rightarrow> layout_state \<Rightarrow> status_error + layout_state" where
  "layout_create d st =
     (if list_all blog_valid (ld_blogs d)
      then Inr (st\<lparr>ls_docs := ls_docs st @ [d\<lparr>ld_id := ls_next st\<rparr>], ls_next := Suc (ls_next st)\<rparr>)
      else Inl (500, ''Layout validation failed''))"

text \<open>\<open>findByIdAndUpdate(id, update)\<close>: no validators run on an update.\<close>

definition layout_update :: "nat \<Rightarrow> (layout_doc \<Rightarrow> layout_doc) \<Rightarrow> layout_state \<Rightarrow> layout_state" where
  "layout_update i f st = st\<lparr>ls_docs := map (\<lambda>d. if ld_id d = i then f d else d) (ls_docs st)\<rparr>"

definition empty_layout :: "string \<Rightarrow> layout_doc" where
  "empty_layout t = \<lparr>ld_id = 0, ld_type = t, ld_faq = [], ld_categories = [], ld_banner = None, ld_blogs = []\<rparr>"

text \<open>An upload of the uploader; a failure throws.\<close>

definition upload_asset :: "(string \<Rightarrow> (string \<times> string) option) \<Rightarrow> string \<Rightarrow> layout_state \<Rightarrow>
                             (string \<times> string) option \<times> layout_state" where
  "upload_asset up img st =
     (case up img of None \<Rightarrow> (None, st)
                   | Some (p, u) \<Rightarrow> (Some (p, u), st\<lparr>ls_assets := insert p (ls_assets st)\<rparr>))"

text \<open>The uploads of a \<open>Promise.all\<close>: every one runs; the result is all of them, or
  \<open>None\<close> if one threw.\<close>

fun upload_all :: "(string \<Rightarrow> (string \<times> string) option) \<Rightarrow> string option list \<Rightarrow> layout_state \<Rightarrow>
                   (string \<times> string) list option \<times> layout_state" where
  "upload_all up [] st = (Some [], st)"
| "upload_all up (x # xs) st =
     (let (r, st1) = (case x of Some img \<Rightarrow> upload_asset up img st | None \<Rightarrow> (None, st));
          (rs, st2) = upload_all up xs st1
      in (case (r, rs) of (Some a, Some zs) \<Rightarrow> Some (a # zs) | _ \<Rightarrow> None, st2))"

section \<open>createLayout\<close>

text \<open>The blog item of \<open>createLayout\<close> (lines 61--71): no \<open>category\<close>.\<close>

definition create_blog :: "blog_in \<Rightarrow> string \<times> string \<Rightarrow> blog" where
  "create_blog b img = \<lparr>bg_title = bi_title b, bg_date = bi_date b, bg_author = bi_author b,
     bg_comments = bi_comments b, bg_content = bi_content b, bg_image = Some (Some (fst img), snd img),
     bg_category = None\<rparr>"

definition image_string :: "image_in \<Rightarrow> string option" where
  "image_string i = (case i of ImgStr s \<Rightarrow> Some s | _ \<Rightarrow> None)"

text \<open>
  \<open>createLayout\<close> (lines 7--84): an existing document of the type is a 400
  (\<open>`${type} already exist`\<close>); then the branch of the type uploads and creates. Any
  exception is a 500. A type matching no branch creates nothing and still answers
  success.
\<close>

definition create_layout ::
  "(string \<Rightarrow> (string \<times> string) option) \<Rightarrow> layout_req \<Rightarrow> layout_state \<Rightarrow> (status_error + unit) \<times> layout_state" where
  "create_layout up rq st =
     (if find_layout (lr_type rq) (ls_docs st) \<noteq> None
      then (Inl (400, (case lr_type rq of Some t \<Rightarrow> t | None \<Rightarrow> ''undefined'') @ '' already exist''), st)
      else (case lr_type rq of
        Some t \<Rightarrow>
          if t = ''Banner'' then
            (case (case lr_image rq of Some img \<Rightarrow> upload_asset up img st | None \<Rightarrow> (None, st)) of
               (None, st1) \<Rightarrow> (Inl (500, ''upload failed''), st1)
             | (Some a, st1) \<Rightarrow>
                 (case layout_create ((empty_layout t)\<lparr>ld_banner := Some (a, lr_title rq, lr_subtitle rq)\<rparr>) st1 of
                    Inl err \<Rightarrow> (Inl err, st1) | Inr st2 \<Rightarrow> (Inr (), st2)))
          else if t = ''FAQ'' then
            (case lr_faq rq of
               None \<Rightarrow> (Inl (500, ''Cannot read properties of undefined (reading 'map')''), st)
             | Some fs \<Rightarrow> (case layout_create ((empty_layout t)\<lparr>ld_faq := fs\<rparr>) st of
                             Inl err \<Rightarrow> (Inl err, st) | Inr st2 \<Rightarrow> (Inr (), st2)))
          else if t = ''Categories'' then
            (case lr_categories rq of
               None \<Rightarrow> (Inl (500, ''Cannot read properties of undefined (reading 'map')''), st)
             | Some cs \<Rightarrow> (case layout_create ((empty_layout t)\<lparr>ld_categories := cs\<rparr>) st of
                             Inl err \<Rightarrow> (Inl err, st) | Inr st2 \<Rightarrow> (Inr (), st2)))
          else if t = ''Blogs'' then
            (case lr_blogs rq of
               None \<Rightarrow> (Inl (500, ''Cannot read properties of undefined (reading 'map')''), st)
             | Some bs \<Rightarrow>
                 (case upload_all up (map (\<lambda>b. image_string (bi_image b)) bs) st of
                    (None, st1) \<Rightarrow> (Inl (500, ''upload failed''), st1)
                  | (Some imgs, st1) \<Rightarrow>
                      (case layout_create ((empty_layout t)\<lparr>ld_blogs := map2 create_blog bs imgs\<rparr>) st1 of
                         Inl err \<Rightarrow> (Inl err, st1) | Inr st2 \<Rightarrow> (Inr (), st2))))
          else (Inr (), st)
      | None \<Rightarrow> (Inr (), st)))"

section \<open>editLayout\<close>

text \<open>The blog image of \<open>editLayout\<close> (lines 147--159): a string not starting with
  \<open>data:image\<close> becomes \<open>{ url }\<close>, a \<open>data:image\<close> URI is uploaded, anything else is
  kept; a falsy image later becomes the placeholder.\<close>

definition edit_blog_image :: "(string \<Rightarrow> (string \<times> string) option) \<Rightarrow> image_in \<Rightarrow> layout_state \<Rightarrow>
                                ((string option \<times> string) option) option \<times> layout_state" where
  "edit_blog_image up i st =
     (case i of
        ImgStr s \<Rightarrow>
          if s = [] then (Some None, st)
          else if prefix ''data:image'' s
          then (case upload_asset up s st of (None, st1) \<Rightarrow> (None, st1) | (Some (p, u), st1) \<Rightarrow> (Some (Some (Some p, u)), st1))
          else (Some (Some (None, s)), st)
      | ImgObj p u \<Rightarrow> (Some (Some (p, u)), st)
      | ImgNone \<Rightarrow> (Some None, st))"

text \<open>The blog item of \<open>editLayout\<close> (lines 161--169), with its defaults.\<close>

definition edit_blog :: "string \<Rightarrow> blog_in \<Rightarrow> (string option \<times> string) option \<Rightarrow> blog" where
  "edit_blog today b img = \<lparr>bg_title = Some (opt_or (bi_title b) ''Untitled''),
     bg_date = Some (opt_or (bi_date b) today), bg_author = Some (opt_or (bi_author b) ''Unknown''),
     bg_comments = bi_comments b, bg_content = Some (opt_or (bi_content b) []),
     bg_image = Some (case img of Some x \<Rightarrow> x | None \<Rightarrow> (None, ''/assests/placeholder.jpg'')),
     bg_category = Some (opt_or (bi_category b) ''Uncategorized'')\<rparr>"

fun edit_blog_images :: "(string \<Rightarrow> (string \<times> string) option) \<Rightarrow> image_in list \<Rightarrow> layout_state \<Rightarrow>
                         ((string option \<times> string) option) list option \<times> layout_state" where
  "edit_blog_images up [] st = (Some [], st)"
| "edit_blog_images up (i # is) st =
     (let (r, st1) = edit_blog_image up i st; (rs, st2) = edit_blog_images up is st1
      in (case (r, rs) of (Some a, Some zs) \<Rightarrow> Some (a # zs) | _ \<Rightarrow> None, st2))"

text \<open>Find the document of a type and update it, or create one.\<close>

definition upsert_layout :: "string \<Rightarrow> (layout_doc \<Rightarrow> layout_doc) \<Rightarrow> layout_state \<Rightarrow> (status_error + unit) \<times> layout_state" where
  "upsert_layout t f st =
     (case find_layout (Some t) (ls_docs st) of
        Some d \<Rightarrow> (Inr (), layout_update (ld_id d) f st)
      | None \<Rightarrow> (case layout_create (f (empty_layout t)) st of Inl err \<Rightarrow> (Inl err, st) | Inr st1 \<Rightarrow> (Inr (), st1)))"

text \<open>
  \<open>editLayout\<close> (lines 85--187): the branch of the type; the banner image is uploaded
  before the document is looked up. \<open>today\<close> is \<open>new Date().toISOString().split("T")[0]\<close>.
\<close>

definition edit_layout ::
  "(string \<Rightarrow> (string \<times> string) option) \<Rightarrow> string \<Rightarrow> layout_req \<Rightarrow> layout_state \<Rightarrow> (status_error + unit) \<times> layout_state" where
  "edit_layout up today rq st =
     (case lr_type rq of
        Some t \<Rightarrow>
          if t = ''Banner'' then
            (case (case lr_image rq of Some img \<Rightarrow> upload_asset up img st | None \<Rightarrow> (None, st)) of
               (None, st1) \<Rightarrow> (Inl (500, ''upload failed''), st1)
             | (Some a, st1) \<Rightarrow> upsert_layout t (\<lambda>d. d\<lparr>ld_banner := Some (a, lr_title rq, lr_subtitle rq)\<rparr>) st1)
          else if t = ''FAQ'' then
            (case lr_faq rq of
               None \<Rightarrow> (Inl (500, ''Cannot read properties of undefined (reading 'map')''), st)
             | Some fs \<Rightarrow> upsert_layout t (\<lambda>d. d\<lparr>ld_faq := fs\<rparr>) st)
          else if t = ''Categories'' then
            (case lr_categories rq of
               None \<Rightarrow> (Inl (500, ''Cannot read properties of undefined (reading 'map')''), st)
             | Some cs \<Rightarrow> upsert_layout t (\<lambda>d. d\<lparr>ld_categories := cs\<rparr>) st)
          else if t = ''Blogs'' then
            (case lr_blogs rq of
               None \<Rightarrow> (Inl (500, ''Cannot read properties of undefined (reading 'map')''), st)
             | Some bs \<Rightarrow>
                 (case edit_blog_images up (map bi_image bs) st of
                    (None, st1) \<Rightarrow> (Inl (500, ''upload failed''), st1)
                  | (Some imgs, st1) \<Rightarrow> upsert_layout t (\<lambda>d. d\<lparr>ld_blogs := map2 (edit_blog today) bs imgs\<rparr>) st1))
          else (Inr (), st)
      | None \<Rightarrow> (Inr (), st))"

section \<open>getLayoutByType\<close>

text \<open>\<open>getLayoutByType\<close> (lines 189--205): the route's type; no document is a 400.\<close>

definition get_layout_by_type :: "string \<Rightarrow> layout_state \<Rightarrow> status_error + layout_doc" where
  "get_layout_by_type t st =
     (case find_layout (Some t) (ls_docs st) of None \<Rightarrow> Inl (400, ''Invalid type'') | Some d \<Rightarrow> Inr d)"

section \<open>Lemmas\<close>

lemma upload_asset_frame:
  "upload_asset up img st = (r, st') \<Longrightarrow> ls_docs st' = ls_docs st \<and> ls_next st' = ls_next st"
  by (auto simp: upload_asset_def split: option.splits)

lemma upload_all_frame:
  "upload_all up xs st = (r, st') \<Longrightarrow> ls_docs st' = ls_docs st \<and> ls_next st' = ls_next st \<and>
     (\<forall>zs. r = Some zs \<longrightarrow> length zs = length xs)"
proof (induction xs arbitrary: st r st')
  case Nil
  then show ?case by auto
next
  case (Cons x xs)
  obtain r1 st1 where a: "(case x of Some img \<Rightarrow> upload_asset up img st | None \<Rightarrow> (None, st)) = (r1, st1)" by fastforce
  obtain rs st2 where b: "upload_all up xs st1 = (rs, st2)" by fastforce
  have f1: "ls_docs st1 = ls_docs st \<and> ls_next st1 = ls_next st"
    using a upload_asset_frame by (cases x) auto
  show ?case using Cons.prems Cons.IH [OF b] a b f1 by (auto split: option.splits)
qed

lemma edit_blog_image_frame:
  "edit_blog_image up i st = (r, st') \<Longrightarrow> ls_docs st' = ls_docs st \<and> ls_next st' = ls_next st"
  by (auto simp: edit_blog_image_def split: image_in.splits if_splits prod.splits option.splits dest: upload_asset_frame)

lemma edit_blog_images_frame:
  "edit_blog_images up is st = (r, st') \<Longrightarrow> ls_docs st' = ls_docs st \<and> ls_next st' = ls_next st \<and>
     (\<forall>zs. r = Some zs \<longrightarrow> length zs = length is)"
proof (induction "is" arbitrary: st r st')
  case Nil
  then show ?case by auto
next
  case (Cons i "is")
  obtain r1 st1 where a: "edit_blog_image up i st = (r1, st1)" by fastforce
  obtain rs st2 where b: "edit_blog_images up is st1 = (rs, st2)" by fastforce
  show ?case using Cons.prems Cons.IH [OF b] a b edit_blog_image_frame [OF a] by (auto split: option.splits)
qed

lemma create_blog_invalid: "\<not> blog_valid (create_blog b img)"
  by (simp add: blog_valid_def create_blog_def req_str_def)

lemma layout_create_Inr:
  "layout_create d st = Inr st' \<Longrightarrow> ls_docs st' = ls_docs st @ [d\<lparr>ld_id := ls_next st\<rparr>]"
  by (auto simp: layout_create_def split: if_splits)

lemma find_map_same: "(\<And>x. P (g x) = P x) \<Longrightarrow> find P (map g xs) = map_option g (find P xs)"
  by (induction xs) auto

lemma layout_update_types: "(\<And>d. ld_type (f d) = ld_type d) \<Longrightarrow> map ld_type (ls_docs (layout_update i f st)) = map ld_type (ls_docs st)"
  by (induction "ls_docs st" arbitrary: st) (auto simp: layout_update_def)

lemma upsert_layout_distinct:
  assumes "\<And>d. ld_type (f d) = ld_type d" and "distinct (map ld_type (ls_docs st))"
    and "upsert_layout t f st = (r, st')"
  shows "distinct (map ld_type (ls_docs st'))"
proof (cases "find_layout (Some t) (ls_docs st)")
  case None
  then have "t \<notin> set (map ld_type (ls_docs st))" by (auto simp: find_layout_def find_None_iff)
  then show ?thesis using None assms
    by (auto simp: upsert_layout_def layout_create_def empty_layout_def split: if_splits sum.splits)
next
  case (Some d)
  then show ?thesis using assms layout_update_types [of f "ld_id d" st] by (auto simp: upsert_layout_def)
qed

lemma find_append_None: "find P xs = None \<Longrightarrow> find P (xs @ ys) = find P ys"
  by (induction xs) auto

lemma upsert_layout_find:
  assumes "\<And>d. ld_type (f d) = ld_type d" and "\<And>x. Q (f x)" and "\<And>x i. Q x \<Longrightarrow> Q (x\<lparr>ld_id := i\<rparr>)"
    and "upsert_layout t f st = (Inr (), st')"
  shows "\<exists>d. find_layout (Some t) (ls_docs st') = Some d \<and> Q d"
proof (cases "find_layout (Some t) (ls_docs st)")
  case None
  then have "find (\<lambda>d. ld_type d = t) (ls_docs st) = None" by (simp add: find_layout_def)
  moreover have "Q ((f (empty_layout t))\<lparr>ld_id := ls_next st\<rparr>)" using assms(2,3) by blast
  moreover have "ld_type (f (empty_layout t)) = t" using assms(1) by (simp add: empty_layout_def)
  ultimately show ?thesis using None assms(4)
    by (auto simp: upsert_layout_def layout_create_def find_layout_def find_append_None split: if_splits sum.splits)
next
  case (Some d)
  have "find (\<lambda>x. ld_type x = t) (map (\<lambda>x. if ld_id x = ld_id d then f x else x) (ls_docs st)) =
        map_option (\<lambda>x. if ld_id x = ld_id d then f x else x) (find (\<lambda>x. ld_type x = t) (ls_docs st))"
    by (rule find_map_same) (simp add: assms(1))
  then show ?thesis using Some assms(2,4) by (auto simp: upsert_layout_def layout_update_def find_layout_def)
qed

lemma layout_create_distinct:
  "layout_create d st = Inr st' \<Longrightarrow> find_layout (Some (ld_type d)) (ls_docs st) = None \<Longrightarrow>
   distinct (map ld_type (ls_docs st)) \<Longrightarrow> distinct (map ld_type (ls_docs st'))"
  by (force simp: layout_create_def find_layout_def find_None_iff split: if_splits)

lemma create_layout_distinct:
  assumes "distinct (map ld_type (ls_docs st))" and "create_layout up rq st = (r, st')"
  shows "distinct (map ld_type (ls_docs st'))"
proof (cases "find_layout (lr_type rq) (ls_docs st) = None \<and> lr_type rq \<noteq> None")
  case False
  then have "st' = st" using assms(2) by (cases "lr_type rq") (auto simp: create_layout_def split: if_splits)
  then show ?thesis using assms(1) by simp
next
  case True
  then obtain t where t: "lr_type rq = Some t" and f: "find_layout (Some t) (ls_docs st) = None" by auto
  have step: "distinct (map ld_type (ls_docs st2))"
    if "ls_docs st1 = ls_docs st" and "layout_create d st1 = Inr st2" and "ld_type d = t" for d st1 st2
    using layout_create_distinct [OF that(2)] that(1,3) f assms(1) by simp
  show ?thesis using assms t f
    by (auto simp: create_layout_def empty_layout_def step split: if_splits option.splits prod.splits sum.splits
        dest!: upload_asset_frame upload_all_frame)
qed

lemma edit_layout_distinct:
  assumes "distinct (map ld_type (ls_docs st))" and "edit_layout up today rq st = (r, st')"
  shows "distinct (map ld_type (ls_docs st'))"
proof -
  have up: "distinct (map ld_type (ls_docs st2))"
    if "ls_docs st1 = ls_docs st" and "upsert_layout t f st1 = (r2, st2)" and "\<And>d. ld_type (f d) = ld_type d"
    for t f st1 r2 st2
    using upsert_layout_distinct [OF that(3) _ that(2)] that(1) assms(1) by simp
  show ?thesis using assms
    by (auto simp: edit_layout_def split: if_splits option.splits prod.splits
        dest!: upload_asset_frame edit_blog_images_frame intro: up)
qed

section \<open>Properties\<close>

text \<open>Claim C30: \<open>createLayout\<close> can never create the \<open>Blogs\<close> document from a non-empty
  list: it builds the blog items without \<open>category\<close>, which \<open>blogSchema\<close> requires, so
  the create fails validation and the request is a 500 (after the images have been
  uploaded), and the collection is unchanged.\<close>

theorem create_blogs_layout_fails:
  assumes "lr_type rq = Some ''Blogs''" and "lr_blogs rq = Some bs" and "bs \<noteq> []"
    and "find_layout (Some ''Blogs'') (ls_docs st) = None"
  shows "(\<exists>m. fst (create_layout up rq st) = Inl (500, m)) \<and> ls_docs (snd (create_layout up rq st)) = ls_docs st"
proof -
  obtain r st1 where u: "upload_all up (map (\<lambda>b. image_string (bi_image b)) bs) st = (r, st1)" by fastforce
  note f = upload_all_frame [OF u]
  show ?thesis
  proof (cases r)
    case None
    then show ?thesis using assms u f by (simp add: create_layout_def)
  next
    case (Some imgs)
    then have len: "length imgs = length bs" using f by simp
    obtain b bs' where bs: "bs = b # bs'" using assms(3) by (cases bs) auto
    obtain i imgs' where imgs: "imgs = i # imgs'" using len bs by (cases imgs) auto
    have "\<not> list_all blog_valid (map2 create_blog bs imgs)" using bs imgs create_blog_invalid by simp
    then show ?thesis using assms u f Some by (simp add: create_layout_def layout_create_def)
  qed
qed

definition layout_fixture :: layout_state where
  "layout_fixture = \<lparr>ls_docs = [], ls_assets = {}, ls_next = 1\<rparr>"

definition blogs_req :: layout_req where
  "blogs_req = \<lparr>lr_type = Some ''Blogs'', lr_image = None, lr_title = None, lr_subtitle = None, lr_faq = None,
     lr_categories = None, lr_blogs = Some [\<lparr>bi_title = Some ''Hello'', bi_date = Some ''2024-01-01'',
       bi_author = Some ''Ali'', bi_comments = 0, bi_content = Some ''Text'', bi_image = ImgStr ''data:image/png;base64,AA'',
       bi_category = Some ''News''\<rparr>]\<rparr>"

theorem create_blogs_layout_fails_witness:
  "(\<exists>m. fst (create_layout (\<lambda>_. Some (''blog1'', ''https://cdn/blog1'')) blogs_req layout_fixture) = Inl (500, m)) \<and>
   ls_docs (snd (create_layout (\<lambda>_. Some (''blog1'', ''https://cdn/blog1'')) blogs_req layout_fixture)) = ls_docs layout_fixture"
  by (rule create_blogs_layout_fails [where bs = "the (lr_blogs blogs_req)"]) (simp_all add: blogs_req_def layout_fixture_def find_layout_def)

text \<open>Claim C26: \<open>createLayout\<close> and \<open>editLayout\<close> keep at most one layout document per
  type: the create refuses a type that exists and the edit updates the document it
  finds or creates the missing one (requests taken one at a time).\<close>

theorem layout_types_distinct:
  assumes "distinct (map ld_type (ls_docs st))"
  shows "distinct (map ld_type (ls_docs (snd (create_layout up rq st)))) \<and>
         distinct (map ld_type (ls_docs (snd (edit_layout up today rq' st))))"
  using create_layout_distinct [OF assms, of up rq] edit_layout_distinct [OF assms, of up today rq']
  by (metis prod.collapse)

theorem layout_types_distinct_witness:
  "distinct (map ld_type (ls_docs (snd (create_layout (\<lambda>_. None) blogs_req layout_fixture)))) \<and>
   distinct (map ld_type (ls_docs (snd (edit_layout (\<lambda>_. None) ''2024-01-01'' blogs_req layout_fixture))))"
  by (rule layout_types_distinct) (simp add: layout_fixture_def)

text \<open>Claim C27: after \<open>editLayout\<close> succeeds on the FAQ, \<open>getLayoutByType("FAQ")\<close>
  returns a document whose FAQ is exactly the items of the request, whether the edit
  updated the existing document or created it.\<close>

theorem edit_faq_then_get:
  assumes "lr_type rq = Some ''FAQ''" and "lr_faq rq = Some fs" and "edit_layout up today rq st = (Inr (), st')"
  shows "map_sum id ld_faq (get_layout_by_type ''FAQ'' st') = Inr fs"
proof -
  have "upsert_layout ''FAQ'' (\<lambda>d. d\<lparr>ld_faq := fs\<rparr>) st = (Inr (), st')"
    using assms by (simp add: edit_layout_def)
  from upsert_layout_find [where Q = "\<lambda>d. ld_faq d = fs", OF _ _ _ this]
  obtain d where "find_layout (Some ''FAQ'') (ls_docs st') = Some d" and "ld_faq d = fs" by auto
  then show ?thesis by (simp add: get_layout_by_type_def)
qed

definition faq_req :: layout_req where
  "faq_req = \<lparr>lr_type = Some ''FAQ'', lr_image = None, lr_title = None, lr_subtitle = None,
     lr_faq = Some [(Some ''Refunds?'', Some ''Within 14 days'')], lr_categories = None, lr_blogs = None\<rparr>"

theorem edit_faq_then_get_witness:
  "map_sum id ld_faq (get_layout_by_type ''FAQ'' (snd (edit_layout (\<lambda>_. None) ''2024-01-01'' faq_req layout_fixture)))
   = Inr [(Some ''Refunds?'', Some ''Within 14 days'')]"
  by (rule edit_faq_then_get [where rq = faq_req and up = "\<lambda>_. None" and today = "''2024-01-01''" and st = layout_fixture])
     (simp_all add: faq_req_def edit_layout_def upsert_layout_def layout_fixture_def find_layout_def layout_create_def
        empty_layout_def prod_eq_iff)

end
