(* ===== verification/Client_Editor.thy ===== *)
theory Client_Editor
  imports Create Edit Listing
begin

text \<open>
  The admin course editor of the Next.js client and the requests it sends:
  \<open>src/Client/app/admin/courses/CourseContent.tsx\<close> (the lecture editor shared by the
  create and edit pages) and the \<open>handleCourseCreate\<close>/\<open>handleSubmit\<close> form builders
  of \<open>src/Client/app/components/Admin/Course/CreateCourse.tsx\<close> and
  \<open>EditCourse.tsx\<close>. The editor's React state is a record; every event handler is a
  function on it, and the actions a user can take form a datatype with a step
  function. A handler that throws (an index whose element is \<open>undefined\<close>) leaves
  the state unchanged, as React does when an event handler throws before its
  \<open>setState\<close>. The parsing of the multipart body by \<open>express-fileupload\<close> (flat
  field names, repeated names collected in an array) connects the client to the
  server model of \<open>uploadCourse\<close>.

  The two pages import \<open>./CourseContent\<close> from \<open>components/Admin/Course/\<close>, a file
  the repository does not contain; the only \<open>CourseContent\<close> component of the
  repository is \<open>admin/courses/CourseContent.tsx\<close>, whose \<open>Props\<close> (lines 8--17:
  \<open>active\<close>, \<open>setActive\<close>, \<open>courseContentData\<close>, \<open>setCourseContentData\<close>,
  \<open>handleSubmit\<close>, \<open>videosToDelete\<close>, \<open>setVideosToDelete\<close>, \<open>isEdit\<close>) are
  exactly the props the pages pass, so the editor is modelled from it as the component the
  pages render. This pairing is an assumption of the model.
\<close>

section \<open>Editor state\<close>

record ui_link =
  lk_title :: string
  lk_url :: string

text \<open>A lecture of \<open>courseContentData\<close>. A \<open>File\<close> chosen in the browser is the file
  the server receives; a missing \<open>_id\<close> reads as the falsy empty string.\<close>

record lecture =
  lc_video_url :: string
  lc_video_file :: "video_file option"
  lc_title :: string
  lc_description :: string
  lc_section :: string
  lc_length :: string
  lc_links :: "ui_link list"
  lc_suggestion :: string
  lc_id :: string

text \<open>The editor's state: \<open>courseContentData\<close> (owned by the page), \<open>isCollapsed\<close>,
  \<open>activeSection\<close>, the page's \<open>active\<close> step, \<open>videosToDelete\<close>, the \<open>isEdit\<close>
  flag, the toasts shown and the \<open>videosToDelete\<close> arguments of each
  \<open>handleSubmit\<close> call.\<close>

record editor =
  ed_items :: "lecture list"
  ed_collapsed :: "bool list"
  ed_active_section :: nat
  ed_active :: int
  ed_to_delete :: "string list"
  ed_is_edit :: bool
  ed_toasts :: "string list"
  ed_submits :: "string list list"

text \<open>Mounting the editor: \<open>useState(Array(courseContentData.length).fill(false))\<close>
  and \<open>useState(1)\<close>.\<close>

definition mount_editor :: "lecture list \<Rightarrow> int \<Rightarrow> string list \<Rightarrow> bool \<Rightarrow> editor" where
  "mount_editor items act dels ed =
     \<lparr>ed_items = items, ed_collapsed = replicate (length items) False, ed_active_section = 1,
      ed_active = act, ed_to_delete = dels, ed_is_edit = ed, ed_toasts = [], ed_submits = []\<rparr>"

text \<open>\<open>arr[i]\<close> of a boolean array as a condition (a hole or a read past the end is
  \<open>undefined\<close>, falsy), and \<open>arr[i] = v\<close>, which extends the array with holes.\<close>

definition js_flag :: "bool list \<Rightarrow> nat \<Rightarrow> bool" where
  "js_flag xs i = (i < length xs \<and> xs ! i)"

definition js_set_flag :: "bool list \<Rightarrow> nat \<Rightarrow> bool \<Rightarrow> bool list" where
  "js_set_flag xs i v = (if i < length xs then xs[i := v] else xs @ replicate (i - length xs) False @ [v])"

text \<open>\<open>const updatedData = [...courseContentData]; updatedData[index].f = ...;
  setCourseContentData(updatedData)\<close>: an update of the lecture at \<open>index\<close>; an index
  past the end throws on the property access and changes nothing.\<close>

definition update_item :: "nat \<Rightarrow> (lecture \<Rightarrow> lecture) \<Rightarrow> editor \<Rightarrow> editor" where
  "update_item i f st =
     (if i < length (ed_items st) then st\<lparr>ed_items := (ed_items st)[i := f (ed_items st ! i)]\<rparr> else st)"

definition update_link :: "nat \<Rightarrow> (ui_link \<Rightarrow> ui_link) \<Rightarrow> lecture \<Rightarrow> lecture" where
  "update_link j f l =
     (if j < length (lc_links l) then l\<lparr>lc_links := (lc_links l)[j := f (lc_links l ! j)]\<rparr> else l)"

section \<open>Event handlers\<close>

definition handle_collapse_toggle :: "nat \<Rightarrow> editor \<Rightarrow> editor" where
  "handle_collapse_toggle i st =
     st\<lparr>ed_collapsed := js_set_flag (ed_collapsed st) i (\<not> js_flag (ed_collapsed st) i)\<rparr>"

definition handle_remove_link :: "nat \<Rightarrow> nat \<Rightarrow> editor \<Rightarrow> editor" where
  "handle_remove_link i j st = update_item i (\<lambda>l. l\<lparr>lc_links := js_splice1 (lc_links l) j\<rparr>) st"

definition empty_link :: ui_link where
  "empty_link = \<lparr>lk_title = [], lk_url = []\<rparr>"

definition handle_add_link :: "nat \<Rightarrow> editor \<Rightarrow> editor" where
  "handle_add_link i st = update_item i (\<lambda>l. l\<lparr>lc_links := lc_links l @ [empty_link]\<rparr>) st"

definition handle_video_change :: "nat \<Rightarrow> video_file \<Rightarrow> editor \<Rightarrow> editor" where
  "handle_video_change i f st = update_item i (\<lambda>l. l\<lparr>lc_video_file := Some f\<rparr>) st"

text \<open>\<open>handleRemoveVideo(index, item._id)\<close>: an existing lecture of an edited course is
  scheduled for deletion; the lecture is spliced out. \<open>isCollapsed\<close> is not touched.\<close>

definition handle_remove_video :: "nat \<Rightarrow> string \<Rightarrow> editor \<Rightarrow> editor" where
  "handle_remove_video i vid st =
     st\<lparr>ed_to_delete := (if vid \<noteq> [] \<and> ed_is_edit st then ed_to_delete st @ [vid] else ed_to_delete st),
        ed_items := js_splice1 (ed_items st) i\<rparr>"

text \<open>The check of \<open>newContentHandler\<close>, \<open>addNewSection\<close> and \<open>handleOptions\<close>:
  a lecture with an empty title or description, or with neither a file nor a URL.\<close>

definition lecture_incomplete :: "lecture \<Rightarrow> bool" where
  "lecture_incomplete l \<longleftrightarrow> lc_title l = [] \<or> lc_description l = [] \<or> (lc_video_file l = None \<and> lc_video_url l = [])"

text \<open>The same check through \<open>courseContentData[courseContentData.length - 1]?.\<close>: on
  an empty list every read is \<open>undefined\<close>, and \<open>!undefined && !undefined\<close> holds.\<close>

definition last_incomplete :: "lecture list \<Rightarrow> bool" where
  "last_incomplete xs \<longleftrightarrow> xs = [] \<or> lecture_incomplete (last xs)"

definition new_lecture :: "string \<Rightarrow> lecture" where
  "new_lecture sec =
     \<lparr>lc_video_url = [], lc_video_file = None, lc_title = [], lc_description = [], lc_section = sec,
      lc_length = [], lc_links = [empty_link], lc_suggestion = [], lc_id = []\<rparr>"

definition untitled_section :: "nat \<Rightarrow> string" where
  "untitled_section n = ''Untitled Section '' @ show_nat n"

text \<open>\<open>newContentHandler(item)\<close>, rendered on the last lecture only.\<close>

definition new_content_handler :: "lecture \<Rightarrow> editor \<Rightarrow> editor" where
  "new_content_handler it st =
     (if lecture_incomplete it
      then st\<lparr>ed_toasts := ed_toasts st @ [''Please fill all required fields (title, description, video)!'']\<rparr>
      else
        (let prev = (if ed_items st \<noteq> [] then lc_section (last (ed_items st)) else []) in
         st\<lparr>ed_items := ed_items st @ [new_lecture (str_or prev (untitled_section (ed_active_section st)))]\<rparr>))"

definition add_new_section :: "editor \<Rightarrow> editor" where
  "add_new_section st =
     (if last_incomplete (ed_items st)
      then st\<lparr>ed_toasts := ed_toasts st @ [''Please fill all required fields in the current section!'']\<rparr>
      else st\<lparr>ed_active_section := Suc (ed_active_section st),
              ed_items := ed_items st @ [new_lecture (untitled_section (Suc (ed_active_section st)))]\<rparr>)"

definition prev_button :: "editor \<Rightarrow> editor" where
  "prev_button st = st\<lparr>ed_active := ed_active st - 1\<rparr>"

definition handle_options :: "editor \<Rightarrow> editor" where
  "handle_options st =
     (if last_incomplete (ed_items st)
      then st\<lparr>ed_toasts := ed_toasts st @ [''Section can't be empty!'']\<rparr>
      else st\<lparr>ed_active := ed_active st + 1, ed_submits := ed_submits st @ [ed_to_delete st]\<rparr>)"

text \<open>The section input is rendered for the first lecture and for every lecture whose
  section differs from the previous one's.\<close>

definition show_section_input :: "lecture list \<Rightarrow> nat \<Rightarrow> bool" where
  "show_section_input xs i \<longleftrightarrow> i = 0 \<or> (0 < i \<and> i < length xs \<and> lc_section (xs ! i) \<noteq> lc_section (xs ! (i - 1)))"

section \<open>The user's actions\<close>

datatype ed_action =
    Toggle nat | RemoveLink nat nat | AddLink nat | VideoChange nat video_file | RemoveVideo nat
  | NewContent | AddSection | Prev | Next
  | SetSection nat string | SetTitle nat string | SetUrl nat string | SetLength nat string
  | SetDescription nat string | SetLinkTitle nat nat string | SetLinkUrl nat nat string

text \<open>One action, as the rendered element dispatches it: the delete icon of a lecture
  passes its \<open>_id\<close>; the first link's delete icon does nothing; \<open>Add New Content\<close> is
  rendered on the last lecture, and a section input only where
  \<^const>\<open>show_section_input\<close> holds.\<close>

fun editor_step :: "ed_action \<Rightarrow> editor \<Rightarrow> editor" where
  "editor_step (Toggle i) st = handle_collapse_toggle i st"
| "editor_step (RemoveLink i j) st = (if j = 0 then st else handle_remove_link i j st)"
| "editor_step (AddLink i) st = handle_add_link i st"
| "editor_step (VideoChange i f) st = handle_video_change i f st"
| "editor_step (RemoveVideo i) st =
     (if i < length (ed_items st) then handle_remove_video i (lc_id (ed_items st ! i)) st else st)"
| "editor_step NewContent st = (if ed_items st = [] then st else new_content_handler (last (ed_items st)) st)"
| "editor_step AddSection st = add_new_section st"
| "editor_step Prev st = prev_button st"
| "editor_step Next st = handle_options st"
| "editor_step (SetSection i v) st =
     (if show_section_input (ed_items st) i then update_item i (\<lambda>l. l\<lparr>lc_section := v\<rparr>) st else st)"
| "editor_step (SetTitle i v) st = update_item i (\<lambda>l. l\<lparr>lc_title := v\<rparr>) st"
| "editor_step (SetUrl i v) st = update_item i (\<lambda>l. l\<lparr>lc_video_url := v\<rparr>) st"
| "editor_step (SetLength i v) st = update_item i (\<lambda>l. l\<lparr>lc_length := v\<rparr>) st"
| "editor_step (SetDescription i v) st = update_item i (\<lambda>l. l\<lparr>lc_description := v\<rparr>) st"
| "editor_step (SetLinkTitle i j v) st = update_item i (update_link j (\<lambda>k. k\<lparr>lk_title := v\<rparr>)) st"
| "editor_step (SetLinkUrl i j v) st = update_item i (update_link j (\<lambda>k. k\<lparr>lk_url := v\<rparr>)) st"

definition run_editor :: "ed_action list \<Rightarrow> editor \<Rightarrow> editor" where
  "run_editor acts st = fold editor_step acts st"

section \<open>The requests the admin pages send\<close>

text \<open>A part of a \<open>FormData\<close> body: a text field or a file.\<close>

datatype form_part = PField string | PFile video_file

type_synonym form = "(string \<times> form_part) list"

text \<open>\<open>courseInfo.thumbnail\<close>: \<open>null\<close>, a URL string (of an existing course), or a
  \<open>File\<close> chosen in the form.\<close>

datatype thumb = ThNone | ThUrl string | ThFile video_file

record course_info =
  ci_name :: string
  ci_description :: string
  ci_price :: string
  ci_estimated_price :: string
  ci_tags :: string
  ci_level :: string
  ci_categories :: string
  ci_demo_url :: string
  ci_thumbnail :: thumb

text \<open>\<open>JSON.stringify(items.map(b => ({ title: b.title })))\<close>.\<close>

definition json_titles :: "string list \<Rightarrow> string" where
  "json_titles ts = ''['' @ js_join '','' (map (\<lambda>t. ''{'' @ json_quote ''title'' @ '':'' @ json_quote t @ ''}'') ts) @ '']''"

definition info_fields :: "course_info \<Rightarrow> form" where
  "info_fields ci =
     [(''name'', PField (ci_name ci)), (''description'', PField (ci_description ci)),
      (''categories'', PField (ci_categories ci)), (''price'', PField (ci_price ci)),
      (''estimatedPrice'', PField (ci_estimated_price ci)), (''tags'', PField (ci_tags ci)),
      (''level'', PField (ci_level ci)), (''demoUrl'', PField (ci_demo_url ci))]"

text \<open>\<open>courseContentData.forEach((content, index) => ...)\<close> of \<open>handleCourseCreate\<close>:
  a lecture with a file sends it with its title, description and section under
  indexed names; every lecture sends its URL.\<close>

definition create_lecture_parts :: "nat \<Rightarrow> lecture \<Rightarrow> form" where
  "create_lecture_parts i l =
     (case lc_video_file l of
        Some f \<Rightarrow> [(''video'', PFile f), (''videoTitles['' @ show_nat i @ '']'', PField (lc_title l)),
                  (''videoDescriptions['' @ show_nat i @ '']'', PField (lc_description l)),
                  (''videoSections['' @ show_nat i @ '']'', PField (lc_section l))]
      | None \<Rightarrow> []) @
     [(''videoUrls['' @ show_nat i @ '']'', PField (lc_video_url l))]"

text \<open>\<open>handleCourseCreate\<close> of the create page: nothing is sent while a request is in
  flight or when the name is empty; a truthy thumbnail is appended as it is.\<close>

definition client_create_form :: "bool \<Rightarrow> course_info \<Rightarrow> string list \<Rightarrow> string list \<Rightarrow> lecture list \<Rightarrow> form option" where
  "client_create_form loading ci bs ps items =
     (if loading \<or> ci_name ci = [] then None
      else Some (info_fields ci @
        (case ci_thumbnail ci of ThFile f \<Rightarrow> [(''thumbnail'', PFile f)]
           | ThUrl u \<Rightarrow> (if u = [] then [] else [(''thumbnail'', PField u)]) | ThNone \<Rightarrow> []) @
        [(''benefits'', PField (json_titles bs)), (''prerequisites'', PField (json_titles ps))] @
        concat (map2 create_lecture_parts [0..<length items] items)))"

text \<open>\<open>handleSubmit\<close> of the edit page: a new lecture sends its file, title,
  description and section under repeated names; then every id to delete.\<close>

definition edit_lecture_parts :: "lecture \<Rightarrow> form" where
  "edit_lecture_parts l =
     (case lc_video_file l of
        Some f \<Rightarrow> [(''video'', PFile f), (''videoTitles'', PField (lc_title l)),
                  (''videoDescriptions'', PField (lc_description l)), (''videoSections'', PField (lc_section l))]
      | None \<Rightarrow> [])"

definition client_edit_form :: "course_info \<Rightarrow> lecture list \<Rightarrow> string list \<Rightarrow> form" where
  "client_edit_form ci items dels =
     info_fields ci @
     (case ci_thumbnail ci of ThFile f \<Rightarrow> [(''thumbnail'', PFile f)] | _ \<Rightarrow> []) @
     concat (map edit_lecture_parts items) @
     map (\<lambda>d. (''videosToDelete'', PField d)) dels"

text \<open>
  \<open>express-fileupload\<close> with its default options: field names are taken as they are
  (no nesting of \<open>a[0]\<close>), a repeated name collects its values in an array, files go
  to \<open>req.files\<close> the same way. The handlers read a one-valued field as a string
  (absent: \<open>undefined\<close>, falsy); the admin pages send the course fields and the
  thumbnail once.
\<close>

definition form_fields :: "form \<Rightarrow> string \<Rightarrow> string list" where
  "form_fields fm k = [v. (k', PField v) \<leftarrow> fm, k' = k]"

definition form_files :: "form \<Rightarrow> string \<Rightarrow> video_file list" where
  "form_files fm k = [f. (k', PFile f) \<leftarrow> fm, k' = k]"

definition body_field :: "form \<Rightarrow> string \<Rightarrow> form_field" where
  "body_field fm k = (case form_fields fm k of [] \<Rightarrow> FAbsent | [v] \<Rightarrow> FOne v | vs \<Rightarrow> FMany vs)"

definition body_str :: "form \<Rightarrow> string \<Rightarrow> string" where
  "body_str fm k = (case form_fields fm k of [v] \<Rightarrow> v | _ \<Rightarrow> [])"

text \<open>The \<open>uploadCourse\<close> request a parsed body gives; the Mongoose cast of the
  \<open>price\<close> field is the parameter \<open>pr\<close>.\<close>

definition upload_req_of_form :: "int \<Rightarrow> form \<Rightarrow> upload_req" where
  "upload_req_of_form pr fm =
     \<lparr>ur_name = body_str fm ''name'', ur_title = body_str fm ''title'', ur_price = pr,
      ur_thumbnail = (case form_files fm ''thumbnail'' of [f] \<Rightarrow> Some (vf_path f) | _ \<Rightarrow> None),
      ur_videos = (case form_files fm ''video'' of [] \<Rightarrow> None | fs \<Rightarrow> Some fs),
      ur_titles = body_field fm ''videoTitles'', ur_descriptions = body_field fm ''videoDescriptions'',
      ur_sections = body_field fm ''videoSections'', ur_description = body_str fm ''description'',
      ur_categories = body_str fm ''categories''\<rparr>"

text \<open>The \<open>editCourse\<close> request a parsed body gives for the course \<open>cid\<close> of the
  route; a thumbnail array is read at its first element.\<close>

definition edit_req_of_form :: "string \<Rightarrow> form \<Rightarrow> edit_req" where
  "edit_req_of_form cid fm =
     \<lparr>er_id = cid, er_thumbnail = (case form_files fm ''thumbnail'' of f # _ \<Rightarrow> Some (vf_path f) | [] \<Rightarrow> None),
      er_videos = (case form_files fm ''video'' of [] \<Rightarrow> None | fs \<Rightarrow> Some fs),
      er_titles = body_field fm ''videoTitles'', er_descriptions = body_field fm ''videoDescriptions'',
      er_sections = body_field fm ''videoSections'', er_delete = body_field fm ''videosToDelete''\<rparr>"


text \<open>The files of the lectures that have one, in order.\<close>

definition lecture_files :: "lecture list \<Rightarrow> video_file list" where
  "lecture_files items = concat (map (\<lambda>l. case lc_video_file l of Some f \<Rightarrow> [f] | None \<Rightarrow> []) items)"

section \<open>Fixtures\<close>

text \<open>A create-page course with two lectures, each with a file and its own section.\<close>

definition demo_info :: course_info where
  "demo_info = \<lparr>ci_name = ''Go'', ci_description = ''Learn Go'', ci_price = ''10'', ci_estimated_price = [],
     ci_tags = [], ci_level = [], ci_categories = ''Programming'', ci_demo_url = [], ci_thumbnail = ThNone\<rparr>"

definition demo_lectures :: "lecture list" where
  "demo_lectures =
     [(new_lecture ''Basics'')\<lparr>lc_title := ''Setup'', lc_description := ''Install Go'', lc_video_file := Some \<lparr>vf_name = ''a'', vf_path = ''/tmp/a''\<rparr>\<rparr>,
      (new_lecture ''Advanced'')\<lparr>lc_title := ''Channels'', lc_description := ''Concurrency'', lc_video_file := Some \<lparr>vf_name = ''c'', vf_path = ''/tmp/c''\<rparr>\<rparr>]"

section \<open>Properties\<close>

text \<open>The invariant of the ids scheduled for deletion: distinct, non-empty, and disjoint
  from the ids of the lectures the editor shows.\<close>

definition ids_ok :: "editor \<Rightarrow> bool" where
  "ids_ok st \<longleftrightarrow> distinct (ed_to_delete st @ filter (\<lambda>x. x \<noteq> []) (map lc_id (ed_items st))) \<and> [] \<notin> set (ed_to_delete st)"

subsection \<open>Forms\<close>

lemma form_fields_simps [simp]:
  "form_fields [] k = []"
  "form_fields (xs @ ys) k = form_fields xs k @ form_fields ys k"
  "form_fields ((k', PField v) # fm) k = (if k' = k then v # form_fields fm k else form_fields fm k)"
  "form_fields ((k', PFile f) # fm) k = form_fields fm k"
  by (simp_all add: form_fields_def)

lemma form_files_simps [simp]:
  "form_files [] k = []"
  "form_files (xs @ ys) k = form_files xs k @ form_files ys k"
  "form_files ((k', PFile f) # fm) k = (if k' = k then f # form_files fm k else form_files fm k)"
  "form_files ((k', PField v) # fm) k = form_files fm k"
  by (simp_all add: form_files_def)

lemma form_fields_concat [simp]: "form_fields (concat xss) k = concat (map (\<lambda>xs. form_fields xs k) xss)"
  by (induction xss) simp_all

lemma form_files_concat [simp]: "form_files (concat xss) k = concat (map (\<lambda>xs. form_files xs k) xss)"
  by (induction xss) simp_all

lemma create_lecture_parts_meta:
  "k \<in> {''videoTitles'', ''videoDescriptions'', ''videoSections''} \<Longrightarrow> form_fields (create_lecture_parts i l) k = []"
  by (auto simp: create_lecture_parts_def split: option.split)

lemma create_lecture_parts_video:
  "form_files (create_lecture_parts i l) ''video'' = (case lc_video_file l of Some f \<Rightarrow> [f] | None \<Rightarrow> [])"
  by (simp add: create_lecture_parts_def split: option.split)

(*
  assumes "\<And>i l. f i l = []"
*)

lemma map2_ignore_index: "length xs = length ys \<Longrightarrow> map2 (\<lambda>i l. g l) xs ys = map g ys"
  by (induction xs ys rule: list_induct2) simp_all

lemma length_lecture_files: "length (lecture_files items) = length (filter (\<lambda>l. lc_video_file l \<noteq> None) items)"
  by (induction items) (auto simp: lecture_files_def split: option.split)

lemma create_parts_meta:
  assumes "k \<in> {''videoTitles'', ''videoDescriptions'', ''videoSections''}"
  shows "form_fields (concat (map2 create_lecture_parts ns items)) k = []"
proof (induction items arbitrary: ns)
  case Nil
  then show ?case by simp
next
  case (Cons l items)
  then show ?case by (cases ns) (simp_all add: create_lecture_parts_meta [OF assms] del: form_fields_concat)
qed

lemma client_create_form_meta:
  assumes "client_create_form ld ci bs ps items = Some fm"
    and "k \<in> {''videoTitles'', ''videoDescriptions'', ''videoSections''}"
  shows "body_field fm k = FAbsent"
proof -
  have parts: "form_fields (concat (map2 create_lecture_parts [0..<length items] items)) k = []"
    using create_parts_meta [OF assms(2)] .
  have fm: "fm = the (client_create_form ld ci bs ps items)" using assms(1) by simp
  have ok: "\<not> ld \<and> ci_name ci \<noteq> []" using assms(1) by (simp add: client_create_form_def split: if_splits)
  from assms(2) consider "k = ''videoTitles''" | "k = ''videoDescriptions''" | "k = ''videoSections''" by blast
  then have "form_fields fm k = []"
    unfolding fm using ok parts by cases (simp_all add: client_create_form_def info_fields_def split: thumb.split del: form_fields_concat)
  then show ?thesis by (simp add: body_field_def)
qed

lemma create_parts_videos:
  "form_files (concat (map2 create_lecture_parts [n..<n + length items] items)) ''video'' = lecture_files items"
proof (induction items arbitrary: n)
  case Nil
  then show ?case by (simp add: lecture_files_def)
next
  case (Cons l items)
  have "[n..<n + length (l # items)] = n # [Suc n..<Suc n + length items]" by (simp add: upt_rec)
  with Cons.IH [of "Suc n"] show ?case
    by (simp add: create_lecture_parts_video lecture_files_def split: option.split)
qed

lemma client_create_form_videos:
  assumes "client_create_form ld ci bs ps items = Some fm"
  shows "form_files fm ''video'' = lecture_files items"
  using assms create_parts_videos [of 0 items]
  by (auto simp: client_create_form_def info_fields_def split: if_splits thumb.splits)

lemma upload_course_Inr:
  assumes "upload_course e r w = (Inr c, w')"
  obtains nm tb vids items w1 w2 where "ur_videos r = Some vids"
    "upload_videos e (array_from_form_data (ur_titles r)) (array_from_form_data (ur_descriptions r))
       (array_from_form_data (ur_sections r)) Map.empty 0 vids [] w1 = (Inr items, w2)"
    "finish_upload_course e nm (ur_price r) (ur_description r) (ur_categories r) tb items w2 = (Inr c, w')"
proof -
  have cfg: "cfg_ok e" using assms by (auto simp: upload_course_def split: if_splits)
  let ?nm = "if ur_name r = [] \<and> ur_title r \<noteq> [] then ur_title r else ur_name r"
  have media: "upload_course_media e ?nm r w = (Inr c, w')"
    using assms cfg by (auto simp: upload_course_def Let_def split: if_splits option.splits bool.splits)
  obtain x w1 where th: "upload_thumbnail e (ur_thumbnail r) w = (x, w1)" by fastforce
  from media th obtain tb vids where x: "x = Some tb" and vids: "ur_videos r = Some vids"
    by (auto simp: upload_course_media_def split: option.splits)
  obtain res w2 where uv: "upload_videos e (array_from_form_data (ur_titles r)) (array_from_form_data (ur_descriptions r))
       (array_from_form_data (ur_sections r)) Map.empty 0 vids [] w1 = (res, w2)" by fastforce
  from media th x vids uv obtain items where "res = Inr items" and
    "finish_upload_course e ?nm (ur_price r) (ur_description r) (ur_categories r) tb items w2 = (Inr c, w')"
    by (cases res) (auto simp: upload_course_media_def split: prod.splits)
  with vids uv that show ?thesis by blast
qed

lemma upload_videos_default_sections:
  assumes "upload_videos e ts ds [] cnt i vids acc w = (Inr items, w')"
  shows "\<exists>new. items = acc @ new \<and> length new = length vids \<and> (\<forall>x\<in>set new. videoSection x = ''Default Section'')"
  using assms
proof (induction vids arbitrary: cnt i acc w)
  case Nil
  then show ?case by simp
next
  case (Cons v vs)
  let ?run = "upload_default (cfg_ok e) (video_svc e (vf_path v)) (vf_path v)"
  show ?case
  proof (cases "up_result ?run")
    case (Inl err)
    with Cons.prems show ?thesis by (simp add: Let_def)
  next
    case (Inr up)
    with Cons.prems obtain it cnt' w1 where
      rec: "upload_videos e ts ds [] cnt' (Suc i) vs (acc @ [it]) w1 = (Inr items, w')" and
      sec: "videoSection it = ''Default Section''"
      by (auto simp: Let_def nth_or_def new_video_item_def)
    from Cons.IH [OF rec] sec show ?thesis by auto
  qed
qed

lemma finish_upload_course_sections:
  assumes "finish_upload_course e nm pr ds cat th items w = (Inr c, w')"
  shows "mset (map videoSection (courseData c)) = mset (map videoSection items)"
proof -
  have "c = fst (create_course_doc nm pr ds cat (now e) th (organize_upload items) w)"
    using assms by (auto simp: finish_upload_course_def Let_def split: if_splits prod.splits)
  then have "map videoSection (courseData c) = map videoSection (organize_upload items)"
    by (simp add: create_course_doc_def Let_def)
  then show ?thesis by (simp add: organize_upload_def mset_js_sort mset_map)
qed

text \<open>Claim C17: a course the admin create page sends and \<open>uploadCourse\<close> accepts has one
  item per lecture with a video file, every one in \<open>Default Section\<close>: the page sends the
  titles, descriptions and sections as \<open>videoTitles[i]\<close> fields, which the flat parse
  never gathers under \<open>videoTitles\<close>.\<close>

theorem client_create_drops_lecture_metadata:
  assumes "client_create_form ld ci bs ps items = Some fm"
    and "upload_course e (upload_req_of_form pr fm) w = (Inr c, w')"
  shows "map videoSection (courseData c) = replicate (length (courseData c)) ''Default Section'' \<and>
         length (courseData c) = length (filter (\<lambda>l. lc_video_file l \<noteq> None) items)"
proof -
  let ?r = "upload_req_of_form pr fm"
  obtain nm tb vids its w1 w2 where v: "ur_videos ?r = Some vids" and
    uv: "upload_videos e (array_from_form_data (ur_titles ?r)) (array_from_form_data (ur_descriptions ?r))
           (array_from_form_data (ur_sections ?r)) Map.empty 0 vids [] w1 = (Inr its, w2)" and
    fin: "finish_upload_course e nm (ur_price ?r) (ur_description ?r) (ur_categories ?r) tb its w2 = (Inr c, w')"
    by (rule upload_course_Inr [OF assms(2)])
  have "body_field fm ''videoSections'' = FAbsent" by (rule client_create_form_meta [OF assms(1)]) simp
  then have "array_from_form_data (ur_sections ?r) = []" by (simp add: upload_req_of_form_def)
  with uv have uv0: "upload_videos e (array_from_form_data (ur_titles ?r)) (array_from_form_data (ur_descriptions ?r))
           [] Map.empty 0 vids [] w1 = (Inr its, w2)" by (simp only:)
  obtain new where new: "its = [] @ new" "length new = length vids" "\<forall>x\<in>set new. videoSection x = ''Default Section''"
    using upload_videos_default_sections [OF uv0] by blast
  have vids: "vids = lecture_files items"
    using v client_create_form_videos [OF assms(1)] by (simp add: upload_req_of_form_def split: list.splits)
  have m: "mset (map videoSection (courseData c)) = mset (map videoSection its)"
    by (rule finish_upload_course_sections [OF fin])
  then have "set (map videoSection (courseData c)) = set (map videoSection its)" by (rule mset_eq_setD)
  then have "\<forall>y\<in>set (map videoSection (courseData c)). y = ''Default Section''"
    using new(1,3) by simp
  then have "replicate (length (map videoSection (courseData c))) ''Default Section'' = map videoSection (courseData c)"
    by (rule replicate_length_same)
  then have A: "map videoSection (courseData c) = replicate (length (courseData c)) ''Default Section''" by simp
  have "length (courseData c) = length its" using m by (metis length_map size_mset)
  then have B: "length (courseData c) = length (filter (\<lambda>l. lc_video_file l \<noteq> None) items)"
    using new(1,2) vids length_lecture_files by simp
  from A B show ?thesis ..
qed

theorem client_create_drops_lecture_metadata_witness:
  "map videoSection (courseData (projr (fst (upload_course demo_env
      (upload_req_of_form 10 (the (client_create_form False demo_info [] [] demo_lectures))) demo_world))))
   = [''Default Section'', ''Default Section'']"
proof -
  let ?fm = "the (client_create_form False demo_info [] [] demo_lectures)"
  let ?u = "upload_course demo_env (upload_req_of_form 10 ?fm) demo_world"
  have fm: "client_create_form False demo_info [] [] demo_lectures = Some ?fm"
    by (simp add: client_create_form_def demo_info_def)
  have "isl (fst ?u) = False" by code_simp
  then have u: "?u = (Inr (projr (fst ?u)), snd ?u)" by (metis prod.collapse sum.collapse(2))
  have two: "length (filter (\<lambda>l. lc_video_file l \<noteq> None) demo_lectures) = Suc (Suc 0)"
    by (simp add: demo_lectures_def new_lecture_def)
  note t = client_create_drops_lecture_metadata [OF fm u]
  show ?thesis using t [THEN conjunct1] unfolding t [THEN conjunct2] two by (simp only: replicate_Suc replicate_0)
qed


lemma show_nat_digit: "n < 10 \<Longrightarrow> show_nat n = [char_of (48 + n)]"
  by (subst show_nat.simps) simp

subsection \<open>The editor\<close>

lemma update_item_frame [simp]:
  "ed_to_delete (update_item i f st) = ed_to_delete st"
  "length (ed_items (update_item i f st)) = length (ed_items st)"
  by (simp_all add: update_item_def)

lemma update_item_empty [simp]: "ed_items st = [] \<Longrightarrow> update_item i f st = st"
  by (simp add: update_item_def)

lemma update_item_ids:
  assumes "\<And>l. lc_id (f l) = lc_id l"
  shows "map lc_id (ed_items (update_item i f st)) = map lc_id (ed_items st)"
  using assms by (auto intro!: nth_equalityI simp: update_item_def nth_list_update)

lemma update_item_ids_ok:
  "(\<And>l. lc_id (f l) = lc_id l) \<Longrightarrow> ids_ok st \<Longrightarrow> ids_ok (update_item i f st)"
  by (simp add: ids_ok_def update_item_ids)

lemma update_link_id [simp]: "lc_id (update_link j g l) = lc_id l"
  by (simp add: update_link_def)

lemma js_splice1_map: "map f (js_splice1 xs i) = js_splice1 (map f xs) i"
  by (simp add: js_splice1_def take_map drop_map)

lemma ids_ok_upd [simp]:
  "ids_ok (st\<lparr>ed_collapsed := c\<rparr>) = ids_ok st" "ids_ok (st\<lparr>ed_active := n\<rparr>) = ids_ok st"
  "ids_ok (st\<lparr>ed_toasts := ts\<rparr>) = ids_ok st" "ids_ok (st\<lparr>ed_submits := ss\<rparr>) = ids_ok st"
  "ids_ok (st\<lparr>ed_active_section := k\<rparr>) = ids_ok st"
  by (simp_all add: ids_ok_def)

lemma distinct_drop_middle: "distinct (a @ b @ c @ e) \<Longrightarrow> distinct (a @ b @ e)"
  by auto

lemma distinct_swap_middle: "distinct (a @ b @ c @ e) \<Longrightarrow> distinct (a @ c @ b @ e)"
  by auto

lemma remove_video_ids_ok:
  assumes "ids_ok st" and "i < length (ed_items st)"
  shows "ids_ok (handle_remove_video i (lc_id (ed_items st ! i)) st)"
proof -
  let ?L = "map lc_id (ed_items st)" and ?D = "ed_to_delete st" and ?x = "lc_id (ed_items st ! i)"
  let ?nz = "filter (\<lambda>x. x \<noteq> [])"
  let ?st = "handle_remove_video i ?x st"
  have i: "i < length ?L" using assms(2) by simp
  have L: "?L = take i ?L @ ?x # drop (Suc i) ?L" using id_take_nth_drop [OF i] unfolding nth_map [OF assms(2)] .
  have d: "distinct (?D @ ?nz (take i ?L) @ ?nz [?x] @ ?nz (drop (Suc i) ?L))" "[] \<notin> set ?D"
    using assms(1) L unfolding ids_ok_def by (metis append.assoc append_Cons filter_append self_append_conv2)+
  have items: "map lc_id (ed_items ?st) = take i ?L @ drop (Suc i) ?L"
    by (simp add: handle_remove_video_def js_splice1_def take_map drop_map)
  have dels: "ed_to_delete ?st = ?D @ (if ?x \<noteq> [] \<and> ed_is_edit st then [?x] else [])"
    by (simp add: handle_remove_video_def)
  show ?thesis
  proof (cases "?x \<noteq> [] \<and> ed_is_edit st")
    case True
    have dist: "distinct (?D @ ?nz [?x] @ ?nz (take i ?L) @ ?nz (drop (Suc i) ?L))"
      using distinct_swap_middle [OF d(1)] .
    have eq: "(?D @ [?x]) @ ?nz (take i ?L @ drop (Suc i) ?L) = ?D @ ?nz [?x] @ ?nz (take i ?L) @ ?nz (drop (Suc i) ?L)"
      using True by simp
    show ?thesis unfolding ids_ok_def items dels if_P [OF True] eq
      using dist d(2) True by (auto simp del: distinct_append)
  next
    case False
    have "distinct (?D @ ?nz (take i ?L) @ ?nz (drop (Suc i) ?L))" using distinct_drop_middle [OF d(1)] .
    moreover have "?D @ ?nz (take i ?L @ drop (Suc i) ?L) = ?D @ ?nz (take i ?L) @ ?nz (drop (Suc i) ?L)" by simp
    ultimately show ?thesis unfolding ids_ok_def items dels if_not_P [OF False] using d(2) by (simp del: distinct_append)
  qed
qed

lemma ids_ok_new_lecture:
  "ids_ok (st\<lparr>ed_items := ed_items st @ [new_lecture sec]\<rparr>) = ids_ok st"
  by (simp add: ids_ok_def new_lecture_def)

lemma editor_step_ids_ok:
  assumes "ids_ok st"
  shows "ids_ok (editor_step a st)"
proof (cases a)
  case (RemoveVideo i)
  then show ?thesis using assms remove_video_ids_ok by simp
next
  case NewContent
  then show ?thesis using assms
    by (simp add: new_content_handler_def Let_def ids_ok_new_lecture)
next
  case AddSection
  then show ?thesis using assms by (auto simp: add_new_section_def ids_ok_def new_lecture_def)
qed (use assms in \<open>simp_all add: update_item_ids_ok handle_collapse_toggle_def handle_remove_link_def
       handle_add_link_def handle_video_change_def prev_button_def handle_options_def\<close>)

lemma editor_step_empty: "ed_items st = [] \<Longrightarrow> ed_items (editor_step a st) = []"
  by (cases a) (simp_all add: handle_collapse_toggle_def handle_remove_link_def handle_add_link_def
      handle_video_change_def add_new_section_def last_incomplete_def prev_button_def handle_options_def)

lemma run_editor_Cons [simp]: "run_editor (a # acts) st = run_editor acts (editor_step a st)"
  by (simp add: run_editor_def)

lemma run_editor_Nil [simp]: "run_editor [] st = st"
  by (simp add: run_editor_def)

text \<open>Claim C19: the ids scheduled for deletion stay distinct, non-empty and disjoint from the
  ids of the lectures the editor still shows.\<close>

theorem editor_delete_ids_ok:
  assumes "ids_ok st"
  shows "ids_ok (run_editor acts st)"
  using assms by (induction acts arbitrary: st) (simp_all add: editor_step_ids_ok)

text \<open>Completing the last lecture and adding a section appends a lecture.\<close>

lemma update_item_last_eq:
  assumes "ed_items st \<noteq> []" and "k = length (ed_items st) - 1"
  shows "ed_items (update_item k f st) = butlast (ed_items st) @ [f (last (ed_items st))]"
proof -
  obtain ys y where xs: "ed_items st = ys @ [y]" using assms(1) by (metis rev_exhaust)
  then show ?thesis using assms(2) by (simp add: update_item_def list_update_append)
qed

lemma complete_then_add_section:
  assumes "ed_items st \<noteq> []"
  shows "length (ed_items (run_editor [SetTitle (length (ed_items st) - 1) ''t'', SetDescription (length (ed_items st) - 1) ''d'',
                                     SetUrl (length (ed_items st) - 1) ''u'', AddSection] st)) = Suc (length (ed_items st))"
  using assms by (simp add: update_item_last_eq add_new_section_def last_incomplete_def lecture_incomplete_def)

text \<open>Claim C20: from an editor with lectures, some sequence of actions adds a lecture; from an
  editor without lectures, none does.\<close>

theorem editor_can_add_iff_nonempty:
  "(\<exists>acts. length (ed_items st) < length (ed_items (run_editor acts st))) \<longleftrightarrow> ed_items st \<noteq> []"
proof
  assume "\<exists>acts. length (ed_items st) < length (ed_items (run_editor acts st))"
  then obtain acts where a: "length (ed_items st) < length (ed_items (run_editor acts st))" by blast
  have "ed_items st = [] \<Longrightarrow> ed_items (run_editor acts st) = []"
    by (induction acts arbitrary: st) (simp_all add: editor_step_empty)
  with a show "ed_items st \<noteq> []" by auto
next
  assume "ed_items st \<noteq> []"
  from complete_then_add_section [OF this] show "\<exists>acts. length (ed_items st) < length (ed_items (run_editor acts st))"
    by (metis lessI)
qed

lemma edit_parts_filter:
  "concat (map edit_lecture_parts xs) = concat (map edit_lecture_parts (filter (\<lambda>l. lc_video_file l \<noteq> None) xs))"
  by (induction xs) (auto simp: edit_lecture_parts_def)

text \<open>Claim C39: the edit request depends on the lectures with a new file only.\<close>

theorem client_edit_ignores_existing_lectures:
  assumes "filter (\<lambda>l. lc_video_file l \<noteq> None) xs = filter (\<lambda>l. lc_video_file l \<noteq> None) ys"
  shows "client_edit_form ci xs dels = client_edit_form ci ys dels"
  using assms by (simp add: client_edit_form_def edit_parts_filter [of xs] edit_parts_filter [of ys])

lemma edit_lecture_parts_fields:
  "form_fields (edit_lecture_parts l) ''videoDescriptions'' = (case lc_video_file l of Some f \<Rightarrow> [lc_description l] | None \<Rightarrow> [])"
  "form_fields (edit_lecture_parts l) ''videoSections'' = (case lc_video_file l of Some f \<Rightarrow> [lc_section l] | None \<Rightarrow> [])"
  "form_files (edit_lecture_parts l) ''video'' = (case lc_video_file l of Some f \<Rightarrow> [f] | None \<Rightarrow> [])"
  by (simp_all add: edit_lecture_parts_def split: option.split)

lemma array_from_body_field [simp]: "array_from_form_data (body_field fm k) = filter (\<lambda>v. v \<noteq> []) (form_fields fm k)"
  by (simp add: body_field_def split: list.split)

lemma form_fields_map_const:
  "form_fields (map (\<lambda>d. (k', PField d)) ds) k = (if k' = k then ds else [])"
  "form_files (map (\<lambda>d. (k', PField d)) ds) k = []"
  by (induction ds) auto

lemma edit_parts_read:
  "form_files (concat (map edit_lecture_parts items)) ''video'' = lecture_files items"
  "form_fields (concat (map edit_lecture_parts items)) ''videoDescriptions'' = map lc_description (filter (\<lambda>l. lc_video_file l \<noteq> None) items)"
  "form_fields (concat (map edit_lecture_parts items)) ''videoSections'' = map lc_section (filter (\<lambda>l. lc_video_file l \<noteq> None) items)"
  by (induction items) (auto simp: lecture_files_def edit_lecture_parts_fields split: option.split)

text \<open>Claim C18: what \<open>editCourse\<close> reads back from the edit page's request: the new files
  in order, and the non-empty descriptions and sections of the lectures with a file, so an
  empty description or section moves every later one to an earlier video.\<close>

theorem client_edit_request_read_back:
  "er_videos (edit_req_of_form cid (client_edit_form ci items dels)) =
     (if lecture_files items = [] then None else Some (lecture_files items)) \<and>
   array_from_form_data (er_descriptions (edit_req_of_form cid (client_edit_form ci items dels))) =
     filter (\<lambda>d. d \<noteq> []) (map lc_description (filter (\<lambda>l. lc_video_file l \<noteq> None) items)) \<and>
   array_from_form_data (er_sections (edit_req_of_form cid (client_edit_form ci items dels))) =
     filter (\<lambda>d. d \<noteq> []) (map lc_section (filter (\<lambda>l. lc_video_file l \<noteq> None) items))"
  by (simp add: client_edit_form_def info_fields_def edit_req_of_form_def edit_parts_read form_fields_map_const
      del: form_fields_concat form_files_concat split: thumb.split list.split)


theorem editor_delete_ids_ok_witness:
  "ids_ok (mount_editor [(new_lecture ''S'')\<lparr>lc_id := ''a''\<rparr>, (new_lecture ''S'')\<lparr>lc_id := ''b''\<rparr>] 2 [] True) \<and>
   ids_ok (run_editor [RemoveVideo 0, RemoveVideo 0]
             (mount_editor [(new_lecture ''S'')\<lparr>lc_id := ''a''\<rparr>, (new_lecture ''S'')\<lparr>lc_id := ''b''\<rparr>] 2 [] True)) \<and>
   ed_to_delete (run_editor [RemoveVideo 0, RemoveVideo 0]
             (mount_editor [(new_lecture ''S'')\<lparr>lc_id := ''a''\<rparr>, (new_lecture ''S'')\<lparr>lc_id := ''b''\<rparr>] 2 [] True)) = [''a'', ''b'']"
proof -
  let ?st = "mount_editor [(new_lecture ''S'')\<lparr>lc_id := ''a''\<rparr>, (new_lecture ''S'')\<lparr>lc_id := ''b''\<rparr>] 2 [] True"
  have ok: "ids_ok ?st" by (simp add: ids_ok_def mount_editor_def new_lecture_def)
  have "ed_to_delete (run_editor [RemoveVideo 0, RemoveVideo 0] ?st) = [''a'', ''b'']"
    by (simp add: mount_editor_def handle_remove_video_def js_splice1_def new_lecture_def)
  with ok editor_delete_ids_ok [OF ok, of "[RemoveVideo 0, RemoveVideo 0]"] show ?thesis by simp
qed

theorem editor_can_add_iff_nonempty_witness:
  "\<not> (\<exists>acts. length (ed_items (mount_editor [] 2 [] True)) < length (ed_items (run_editor acts (mount_editor [] 2 [] True)))) \<and>
   (\<exists>acts. length (ed_items (mount_editor [new_lecture ''S''] 2 [] True)) <
            length (ed_items (run_editor acts (mount_editor [new_lecture ''S''] 2 [] True))))"
  using editor_can_add_iff_nonempty [of "mount_editor [] 2 [] True"]
        editor_can_add_iff_nonempty [of "mount_editor [new_lecture ''S''] 2 [] True"]
  by (simp add: mount_editor_def)

theorem client_edit_ignores_existing_lectures_witness:
  "client_edit_form demo_info [(new_lecture ''Basics'')\<lparr>lc_title := ''Renamed''\<rparr>] [] =
   client_edit_form demo_info [new_lecture ''Basics''] []"
  by (rule client_edit_ignores_existing_lectures) (simp add: new_lecture_def)

end
