(* ===== verification/Routes.thy ===== *)
theory Routes
  imports Course_Prelude
begin

text \<open>
  The HTTP surface of the server: the routers of \<open>src/server/routes/\<close>
  (\<open>user.route.ts\<close>, \<open>course.route.ts\<close>, \<open>order.route.ts\<close>) mounted under
  \<open>/api/v1\<close> by \<open>src/server/app.ts\<close>, with Express's matching: the first route of
  the routers, in mounting order, whose method and path pattern match handles the request;
  its middleware runs first and a rejecting middleware ends the request. The
  \<open>isAuthenticated\<close> and \<open>authorizeRoles\<close> middleware of \<open>src/server/middleware/auth\<close>
  is not in the repository, so what a guard admits is a parameter \<open>g\<close> of the
  dispatcher; the notification, layout and analytics routers \<open>app.ts\<close> mounts are not in
  the repository either and are parameters too (\<open>nl\<close> between the course and order
  routers, \<open>an\<close> after them).
\<close>

section \<open>Route tables\<close>

datatype http_method = GET | POST | PUT | DELETE

datatype guard = IsAuthenticated | AuthorizeRoles "string list"

record route =
  rt_method :: http_method
  rt_path :: string
  rt_guards :: "guard list"
  rt_handler :: string

definition rt :: "http_method \<Rightarrow> string \<Rightarrow> guard list \<Rightarrow> string \<Rightarrow> route" where
  "rt m p gs h = \<lparr>rt_method = m, rt_path = p, rt_guards = gs, rt_handler = h\<rparr>"

abbreviation admin_only :: "guard list" where
  "admin_only \<equiv> [IsAuthenticated, AuthorizeRoles [''admin'']]"

definition user_routes :: "route list" where
  "user_routes =
     [rt POST ''/registration'' [] ''registrationUser'', rt POST ''/activate-user'' [] ''activateUser'',
      rt POST ''/login'' [] ''loginUser'', rt GET ''/logout'' [IsAuthenticated] ''logoutUser'',
      rt GET ''/me'' [IsAuthenticated] ''getUserInfo'', rt POST ''/social-auth'' [] ''socialAuth'',
      rt PUT ''/update-user-info'' [IsAuthenticated] ''updateUserInfo'',
      rt PUT ''/update-user-password'' [IsAuthenticated] ''updatePassword'',
      rt PUT ''/update-user-avatar'' [IsAuthenticated] ''updateProfilePicture'',
      rt GET ''/get-users'' admin_only ''getAllUsers'', rt PUT ''/update-user'' admin_only ''updateUserRole'',
      rt DELETE ''/delete-user/:id'' admin_only ''deleteUser'',
      rt POST ''/forget-password'' [] ''forgetPassword'', rt POST ''/verify-reset-code'' [] ''verifyResetCode'',
      rt POST ''/reset-password'' [] ''resetPassword'']"

text \<open>The course router; the guards of \<open>create-course\<close> are commented out in the source.\<close>

definition course_routes :: "route list" where
  "course_routes =
     [rt POST ''/create-course'' [] ''uploadCourse'',
      rt PUT ''/edit-course/:courseId'' admin_only ''editCourse'',
      rt GET ''/get-course/:id'' [] ''getSingleCourse'', rt GET ''/get-courses'' [] ''getAllCourses'',
      rt GET ''/get-course-content/:id'' [IsAuthenticated] ''getCourseByUser'',
      rt PUT ''/add-question'' [IsAuthenticated] ''addQuestion'', rt PUT ''/add-answer'' [IsAuthenticated] ''addAnswer'',
      rt PUT ''/add-review/:id'' [IsAuthenticated] ''addReview'',
      rt PUT ''/add-reply'' admin_only ''addReplyToReview'',
      rt GET ''/get-admin-courses'' admin_only ''getAdminAllCourses'',
      rt DELETE ''/delete-course/:id'' admin_only ''deleteCourse'',
      rt POST ''/getVdoCipherOTP'' [] ''generateVideoUrl'', rt POST ''/ai/:id'' [] ''getTranscript'',
      rt GET ''/clear-cache/:id'' [] ''clearCourseCache'',
      rt GET ''/content/:id'' [IsAuthenticated] ''getCourseContent'']"

definition order_routes :: "route list" where
  "order_routes =
     [rt POST ''/create-order'' [IsAuthenticated] ''createOrder'',
      rt GET ''/get-orders'' admin_only ''getAllOrders'',
      rt GET ''/get-user-orders'' [IsAuthenticated] ''getUserOrders'',
      rt GET ''/get-order/:id'' [IsAuthenticated] ''getOrderById'',
      rt GET ''/orders-statistics'' admin_only ''checkOrdersCount'',
      rt GET ''/payment/stripepublishablekey'' [] ''sendStripePublishableKey'',
      rt POST ''/payment'' [IsAuthenticated] ''newPayment'',
      rt GET ''/check-access/:courseId'' [IsAuthenticated] ''checkCourseAccess'',
      rt POST ''/fix-missing-courses'' [IsAuthenticated] ''fixMissingCourses'']"

section \<open>Path matching\<close>

text \<open>A path split at \<open>/\<close>: \<open>/a/b\<close> gives \<open>['''', ''a'', ''b'']\<close>.\<close>

fun split_on :: "char \<Rightarrow> string \<Rightarrow> string list" where
  "split_on c [] = [[]]"
| "split_on c (x # xs) =
     (if x = c then [] # split_on c xs
      else (case split_on c xs of y # ys \<Rightarrow> (x # y) # ys | [] \<Rightarrow> [[x]]))"

definition ascii_lower :: "char \<Rightarrow> char" where
  "ascii_lower c = (if CHR ''A'' \<le> c \<and> c \<le> CHR ''Z'' then char_of (of_char c + (32::nat)) else c)"

text \<open>A pattern segment \<open>:name\<close> matches any non-empty segment; literal segments match
  ignoring case (Express routers are case-insensitive by default).\<close>

definition seg_match :: "string \<Rightarrow> string \<Rightarrow> bool" where
  "seg_match p s = (case p of CHR '':'' # _ \<Rightarrow> s \<noteq> [] | _ \<Rightarrow> map ascii_lower p = map ascii_lower s)"

text \<open>Non-strict routing: one trailing slash is ignored.\<close>

definition path_segs :: "string \<Rightarrow> string list" where
  "path_segs p = (let ss = split_on CHR ''/'' p in if 1 < length ss \<and> last ss = [] then butlast ss else ss)"

definition path_match :: "string \<Rightarrow> string \<Rightarrow> bool" where
  "path_match pat p = list_all2 seg_match (path_segs pat) (path_segs p)"

text \<open>\<open>app.use("/api/v1", ...)\<close>: the routers see the rest of a path under the prefix.\<close>

definition mount_strip :: "string \<Rightarrow> string option" where
  "mount_strip p =
     (if take 7 (map ascii_lower p) = ''/api/v1'' \<and> (length p = 7 \<or> p ! 7 = CHR ''/'')
      then Some (if length p = 7 then ''/'' else drop 7 p) else None)"

section \<open>Dispatch\<close>

datatype dispatch_result = Handler string | Rejected guard | NotFound

text \<open>The middleware chain of a route: the first guard that does not admit the session
  ends the request.\<close>

fun run_guards :: "(guard \<Rightarrow> 's \<Rightarrow> bool) \<Rightarrow> 's \<Rightarrow> guard list \<Rightarrow> string \<Rightarrow> dispatch_result" where
  "run_guards g s [] h = Handler h"
| "run_guards g s (x # xs) h = (if g x s then run_guards g s xs h else Rejected x)"

definition api_routes :: "route list \<Rightarrow> route list \<Rightarrow> route list" where
  "api_routes nl an = user_routes @ course_routes @ nl @ order_routes @ an"

text \<open>The whole application: the API routers, then \<open>GET /test\<close>, then the catch-all
  \<open>404\<close>.\<close>

definition dispatch ::
  "(guard \<Rightarrow> 's \<Rightarrow> bool) \<Rightarrow> 's \<Rightarrow> route list \<Rightarrow> route list \<Rightarrow> http_method \<Rightarrow> string \<Rightarrow> dispatch_result" where
  "dispatch g s nl an m p =
     (case (case mount_strip p of
              Some q \<Rightarrow> find (\<lambda>r. rt_method r = m \<and> path_match (rt_path r) q) (api_routes nl an)
            | None \<Rightarrow> None) of
        Some r \<Rightarrow> run_guards g s (rt_guards r) (rt_handler r)
      | None \<Rightarrow> (if m = GET \<and> path_match ''/test'' p then Handler ''test'' else NotFound))"

section \<open>Lemmas\<close>

lemma run_guards_Handler:
  "run_guards g s gs h = Handler h' \<Longrightarrow> h' = h \<and> (\<forall>x\<in>set gs. g x s)"
  by (induction gs) (auto split: if_splits)

lemma find_SomeD: "find P xs = Some x \<Longrightarrow> x \<in> set xs \<and> P x"
  by (induction xs) (auto split: if_splits)

lemma dispatch_Handler:
  assumes "dispatch g s nl an m p = Handler h"
  shows "h = ''test'' \<or> (\<exists>r\<in>set (api_routes nl an). rt_handler r = h \<and> rt_method r = m \<and> (\<forall>x\<in>set (rt_guards r). g x s))"
proof -
  define F where "F = (case mount_strip p of
                         Some q \<Rightarrow> find (\<lambda>r. rt_method r = m \<and> path_match (rt_path r) q) (api_routes nl an)
                       | None \<Rightarrow> None)"
  have d: "dispatch g s nl an m p = (case F of Some r \<Rightarrow> run_guards g s (rt_guards r) (rt_handler r)
              | None \<Rightarrow> (if m = GET \<and> path_match ''/test'' p then Handler ''test'' else NotFound))"
    unfolding dispatch_def F_def ..
  show ?thesis
  proof (cases F)
    case None
    with d have "dispatch g s nl an m p = (if m = GET \<and> path_match ''/test'' p then Handler ''test'' else NotFound)" by simp
    with assms show ?thesis by (cases "m = GET \<and> path_match ''/test'' p") auto
  next
    case (Some r)
    then obtain q where "find (\<lambda>r. rt_method r = m \<and> path_match (rt_path r) q) (api_routes nl an) = Some r"
      unfolding F_def by (cases "mount_strip p") auto
    from find_SomeD [OF this] have r: "r \<in> set (api_routes nl an)" "rt_method r = m" by auto
    from assms d Some have "run_guards g s (rt_guards r) (rt_handler r) = Handler h" by simp
    from run_guards_Handler [OF this] have "rt_handler r = h" "\<forall>x\<in>set (rt_guards r). g x s" by auto
    with r show ?thesis by (intro disjI2 bexI [of _ r]) auto
  qed
qed

lemma find_append_Some: "find P xs = Some x \<Longrightarrow> find P (xs @ ys) = Some x"
  by (induction xs) (auto split: if_splits)

lemma api_routes_split: "api_routes nl an = (user_routes @ course_routes) @ nl @ order_routes @ an"
  by (simp add: api_routes_def)

lemma mount_create_course: "mount_strip ''/api/v1/create-course'' = Some ''/create-course''"
  by code_simp

lemma find_create_course:
  "find (\<lambda>r. rt_method r = POST \<and> path_match (rt_path r) ''/create-course'') (user_routes @ course_routes) =
   Some (rt POST ''/create-course'' [] ''uploadCourse'')"
  by code_simp

section \<open>Properties\<close>

text \<open>Claim C35: \<open>POST /api/v1/create-course\<close> reaches \<open>uploadCourse\<close> whatever the session and whatever the guards admit: creating a course needs no login and no admin role.\<close>

theorem create_course_open:
  "dispatch g s nl an POST ''/api/v1/create-course'' = Handler ''uploadCourse''"
proof -
  have "find (\<lambda>r. rt_method r = POST \<and> path_match (rt_path r) ''/create-course'') (api_routes nl an) =
        Some (rt POST ''/create-course'' [] ''uploadCourse'')"
    unfolding api_routes_split by (rule find_append_Some [OF find_create_course])
  then show ?thesis by (simp add: dispatch_def mount_create_course rt_def)
qed

lemma unguarded_handlers:
  "r \<in> set (user_routes @ course_routes @ order_routes) \<Longrightarrow> rt_guards r = [] \<Longrightarrow>
   rt_handler r \<in> {''registrationUser'', ''activateUser'', ''loginUser'', ''socialAuth'', ''forgetPassword'',
     ''verifyResetCode'', ''resetPassword'', ''uploadCourse'', ''getSingleCourse'', ''getAllCourses'',
     ''generateVideoUrl'', ''getTranscript'', ''clearCourseCache'', ''sendStripePublishableKey''}"
  unfolding user_routes_def course_routes_def order_routes_def rt_def
  by (simp, elim disjE) simp_all

text \<open>Claim C38: a session that no guard admits reaches only \<open>GET /test\<close> and the unguarded routes: registration, activation, login, social login, the password reset, \<open>uploadCourse\<close>, the course reads, the video OTP, the transcript search, \<open>clearCourseCache\<close> and the Stripe key.\<close>

theorem anonymous_reachable_handlers:
  assumes "dispatch (\<lambda>_ _. False) s nl an m p = Handler h"
    and "h \<notin> rt_handler ` set (nl @ an)"
  shows "h \<in> {''test'', ''registrationUser'', ''activateUser'', ''loginUser'', ''socialAuth'', ''forgetPassword'',
     ''verifyResetCode'', ''resetPassword'', ''uploadCourse'', ''getSingleCourse'', ''getAllCourses'',
     ''generateVideoUrl'', ''getTranscript'', ''clearCourseCache'', ''sendStripePublishableKey''}"
proof -
  from dispatch_Handler [OF assms(1)] consider "h = ''test''"
    | r where "r \<in> set (api_routes nl an)" "rt_handler r = h" "\<forall>x\<in>set (rt_guards r). False"
    by blast
  then show ?thesis
  proof cases
    case 2
    with assms(2) have "r \<in> set (user_routes @ course_routes @ order_routes)" by (auto simp: api_routes_def)
    moreover have "rt_guards r = []" using 2(3) by (cases "rt_guards r") auto
    ultimately show ?thesis using unguarded_handlers 2(2) by blast
  qed simp
qed



lemma admin_routes_guarded:
  "r \<in> set (user_routes @ course_routes @ order_routes) \<Longrightarrow>
   rt_handler r \<in> {''editCourse'', ''deleteCourse'', ''addReplyToReview'', ''getAdminAllCourses'', ''getAllOrders'',
                    ''checkOrdersCount'', ''getAllUsers'', ''updateUserRole'', ''deleteUser''} \<Longrightarrow>
   AuthorizeRoles [''admin''] \<in> set (rt_guards r) \<and> IsAuthenticated \<in> set (rt_guards r)"
  unfolding user_routes_def course_routes_def order_routes_def rt_def
  by (simp, elim disjE) simp_all

text \<open>Claim C37: a request that reaches one of the admin handlers of the three routers (editing, deleting and listing courses, replying to reviews, the order statistics, the user administration) has passed both \<open>isAuthenticated\<close> and \<open>authorizeRoles("admin")\<close>, unless an unknown router mounted in between exposes the same handler.\<close>

theorem admin_handlers_need_admin:
  assumes "dispatch g s nl an m p = Handler h"
    and "h \<in> {''editCourse'', ''deleteCourse'', ''addReplyToReview'', ''getAdminAllCourses'', ''getAllOrders'',
               ''checkOrdersCount'', ''getAllUsers'', ''updateUserRole'', ''deleteUser''}"
    and "h \<notin> rt_handler ` set (nl @ an)"
  shows "g IsAuthenticated s \<and> g (AuthorizeRoles [''admin'']) s"
proof -
  from dispatch_Handler [OF assms(1)] consider "h = ''test''"
    | r where "r \<in> set (api_routes nl an)" "rt_handler r = h" "\<forall>x\<in>set (rt_guards r). g x s"
    by blast
  then show ?thesis
  proof cases
    case 2
    with assms(3) have "r \<in> set (user_routes @ course_routes @ order_routes)" by (auto simp: api_routes_def)
    from admin_routes_guarded [OF this] 2(2) assms(2) 2(3) show ?thesis by auto
  qed (use assms(2) in simp)
qed

theorem admin_handlers_need_admin_witness:
  "dispatch (\<lambda>x s. x = IsAuthenticated \<or> s) True [] [] DELETE ''/api/v1/delete-course/42'' = Handler ''deleteCourse'' \<and>
   dispatch (\<lambda>x s. x = IsAuthenticated \<or> s) False [] [] DELETE ''/api/v1/delete-course/42'' \<noteq> Handler ''deleteCourse''"
proof -
  have "dispatch (\<lambda>x s. x = IsAuthenticated \<or> s) True [] [] DELETE ''/api/v1/delete-course/42'' = Handler ''deleteCourse''"
    by code_simp
  moreover have "dispatch (\<lambda>x s. x = IsAuthenticated \<or> s) False [] [] DELETE ''/api/v1/delete-course/42'' \<noteq> Handler ''deleteCourse''"
  proof
    assume "dispatch (\<lambda>x s. x = IsAuthenticated \<or> s) False [] [] DELETE ''/api/v1/delete-course/42'' = Handler ''deleteCourse''"
    from admin_handlers_need_admin [OF this] show False by simp
  qed
  ultimately show ?thesis ..
qed

theorem anonymous_reachable_handlers_witness:
  "dispatch (\<lambda>_ _. False) () [] [] GET ''/api/v1/clear-cache/abc'' = Handler ''clearCourseCache'' \<and>
   ''clearCourseCache'' \<in> {''test'', ''registrationUser'', ''activateUser'', ''loginUser'', ''socialAuth'', ''forgetPassword'',
     ''verifyResetCode'', ''resetPassword'', ''uploadCourse'', ''getSingleCourse'', ''getAllCourses'',
     ''generateVideoUrl'', ''getTranscript'', ''clearCourseCache'', ''sendStripePublishableKey''}"
proof -
  have d: "dispatch (\<lambda>_ _. False) () [] [] GET ''/api/v1/clear-cache/abc'' = Handler ''clearCourseCache''" by code_simp
  from anonymous_reachable_handlers [OF d] d show ?thesis by simp
qed


end
