(* ===== verification/Spec2Isabelle.thy ===== *)
theory Spec2Isabelle
  imports Upload Duration Organizer Create Edit Delete Reviews QA Reads Orders Listing Video Layout Client_Editor Routes
begin

text \<open>
  \<^bold>\<open>The server side of TechElevators.\<close>
  This development models the server-side request handlers of the e-learning platform:
  the course pipeline of \<open>src/server/controller/course.controller.ts\<close> with the schema
  of \<open>src/server/models/course.model.ts\<close>, the reviews, questions and answers on a
  course, the orders of \<open>src/server/controller/order.controller.ts\<close> and
  \<open>src/server/services/order.service.ts\<close>, and the site layout of
  \<open>src/server/controller/layout.controller.ts\<close>. A request to create a course uploads a
  thumbnail and its videos to Cloudinary (the media service), resolves each video's
  duration, orders the items by section, writes the course to MongoDB (the store) and
  caches it in Redis. Edits and deletions change the store, the remote assets and the
  cache; the read endpoints serve the cache or the store; an order enrols a user in a
  course, which the content endpoint then checks. The model is a shallow embedding:
  every handler is a HOL function of the request, an environment that fixes what the
  outside services answer (\<^typ>\<open>env\<close>), and a world (\<^typ>\<open>world\<close>) holding the
  store, the cache, the remote assets, the log of remote calls, the users, the orders,
  the notifications, the attachment files and the mails sent. A rejected request is an
  \<open>Inl\<close> of the handler's result, with the world as the handler leaves it.

  \<^medskip>\<^bold>\<open>Theories and what they model.\<close>
  \<^item> \<open>Course_Prelude\<close>: the JavaScript semantics the handlers rely on:
    \<open>Math.round\<close> (\<^const>\<open>js_round\<close>), \<open>localeCompare\<close> as code-point order
    (\<^const>\<open>locale_compare\<close>), \<open>findIndex\<close> and \<open>splice\<close>,
    \<open>s || d\<close> on strings, counters kept in object literals, whose missing keys
    read the members of \<open>Object.prototype\<close> (\<^const>\<open>count_next\<close>,
    \<^const>\<open>count_store\<close>, \<^const>\<open>js_count_str\<close>), and
    \<open>getArrayFromFormData\<close> (\<^const>\<open>array_from_form_data\<close>).
  \<^item> \<open>Course_Data\<close>: \<open>ICourseData\<close> and \<open>ICourse\<close> as records, and the strict
    schema write that drops the undeclared fields \<open>videoPublicId\<close> and
    \<open>storageType\<close> (\<^const>\<open>persist_item\<close>).
  \<^item> \<open>Upload\<close>: \<open>uploadVideoWithRetry\<close> (lines 67--116) as \<^const>\<open>upload_loop\<close>, a
    terminating recursion on \<open>maxRetries - attempts\<close>; the service is a function of
    the attempt number. Lemmas: the result equals the reference
    \<^const>\<open>upload_reference\<close> (first successful attempt, else the last error), the
    attempt bound and the back-off schedule \<open>1000 * 2^(j-1)\<close> ms.
  \<^item> \<open>Duration\<close>: \<open>getVideoDuration\<close>, \<open>getVideoDurationFromCloudinary\<close>,
    \<open>getVideoDurationAlternative\<close> and \<open>getVideoDurationWithFallbacks\<close>
    (lines 118--336). The Cloudinary metadata loop is \<^const>\<open>cloud_loop\<close> with its
    five attempts as structural recursion; probes and API answers are inputs. Lemmas: the
    result is never negative, is 0 exactly when no strategy gives a positive value, a
    positive local result short-circuits, the server never plays the video back.
  \<^item> \<open>Organizer\<close>: both sort comparators with \<open>extractNumber\<close>
    (\<^const>\<open>compare_upload\<close>, \<^const>\<open>compare_edit\<close>), \<open>Array.prototype.sort\<close>
    as the stable insertion sort \<^const>\<open>js_sort\<close> (exact for comparators that are
    consistent; the comparators are not transitive on titles that mix \<open>Video N\<close> and
    other text, and there the order is implementation-defined), and the renumbering and
    clean-up pass of \<open>editCourse\<close> (\<^const>\<open>renumber_items\<close>). Lemmas: the sorts are
    permutations sorted by section; when every title carries a \<open>Video N\<close> number the
    edit sort is the stable sort by (section, number), so every stable sort, V8's
    included, gives it; the renumbering gives positions within the section.
  \<^item> \<open>World\<close>: the shared state and environment (MongoDB writes succeed or fail
    by \<open>db_ok\<close>; the \<open>n\<close>-th \<open>findById\<close> of an \<open>editCourse\<close> request returns or
    throws by \<open>db_find_ok n\<close>; fresh ObjectIds are a counter printed as 24 digits,
    a device of the model for the driver's id generation), \<open>deleteFromCloudinary\<close>,
    \<open>checkCloudinaryStorage\<close>, \<open>clearAllCacheForCourse\<close> with the Redis key space
    (seven course keys and the \<open>allCourses:*\<close> glob), and
    \<open>NotificationModel.create\<close> (\<^const>\<open>notify\<close>), which the review, question and
    order handlers share. Frame lemmas (collection \<open>frame_simps\<close>) say which fields
    each shared operation leaves alone.
  \<^item> \<open>Create\<close>: \<open>uploadCourse\<close> (lines 455--728): name, storage, thumbnail, the
    upload loop with its clean-up (\<^const>\<open>upload_videos\<close>), sort, database write and
    cache write (\<^const>\<open>upload_course\<close>). Lemmas: a failed upload leaves no course and
    destroys the batch's videos; a successful create stores a sorted course; no listing
    is invalidated; the thumbnail leaks on the 400 for a request without videos.
  \<^item> \<open>Edit\<close> and \<open>Delete\<close>: \<open>editCourse\<close> (lines 730--1013) with its concurrent
    deletions ordered by the environment's latencies, \<open>deleteCourse\<close>,
    \<open>deleteVideoFromCourse\<close> and \<open>clearCourseCache\<close>. The edit's two reads are
    modelled: the initial \<open>findById\<close> (line 745) and the final verification read
    (line 978), which follows the committed \<open>findByIdAndUpdate\<close>. Lemmas: a failed
    edit commits nothing, except when that final read throws, when the update is stored
    and the answer is a 500; the cache is cleared after a successful edit; no edit or
    deletion destroys a video asset; a failed thumbnail replacement has already destroyed
    the old thumbnail.
  \<^item> \<open>Js_Values\<close>: \<open>trim\<close>, \<open>parseInt\<close>, \<open>String(n)\<close>, \<open>slice\<close>, the JSON values
    with truthiness, property access and \<open>===\<close> (\<^const>\<open>js_truthy\<close>,
    \<^const>\<open>js_get\<close>), and the round trip of \<open>parseInt\<close> over \<open>String\<close>.
  \<^item> \<open>Reviews\<close> and \<open>QA\<close>: the review validator and helper, the attachment store of
    \<open>FileHandler\<close>, the review handlers, and \<open>addQuestion\<close>, \<open>addAnswer\<close> and
    \<open>deleteQuestion\<close>. Lemmas: every review handler keeps \<open>ratings\<close> the average of
    the reviews, pagination partitions the sorted reviews, the sort refines a key sort,
    the average lies in the rating range, review writes touch no other cache key, an
    answer to one's own question still mails, an error is answered after the write.
  \<^item> \<open>Reads\<close>: \<open>getSingleCourse\<close>, \<open>getCourseContent\<close> and \<open>getCourseByUser\<close>;
    lemma: a cached course is served without an access check of the store.
  \<^item> \<open>Orders\<close>: \<open>createOrder\<close> (\<^const>\<open>create_order\<close>, with the enrolment
    \<^const>\<open>enrol_by_course\<close>), the admin and user order reads, the order services and
    the Stripe key endpoint. Lemmas: a paid order of another payment type skips the
    payment check, a free enrolment counts as paid.
  \<^item> \<open>Listing\<close>: \<open>getAllCourses\<close> and \<open>getAdminAllCourses\<close>: \<open>Number(s)\<close>
    (\<^const>\<open>js_number\<close>) on the price parameter, \<open>JSON.stringify\<close> of the query as
    the cache key, the filter (\<^const>\<open>course_matches\<close>) with \<open>strictQuery\<close> and the
    regular-expression engine as parameters, and MongoDB's sort by BSON type order.
    Lemmas: \<open>Number\<close> reads back what \<open>String\<close> prints; the category parameter never
    filters.
  \<^item> \<open>Video\<close>: \<open>generateVideoUrl\<close>, its retry wrapper (\<^const>\<open>retry_loop\<close>,
    equal to a reference), \<open>getTranscript\<close> and the transcript search
    (\<^const>\<open>find_video\<close>), which never finds a video.
  \<^item> \<open>Layout\<close>: the layout store as a list of documents with an id counter,
    \<open>createLayout\<close>, \<open>editLayout\<close> and \<open>getLayoutByType\<close>
    (\<^const>\<open>create_layout\<close>, \<^const>\<open>edit_layout\<close>, \<^const>\<open>get_layout_by_type\<close>).
    Lemmas: no two layouts share a type, a \<open>Blogs\<close> layout cannot be created, an edited
    FAQ is what the next read returns.
  \<^item> \<open>Client_Editor\<close>: the admin lecture editor of the Next.js client
    (\<open>src/Client/app/admin/courses/CourseContent.tsx\<close>) as a state record with one
    function per event handler and a step function \<^const>\<open>editor_step\<close> over a
    datatype of the user's actions; the \<open>FormData\<close> the create and edit pages send
    (\<^const>\<open>client_create_form\<close>, \<^const>\<open>client_edit_form\<close>); and the flat
    \<open>express-fileupload\<close> parse of \<open>src/server/app.ts\<close> that turns a form into the
    \<open>uploadCourse\<close> and \<open>editCourse\<close> requests. Lemmas: the ids scheduled for
    deletion stay distinct and disjoint from the shown lectures; a lecture can be added
    exactly when one is shown; the create page's lecture titles, descriptions and sections
    never reach \<open>uploadCourse\<close>; \<open>editCourse\<close> reads back only the non-empty
    descriptions and sections of new lectures; edits of existing lectures are never sent.
    The pages \<open>components/Admin/Course/CreateCourse.tsx\<close> and \<open>EditCourse.tsx\<close>
    import \<open>./CourseContent\<close>, which is not in the repository; the editor is modelled
    from \<open>admin/courses/CourseContent.tsx\<close>, the one \<open>CourseContent\<close> component
    of the repository, taking the props those pages pass.
  \<^item> \<open>Routes\<close>: the routers of \<open>src/server/routes/\<close> (\<^const>\<open>user_routes\<close>,
    \<^const>\<open>course_routes\<close>, \<^const>\<open>order_routes\<close>) mounted under \<open>/api/v1\<close>
    by \<open>src/server/app.ts\<close>, \<open>GET /test\<close> and the 404 catch-all, with Express's
    first-match dispatch and middleware chain (\<^const>\<open>dispatch\<close>). The auth
    middleware and the notification, layout and analytics routers are not in the
    repository and are parameters. Lemmas: \<open>create-course\<close> is open to every client;
    the admin handlers need both guards; an anonymous session reaches only the unguarded
    routes; the controller functions no router mounts are unreachable.
  \<^item> This theory: the mutating course handlers as one step relation
    \<open>reachable\<close> with its invariants by rule induction (no stored item carries a
    \<open>videoPublicId\<close>; only \<open>uploadCourse\<close> destroys videos), and two properties that
    span components: the enrolment \<open>createOrder\<close> writes is not the one
    \<open>getCourseContent\<close> checks, and a created course is missing from a cached listing.

  \<^medskip>\<^bold>\<open>Bounds and fuel.\<close>
  No fuel is needed: the upload loop terminates by the measure
  \<open>maxRetries - attempts\<close> (default 3, as in the code), the URL retry loop by the
  attempts left, the metadata loop runs its five attempts by structural recursion on the
  attempts left, and every handler loop is a recursion on the list of files, items,
  blogs or documents. Waits are recorded as lists of milliseconds, not performed.

  \<^medskip>\<^bold>\<open>Not modelled.\<close>
  ICU collation (\<open>localeCompare\<close> is code-point order, which agrees with ICU on the
  ASCII letters of one case), numbers above \<open>2^53\<close> and floating-point rounding, the
  JSON parsing of \<open>benefits\<close>/\<open>prerequisites\<close> and the deletion of temporary files
  (neither affects the content list), logging, the scalar body fields that
  \<open>editCourse\<close> copies by \<open>$set\<close>, and the commented-out transcript code. The
  middleware bodies, the user model and its controller, the analytics
  generator and the Next.js client other than the lecture editor and its two form
  builders are not modelled: they are wiring, I/O or rendering that call the modelled
  handlers and hold no state of their own that the properties depend on. In the editor,
  the course-information and benefits steps, the preview and the JSON-body variants of
  \<open>admin/courses/CreateCourse.tsx\<close> and \<open>EditCourse.tsx\<close> are not modelled; the
  cast of the \<open>price\<close> field by Mongoose is a parameter of the parsed request. Time is not modelled: TTLs are kept as numbers and never expire
  in the model.
\<close>

section \<open>The course lifecycle as a state machine\<close>

text \<open>
  The mutating course handlers as one step relation on worlds: a world is reachable
  from an empty store by any sequence of creates, edits, course deletions, video
  deletions and cache clears, each with its own environment.
\<close>

datatype course_op = OpCreate upload_req | OpEdit edit_req | OpDeleteCourse string
  | OpDeleteVideo string string | OpClearCache string
  | OpAddReview user string "string option" "rat option" "upfile list option"
  | OpAddReply user "string option" string string "upfile list option"
  | OpDeleteReview user string string
  | OpUpdateReview user string string "string option" "rat option option"
  | OpAddQuestion user string string string
  | OpAddAnswer user string string string string
  | OpDeleteQuestion "user option" string string string
  | OpCreateOrder user order_req
  | OpFixCourses user
  | OpGetSingle string
  | OpGetByUser user string

fun is_create :: "course_op \<Rightarrow> bool" where
  "is_create (OpCreate r) = True"
| "is_create _ = False"

definition apply_op :: "env \<Rightarrow> course_op \<Rightarrow> world \<Rightarrow> world" where
  "apply_op e op w =
     (case op of
        OpCreate r \<Rightarrow> snd (upload_course e r w)
      | OpEdit r \<Rightarrow> snd (edit_course e r w)
      | OpDeleteCourse cid \<Rightarrow> snd (delete_course e cid w)
      | OpDeleteVideo cid vid \<Rightarrow> snd (delete_video_from_course e cid vid w)
      | OpClearCache cid \<Rightarrow> snd (clear_course_cache e cid w)
      | OpAddReview u cid t r a \<Rightarrow> snd (add_review e u cid t r a w)
      | OpAddReply u t cid rid a \<Rightarrow> snd (add_reply_to_review e u t cid rid a w)
      | OpDeleteReview u cid rid \<Rightarrow> snd (delete_review e u cid rid w)
      | OpUpdateReview u cid rid t r \<Rightarrow> snd (update_review e u cid rid t r w)
      | OpAddQuestion u q cid cnt \<Rightarrow> snd (add_question e u q cid cnt w)
      | OpAddAnswer u a cid cnt qid \<Rightarrow> snd (add_answer e u a cid cnt qid w)
      | OpDeleteQuestion u cid cnt qid \<Rightarrow> snd (delete_question e u cid cnt qid w)
      | OpCreateOrder u r \<Rightarrow> snd (create_order e u r w)
      | OpFixCourses u \<Rightarrow> snd (fix_missing_courses e u w)
      | OpGetSingle cid \<Rightarrow> snd (get_single_course e cid w)
      | OpGetByUser u cid \<Rightarrow> snd (get_course_by_user e u cid w))"

inductive reachable :: "world \<Rightarrow> bool" where
  reach_init: "store w = Map.empty \<Longrightarrow> reachable w"
| reach_step: "reachable w \<Longrightarrow> reachable (apply_op e op w)"

section \<open>Lemmas\<close>

lemma apply_op_pid_free:
  assumes "store_pid_free w"
  shows "store_pid_free (apply_op e op w)"
proof (cases op)
  case (OpClearCache cid)
  then show ?thesis
    using store_pid_free_same [OF clear_course_cache_store [of e cid w]] assms by (simp add: apply_op_def)
qed (simp_all add: apply_op_def upload_course_pid_free edit_course_pid_free delete_course_pid_free
      delete_video_pid_free add_review_pid_free add_reply_pid_free delete_review_pid_free update_review_pid_free
      add_question_pid_free add_answer_pid_free delete_question_pid_free create_order_pid_free
      store_pid_free_same [OF fix_missing_courses_frame(1)] store_pid_free_same [OF get_single_course_frame(1)]
      store_pid_free_same [OF conjunct1 [OF get_course_by_user_frame]] assms)

lemma delete_video_log:
  assumes "store_pid_free w"
  shows "\<exists>new. remote_log (snd (delete_video_from_course e cid vid w)) = remote_log w @ new \<and> video_destroys new = []"
proof (cases "store w cid")
  case (Some c)
  have "list_all (\<lambda>v. has_public_id v = None) (courseData c)"
    using stored_course_pid_free [OF assms Some] by (simp add: list_all_iff)
  then have "has_public_id (courseData c ! k) = None" if "k < length (courseData c)" for k
    using that by (simp add: list_all_length)
  then show ?thesis using Some
    by (auto simp: delete_video_from_course_def Let_def video_destroys_def find_index_nat_Some
        split: option.splits)
qed (auto simp: delete_video_from_course_def video_destroys_def)

lemma demo_world_reachable: "reachable demo_world"
  by (rule reach_init) (simp add: demo_world_def)

section \<open>Properties across components\<close>

text \<open>Claim C7: in every reachable world no stored item carries a \<open>videoPublicId\<close>: every write goes through the strict schema, so the invariant holds initially and every handler preserves it.\<close>

theorem reachable_store_pid_free: "reachable w \<Longrightarrow> store_pid_free w"
proof (induction rule: reachable.induct)
  case (reach_init w)
  then show ?case by (simp add: store_pid_free_def)
next
  case (reach_step w e op)
  from reach_step.IH show ?case by (rule apply_op_pid_free)
qed

theorem reachable_store_pid_free_witness:
  "store_pid_free (apply_op demo_env (OpCreate demo_req) demo_world)"
  by (rule reachable_store_pid_free [OF reach_step [OF demo_world_reachable]])

text \<open>Claim C8: in every reachable world, every handler other than \<open>uploadCourse\<close> appends no video destroy to the Cloudinary call log: edits and deletions never remove a video asset, so every video that leaves a course stays at Cloudinary.\<close>

theorem reachable_only_create_destroys_videos:
  assumes "reachable w" and "\<not> is_create op"
  shows "\<exists>new. remote_log (apply_op e op w) = remote_log w @ new \<and> video_destroys new = []"
proof -
  have p: "store_pid_free w" using assms(1) by (rule reachable_store_pid_free)
  show ?thesis
  proof (cases op)
    case (OpEdit r)
    then show ?thesis using edit_never_destroys_videos [OF p] by (simp add: apply_op_def)
  next
    case (OpDeleteCourse cid)
    then show ?thesis using delete_course_never_destroys_videos [OF p] by (simp add: apply_op_def)
  next
    case (OpDeleteVideo cid vid)
    then show ?thesis using delete_video_log [OF p] by (simp add: apply_op_def)
  next
    case (OpClearCache cid)
    then show ?thesis by (simp add: apply_op_def clear_course_cache_def video_destroys_def)
  qed (use assms(2) in \<open>simp_all add: apply_op_def video_destroys_def add_review_log add_reply_log
      delete_review_log update_review_log add_question_log add_answer_log delete_question_log create_order_log
      fix_missing_courses_frame(2) get_single_course_frame(2) get_course_by_user_frame\<close>)
qed

theorem reachable_only_create_destroys_videos_witness:
  "\<exists>new. remote_log (apply_op demo_env (OpDeleteCourse (oid_of 1)) (apply_op demo_env (OpCreate demo_req) demo_world))
          = remote_log (apply_op demo_env (OpCreate demo_req) demo_world) @ new \<and> video_destroys new = []"
  by (rule reachable_only_create_destroys_videos [OF reach_step [OF demo_world_reachable]]) simp

text \<open>Claim C12: after a successful \<open>createOrder\<close> (free or paid) by a user who had no
  entry for the course, \<open>getCourseContent\<close> still refuses the buyer with 403:
  \<open>createOrder\<close> pushes \<open>{ courseId }\<close> (a fresh subdocument id) while
  \<open>getCourseContent\<close> compares the entries' \<open>_id\<close> with the course id.\<close>

theorem order_enrolment_not_seen_by_content:
  assumes "create_order e su r w = (Inr od, w')" and "users w (u_id su) = Some u" and "u_id u = u_id su"
    and "\<not> enrolled_by_id u (o_course od)" and "\<forall>n \<ge> next_oid w. oid_of n \<noteq> o_course od"
  shows "get_course_content su (o_course od) w' = Inl (Forbidden ''You are not enrolled in this course'')"
proof -
  obtain n where n: "next_oid w \<le> n" and v: "is_valid_object_id (o_course od)"
    and us: "users w' = (users w)(u_id u \<mapsto> u\<lparr>u_courses := u_courses u @ [\<lparr>uc_id = oid_of n, uc_course = Some (o_course od)\<rparr>]\<rparr>)"
    using create_order_Inr_users [OF assms(1)] assms(2) by auto
  have "oid_of n \<noteq> o_course od" using assms(5) n by blast
  then show ?thesis using v us assms(3,4) by (simp add: get_course_content_def enrolled_by_id_def)
qed

theorem order_enrolment_not_seen_by_content_witness:
  "get_course_content ord_user (oid_of 2)
     (snd (create_order demo_env ord_user (ord_req (oid_of 2) \<lparr>pi_id = None, pi_status = None, pi_type = None\<rparr>) ord_world))
   = Inl (Forbidden ''You are not enrolled in this course'')"
proof -
  let ?x = "create_order demo_env ord_user (ord_req (oid_of 2) \<lparr>pi_id = None, pi_status = None, pi_type = None\<rparr>) ord_world"
  have x: "?x = (Inr (projr (fst ?x)), snd ?x)"
    by (simp add: create_order_def ord_world_def ord_req_def sanitize_order_def ord_user_def enrolled_by_course_def
        ord_course_def create_free_order_def enrol_by_course_def demo_env_def Let_def)
  have c: "o_course (projr (fst ?x)) = oid_of 2"
    by (simp add: create_order_def ord_world_def ord_req_def sanitize_order_def ord_user_def enrolled_by_course_def
        ord_course_def create_free_order_def enrol_by_course_def new_order_def demo_env_def Let_def)
  have "get_course_content ord_user (o_course (projr (fst ?x))) (snd ?x) = Inl (Forbidden ''You are not enrolled in this course'')"
    apply (rule order_enrolment_not_seen_by_content [OF x, of ord_user])
    apply (simp_all only: c)
    apply (simp_all add: ord_world_def ord_user_def enrolled_by_id_def oid_of_inj)
    done
  then show ?thesis by (simp only: c)
qed


text \<open>Claim C24: after a successful \<open>uploadCourse\<close>, \<open>getAllCourses\<close> answers a query whose
  listing Redis already holds with that cached listing, computed before the course
  existed: the create does not invalidate the \<open>allCourses:*\<close> keys and the listing is
  read before the store, so the new course is missing from the catalogue for up to
  30 minutes.\<close>

theorem created_course_missing_from_listing:
  assumes "redis_up e" and "upload_course e r w = (Inr c, w')"
    and "cache w (listing_key q) = Some \<lparr>ce_val = CVListing l, ce_ttl = t\<rparr>"
  shows "get_all_courses e strict rx q docs w' = (Inr l, w')"
proof -
  have "cache w' (listing_key q) = cache w (listing_key q)"
    using upload_course_keeps_listings [of "listing_key q" e r w] assms(2) by simp
  then show ?thesis using assms(1,3) by (simp add: get_all_courses_cached)
qed

theorem created_course_missing_from_listing_witness:
  "get_all_courses demo_env True (\<lambda>_. None)
     \<lparr>lq_category = None, lq_sort = None, lq_order = None, lq_price = None, lq_search = None\<rparr> []
     (snd (upload_course demo_env demo_req
        (demo_world\<lparr>cache := [listing_key \<lparr>lq_category = None, lq_sort = None, lq_order = None, lq_price = None, lq_search = None\<rparr>
                              \<mapsto> \<lparr>ce_val = CVListing [], ce_ttl = Some 1800\<rparr>]\<rparr>)))
   = (Inr [], snd (upload_course demo_env demo_req
        (demo_world\<lparr>cache := [listing_key \<lparr>lq_category = None, lq_sort = None, lq_order = None, lq_price = None, lq_search = None\<rparr>
                              \<mapsto> \<lparr>ce_val = CVListing [], ce_ttl = Some 1800\<rparr>]\<rparr>)))"
proof -
  let ?q = "\<lparr>lq_category = None, lq_sort = None, lq_order = None, lq_price = None, lq_search = None\<rparr>"
  let ?w = "demo_world\<lparr>cache := [listing_key ?q \<mapsto> \<lparr>ce_val = CVListing [], ce_ttl = Some 1800\<rparr>]\<rparr>"
  have f: "isl (fst (upload_course demo_env demo_req ?w)) = False" by code_simp
  then have u: "upload_course demo_env demo_req ?w = (Inr (projr (fst (upload_course demo_env demo_req ?w))), snd (upload_course demo_env demo_req ?w))"
    by (metis prod.collapse sum.collapse(2))
  show ?thesis
    by (rule created_course_missing_from_listing [OF _ u]) (simp_all add: demo_env_def)
qed

end
